(* ===== verification/Prelude.thy ===== *)
theory Prelude
  imports Main "HOL-Library.Code_Target_Numeral" "HOL-Library.Word" "HOL-Library.Char_ord" "HOL-Library.List_Lexorder"
begin

text \<open>
  Shared ground of the development: Python exceptions as values, results, strings and their
  methods, \<open>int\<close> and \<open>str\<close> conversions, insertion-ordered dictionaries and UUIDs.

  Strings are lists of \<^typ>\<open>char\<close>, read as the code points U+0000 to U+00FF.
  Every string operation below is Python's on that range, but for \<open>upper\<close>, whose
  results outside the range (of three letters) are left unchanged.
\<close>

named_theorems result_simps "rewriting of results and their sequencing"

section \<open>Exceptions and results\<close>

text \<open>
  The exception classes the code raises, catches or lets through. The message is what
  \<open>str\<close> gives of the exception: the text of the code's own \<open>raise\<close>, in quotes for a
  \<open>KeyError\<close>; messages the interpreter or a library would supply, and the non-ASCII ones, are left empty.
\<close>

datatype exn_kind =
    KeyError | IndexError | TypeError | AttributeError | ValueError
  | OverflowError | OSError | FileNotFoundError | PermissionError | FileExistsError | CalledProcessError | TimeoutExpired
  | RuntimeError | AssertionError | IntegrityError | HTTPError
  | ConfigNotFound | ConfigNotRegeneratable | ConfigNotShareable
  | InvalidShareRequest | ShareNotFound | RevokeShareNotFound | RateLimitExceeded | InvalidCredentials
  | InvalidSharePublicHost | InvalidConfigData | ConfigDataUnavailable
  | PortUnavailableError | ServiceNotReadyError | JwtError | TemplateNotFound | TemplateAccessDenied | SystemExit
  | ProgrammingError

datatype exn = Exn (exn_kind: exn_kind) (exn_msg: string)

text \<open>The class hierarchy, for \<open>except\<close> clauses that name a base class.\<close>

definition exn_base :: "exn_kind \<Rightarrow> exn_kind option" where
  "exn_base k =
     (if k = InvalidSharePublicHost \<or> k = PortUnavailableError then Some ValueError
      else if k = FileNotFoundError \<or> k = PermissionError \<or> k = FileExistsError then Some OSError
      else if k = ServiceNotReadyError then Some RuntimeError
      else None)"

definition exn_subclass :: "exn_kind \<Rightarrow> exn_kind \<Rightarrow> bool" where
  "exn_subclass k k' = (k = k' \<or> exn_base k = Some k')"

definition caught_by :: "exn_kind list \<Rightarrow> exn \<Rightarrow> bool" where
  "caught_by ks e = list_ex (exn_subclass (exn_kind e)) ks"

abbreviation raise :: "exn_kind \<Rightarrow> string \<Rightarrow> exn + 'a" where
  "raise k msg \<equiv> Inl (Exn k msg)"

fun bindR :: "exn + 'a \<Rightarrow> ('a \<Rightarrow> exn + 'b) \<Rightarrow> exn + 'b" where
  "bindR (Inl e) f = Inl e"
| "bindR (Inr x) f = f x"

declare bindR.simps [result_simps]

lemma bindR_cong [fundef_cong]:
  "m = m' \<Longrightarrow> (\<And>x. m' = Inr x \<Longrightarrow> f x = f' x) \<Longrightarrow> bindR m f = bindR m' f'"
  by (cases m') auto

lemma bindR_eq_Inr [result_simps]:
  "bindR m f = Inr y \<longleftrightarrow> (\<exists>x. m = Inr x \<and> f x = Inr y)"
  by (cases m) auto

lemma bindR_eq_Inl [result_simps]:
  "bindR m f = Inl e \<longleftrightarrow> m = Inl e \<or> (\<exists>x. m = Inr x \<and> f x = Inl e)"
  by (cases m) auto

lemma bindR_assoc: "bindR (bindR m f) g = bindR m (\<lambda>x. bindR (f x) g)"
  by (cases m) auto

lemma bindR_Inr_right [simp]: "bindR m Inr = m"
  by (cases m) auto

text \<open>For evaluation: the continuation is looked at only once the first result is known.\<close>

lemma bindR_case [code_unfold]: "bindR m f = (case m of Inl e \<Rightarrow> Inl e | Inr x \<Rightarrow> f x)"
  by (cases m) auto

fun the_or :: "'a \<Rightarrow> 'a option \<Rightarrow> 'a" where
  "the_or d None = d"
| "the_or d (Some x) = x"

text \<open>
  \<open>random.choice(xs)\<close>: the draw is an argument, a number taken modulo the length of the list.
\<close>

definition random_choice :: "nat \<Rightarrow> 'a list \<Rightarrow> exn + 'a" where
  "random_choice r xs = (if xs = [] then raise IndexError '''' else Inr (xs ! (r mod length xs)))"

lemma random_choice_in: "random_choice r xs = Inr x \<Longrightarrow> x \<in> set xs"
  by (auto simp: random_choice_def split: if_splits)

lemma random_choice_ne: "xs \<noteq> [] \<Longrightarrow> \<exists>x. random_choice r xs = Inr x \<and> x \<in> set xs"
  by (auto simp: random_choice_def)

section \<open>Strings\<close>

text \<open>\<open>str.isspace\<close> on U+0000 to U+00FF, the characters \<open>strip()\<close> removes.\<close>

definition is_space :: "char \<Rightarrow> bool" where
  "is_space c = (let n = (of_char c :: nat) in
     (9 \<le> n \<and> n \<le> 13) \<or> (28 \<le> n \<and> n \<le> 32) \<or> n = 133 \<or> n = 160)"

definition lstrip :: "string \<Rightarrow> string" where
  "lstrip s = dropWhile is_space s"

definition rstrip :: "string \<Rightarrow> string" where
  "rstrip s = rev (dropWhile is_space (rev s))"

definition strip :: "string \<Rightarrow> string" where
  "strip s = rstrip (lstrip s)"

definition lstrip_char :: "char \<Rightarrow> string \<Rightarrow> string" where
  "lstrip_char c s = dropWhile (\<lambda>x. x = c) s"

definition rstrip_char :: "char \<Rightarrow> string \<Rightarrow> string" where
  "rstrip_char c s = rev (dropWhile (\<lambda>x. x = c) (rev s))"

definition lower_char :: "char \<Rightarrow> char" where
  "lower_char c = (let n = (of_char c :: nat) in
     if (65 \<le> n \<and> n \<le> 90) \<or> (192 \<le> n \<and> n \<le> 222 \<and> n \<noteq> 215) then char_of (n + 32) else c)"

definition lower :: "string \<Rightarrow> string" where
  "lower s = map lower_char s"

definition upper_char :: "char \<Rightarrow> char" where
  "upper_char c = (let n = (of_char c :: nat) in
     if (97 \<le> n \<and> n \<le> 122) \<or> (224 \<le> n \<and> n \<le> 254 \<and> n \<noteq> 247) then char_of (n - 32) else c)"

definition upper :: "string \<Rightarrow> string" where
  "upper s = map upper_char s"

definition startswith :: "string \<Rightarrow> string \<Rightarrow> bool" where
  "startswith s p = (take (length p) s = p)"

definition endswith :: "string \<Rightarrow> string \<Rightarrow> bool" where
  "endswith s p = startswith (rev s) (rev p)"

fun join :: "string \<Rightarrow> string list \<Rightarrow> string" where
  "join sep [] = ''''"
| "join sep [x] = x"
| "join sep (x # y # xs) = x @ sep @ join sep (y # xs)"

text \<open>\<open>s.split(c)\<close> for a one-character separator.\<close>

fun split_on :: "char \<Rightarrow> string \<Rightarrow> string list" where
  "split_on c [] = [[]]"
| "split_on c (x # xs) =
     (if x = c then [] # split_on c xs
      else (case split_on c xs of [] \<Rightarrow> [[x]] | y # ys \<Rightarrow> (x # y) # ys))"

abbreviation newline :: string where
  "newline \<equiv> [CHR 0x0A]"

lemma split_on_ne [simp]: "split_on c s \<noteq> []"
  by (induction s) (auto split: list.splits)

lemma join_split_on: "join [c] (split_on c s) = s"
proof (induction s)
  case (Cons x xs)
  show ?case
  proof (cases "split_on c xs")
    case (Cons y ys)
    with Cons.IH show ?thesis by (cases ys) auto
  qed simp
qed simp

lemma split_on_no_sep: "c \<notin> set s \<Longrightarrow> split_on c s = [s]"
  by (induction s) auto

lemma split_on_append_sep:
  "c \<notin> set x \<Longrightarrow> split_on c (x @ c # s) = x # split_on c s"
  by (induction x) auto

lemma split_on_join:
  "xs \<noteq> [] \<Longrightarrow> (\<And>x. x \<in> set xs \<Longrightarrow> c \<notin> set x) \<Longrightarrow> split_on c (join [c] xs) = xs"
proof (induction xs rule: induct_list012)
  case (2 x)
  then show ?case by (simp add: split_on_no_sep)
next
  case (3 x y zs)
  then show ?case by (simp add: split_on_append_sep)
qed simp

lemma split_on_pieces: "x \<in> set (split_on c s) \<Longrightarrow> c \<notin> set x"
  by (induction s arbitrary: x) (auto split: if_splits list.splits)

lemma startswith_refl [simp]: "startswith s s"
  by (simp add: startswith_def)

lemma startswith_append [simp]: "startswith (p @ s) p"
  by (simp add: startswith_def)

lemma startswith_iff: "startswith s p \<longleftrightarrow> (\<exists>t. s = p @ t)"
  unfolding startswith_def by (metis append_eq_conv_conj append_take_drop_id)

lemma set_strip: "set (strip s) \<subseteq> set s"
  unfolding strip_def lstrip_def rstrip_def by (auto dest!: set_dropWhileD)

lemma rstrip_last: "rstrip s \<noteq> [] \<Longrightarrow> \<not> is_space (last (rstrip s))"
  unfolding rstrip_def by (metis hd_dropWhile last_rev rev.simps(1))

lemma rstrip_snoc: "rstrip (s @ [c]) = (if is_space c then rstrip s else s @ [c])"
  by (simp add: rstrip_def)

lemma rstrip_hd: "s \<noteq> [] \<Longrightarrow> \<not> is_space (hd s) \<Longrightarrow> rstrip s \<noteq> [] \<and> hd (rstrip s) = hd s"
proof (induction s rule: rev_induct)
  case (snoc x xs)
  then show ?case
    by (cases "xs = []") (auto simp: rstrip_snoc rstrip_def)
qed simp

lemma rstrip_idem [simp]: "rstrip (rstrip s) = rstrip s"
proof (cases "rstrip s = []")
  case True
  then show ?thesis by (simp add: rstrip_def)
next
  case False
  then show ?thesis
    using rstrip_last [OF False] rstrip_snoc [of "butlast (rstrip s)" "last (rstrip s)"] by simp
qed

lemma lstrip_fix: "s = [] \<or> \<not> is_space (hd s) \<Longrightarrow> lstrip s = s"
  by (cases s) (auto simp: lstrip_def)

lemma strip_hd: "strip s \<noteq> [] \<Longrightarrow> \<not> is_space (hd (strip s))"
proof -
  assume ne: "strip s \<noteq> []"
  have "lstrip s \<noteq> []" using ne by (auto simp: strip_def rstrip_def)
  then have "\<not> is_space (hd (lstrip s))"
    unfolding lstrip_def by (rule hd_dropWhile)
  then show ?thesis
    using \<open>lstrip s \<noteq> []\<close> rstrip_hd by (auto simp: strip_def)
qed

lemma strip_idem [simp]: "strip (strip s) = strip s"
proof -
  have "lstrip (strip s) = strip s"
    using strip_hd by (intro lstrip_fix) blast
  then show ?thesis by (simp add: strip_def)
qed

lemma strip_fix:
  "(\<And>c. c \<in> set s \<Longrightarrow> \<not> is_space c) \<Longrightarrow> strip s = s"
proof -
  assume ns: "\<And>c. c \<in> set s \<Longrightarrow> \<not> is_space c"
  then have "lstrip s = s" by (intro lstrip_fix) (metis list.set_sel(1))
  moreover have "rstrip s = s"
    using ns by (cases s rule: rev_cases) (auto simp: rstrip_def)
  ultimately show ?thesis by (simp add: strip_def)
qed

section \<open>Insertion-ordered dictionaries\<close>

text \<open>
  The contract of a Python dictionary as the code relies on it: lookup, assignment, and the order
  in which keys are listed. The clients' lemmas are proved inside.
\<close>

locale ordered_dict =
  fixes get :: "'d \<Rightarrow> 'k \<Rightarrow> 'v option"
    and put :: "'k \<Rightarrow> 'v \<Rightarrow> 'd \<Rightarrow> 'd"
    and keys :: "'d \<Rightarrow> 'k list"
  assumes get_put: "get (put k v d) k' = (if k' = k then Some v else get d k')"
    and keys_put: "keys (put k v d) = (if k \<in> set (keys d) then keys d else keys d @ [k])"
    and keys_get: "k \<in> set (keys d) \<longleftrightarrow> get d k \<noteq> None"
begin

fun put_all :: "('k \<times> 'v) list \<Rightarrow> 'd \<Rightarrow> 'd" where
  "put_all [] d = d"
| "put_all ((k, v) # kvs) d = put_all kvs (put k v d)"

lemma distinct_keys_put: "distinct (keys d) \<Longrightarrow> distinct (keys (put k v d))"
  by (simp add: keys_put)

lemma distinct_keys_put_all: "distinct (keys d) \<Longrightarrow> distinct (keys (put_all kvs d))"
  by (induction kvs d rule: put_all.induct) (auto simp: distinct_keys_put)

lemma get_put_all:
  "get (put_all kvs d) k = (case map_of (rev kvs) k of Some v \<Rightarrow> Some v | None \<Rightarrow> get d k)"
  by (induction kvs d rule: put_all.induct)
    (auto simp: get_put map_add_def split: option.splits)

lemma keys_put_all: "set (keys (put_all kvs d)) = set (keys d) \<union> fst ` set kvs"
  by (induction kvs d rule: put_all.induct) (auto simp: keys_put)

end

fun dict_set :: "'k \<Rightarrow> 'v \<Rightarrow> ('k \<times> 'v) list \<Rightarrow> ('k \<times> 'v) list" where
  "dict_set k v [] = [(k, v)]"
| "dict_set k v ((k', v') # d) = (if k' = k then (k, v) # d else (k', v') # dict_set k v d)"

definition dict_keys :: "('k \<times> 'v) list \<Rightarrow> 'k list" where
  "dict_keys d = map fst d"

lemma map_of_dict_set [simp]: "map_of (dict_set k v d) = (map_of d)(k \<mapsto> v)"
  by (induction k v d rule: dict_set.induct) auto

lemma fst_dict_set: "map fst (dict_set k v d) = (if k \<in> fst ` set d then map fst d else map fst d @ [k])"
  by (induction k v d rule: dict_set.induct) auto

lemma dict_set_same: "map_of d k = Some v \<Longrightarrow> dict_set k v d = d"
  by (induction k v d rule: dict_set.induct) auto

lemma dict_set_ne [simp]: "dict_set k v d \<noteq> []"
  by (cases d rule: list.exhaust) (auto split: if_splits)

lemma dict_set_twice [simp]: "dict_set k v (dict_set k v' d) = dict_set k v d"
  by (induction k v' d rule: dict_set.induct) auto

lemma dict_set_commute:
  "k \<noteq> k' \<Longrightarrow> map_of d k \<noteq> None \<Longrightarrow> map_of d k' \<noteq> None \<Longrightarrow>
   dict_set k v (dict_set k' v' d) = dict_set k' v' (dict_set k v d)"
  by (induction k v d rule: dict_set.induct) (auto split: if_splits)

interpretation alist: ordered_dict map_of dict_set dict_keys
proof
  fix k k' :: 'k and v :: 'v and d :: "('k \<times> 'v) list"
  show "map_of (dict_set k v d) k' = (if k' = k then Some v else map_of d k')" by simp
  show "dict_keys (dict_set k v d) = (if k \<in> set (dict_keys d) then dict_keys d else dict_keys d @ [k])"
    by (simp add: dict_keys_def fst_dict_set)
  show "(k \<in> set (dict_keys d)) = (map_of d k \<noteq> None)"
    by (simp add: dict_keys_def map_of_eq_None_iff)
qed

end
