(* ===== verification/Py_Text.thy ===== *)
theory Py_Text
  imports Prelude
begin

text \<open>
  Text conversions of the Python standard library the code uses: \<open>str(int)\<close> and
  \<open>int(str)\<close>, \<open>str(uuid)\<close> and \<open>uuid.UUID(str)\<close>, \<open>urllib.parse.quote\<close>
  and \<open>str.replace\<close>, with the round trips between each printer and its reader.
\<close>

section \<open>Integers\<close>

definition digit_char :: "nat \<Rightarrow> char" where
  "digit_char d = char_of (if d < 10 then 48 + d else 87 + d)"

definition digit_val :: "nat \<Rightarrow> char \<Rightarrow> nat option" where
  "digit_val b c = (let n = (of_char c :: nat);
       v = (if 48 \<le> n \<and> n \<le> 57 then n - 48
            else if 97 \<le> n \<and> n \<le> 122 then n - 87
            else if 65 \<le> n \<and> n \<le> 90 then n - 55 else 99)
     in if v < b then Some v else None)"

lemma digit_val_digit_char: "d < b \<Longrightarrow> b \<le> 36 \<Longrightarrow> digit_val b (digit_char d) = Some d"
  by (auto simp: digit_val_def digit_char_def Let_def)

lemma of_char_digit_char:
  "d < 16 \<Longrightarrow> (of_char (digit_char d) :: nat) = (if d < 10 then 48 + d else 87 + d)"
  by (auto simp: digit_char_def)

lemma digit_char_plain:
  assumes "d < 16" shows "\<not> is_space (digit_char d)" "digit_char d \<noteq> CHR ''-''"
    "digit_char d \<noteq> CHR ''+''" "digit_char d \<noteq> CHR '':''" "digit_char d \<noteq> CHR ''_''"
    "digit_char d \<noteq> CHR ''x''" "digit_char d \<noteq> CHR ''X''" "digit_char d \<noteq> CHR ''u''"
    "digit_char d \<noteq> CHR ''{''" "digit_char d \<noteq> CHR ''}''" "digit_char d \<noteq> CHR ''/''"
  using of_char_digit_char [OF assms] assms by (auto simp: is_space_def Let_def split: if_splits)

fun show_nat :: "nat \<Rightarrow> string" where
  "show_nat n = (if n < 10 then [digit_char n] else show_nat (n div 10) @ [digit_char (n mod 10)])"

declare show_nat.simps [simp del]

definition show_int :: "int \<Rightarrow> string" where
  "show_int i = (if i < 0 then CHR ''-'' # show_nat (nat (- i)) else show_nat (nat i))"

lemma set_show_nat: "c \<in> set (show_nat n) \<Longrightarrow> \<exists>d<16. c = digit_char d"
proof (induction n rule: show_nat.induct)
  case (1 n)
  have "n mod 10 < 16" by (rule less_trans [of _ 10]) simp_all
  with 1 show ?case
    by (subst (asm) (2) show_nat.simps) (auto split: if_splits intro: exI [of _ "n mod 10"] exI [of _ n])
qed

lemma show_nat_ne [simp]: "show_nat n \<noteq> []"
  by (subst show_nat.simps) auto

lemma show_int_ne [simp]: "show_int i \<noteq> []"
  by (simp add: show_int_def)

lemma set_show_int: "c \<in> set (show_int i) \<Longrightarrow> c = CHR ''-'' \<or> (\<exists>d<16. c = digit_char d)"
  by (auto simp: show_int_def dest: set_show_nat split: if_splits)

text \<open>
  The digits of \<open>int(s, base)\<close> after the first: single underscores may stand between digits.
\<close>

fun scan_digits :: "nat \<Rightarrow> nat \<Rightarrow> string \<Rightarrow> nat option" where
  "scan_digits b acc [] = Some acc"
| "scan_digits b acc (c # cs) =
     (if c = CHR ''_''
      then (case cs of [] \<Rightarrow> None
            | d # ds \<Rightarrow> (case digit_val b d of None \<Rightarrow> None | Some v \<Rightarrow> scan_digits b (acc * b + v) ds))
      else (case digit_val b c of None \<Rightarrow> None | Some v \<Rightarrow> scan_digits b (acc * b + v) cs))"

definition strip_prefix_16 :: "nat \<Rightarrow> string \<Rightarrow> string" where
  "strip_prefix_16 b u =
     (if b = 16 \<and> (startswith u ''0x'' \<or> startswith u ''0X'')
      then (let v = drop 2 u in if startswith v ''_'' then drop 1 v else v)
      else u)"

text \<open>\<open>int(s, b)\<close> for \<open>b\<close> 10 or 16; \<open>None\<close> is the \<open>ValueError\<close>.\<close>

definition py_int :: "nat \<Rightarrow> string \<Rightarrow> int option" where
  "py_int b s =
     (let t = strip s;
          neg = startswith t ''-'';
          u = (if neg \<or> startswith t ''+'' then drop 1 t else t)
      in (case strip_prefix_16 b u of
            [] \<Rightarrow> None
          | c # cs \<Rightarrow> (case digit_val b c of
                None \<Rightarrow> None
              | Some v \<Rightarrow> (case scan_digits b v cs of
                    None \<Rightarrow> None
                  | Some n \<Rightarrow> Some (if neg then - int n else int n)))))"

lemma scan_digits_append:
  "(\<And>c. c \<in> set xs \<Longrightarrow> c \<noteq> CHR ''_'') \<Longrightarrow> scan_digits b acc xs = Some n \<Longrightarrow>
   scan_digits b acc (xs @ ys) = scan_digits b n ys"
  by (induction b acc xs rule: scan_digits.induct) (auto split: option.splits)

definition read_digits :: "nat \<Rightarrow> string \<Rightarrow> nat option" where
  "read_digits b s = (case s of [] \<Rightarrow> None
     | c # cs \<Rightarrow> (case digit_val b c of None \<Rightarrow> None | Some v \<Rightarrow> scan_digits b v cs))"

lemma read_digits_snoc:
  "read_digits b s = Some n \<Longrightarrow> (\<And>c. c \<in> set s \<Longrightarrow> c \<noteq> CHR ''_'') \<Longrightarrow> c \<noteq> CHR ''_'' \<Longrightarrow>
   digit_val b c = Some v \<Longrightarrow> read_digits b (s @ [c]) = Some (n * b + v)"
  by (auto simp: read_digits_def scan_digits_append split: list.splits option.splits)

lemma read_digits_show_nat: "read_digits 10 (show_nat n) = Some n"
proof (induction n rule: show_nat.induct)
  case (1 n)
  show ?case
  proof (cases "n < 10")
    case True
    then show ?thesis by (simp add: show_nat.simps read_digits_def digit_val_digit_char)
  next
    case False
    have "read_digits 10 (show_nat (n div 10) @ [digit_char (n mod 10)])
        = Some (n div 10 * 10 + n mod 10)"
      using "1.IH" [OF False] by (intro read_digits_snoc)
        (auto dest!: set_show_nat simp: digit_char_plain digit_val_digit_char)
    with False show ?thesis by (subst show_nat.simps) simp
  qed
qed

lemma py_int_read:
  "(\<And>c. c \<in> set s \<Longrightarrow> \<not> is_space c) \<Longrightarrow> \<not> startswith s ''-'' \<Longrightarrow> \<not> startswith s ''+'' \<Longrightarrow>
   b = 16 \<longrightarrow> \<not> startswith s ''0x'' \<and> \<not> startswith s ''0X'' \<Longrightarrow>
   py_int b s = map_option int (read_digits b s)"
  by (auto simp: py_int_def Let_def strip_fix strip_prefix_16_def read_digits_def
      split: list.splits option.splits)

lemma startswith_single: "startswith s [c] \<longleftrightarrow> (\<exists>t. s = c # t)"
  by (auto simp: startswith_iff)

lemma py_int_show_nat: "py_int 10 (show_nat n) = Some (int n)"
proof -
  have d: "\<And>c. c \<in> set (show_nat n) \<Longrightarrow> \<not> is_space c \<and> c \<noteq> CHR ''-'' \<and> c \<noteq> CHR ''+''"
    by (auto dest!: set_show_nat simp: digit_char_plain)
  have "\<not> startswith (show_nat n) ''-''" "\<not> startswith (show_nat n) ''+''"
    using d by (metis list.set_intros(1) startswith_single)+
  then show ?thesis
    using d by (subst py_int_read) (auto simp: read_digits_show_nat)
qed

lemma py_int_neg_show_nat: "py_int 10 (CHR ''-'' # show_nat n) = Some (- int n)"
proof -
  have ns: "\<And>c. c \<in> set (CHR ''-'' # show_nat n) \<Longrightarrow> \<not> is_space c"
    by (auto dest!: set_show_nat simp: digit_char_plain(1)) (simp add: is_space_def)
  have "strip (CHR ''-'' # show_nat n) = CHR ''-'' # show_nat n"
    using ns by (rule strip_fix)
  moreover have "strip_prefix_16 10 (show_nat n) = show_nat n"
    by (simp add: strip_prefix_16_def)
  ultimately have "py_int 10 (CHR ''-'' # show_nat n) = map_option (\<lambda>n. - int n) (read_digits 10 (show_nat n))"
    by (simp add: py_int_def startswith_single read_digits_def split: list.splits option.splits)
  then show ?thesis by (simp add: read_digits_show_nat)
qed

lemma py_int_show_int [simp]: "py_int 10 (show_int i) = Some i"
  by (simp add: show_int_def py_int_show_nat py_int_neg_show_nat)

section \<open>Replacement\<close>

function replace_all :: "string \<Rightarrow> string \<Rightarrow> string \<Rightarrow> string" where
  "replace_all p r [] = []"
| "replace_all p r (x # xs) =
     (if p \<noteq> [] \<and> startswith (x # xs) p then r @ replace_all p r (drop (length p - 1) xs)
      else x # replace_all p r xs)"
  by pat_completeness auto
termination
  by (relation "measure (\<lambda>(p, r, s). length s)") auto

lemma replace_all_absent: "p = c # p' \<Longrightarrow> c \<notin> set s \<Longrightarrow> replace_all p r s = s"
  by (induction s) (auto simp: startswith_def)

lemma replace_all_char: "replace_all [c] [] s = filter (\<lambda>x. x \<noteq> c) s"
  by (induction s) (auto simp: startswith_def)

section \<open>UUIDs\<close>

type_synonym uuid = "128 word"

fun hex_digits :: "nat \<Rightarrow> nat \<Rightarrow> string" where
  "hex_digits 0 n = []"
| "hex_digits (Suc k) n = hex_digits k (n div 16) @ [digit_char (n mod 16)]"

text \<open>\<open>str(u)\<close>: 32 hexadecimal digits in groups of 8, 4, 4, 4 and 12.\<close>

definition uuid_str :: "uuid \<Rightarrow> string" where
  "uuid_str u = (let h = hex_digits 32 (unat u) in
     take 8 h @ ''-'' @ take 4 (drop 8 h) @ ''-'' @ take 4 (drop 12 h) @ ''-''
       @ take 4 (drop 16 h) @ ''-'' @ drop 20 h)"

text \<open>\<open>uuid.UUID(s)\<close>; \<open>None\<close> is the \<open>ValueError\<close>.\<close>

definition strip_braces :: "string \<Rightarrow> string" where
  "strip_braces s = (let b = (\<lambda>c. c = CHR ''{'' \<or> c = CHR ''}'') in
     rev (dropWhile b (rev (dropWhile b s))))"

definition uuid_of_str :: "string \<Rightarrow> uuid option" where
  "uuid_of_str s =
     (let h = replace_all ''-'' [] (strip_braces (replace_all ''uuid:'' [] (replace_all ''urn:'' [] s)))
      in if length h \<noteq> 32 then None
         else (case py_int 16 h of
             None \<Rightarrow> None
           | Some i \<Rightarrow> (if 0 \<le> i \<and> i < 2 ^ 128 then Some (word_of_int i) else None)))"

lemma length_hex_digits [simp]: "length (hex_digits k n) = k"
  by (induction k arbitrary: n) auto

lemma set_hex_digits: "c \<in> set (hex_digits k n) \<Longrightarrow> \<exists>d<16. c = digit_char d"
proof (induction k arbitrary: n)
  case (Suc k)
  have "n mod 16 < 16" by simp
  with Suc show ?case by (auto intro: exI [of _ "n mod 16"])
qed simp

lemma hex_digits_plain: "c \<in> set (hex_digits k n) \<Longrightarrow>
  \<not> is_space c \<and> c \<noteq> CHR ''-'' \<and> c \<noteq> CHR ''+'' \<and> c \<noteq> CHR ''_'' \<and> c \<noteq> CHR ''x'' \<and> c \<noteq> CHR ''X''
  \<and> c \<noteq> CHR ''u'' \<and> c \<noteq> CHR ''{'' \<and> c \<noteq> CHR ''}'' \<and> c \<noteq> CHR ''/''"
  by (auto dest!: set_hex_digits simp: digit_char_plain)

lemma read_hex_digits: "0 < k \<Longrightarrow> n < 16 ^ k \<Longrightarrow> read_digits 16 (hex_digits k n) = Some n"
proof (induction k arbitrary: n)
  case (Suc k)
  show ?case
  proof (cases "k = 0")
    case True
    with Suc.prems show ?thesis by (simp add: read_digits_def digit_val_digit_char)
  next
    case False
    have "n div 16 < 16 ^ k" using Suc.prems by (simp add: less_mult_imp_div_less mult.commute)
    then have "read_digits 16 (hex_digits k (n div 16)) = Some (n div 16)"
      using Suc.IH False by simp
    then have "read_digits 16 (hex_digits k (n div 16) @ [digit_char (n mod 16)])
        = Some (n div 16 * 16 + n mod 16)"
      by (rule read_digits_snoc) (auto dest: hex_digits_plain simp: digit_char_plain digit_val_digit_char)
    then show ?thesis by simp
  qed
qed simp

lemma strip_braces_fix: "CHR ''{'' \<notin> set s \<Longrightarrow> CHR ''}'' \<notin> set s \<Longrightarrow> strip_braces s = s"
proof -
  assume s: "CHR ''{'' \<notin> set s" "CHR ''}'' \<notin> set s"
  have d: "dropWhile (\<lambda>c. c = CHR ''{'' \<or> c = CHR ''}'') t = t"
    if "set t \<subseteq> set s" for t
    using that s by (cases t) auto
  show ?thesis unfolding strip_braces_def by (simp add: d)
qed

lemma filter_uuid_str: "filter (\<lambda>c. c \<noteq> CHR ''-'') (uuid_str u) = hex_digits 32 (unat u)"
proof -
  let ?h = "hex_digits 32 (unat u)"
  have f: "filter (\<lambda>c. c \<noteq> CHR ''-'') t = t" if "set t \<subseteq> set ?h" for t
    using that hex_digits_plain by (intro filter_True) blast
  have sub: "set (take m (drop n ?h)) \<subseteq> set ?h" "set (take m ?h) \<subseteq> set ?h" "set (drop n ?h) \<subseteq> set ?h" for m n
    by (meson set_take_subset set_drop_subset subset_trans)+
  have cut: "drop i xs = take k (drop i xs) @ drop (i + k) xs" for i k and xs :: string
    by (metis add.commute append_take_drop_id drop_drop)
  have split: "take 8 ?h @ take 4 (drop 8 ?h) @ take 4 (drop 12 ?h) @ take 4 (drop 16 ?h) @ drop 20 ?h = ?h"
    using cut [of 0 ?h 8] cut [of 8 ?h 4] cut [of 12 ?h 4] cut [of 16 ?h 4]
    by (simp del: append_take_drop_id hex_digits.simps)
  show ?thesis
    by (simp add: uuid_str_def Let_def f sub) (use split in simp)
qed

lemma set_uuid_str: "c \<in> set (uuid_str u) \<Longrightarrow> c = CHR ''-'' \<or> c \<in> set (hex_digits 32 (unat u))"
  by (auto simp: uuid_str_def Let_def dest: in_set_takeD in_set_dropD)

lemma uuid_of_str_uuid_str [simp]: "uuid_of_str (uuid_str u) = Some u"
proof -
  let ?h = "hex_digits 32 (unat u)"
  have c: "c \<in> set (uuid_str u) \<Longrightarrow> c \<noteq> CHR ''u'' \<and> c \<noteq> CHR ''{'' \<and> c \<noteq> CHR ''}''" for c
    using set_uuid_str hex_digits_plain by fastforce
  have "replace_all ''urn:'' [] (uuid_str u) = uuid_str u" "replace_all ''uuid:'' [] (uuid_str u) = uuid_str u"
    using c by (blast intro: replace_all_absent)+
  moreover have "strip_braces (uuid_str u) = uuid_str u"
    using c by (blast intro: strip_braces_fix)
  ultimately have h: "replace_all ''-'' [] (strip_braces (replace_all ''uuid:'' []
      (replace_all ''urn:'' [] (uuid_str u)))) = ?h"
    by (simp add: replace_all_char filter_uuid_str)
  have lt: "unat u < 2 ^ 128"
    using unsigned_less [of u, where 'a=nat] by simp
  then have r: "read_digits 16 ?h = Some (unat u)"
    by (intro read_hex_digits) simp_all
  have "\<not> startswith ?h ''-'' \<and> \<not> startswith ?h ''+''"
    by (metis hex_digits_plain list.set_intros(1) startswith_single)
  moreover have "\<not> startswith ?h ''0x'' \<and> \<not> startswith ?h ''0X''"
  proof -
    have "CHR ''x'' \<notin> set ?h" "CHR ''X'' \<notin> set ?h" using hex_digits_plain by blast+
    then show ?thesis by (force simp: startswith_iff)
  qed
  ultimately have "py_int 16 ?h = Some (int (unat u))"
    using hex_digits_plain r by (subst py_int_read) auto
  with h lt show ?thesis
    by (simp add: uuid_of_str_def Let_def) (simp add: of_nat_less_iff [symmetric, where 'a=int] del: of_nat_less_iff)
qed

lemma uuid_str_inj: "uuid_str u = uuid_str v \<Longrightarrow> u = v"
  by (metis option.inject uuid_of_str_uuid_str)

lemma uuid_str_eq_iff [simp]: "uuid_str u = uuid_str v \<longleftrightarrow> u = v"
  using uuid_str_inj by blast

section \<open>Percent encoding\<close>

text \<open>UTF-8 of a code point below U+0100.\<close>

definition utf8 :: "char \<Rightarrow> nat list" where
  "utf8 c = (let n = (of_char c :: nat) in if n < 128 then [n] else [192 + n div 64, 128 + n mod 64])"

definition unreserved :: "char \<Rightarrow> bool" where
  "unreserved c = (let n = (of_char c :: nat) in
     (65 \<le> n \<and> n \<le> 90) \<or> (97 \<le> n \<and> n \<le> 122) \<or> (48 \<le> n \<and> n \<le> 57)
     \<or> c \<in> {CHR ''_'', CHR ''.'', CHR ''-'', CHR ''~''})"

definition hex_upper :: "nat \<Rightarrow> char" where
  "hex_upper d = char_of (if d < 10 then 48 + d else 55 + d)"

definition quote_byte :: "string \<Rightarrow> nat \<Rightarrow> string" where
  "quote_byte safe b =
     (if b < 128 \<and> (unreserved (char_of b) \<or> char_of b \<in> set safe) then [char_of b]
      else [CHR ''%'', hex_upper (b div 16), hex_upper (b mod 16)])"

text \<open>\<open>urllib.parse.quote(s, safe=...)\<close>.\<close>

definition quote :: "string \<Rightarrow> string \<Rightarrow> string" where
  "quote safe s = concat (map (quote_byte safe) (concat (map utf8 s)))"

text \<open>What a client reads back: the bytes a percent-encoded string stands for.\<close>

fun percent_decode :: "string \<Rightarrow> nat list" where
  "percent_decode (c # h # l # s) =
     (if c = CHR ''%''
      then (case (digit_val 16 h, digit_val 16 l) of
          (Some a, Some b) \<Rightarrow> (a * 16 + b) # percent_decode s
        | _ \<Rightarrow> of_char c # percent_decode (h # l # s))
      else of_char c # percent_decode (h # l # s))"
| "percent_decode (c # s) = of_char c # percent_decode s"
| "percent_decode [] = []"

lemma utf8_byte: "b \<in> set (utf8 c) \<Longrightarrow> b < 256"
proof -
  have "(of_char c :: nat) < 256" by (metis mod_less_divisor of_char_mod_256 zero_less_numeral)
  then have "(of_char c :: nat) div 64 < 4" by (simp add: less_mult_imp_div_less)
  moreover have "(of_char c :: nat) mod 64 < 64" by simp
  ultimately show "b \<in> set (utf8 c) \<Longrightarrow> b < 256"
    unfolding utf8_def Let_def by (simp split: if_splits) linarith
qed

lemma digit_val_hex_upper: "d < 16 \<Longrightarrow> digit_val 16 (hex_upper d) = Some d"
  by (auto simp: digit_val_def hex_upper_def Let_def)

lemma percent_decode_cons: "c \<noteq> CHR ''%'' \<Longrightarrow> percent_decode (c # s) = of_char c # percent_decode s"
  by (cases s; cases "tl s") auto

lemma percent_decode_quote_byte:
  "b < 256 \<Longrightarrow> CHR ''%'' \<notin> set safe \<Longrightarrow> percent_decode (quote_byte safe b @ s) = b # percent_decode s"
proof -
  assume b: "b < 256" and safe: "CHR ''%'' \<notin> set safe"
  show ?thesis
  proof (cases "b < 128 \<and> (unreserved (char_of b) \<or> char_of b \<in> set safe)")
    case True
    have "char_of b \<noteq> CHR ''%''"
    proof
      assume p: "char_of b = CHR ''%''"
      then have "b mod 256 = of_char (CHR ''%'')" by (metis of_char_of)
      then have "b = 37" using b by simp
      with True safe p show False by (auto simp: unreserved_def)
    qed
    with True b show ?thesis by (simp add: quote_byte_def percent_decode_cons)
  next
    case False
    then have q: "quote_byte safe b = [CHR ''%'', hex_upper (b div 16), hex_upper (b mod 16)]"
      by (auto simp: quote_byte_def)
    have "b div 16 < 16" "b mod 16 < 16" using b by auto
    then show ?thesis by (simp add: q digit_val_hex_upper)
  qed
qed

lemma percent_decode_quote_bytes:
  "CHR ''%'' \<notin> set safe \<Longrightarrow> (\<And>b. b \<in> set bs \<Longrightarrow> b < 256) \<Longrightarrow>
   percent_decode (concat (map (quote_byte safe) bs)) = bs"
  by (induction bs) (auto simp: percent_decode_quote_byte)

lemma percent_decode_quote:
  "CHR ''%'' \<notin> set safe \<Longrightarrow> percent_decode (quote safe s) = concat (map utf8 s)"
  unfolding quote_def by (rule percent_decode_quote_bytes) (auto dest: utf8_byte)

lemma hex_upper_char: "d < 16 \<Longrightarrow> unreserved (hex_upper d)"
  by (auto simp: unreserved_def hex_upper_def Let_def)

lemma set_quote: "c \<in> set (quote safe s) \<Longrightarrow> c = CHR ''%'' \<or> unreserved c \<or> c \<in> set safe"
  by (fastforce simp: quote_def quote_byte_def hex_upper_char dest!: utf8_byte split: if_splits)

lemma quote_no_delim:
  "c \<in> {CHR ''&'', CHR ''='', CHR ''#'', CHR ''?'', CHR ''@'', CHR '':'', CHR '' '', CHR ''/''} \<Longrightarrow>
   c \<notin> set safe \<Longrightarrow> c \<notin> set (quote safe s)"
  by (auto dest!: set_quote simp: unreserved_def)

end
