(* ===== verification/Py_Json.thy ===== *)
theory Py_Json
  imports Py_Text
begin

text \<open>
  JSON and YAML documents as the code holds them (dictionaries, lists, strings, integers, booleans
  and \<open>None\<close>; the code stores no floating-point number in a document), with Python's
  operations on a value whose type is not known: subscripting, \<open>.get\<close>, assignment,
  iteration, truth, \<open>str()\<close>, \<open>int()\<close> and \<open>json.dumps(indent=2)\<close>.
  A document is a tree: the code's in-place assignments through a reference into it are updates
  along the path of that reference.
\<close>

datatype json =
    JNull
  | JBool bool
  | JInt int
  | JStr string
  | JList "json list"
  | JDict "(string \<times> json) list"

section \<open>Access\<close>

text \<open>\<open>d[k]\<close> for a string \<open>k\<close>.\<close>

fun jitem :: "json \<Rightarrow> string \<Rightarrow> exn + json" where
  "jitem (JDict d) k = (case map_of d k of None \<Rightarrow> raise KeyError '''' | Some v \<Rightarrow> Inr v)"
| "jitem _ k = raise TypeError ''''"

text \<open>The position a Python index names in a sequence of the given length.\<close>

definition py_index :: "nat \<Rightarrow> int \<Rightarrow> nat option" where
  "py_index n i = (if 0 \<le> i \<and> i < int n then Some (nat i)
     else if i < 0 \<and> - int n \<le> i then Some (nat (int n + i)) else None)"

text \<open>\<open>d[i]\<close> for an integer \<open>i\<close>.\<close>

fun jindex :: "json \<Rightarrow> int \<Rightarrow> exn + json" where
  "jindex (JList xs) i = (case py_index (length xs) i of
       None \<Rightarrow> raise IndexError '''' | Some n \<Rightarrow> Inr (xs ! n))"
| "jindex (JStr s) i = (case py_index (length s) i of
       None \<Rightarrow> raise IndexError '''' | Some n \<Rightarrow> Inr (JStr [s ! n]))"
| "jindex (JDict d) i = raise KeyError ''''"
| "jindex _ i = raise TypeError ''''"

text \<open>\<open>d.get(k, x)\<close>.\<close>

fun jget :: "json \<Rightarrow> string \<Rightarrow> json \<Rightarrow> exn + json" where
  "jget (JDict d) k x = Inr (the_or x (map_of d k))"
| "jget _ k x = raise AttributeError ''''"

text \<open>\<open>d[k] = v\<close>, \<open>d.pop(k, None)\<close> and \<open>d.setdefault(k, x)\<close>.\<close>

fun jset :: "string \<Rightarrow> json \<Rightarrow> json \<Rightarrow> exn + json" where
  "jset k v (JDict d) = Inr (JDict (dict_set k v d))"
| "jset k v _ = raise TypeError ''''"

fun jpop :: "string \<Rightarrow> json \<Rightarrow> exn + json" where
  "jpop k (JDict d) = Inr (JDict (filter (\<lambda>(k', v). k' \<noteq> k) d))"
| "jpop k (JList xs) = raise TypeError ''''"
| "jpop k _ = raise AttributeError ''''"

fun jsetdefault :: "string \<Rightarrow> json \<Rightarrow> json \<Rightarrow> exn + json" where
  "jsetdefault k x (JDict d) = Inr (case map_of d k of None \<Rightarrow> JDict (dict_set k x d) | Some _ \<Rightarrow> JDict d)"
| "jsetdefault k x _ = raise AttributeError ''''"

text \<open>The document after the object at \<open>d[k]\<close> has been changed in place by \<open>f\<close>.\<close>

definition jupd :: "string \<Rightarrow> (json \<Rightarrow> exn + json) \<Rightarrow> json \<Rightarrow> exn + json" where
  "jupd k f d = bindR (jitem d k) (\<lambda>v. bindR (f v) (\<lambda>v'. jset k v' d))"

definition jupd_index :: "nat \<Rightarrow> (json \<Rightarrow> exn + json) \<Rightarrow> json \<Rightarrow> exn + json" where
  "jupd_index i f d = (case d of
       JList xs \<Rightarrow> (if i < length xs then bindR (f (xs ! i)) (\<lambda>v'. Inr (JList (xs[i := v'])))
                   else raise IndexError '''')
     | _ \<Rightarrow> raise TypeError '''')"

text \<open>Iteration: \<open>for x in d\<close>, \<open>list(d)\<close>.\<close>

fun jiter :: "json \<Rightarrow> exn + json list" where
  "jiter (JList xs) = Inr xs"
| "jiter (JDict d) = Inr (map (\<lambda>(k, v). JStr k) d)"
| "jiter (JStr s) = Inr (map (\<lambda>c. JStr [c]) s)"
| "jiter _ = raise TypeError ''''"

text \<open>\<open>bool(d)\<close> and \<open>d or x\<close>.\<close>

fun truthy :: "json \<Rightarrow> bool" where
  "truthy JNull = False"
| "truthy (JBool b) = b"
| "truthy (JInt i) = (i \<noteq> 0)"
| "truthy (JStr s) = (s \<noteq> [])"
| "truthy (JList xs) = (xs \<noteq> [])"
| "truthy (JDict d) = (d \<noteq> [])"

definition jor :: "json \<Rightarrow> json \<Rightarrow> json" where
  "jor d x = (if truthy d then d else x)"

fun is_jstr :: "json \<Rightarrow> bool" where
  "is_jstr (JStr _) = True"
| "is_jstr _ = False"

fun is_jdict :: "json \<Rightarrow> bool" where
  "is_jdict (JDict _) = True"
| "is_jdict _ = False"

fun opt_json :: "string option \<Rightarrow> json" where
  "opt_json None = JNull"
| "opt_json (Some s) = JStr s"

section \<open>Conversions\<close>

text \<open>\<open>repr\<close> of a string, on the characters U+0000 to U+00FF.\<close>

definition repr_char :: "char \<Rightarrow> char \<Rightarrow> string" where
  "repr_char q c = (let n = (of_char c :: nat) in
     if c = q \<or> n = 92 then [CHR 0x5C, c]
     else if n = 9 then [CHR 0x5C, CHR ''t'']
     else if n = 10 then [CHR 0x5C, CHR ''n'']
     else if n = 13 then [CHR 0x5C, CHR ''r'']
     else if n < 32 \<or> (127 \<le> n \<and> n \<le> 160) \<or> n = 173
          then [CHR 0x5C, CHR ''x'', digit_char (n div 16), digit_char (n mod 16)]
     else [c])"

definition repr_str :: "string \<Rightarrow> string" where
  "repr_str s = (let q = (if CHR 0x27 \<in> set s \<and> CHR 0x22 \<notin> set s then CHR 0x22 else CHR 0x27)
     in [q] @ concat (map (repr_char q) s) @ [q])"

fun py_repr :: "json \<Rightarrow> string"
  and py_reprs :: "json list \<Rightarrow> string list"
  and py_repr_items :: "(string \<times> json) list \<Rightarrow> string list" where
  "py_repr JNull = ''None''"
| "py_repr (JBool b) = (if b then ''True'' else ''False'')"
| "py_repr (JInt i) = show_int i"
| "py_repr (JStr s) = repr_str s"
| "py_repr (JList xs) = ''['' @ join '', '' (py_reprs xs) @ '']''"
| "py_repr (JDict d) = ''{'' @ join '', '' (py_repr_items d) @ ''}''"
| "py_reprs [] = []"
| "py_reprs (x # xs) = py_repr x # py_reprs xs"
| "py_repr_items [] = []"
| "py_repr_items ((k, v) # d) = (repr_str k @ '': '' @ py_repr v) # py_repr_items d"

text \<open>\<open>str(d)\<close> and \<open>int(d)\<close>.\<close>

fun py_str :: "json \<Rightarrow> string" where
  "py_str (JStr s) = s"
| "py_str d = py_repr d"

fun json_int :: "json \<Rightarrow> exn + int" where
  "json_int (JInt i) = Inr i"
| "json_int (JBool b) = Inr (if b then 1 else 0)"
| "json_int (JStr s) = (case py_int 10 s of None \<Rightarrow> raise ValueError '''' | Some i \<Rightarrow> Inr i)"
| "json_int _ = raise TypeError ''''"

text \<open>\<open>json.dumps(d, indent=2, ensure_ascii=False)\<close>.\<close>

definition json_char :: "char \<Rightarrow> string" where
  "json_char c = (let n = (of_char c :: nat) in
     if n = 34 \<or> n = 92 then [CHR 0x5C, c]
     else if n = 8 then [CHR 0x5C, CHR ''b'']
     else if n = 9 then [CHR 0x5C, CHR ''t'']
     else if n = 10 then [CHR 0x5C, CHR ''n'']
     else if n = 12 then [CHR 0x5C, CHR ''f'']
     else if n = 13 then [CHR 0x5C, CHR ''r'']
     else if n < 32 then [CHR 0x5C, CHR ''u'', CHR ''0'', CHR ''0'', digit_char (n div 16), digit_char (n mod 16)]
     else [c])"

definition json_str :: "string \<Rightarrow> string" where
  "json_str s = [CHR 0x22] @ concat (map json_char s) @ [CHR 0x22]"

definition indent_line :: "nat \<Rightarrow> string" where
  "indent_line n = newline @ replicate (2 * n) CHR '' ''"

fun json_show :: "nat \<Rightarrow> json \<Rightarrow> string"
  and json_show_list :: "nat \<Rightarrow> json list \<Rightarrow> string list"
  and json_show_items :: "nat \<Rightarrow> (string \<times> json) list \<Rightarrow> string list" where
  "json_show n JNull = ''null''"
| "json_show n (JBool b) = (if b then ''true'' else ''false'')"
| "json_show n (JInt i) = show_int i"
| "json_show n (JStr s) = json_str s"
| "json_show n (JList xs) = (if xs = [] then ''[]'' else
     ''['' @ indent_line (Suc n) @ join ('','' @ indent_line (Suc n)) (json_show_list (Suc n) xs) @ indent_line n @ '']'')"
| "json_show n (JDict d) = (if d = [] then ''{}'' else
     ''{'' @ indent_line (Suc n) @ join ('','' @ indent_line (Suc n)) (json_show_items (Suc n) d) @ indent_line n @ ''}'')"
| "json_show_list n [] = []"
| "json_show_list n (x # xs) = json_show n x # json_show_list n xs"
| "json_show_items n [] = []"
| "json_show_items n ((k, v) # d) = (json_str k @ '': '' @ json_show n v) # json_show_items n d"

text \<open>\<open>json.dumps(d)\<close> with its default separators and \<open>ensure_ascii\<close>.\<close>

definition json_ascii_char :: "char \<Rightarrow> string" where
  "json_ascii_char c = (let n = (of_char c :: nat) in
     if 127 \<le> n then [CHR 0x5C, CHR ''u'', CHR ''0'', CHR ''0'', digit_char (n div 16), digit_char (n mod 16)] else json_char c)"

definition json_ascii_str :: "string \<Rightarrow> string" where
  "json_ascii_str s = [CHR 0x22] @ concat (map json_ascii_char s) @ [CHR 0x22]"

fun json_compact :: "json \<Rightarrow> string"
  and json_compact_list :: "json list \<Rightarrow> string list"
  and json_compact_items :: "(string \<times> json) list \<Rightarrow> string list" where
  "json_compact JNull = ''null''"
| "json_compact (JBool b) = (if b then ''true'' else ''false'')"
| "json_compact (JInt i) = show_int i"
| "json_compact (JStr s) = json_ascii_str s"
| "json_compact (JList xs) = ''['' @ join '', '' (json_compact_list xs) @ '']''"
| "json_compact (JDict d) = ''{'' @ join '', '' (json_compact_items d) @ ''}''"
| "json_compact_list [] = []"
| "json_compact_list (x # xs) = json_compact x # json_compact_list xs"
| "json_compact_items [] = []"
| "json_compact_items ((k, v) # d) = (json_ascii_str k @ '': '' @ json_compact v) # json_compact_items d"

section \<open>Lemmas\<close>

lemma jitem_Inr: "jitem d k = Inr v \<longleftrightarrow> (\<exists>m. d = JDict m \<and> map_of m k = Some v)"
  by (cases d) (auto split: option.splits)

lemma jget_Inr: "jget d k x = Inr v \<longleftrightarrow> (\<exists>m. d = JDict m \<and> v = the_or x (map_of m k))"
  by (cases d) auto

lemma jset_Inr: "jset k v d = Inr d' \<longleftrightarrow> (\<exists>m. d = JDict m \<and> d' = JDict (dict_set k v m))"
  by (cases d) auto

lemma jitem_jset: "jset k v d = Inr d' \<Longrightarrow> jitem d' k' = (if k' = k then Inr v else jitem d k')"
  by (auto simp: jset_Inr)

lemma jget_jset: "jset k v d = Inr d' \<Longrightarrow> jget d' k' x = (if k' = k then Inr v else jget d k' x)"
  by (auto simp: jset_Inr)

lemma jupd_Inr: "jupd k f d = Inr d' \<longleftrightarrow>
  (\<exists>m v v'. d = JDict m \<and> map_of m k = Some v \<and> f v = Inr v' \<and> d' = JDict (dict_set k v' m))"
  by (auto simp: jupd_def result_simps jitem_Inr jset_Inr)

lemma jitem_jupd_other: "jupd k f d = Inr d' \<Longrightarrow> k' \<noteq> k \<Longrightarrow> jitem d' k' = jitem d k'"
  by (auto simp: jupd_Inr)

lemma jpop_Inr: "jpop k d = Inr d' \<longleftrightarrow>
  (\<exists>m. d = JDict m \<and> d' = JDict (filter (\<lambda>(k', v). k' \<noteq> k) m))"
  by (cases d) auto

lemma map_of_filter_key: "map_of (filter (\<lambda>(k', v). k' \<noteq> k) m) j = (if j = k then None else map_of m j)"
  by (induction m) auto

lemma py_index_lt: "py_index n i = Some j \<Longrightarrow> j < n"
  by (auto simp: py_index_def split: if_splits)

lemma json_int_show [simp]: "json_int (JStr (show_int i)) = Inr i"
  by simp

end
