(* ===== verification/Port_Picker.thy ===== *)
theory Port_Picker
  imports Py_Json
begin

text \<open>
  \<open>panel/infrastructure/vpn/port_picker.py\<close>. Whether a socket can be bound is the host's
  answer, a predicate on the protocol (UDP or not) and the port.
\<close>

definition is_port_available :: "(bool \<Rightarrow> int \<Rightarrow> bool) \<Rightarrow> bool \<Rightarrow> int \<Rightarrow> bool" where
  "is_port_available can_bind udp port = can_bind udp port"

definition show_ports :: "int list \<Rightarrow> string" where
  "show_ports ports = ''['' @ join '', '' (map show_int ports) @ '']''"

fun preferred_in :: "int option \<Rightarrow> int list \<Rightarrow> bool" where
  "preferred_in None candidates = False"
| "preferred_in (Some p) candidates = (p \<in> set candidates)"

definition pick_port ::
  "(bool \<Rightarrow> int \<Rightarrow> bool) \<Rightarrow> nat \<Rightarrow> int list \<Rightarrow> int list \<Rightarrow> bool \<Rightarrow> int option \<Rightarrow> exn + int" where
  "pick_port can_bind r candidates blocked udp preferred =
     (if candidates = [] then raise ValueError ''port_candidates must not be empty''
      else if preferred_in preferred candidates then Inr (the preferred)
      else
        (let pool = filter (\<lambda>p. p \<notin> set blocked) candidates;
             pool = (if pool = [] then candidates else pool);
             available = filter (is_port_available can_bind udp) pool
         in if available = []
            then raise PortUnavailableError (''No free '' @ (if udp then ''UDP'' else ''TCP'')
               @ '' port among candidates '' @ show_ports candidates
               @ (if blocked \<noteq> [] then '' (excluded in DB: '' @ show_ports (sort (remdups blocked)) @ '')'' else ''''))
            else random_choice r available))"

lemma preferred_in_iff: "preferred_in preferred candidates \<longleftrightarrow> (\<exists>p\<in>set candidates. preferred = Some p)"
  by (cases preferred) auto

lemma pick_port_preferred: "p \<in> set candidates \<Longrightarrow> pick_port b r candidates blocked udp (Some p) = Inr p"
  by (auto simp: pick_port_def)

lemma pick_port_in: "pick_port b r candidates blocked udp preferred = Inr p \<Longrightarrow> p \<in> set candidates"
  by (auto simp: pick_port_def preferred_in_iff Let_def dest!: random_choice_in split: if_splits)

text \<open>
  The port picked is one of the candidates of the profile. Unless it is the preferred one, the
  host could bind it, and it is one that no other configuration uses whenever there is such a
  candidate at all.
\<close>

theorem pick_port_sound:
  assumes "pick_port can_bind r candidates blocked udp preferred = Inr p"
  shows "p \<in> set candidates \<and> (preferred = Some p \<or>
    can_bind udp p \<and> (p \<in> set blocked \<longrightarrow> set candidates \<subseteq> set blocked))"
  using assms pick_port_in [OF assms]
  by (auto simp: pick_port_def preferred_in_iff Let_def is_port_available_def filter_empty_conv
      dest!: random_choice_in split: if_splits)

theorem pick_port_sound_witness:
  "pick_port (\<lambda>udp p. p = 2053) 7 [8443, 2053, 2083] [8443] False None = Inr 2053
   \<and> 2053 \<in> set [8443, 2053, 2083 :: int]"
proof -
  have run: "pick_port (\<lambda>udp p. p = 2053) 7 [8443, 2053, 2083] [8443] False None = Inr 2053"
    by code_simp
  show ?thesis
    using run pick_port_sound [OF run] by simp
qed

text \<open>
  Picking a port fails exactly when the list of candidates is empty (a \<open>ValueError\<close>), or
  when there is no usable preferred port and the host can bind no candidate of the pool (a
  \<open>PortUnavailableError\<close>); a candidate that is free and unused always gives an answer.
\<close>

theorem pick_port_total:
  "(\<exists>p. pick_port can_bind r candidates blocked udp preferred = Inr p) \<longleftrightarrow>
     candidates \<noteq> [] \<and> (preferred_in preferred candidates
       \<or> (\<exists>p\<in>set candidates. can_bind udp p \<and> (p \<notin> set blocked \<or> set candidates \<subseteq> set blocked)))"
proof -
  have ne: "(\<exists>p. random_choice r xs = Inr p) \<longleftrightarrow> xs \<noteq> []" for xs :: "int list"
    by (auto simp: random_choice_def)
  show ?thesis
    by (auto simp: pick_port_def Let_def ne is_port_available_def filter_empty_conv split: if_splits)
qed

theorem pick_port_total_witness:
  "\<exists>p. pick_port (\<lambda>udp p. p = 2053) 0 [8443, 2053] [8443] False None = Inr p"
  using pick_port_total [of "\<lambda>udp p. p = 2053" 0 "[8443, 2053]" "[8443]" False None] by simp

end
