(* ===== verification/Domain.thy ===== *)
theory Domain
  imports Py_Json
begin

text \<open>
  \<open>panel/domain\<close> and \<open>panel/config.py\<close>: the enumerations, the regenerate policy, the
  normalisation of a public hostname, the entities and the settings the other components read.
  Enumerations are stored by their \<open>value\<close> string. Paths are strings.
\<close>

section \<open>Enumerations\<close>

datatype config_profile = XRAY_REALITY | XRAY_GRPC | XRAY_XHTTP | HYSTERIA2

fun profile_value :: "config_profile \<Rightarrow> string" where
  "profile_value XRAY_REALITY = ''xray-reality''"
| "profile_value XRAY_GRPC = ''xray-grpc''"
| "profile_value XRAY_XHTTP = ''xray-xhttp''"
| "profile_value HYSTERIA2 = ''hysteria2''"

definition parse_profile :: "string \<Rightarrow> exn + config_profile" where
  "parse_profile s =
     (if s = ''xray-reality'' then Inr XRAY_REALITY
      else if s = ''xray-grpc'' then Inr XRAY_GRPC
      else if s = ''xray-xhttp'' then Inr XRAY_XHTTP
      else if s = ''hysteria2'' then Inr HYSTERIA2
      else raise ValueError '''')"

definition default_for_protocol :: "string \<Rightarrow> config_profile" where
  "default_for_protocol protocol = (if protocol = ''hysteria2'' then HYSTERIA2 else XRAY_REALITY)"

datatype config_status = PENDING | PROCESSING | ACTIVE | FAILED

fun status_value :: "config_status \<Rightarrow> string" where
  "status_value PENDING = ''pending''"
| "status_value PROCESSING = ''processing''"
| "status_value ACTIVE = ''active''"
| "status_value FAILED = ''failed''"

datatype vpn_protocol_type = XRAY | HYSTERIA2_PROTOCOL

fun protocol_value :: "vpn_protocol_type \<Rightarrow> string" where
  "protocol_value XRAY = ''xray''"
| "protocol_value HYSTERIA2_PROTOCOL = ''hysteria2''"

lemma parse_profile_value [simp]: "parse_profile (profile_value p) = Inr p"
  by (cases p) (simp_all add: parse_profile_def)

lemma parse_profile_Inr: "parse_profile s = Inr p \<longleftrightarrow> s = profile_value p"
  by (cases p) (auto simp: parse_profile_def)

lemma profile_value_inj [simp]: "profile_value p = profile_value q \<longleftrightarrow> p = q"
  by (cases p; cases q) simp_all

text \<open>The order in which a bundle lists profiles (\<open>_PROFILE_ORDER\<close> of \<open>resolve_share.py\<close>).\<close>

fun profile_order :: "config_profile \<Rightarrow> nat" where
  "profile_order XRAY_REALITY = 0"
| "profile_order XRAY_XHTTP = 1"
| "profile_order XRAY_GRPC = 2"
| "profile_order HYSTERIA2 = 3"

lemma profile_order_inj: "profile_order p = profile_order q \<Longrightarrow> p = q"
  by (cases p; cases q) simp_all

instantiation config_profile :: linorder
begin

definition less_eq_config_profile :: "config_profile \<Rightarrow> config_profile \<Rightarrow> bool" where
  "less_eq_config_profile p q = (profile_order p \<le> profile_order q)"

definition less_config_profile :: "config_profile \<Rightarrow> config_profile \<Rightarrow> bool" where
  "less_config_profile p q = (profile_order p < profile_order q)"

instance
  by standard (auto simp: less_eq_config_profile_def less_config_profile_def intro: profile_order_inj)

end

section \<open>Settings\<close>

record vpn_profile_settings =
  template_file :: string
  service_name :: string
  config_filename :: string
  inbound_tag :: string
  port_candidates :: "int list"
  active_config_path :: "string option"
  cert_dir :: "string option"
  cert_prefix :: "string option"
  grpc_sni_hosts :: "string list"
  grpc_service_names :: "string list"
  xhttp_paths :: "string list"
  reality_dest_hosts :: "string list"
  reality_server_names :: "string list"
  share_public_port :: "int option"
  profile_share_host :: "string option"
  listen_address :: "string option"
  nginx_stream_conf :: "string option"
  nginx_panel_backend :: "string option"
  tls_cert_file :: "string option"
  tls_key_file :: "string option"

record systemd_settings =
  per_config :: bool
  unit_dir :: string
  service_prefix :: string
  xray_binary :: string
  hysteria_binary :: string
  xray_config_dir :: string
  hysteria_config_dir :: string
  service_ready_timeout_seconds :: int
  service_ready_settle_us :: int
  service_ready_max_wait_seconds :: int

record rate_limit_rule =
  max_attempts :: "int option"
  max_requests :: "int option"
  window_seconds :: int

record panel_settings =
  server_port :: int
  jwt_expire_minutes :: int
  rate_limit_login :: rate_limit_rule
  rate_limit_share :: rate_limit_rule
  audit_enabled :: bool
  audit_log_failed_login :: bool
  paths_configs :: string
  paths_templates :: string
  systemd :: systemd_settings
  public_host :: string
  public_host_aliases :: "string list"
  connectivity_probe_enabled :: bool
  connectivity_probe_timeout_us :: int
  connectivity_probe_cache_seconds :: int
  connectivity_probe_url :: string
  profiles :: "(string \<times> vpn_profile_settings) list"

text \<open>\<open>self._settings.vpn.profiles[profile.value]\<close>.\<close>

definition profile_settings_of :: "panel_settings \<Rightarrow> config_profile \<Rightarrow> exn + vpn_profile_settings" where
  "profile_settings_of st p = (case map_of (profiles st) (profile_value p) of
     None \<Rightarrow> raise KeyError '''' | Some ps \<Rightarrow> Inr ps)"

text \<open>\<open>Path(d) / name\<close>.\<close>

definition path_join :: "string \<Rightarrow> string \<Rightarrow> string" where
  "path_join d n = (if startswith n ''/'' then n else if endswith d ''/'' then d @ n else d @ ''/'' @ n)"

section \<open>Regenerate policy\<close>

record regenerate_policy =
  rotate_port :: bool
  rotate_client_id :: bool
  rotate_reality_keys :: bool
  rotate_short_ids :: bool
  rotate_dest :: bool
  rotate_path :: bool
  rotate_service_name :: bool
  rotate_tls :: bool
  rotate_auth :: bool
  rotate_obfs :: bool

definition default_policy :: regenerate_policy where
  "default_policy = \<lparr>rotate_port = True, rotate_client_id = True, rotate_reality_keys = True,
     rotate_short_ids = True, rotate_dest = True, rotate_path = True, rotate_service_name = False,
     rotate_tls = True, rotate_auth = False, rotate_obfs = False\<rparr>"

text \<open>\<open>bool(path)\<close> of an optional path: \<open>Path\<close> objects are always true.\<close>

definition for_profile :: "config_profile \<Rightarrow> vpn_profile_settings option \<Rightarrow> regenerate_policy" where
  "for_profile p ps =
     (let rport = (case ps of None \<Rightarrow> True
            | Some s \<Rightarrow> \<not> (p = HYSTERIA2 \<and>
                 (case share_public_port s of None \<Rightarrow> False | Some sp \<Rightarrow> sp \<in> set (port_candidates s))));
          rtls = (case ps of None \<Rightarrow> True
            | Some s \<Rightarrow> \<not> (tls_cert_file s \<noteq> None \<and> tls_key_file s \<noteq> None))
      in (case p of
        XRAY_REALITY \<Rightarrow> \<lparr>rotate_port = rport, rotate_client_id = True, rotate_reality_keys = True,
          rotate_short_ids = True, rotate_dest = True, rotate_path = True, rotate_service_name = False,
          rotate_tls = True, rotate_auth = False, rotate_obfs = False\<rparr>
      | XRAY_XHTTP \<Rightarrow> \<lparr>rotate_port = rport, rotate_client_id = True, rotate_reality_keys = False,
          rotate_short_ids = False, rotate_dest = False, rotate_path = True, rotate_service_name = False,
          rotate_tls = rtls, rotate_auth = False, rotate_obfs = False\<rparr>
      | XRAY_GRPC \<Rightarrow> \<lparr>rotate_port = rport, rotate_client_id = True, rotate_reality_keys = False,
          rotate_short_ids = False, rotate_dest = False, rotate_path = False, rotate_service_name = False,
          rotate_tls = rtls, rotate_auth = False, rotate_obfs = False\<rparr>
      | HYSTERIA2 \<Rightarrow> \<lparr>rotate_port = rport, rotate_client_id = False, rotate_reality_keys = False,
          rotate_short_ids = False, rotate_dest = False, rotate_path = False, rotate_service_name = False,
          rotate_tls = rtls, rotate_auth = False, rotate_obfs = False\<rparr>))"

text \<open>\<open>model_dump()\<close>, in field order.\<close>

definition to_stored :: "regenerate_policy \<Rightarrow> (string \<times> bool) list" where
  "to_stored r =
     [(''rotate_port'', rotate_port r), (''rotate_client_id'', rotate_client_id r),
      (''rotate_reality_keys'', rotate_reality_keys r), (''rotate_short_ids'', rotate_short_ids r),
      (''rotate_dest'', rotate_dest r), (''rotate_path'', rotate_path r),
      (''rotate_service_name'', rotate_service_name r), (''rotate_tls'', rotate_tls r),
      (''rotate_auth'', rotate_auth r), (''rotate_obfs'', rotate_obfs r)]"

definition bools_json :: "(string \<times> bool) list \<Rightarrow> json" where
  "bools_json bs = JDict (map (\<lambda>(k, b). (k, JBool b)) bs)"

text \<open>The values pydantic accepts for a \<open>bool\<close> field; anything else is its \<open>ValueError\<close>.\<close>

fun pydantic_bool :: "json \<Rightarrow> exn + bool" where
  "pydantic_bool (JBool b) = Inr b"
| "pydantic_bool (JInt i) = (if i = 0 then Inr False else if i = 1 then Inr True else raise ValueError '''')"
| "pydantic_bool (JStr s) =
     (if lower s \<in> {''0'', ''off'', ''f'', ''false'', ''n'', ''no''} then Inr False
      else if lower s \<in> {''1'', ''on'', ''t'', ''true'', ''y'', ''yes''} then Inr True
      else raise ValueError '''')"
| "pydantic_bool _ = raise ValueError ''''"

definition bool_field :: "(string \<times> json) list \<Rightarrow> string \<Rightarrow> bool \<Rightarrow> exn + bool" where
  "bool_field d k dflt = (case map_of d k of None \<Rightarrow> Inr dflt | Some v \<Rightarrow> pydantic_bool v)"

text \<open>\<open>RegeneratePolicy.model_validate(raw)\<close>: defaults for missing fields, unknown keys ignored.\<close>

definition policy_validate :: "json \<Rightarrow> exn + regenerate_policy" where
  "policy_validate raw = (case raw of
     JDict d \<Rightarrow>
       bindR (bool_field d ''rotate_port'' True) (\<lambda>b1.
       bindR (bool_field d ''rotate_client_id'' True) (\<lambda>b2.
       bindR (bool_field d ''rotate_reality_keys'' True) (\<lambda>b3.
       bindR (bool_field d ''rotate_short_ids'' True) (\<lambda>b4.
       bindR (bool_field d ''rotate_dest'' True) (\<lambda>b5.
       bindR (bool_field d ''rotate_path'' True) (\<lambda>b6.
       bindR (bool_field d ''rotate_service_name'' False) (\<lambda>b7.
       bindR (bool_field d ''rotate_tls'' True) (\<lambda>b8.
       bindR (bool_field d ''rotate_auth'' False) (\<lambda>b9.
       bindR (bool_field d ''rotate_obfs'' False) (\<lambda>b10.
       Inr \<lparr>rotate_port = b1, rotate_client_id = b2, rotate_reality_keys = b3, rotate_short_ids = b4,
         rotate_dest = b5, rotate_path = b6, rotate_service_name = b7, rotate_tls = b8,
         rotate_auth = b9, rotate_obfs = b10\<rparr>))))))))))
   | _ \<Rightarrow> raise ValueError '''')"

definition from_stored ::
  "json option \<Rightarrow> config_profile \<Rightarrow> vpn_profile_settings option \<Rightarrow> exn + regenerate_policy" where
  "from_stored raw p ps = (case raw of None \<Rightarrow> Inr (for_profile p ps) | Some d \<Rightarrow> policy_validate d)"

text \<open>\<open>policy.model_copy(update=...)\<close> with boolean overrides: one field at a time, unknown keys ignored.\<close>

definition policy_set :: "string \<Rightarrow> bool \<Rightarrow> regenerate_policy \<Rightarrow> regenerate_policy" where
  "policy_set k b r =
     (if k = ''rotate_port'' then r\<lparr>rotate_port := b\<rparr>
      else if k = ''rotate_client_id'' then r\<lparr>rotate_client_id := b\<rparr>
      else if k = ''rotate_reality_keys'' then r\<lparr>rotate_reality_keys := b\<rparr>
      else if k = ''rotate_short_ids'' then r\<lparr>rotate_short_ids := b\<rparr>
      else if k = ''rotate_dest'' then r\<lparr>rotate_dest := b\<rparr>
      else if k = ''rotate_path'' then r\<lparr>rotate_path := b\<rparr>
      else if k = ''rotate_service_name'' then r\<lparr>rotate_service_name := b\<rparr>
      else if k = ''rotate_tls'' then r\<lparr>rotate_tls := b\<rparr>
      else if k = ''rotate_auth'' then r\<lparr>rotate_auth := b\<rparr>
      else if k = ''rotate_obfs'' then r\<lparr>rotate_obfs := b\<rparr>
      else r)"

fun policy_copy :: "regenerate_policy \<Rightarrow> (string \<times> bool) list \<Rightarrow> regenerate_policy" where
  "policy_copy r [] = r"
| "policy_copy r ((k, b) # upd) = policy_copy (policy_set k b r) upd"

text \<open>The fields the create form shows for a profile.\<close>

fun policy_ui_fields :: "config_profile \<Rightarrow> string list" where
  "policy_ui_fields XRAY_REALITY =
     [''rotate_port'', ''rotate_client_id'', ''rotate_reality_keys'', ''rotate_short_ids'', ''rotate_dest'']"
| "policy_ui_fields XRAY_XHTTP = [''rotate_port'', ''rotate_client_id'', ''rotate_path'', ''rotate_tls'']"
| "policy_ui_fields XRAY_GRPC = [''rotate_port'', ''rotate_client_id'', ''rotate_service_name'', ''rotate_tls'']"
| "policy_ui_fields HYSTERIA2 = [''rotate_port'', ''rotate_tls'', ''rotate_auth'', ''rotate_obfs'']"

definition policy_fields :: "string list" where
  "policy_fields = map fst (to_stored default_policy)"

lemma policy_fields_stored: "map fst (to_stored r) = policy_fields"
  by (simp add: policy_fields_def to_stored_def)

lemma to_stored_set: "k \<in> set policy_fields \<Longrightarrow> to_stored (policy_set k b r) = dict_set k b (to_stored r)"
  unfolding policy_fields_def to_stored_def list.map fst_conv list.set insert_iff empty_iff
  by (elim disjE FalseE; simp add: policy_set_def)

lemma policy_set_other: "k \<notin> set policy_fields \<Longrightarrow> policy_set k b r = r"
  unfolding policy_set_def policy_fields_def to_stored_def by (simp only: list.map fst_conv list.set insert_iff) simp

lemma map_of_to_stored_set:
  "map_of (to_stored (policy_set k b r)) k' = (if k' = k \<and> k \<in> set policy_fields then Some b else map_of (to_stored r) k')"
  by (cases "k \<in> set policy_fields") (simp_all add: to_stored_set policy_set_other)

lemma bool_field_stored:
  "map_of (to_stored r) k = Some b \<Longrightarrow> bool_field (map (\<lambda>(k, b). (k, JBool b)) (to_stored r)) k d = Inr b"
  by (simp add: bool_field_def map_of_map)

lemma stored_lookups:
  "map_of (to_stored r) ''rotate_port'' = Some (rotate_port r)"
  "map_of (to_stored r) ''rotate_client_id'' = Some (rotate_client_id r)"
  "map_of (to_stored r) ''rotate_reality_keys'' = Some (rotate_reality_keys r)"
  "map_of (to_stored r) ''rotate_short_ids'' = Some (rotate_short_ids r)"
  "map_of (to_stored r) ''rotate_dest'' = Some (rotate_dest r)"
  "map_of (to_stored r) ''rotate_path'' = Some (rotate_path r)"
  "map_of (to_stored r) ''rotate_service_name'' = Some (rotate_service_name r)"
  "map_of (to_stored r) ''rotate_tls'' = Some (rotate_tls r)"
  "map_of (to_stored r) ''rotate_auth'' = Some (rotate_auth r)"
  "map_of (to_stored r) ''rotate_obfs'' = Some (rotate_obfs r)"
  by (simp_all add: to_stored_def)

text \<open>
  Merging overrides into a policy: for each of the ten fields the last override given for it
  wins, fields without an override keep their value, and unknown keys change nothing.
\<close>

theorem policy_copy_lookup:
  "map_of (to_stored (policy_copy r upd)) k =
     (if k \<in> set policy_fields
      then (case map_of (rev upd) k of Some b \<Rightarrow> Some b | None \<Rightarrow> map_of (to_stored r) k)
      else None)"
proof (induction r upd rule: policy_copy.induct)
  case (1 r)
  have "k \<notin> set policy_fields \<Longrightarrow> map_of (to_stored r) k = None"
    by (simp add: policy_fields_stored [of r, symmetric] map_of_eq_None_iff)
  then show ?case by simp
next
  case (2 r k' b upd)
  then show ?case
    by (auto simp: map_of_to_stored_set map_add_def split: option.splits)
qed

text \<open>
  A stored policy is read back as the policy that was stored, for every profile and profile
  settings: regeneration sees the flags the administrator saved.
\<close>

theorem policy_stored_round_trip:
  "from_stored (Some (bools_json (to_stored r))) p ps = Inr r"
  by (simp only: from_stored_def policy_validate_def bools_json_def json.case option.case
      bool_field_stored [OF stored_lookups(1)] bool_field_stored [OF stored_lookups(2)]
      bool_field_stored [OF stored_lookups(3)] bool_field_stored [OF stored_lookups(4)]
      bool_field_stored [OF stored_lookups(5)] bool_field_stored [OF stored_lookups(6)]
      bool_field_stored [OF stored_lookups(7)] bool_field_stored [OF stored_lookups(8)]
      bool_field_stored [OF stored_lookups(9)] bool_field_stored [OF stored_lookups(10)] bindR.simps) simp

section \<open>Public hostname\<close>

definition host_char :: "char \<Rightarrow> bool" where
  "host_char c = (let n = (of_char c :: nat) in
     (65 \<le> n \<and> n \<le> 90) \<or> (97 \<le> n \<and> n \<le> 122) \<or> (48 \<le> n \<and> n \<le> 57) \<or> c = CHR ''-'')"

definition host_label :: "string \<Rightarrow> bool" where
  "host_label l = (l \<noteq> [] \<and> length l \<le> 63 \<and> list_all host_char l
     \<and> hd l \<noteq> CHR ''-'' \<and> last l \<noteq> CHR ''-'')"

definition host_name :: "string \<Rightarrow> bool" where
  "host_name h = (h \<noteq> [] \<and> length h \<le> 253 \<and> list_all host_label (split_on CHR ''.'' h))"

text \<open>\<open>_HOST_RE.match(host)\<close>: the final \<open>$\<close> also matches before a trailing newline.\<close>

definition host_re_match :: "string \<Rightarrow> bool" where
  "host_re_match h = (host_name h \<or> (h \<noteq> [] \<and> [last h] = newline \<and> host_name (butlast h)))"

definition normalize_share_public_host :: "string option \<Rightarrow> exn + string option" where
  "normalize_share_public_host value = (case value of
     None \<Rightarrow> Inr None
   | Some v \<Rightarrow>
       (let host = rstrip_char CHR ''.'' (lower (strip v)) in
        if host = [] then Inr None
        else if startswith host ''http://'' \<or> startswith host ''https://''
          then raise InvalidSharePublicHost ''''
        else if CHR ''/'' \<in> set host \<or> CHR '':'' \<in> set host \<or> CHR '' '' \<in> set host
          then raise InvalidSharePublicHost ''''
        else if \<not> host_re_match host then raise InvalidSharePublicHost ''''
        else Inr (Some host)))"

text \<open>\<open>(share_public_host or "").strip() or None\<close>, what \<open>create_pending\<close> stores.\<close>

definition stored_share_host :: "string option \<Rightarrow> string option" where
  "stored_share_host h = (let v = strip (the_or '''' h) in if v = [] then None else Some v)"

lemma host_char_plain: "host_char c \<Longrightarrow> \<not> is_space c \<and> c \<noteq> CHR ''.'' \<and> c \<noteq> CHR ''/'' \<and> c \<noteq> CHR '':''"
  by (auto simp: host_char_def is_space_def Let_def)

lemma host_name_chars: "host_name h \<Longrightarrow> c \<in> set h \<Longrightarrow> host_char c \<or> c = CHR ''.''"
proof -
  assume h: "host_name h" and c: "c \<in> set h"
  have gen: "c \<in> set s \<Longrightarrow> c \<noteq> CHR ''.'' \<Longrightarrow> \<exists>l \<in> set (split_on CHR ''.'' s). c \<in> set l" for s
    by (induction s) (auto split: list.splits)
  show ?thesis
    using gen [OF c] h by (auto simp: host_name_def host_label_def list_all_iff)
qed

lemma host_name_no_space: "host_name h \<Longrightarrow> c \<in> set h \<Longrightarrow> \<not> is_space c"
  using host_name_chars [of h c] host_char_plain [of c] by (auto simp: is_space_def)

lemma lower_char_idem [simp]: "lower_char (lower_char c) = lower_char c"
  by (auto simp: lower_char_def Let_def)

lemma lower_idem [simp]: "lower (lower s) = lower s"
  by (simp add: lower_def)

lemma set_rstrip_char: "set (rstrip_char c s) \<subseteq> set s"
  unfolding rstrip_char_def by (auto dest: set_dropWhileD)

lemma lower_fix_sub: "set t \<subseteq> set (lower s) \<Longrightarrow> lower t = t"
proof -
  assume t: "set t \<subseteq> set (lower s)"
  have "lower_char c = c" if "c \<in> set (lower s)" for c
    using that by (auto simp: lower_def)
  then have "\<And>c. c \<in> set t \<Longrightarrow> lower_char c = c" using t by blast
  then show ?thesis unfolding lower_def by (rule map_idI)
qed

lemma split_on_sep: "split_on c (s @ c # t) = split_on c s @ split_on c t"
proof (induction s)
  case (Cons x s)
  then show ?case by (cases "split_on c s") auto
qed simp

lemma split_on_last: "last (split_on c (s @ [c])) = []"
  by (simp add: split_on_sep)

lemma host_name_last: "host_name h \<Longrightarrow> last h \<noteq> CHR ''.''"
proof
  assume h: "host_name h" and l: "last h = CHR ''.''"
  have "h = butlast h @ [CHR ''.'']"
    using h l append_butlast_last_id [of h] by (simp add: host_name_def)
  then have "last (split_on CHR ''.'' h) = []" by (metis split_on_last)
  moreover have "last (split_on CHR ''.'' h) \<in> set (split_on CHR ''.'' h)" by simp
  ultimately show False using h by (auto simp: host_name_def list_all_iff host_label_def)
qed

lemma normalize_host_fix:
  assumes "host_name h" "lower h = h"
  shows "normalize_share_public_host (Some h) = Inr (Some h)"
proof -
  have s: "strip h = h" using host_name_no_space [OF assms(1)] by (rule strip_fix)
  have r: "rstrip_char CHR ''.'' h = h"
    using host_name_last [OF assms(1)] by (cases h rule: rev_cases) (auto simp: rstrip_char_def)
  have "\<not> is_space CHR ''/''" "is_space CHR '' ''" by (simp_all add: is_space_def)
  then have c: "CHR ''/'' \<notin> set h" "CHR '':'' \<notin> set h" "CHR '' '' \<notin> set h"
    using host_name_chars [OF assms(1)] host_name_no_space [OF assms(1)] host_char_plain by fastforce+
  have "\<not> startswith h ''http://''" "\<not> startswith h ''https://''"
    using c(1) by (auto simp: startswith_iff)
  with s r c assms show ?thesis
    by (simp add: normalize_share_public_host_def Let_def host_re_match_def host_name_def)
qed

text \<open>
  C40. A hostname that passes the validation of a create request is stored as a valid lower-case
  hostname: labels of letters, digits and inner hyphens, no space, port, path or trailing dot;
  and validating the stored name again returns it unchanged.
\<close>

theorem normalized_host_stored:
  assumes "normalize_share_public_host value = Inr (Some h)"
  shows "\<exists>s. stored_share_host (Some h) = Some s \<and> host_name s \<and> lower s = s
    \<and> normalize_share_public_host (Some s) = Inr (Some s)"
proof -
  obtain v where v: "value = Some v" "h = rstrip_char CHR ''.'' (lower (strip v))" "host_re_match h"
    using assms by (auto simp: normalize_share_public_host_def Let_def split: option.splits if_splits)
  obtain s where s: "host_name s" "h = s \<or> h = s @ newline"
    using v(3) append_butlast_last_id [of h] that unfolding host_re_match_def by metis
  have "set s \<subseteq> set (lower (strip v))"
    using s(2) v(2) set_rstrip_char [of "CHR ''.''" "lower (strip v)"] by auto
  then have low: "lower s = s" by (rule lower_fix_sub)
  have ne: "s \<noteq> []" using s(1) by (simp add: host_name_def)
  have ss: "strip s = s" using host_name_no_space [OF s(1)] by (rule strip_fix)
  have "lstrip (s @ newline) = s @ newline"
    using ne host_name_no_space [OF s(1), of "hd s"] by (intro lstrip_fix) simp
  then have "strip (s @ newline) = strip s"
    using ne host_name_no_space [OF s(1), of "hd s"]
    by (simp add: strip_def rstrip_snoc is_space_def lstrip_fix)
  with s(2) ss ne have "stored_share_host (Some h) = Some s"
    by (auto simp: stored_share_host_def Let_def)
  with s(1) low normalize_host_fix show ?thesis by blast
qed

theorem normalized_host_stored_witness:
  "\<exists>s. stored_share_host (Some ''vpn.example.com'') = Some s \<and> host_name s \<and> lower s = s
    \<and> normalize_share_public_host (Some s) = Inr (Some s)"
  by (rule normalized_host_stored [of "Some '' VPN.Example.com. ''"]) code_simp

section \<open>Entities\<close>

record user =
  user_id :: uuid
  username :: string
  password_hash :: string
  user_created_at :: int

record vpn_config_version =
  ver_id :: uuid
  ver_config_id :: uuid
  ver_version :: int
  ver_port :: int
  ver_public_key :: string
  ver_cert_fingerprint :: string
  ver_created_at :: int

record vpn_config =
  cfg_id :: uuid
  cfg_name :: string
  cfg_protocol :: vpn_protocol_type
  cfg_profile :: config_profile
  cfg_status :: config_status
  cfg_current_version :: "int option"
  cfg_last_task_id :: "string option"
  cfg_error_message :: "string option"
  cfg_is_active :: bool
  cfg_created_by :: uuid
  cfg_updated_by :: uuid
  cfg_created_at :: int
  cfg_updated_at :: int
  cfg_current_version_detail :: "vpn_config_version option"
  cfg_regenerate_policy :: "regenerate_policy option"
  cfg_share_public_host :: "string option"

end
