(* ===== verification/Client_Uri.thy ===== *)
theory Client_Uri
  imports Domain
begin

text \<open>
  \<open>client_uri.py\<close> and the inbound lookup of \<open>template_loader.py\<close> under
  \<open>panel/infrastructure/vpn\<close>: the share URIs a client imports, their parameters and the
  names and pins they carry. The random draw of \<open>pick_server_name\<close> is an argument.
\<close>

section \<open>Inbounds\<close>

text \<open>\<open>find_inbound\<close>, with the position of the inbound it returns a reference to.\<close>

fun find_tagged :: "nat \<Rightarrow> json list \<Rightarrow> string \<Rightarrow> exn + nat \<times> json" where
  "find_tagged n [] tag = raise KeyError (repr_str (''Inbound tag not found: '' @ tag))"
| "find_tagged n (inbound # rest) tag =
     bindR (jget inbound ''tag'' JNull) (\<lambda>t.
       if t = JStr tag then Inr (n, inbound) else find_tagged (Suc n) rest tag)"

definition find_inbound :: "json \<Rightarrow> string \<Rightarrow> exn + nat \<times> json" where
  "find_inbound config tag =
     bindR (jget config ''inbounds'' (JList [])) (\<lambda>v. bindR (jiter v) (\<lambda>xs. find_tagged 0 xs tag))"

section \<open>Names\<close>

fun share_label :: "config_profile \<Rightarrow> string" where
  "share_label XRAY_REALITY = ''Reality-Dynamic''"
| "share_label XRAY_XHTTP = ''XHTTP-Dynamic''"
| "share_label XRAY_GRPC = ''gRPC-Dynamic''"
| "share_label HYSTERIA2 = ''Hysteria2-Dynamic''"

definition pick_server_name :: "nat \<Rightarrow> json list \<Rightarrow> string" where
  "pick_server_name r names =
     (let candidates = filter (\<lambda>s. s \<noteq> []) (map (\<lambda>n. strip (py_str n)) names)
      in if candidates = [] then '''' else candidates ! (r mod length candidates))"

text \<open>\<open>value.rsplit(":", 1)[0]\<close> when a colon is present.\<close>

definition before_last_colon :: "string \<Rightarrow> string" where
  "before_last_colon v = rev (tl (dropWhile (\<lambda>c. c \<noteq> CHR '':'') (rev v)))"

definition dest_hostname :: "string \<Rightarrow> string" where
  "dest_hostname dest = (let v = strip dest in
     if v = [] then ''''
     else if CHR '':'' \<in> set v \<and> \<not> startswith v ''['' then strip (before_last_colon v)
     else v)"

definition reality_share_sni :: "nat \<Rightarrow> json \<Rightarrow> exn + string" where
  "reality_share_sni r reality =
     bindR (jget reality ''dest'' JNull) (\<lambda>dest.
       let host = dest_hostname (py_str (jor dest (JStr ''''))) in
       if host \<noteq> [] then Inr host
       else bindR (jget reality ''serverNames'' JNull) (\<lambda>names.
            bindR (jiter (jor names (JList []))) (\<lambda>xs. Inr (pick_server_name r xs))))"

definition pin_hex :: "string \<Rightarrow> string" where
  "pin_hex cert_fingerprint = upper (replace_all '':'' [] cert_fingerprint)"

section \<open>URIs\<close>

definition share_uri :: "string \<Rightarrow> string \<Rightarrow> string \<Rightarrow> int \<Rightarrow> string list \<Rightarrow> string \<Rightarrow> string" where
  "share_uri scheme who host port params label =
     scheme @ ''://'' @ who @ ''@'' @ host @ '':'' @ show_int port @ ''?'' @ join ''&'' params
       @ ''#'' @ quote ''/'' label"

definition reality_params :: "nat \<Rightarrow> json \<Rightarrow> string \<Rightarrow> exn + string list" where
  "reality_params r inbound public_key =
     bindR (jitem inbound ''streamSettings'') (\<lambda>stream.
     bindR (jitem stream ''realitySettings'') (\<lambda>reality.
     bindR (jitem reality ''shortIds'') (\<lambda>short_ids.
     bindR (jindex short_ids 0) (\<lambda>short_id.
     bindR (jitem inbound ''settings'') (\<lambda>settings.
     bindR (jitem settings ''clients'') (\<lambda>clients.
     bindR (jindex clients 0) (\<lambda>client.
     bindR (jget client ''flow'' (JStr ''xtls-rprx-vision'')) (\<lambda>flow.
     bindR (reality_share_sni r reality) (\<lambda>sni.
     Inr ([''type=tcp'', ''security=reality'', ''flow='' @ py_str flow, ''fp=chrome'',
           ''pbk='' @ public_key, ''sid='' @ py_str short_id]
          @ (if sni \<noteq> [] then [''sni='' @ quote '''' sni] else [])))))))))))"

text \<open>The pin of a secure link, or the flag of an insecure one.\<close>

definition tls_trust_params :: "string \<Rightarrow> bool \<Rightarrow> string list" where
  "tls_trust_params cert_fingerprint secure =
     (if secure then (let pcs = pin_hex cert_fingerprint in if pcs \<noteq> [] then [''pcs='' @ pcs] else [])
      else [''insecure=1''])"

definition xhttp_params :: "json \<Rightarrow> string \<Rightarrow> string \<Rightarrow> bool \<Rightarrow> exn + string list" where
  "xhttp_params inbound host cert_fingerprint secure =
     bindR (jitem inbound ''streamSettings'') (\<lambda>stream.
     bindR (jitem stream ''xhttpSettings'') (\<lambda>xhttp.
     bindR (jget stream ''tlsSettings'' JNull) (\<lambda>tls0.
     let tls = jor tls0 (JDict []) in
     bindR (jget xhttp ''host'' (JStr host)) (\<lambda>xhost.
     bindR (jget xhttp ''path'' (JStr ''/'')) (\<lambda>path.
     bindR (jget xhttp ''mode'' (JStr ''stream-up'')) (\<lambda>mode.
     bindR (jget tls ''serverName'' JNull) (\<lambda>server_name.
     let sni = jor server_name (JStr host) in
     Inr ([''type=xhttp'', ''security=tls'', ''host='' @ quote '''' (py_str xhost),
           ''path='' @ quote '''' (py_str path), ''mode='' @ quote '''' (py_str mode), ''fp=chrome'',
           ''sni='' @ quote '''' (py_str sni)]
          @ tls_trust_params cert_fingerprint secure))))))))"

definition grpc_params :: "json \<Rightarrow> string \<Rightarrow> string \<Rightarrow> bool \<Rightarrow> exn + string list" where
  "grpc_params inbound host cert_fingerprint secure =
     bindR (jitem inbound ''streamSettings'') (\<lambda>stream.
     bindR (jitem stream ''tlsSettings'') (\<lambda>tls.
     bindR (jitem stream ''grpcSettings'') (\<lambda>grpc.
     bindR (jget tls ''serverName'' JNull) (\<lambda>server_name.
     let sni = jor server_name (JStr host) in
     bindR (jget grpc ''serviceName'' (JStr '''')) (\<lambda>service_name.
     Inr ([''type=grpc'', ''security=tls'', ''serviceName='' @ quote '''' (py_str service_name),
           ''fp=chrome'', ''sni='' @ quote '''' (py_str sni)]
          @ tls_trust_params cert_fingerprint secure))))))"

definition truthy_port :: "int option \<Rightarrow> bool" where
  "truthy_port p = (case p of None \<Rightarrow> False | Some n \<Rightarrow> n \<noteq> 0)"

text \<open>\<open>int(str(config_data["listen"]).lstrip(":"))\<close>.\<close>

definition hysteria_listen_port :: "json \<Rightarrow> exn + int" where
  "hysteria_listen_port config_data =
     bindR (jitem config_data ''listen'') (\<lambda>v. json_int (JStr (lstrip_char CHR '':'' (py_str v))))"

definition hysteria_sni :: "json \<Rightarrow> string \<Rightarrow> exn + json" where
  "hysteria_sni config_data host =
     bindR (jget config_data ''sni'' JNull) (\<lambda>s1.
       if truthy s1 then Inr s1
       else bindR (jget config_data ''tls'' (JDict [])) (\<lambda>tls.
            bindR (jget tls ''sni'' JNull) (\<lambda>s2. Inr (jor s2 (JStr host)))))"

definition hysteria_obfs_params :: "json \<Rightarrow> exn + string list" where
  "hysteria_obfs_params config_data =
     bindR (jget config_data ''obfs'' JNull) (\<lambda>obfs0.
     let obfs = jor obfs0 (JDict []) in
     bindR (jget obfs ''type'' (JStr '''')) (\<lambda>type.
     if lower (strip (py_str type)) = ''salamander'' then
       bindR (jget obfs ''salamander'' JNull) (\<lambda>sal.
       bindR (jget (jor sal (JDict [])) ''password'' JNull) (\<lambda>password.
       Inr (if truthy password
            then [''obfs=salamander'', ''obfs-password='' @ quote '''' (py_str password)] else [])))
     else Inr []))"

definition hysteria_trust_params :: "string \<Rightarrow> bool \<Rightarrow> string list" where
  "hysteria_trust_params cert_fingerprint secure =
     (if secure then (let pin = pin_hex cert_fingerprint in if pin \<noteq> [] then [''pinSHA256='' @ pin] else [])
        @ [''insecure=0'']
      else [''insecure=1''])"

definition hysteria_params :: "json \<Rightarrow> string \<Rightarrow> string \<Rightarrow> bool \<Rightarrow> exn + string list" where
  "hysteria_params config_data host cert_fingerprint secure =
     bindR (hysteria_sni config_data host) (\<lambda>sni.
     bindR (hysteria_obfs_params config_data) (\<lambda>obfs.
     Inr ([''sni='' @ quote '''' (py_str sni)] @ obfs @ hysteria_trust_params cert_fingerprint secure)))"

text \<open>\<open>quote\<close> refuses what is not a string.\<close>

definition quote_json :: "json \<Rightarrow> exn + string" where
  "quote_json v = (case v of JStr s \<Rightarrow> Inr (quote '''' s) | _ \<Rightarrow> raise TypeError '''')"

lemma quote_json_Inr: "quote_json v = Inr w \<longleftrightarrow> (\<exists>s. v = JStr s \<and> w = quote '''' s)"
  by (auto simp: quote_json_def split: json.splits)

definition build_hysteria2_uri ::
  "json \<Rightarrow> string \<Rightarrow> string \<Rightarrow> string \<Rightarrow> bool \<Rightarrow> int option \<Rightarrow> exn + string" where
  "build_hysteria2_uri config_data host cert_fingerprint label secure public_port =
     bindR (if truthy_port public_port then Inr (the public_port) else hysteria_listen_port config_data) (\<lambda>port.
     bindR (jitem config_data ''auth'') (\<lambda>auth.
     bindR (jitem auth ''password'') (\<lambda>password.
     bindR (hysteria_params config_data host cert_fingerprint secure) (\<lambda>params.
     bindR (quote_json password) (\<lambda>who.
     Inr (share_uri ''hysteria2'' who host port params label))))))"

definition inbound_client_id :: "json \<Rightarrow> exn + json" where
  "inbound_client_id inbound =
     bindR (jitem inbound ''settings'') (\<lambda>settings.
     bindR (jitem settings ''clients'') (\<lambda>clients.
     bindR (jindex clients 0) (\<lambda>client. jitem client ''id'')))"

definition build_share_uris ::
  "nat \<Rightarrow> config_profile \<Rightarrow> json \<Rightarrow> string \<Rightarrow> string \<Rightarrow> string \<Rightarrow> string \<Rightarrow> bool \<Rightarrow> int option
    \<Rightarrow> exn + string list" where
  "build_share_uris r p config_data host public_key cert_fingerprint tag secure public_port =
     (let label = share_label p in
      if p = HYSTERIA2
      then bindR (build_hysteria2_uri config_data host cert_fingerprint label secure public_port)
             (\<lambda>uri. Inr [uri])
      else
        bindR (find_inbound config_data tag) (\<lambda>(i, inbound).
        bindR (if truthy_port public_port then Inr (the public_port)
               else bindR (jitem inbound ''port'') json_int) (\<lambda>port.
        bindR (inbound_client_id inbound) (\<lambda>client_id.
        bindR (if p = XRAY_REALITY then reality_params r inbound public_key
               else if p = XRAY_XHTTP then xhttp_params inbound host cert_fingerprint secure
               else grpc_params inbound host cert_fingerprint secure) (\<lambda>params.
        Inr [share_uri ''vless'' (py_str client_id) host port params label])))))"

text \<open>\<open>listening_port\<close> of \<open>config_builder.py\<close>.\<close>

definition listening_port :: "config_profile \<Rightarrow> json \<Rightarrow> string \<Rightarrow> exn + int" where
  "listening_port p config_data tag =
     (if p = HYSTERIA2 then hysteria_listen_port config_data
      else bindR (find_inbound config_data tag) (\<lambda>(i, inbound). bindR (jitem inbound ''port'') json_int))"

section \<open>What a client reads\<close>

text \<open>The query of a URI, as a client splits it.\<close>

definition uri_params :: "string \<Rightarrow> string list" where
  "uri_params uri = split_on CHR ''&'' (takeWhile (\<lambda>c. c \<noteq> CHR ''#'') (tl (dropWhile (\<lambda>c. c \<noteq> CHR ''?'') uri)))"

definition plain_text :: "string \<Rightarrow> bool" where
  "plain_text s = list_all (\<lambda>c. c \<noteq> CHR ''?'' \<and> c \<noteq> CHR ''#'' \<and> c \<noteq> CHR ''&'') s"

lemma plain_append [simp]: "plain_text (x @ y) \<longleftrightarrow> plain_text x \<and> plain_text y"
  by (simp add: plain_text_def)

lemma plain_cons [simp]: "plain_text (c # s) \<longleftrightarrow> c \<noteq> CHR ''?'' \<and> c \<noteq> CHR ''#'' \<and> c \<noteq> CHR ''&'' \<and> plain_text s"
  by (simp add: plain_text_def)

lemma plain_nil [simp]: "plain_text []"
  by (simp add: plain_text_def)

lemma plain_quote [simp]: "plain_text (quote '''' s)"
  using quote_no_delim [of "CHR ''?''" "''''" s] quote_no_delim [of "CHR ''#''" "''''" s]
    quote_no_delim [of "CHR ''&''" "''''" s]
  by (auto simp: plain_text_def list_all_iff)

lemma plain_show_int [simp]: "plain_text (show_int i)"
proof -
  have "digit_char d \<noteq> CHR ''?'' \<and> digit_char d \<noteq> CHR ''#'' \<and> digit_char d \<noteq> CHR ''&''" if "d < 16" for d
    using of_char_digit_char [OF that] by (auto split: if_splits)
  then show ?thesis
    by (auto simp: plain_text_def list_all_iff dest!: set_show_int)
qed

lemma plain_pin: "plain_text fp \<Longrightarrow> plain_text (pin_hex fp)"
proof -
  have u: "upper_char c = d \<Longrightarrow> c \<noteq> d \<Longrightarrow> d \<noteq> CHR ''?'' \<and> d \<noteq> CHR ''#'' \<and> d \<noteq> CHR ''&''" for c d
  proof -
    assume e: "upper_char c = d" and ne: "c \<noteq> d"
    have "(of_char d :: nat) \<ge> 65"
      using ne unfolding e [symmetric] by (auto simp: upper_char_def Let_def split: if_splits)
    then show ?thesis by auto
  qed
  assume fp: "plain_text fp"
  have "c \<noteq> CHR ''?'' \<and> c \<noteq> CHR ''#'' \<and> c \<noteq> CHR ''&''" if c: "c \<in> set (pin_hex fp)" for c
  proof -
    obtain d where d: "d \<in> set fp" "c = upper_char d"
      using c by (auto simp: pin_hex_def upper_def replace_all_char)
    show ?thesis
    proof (cases "c = d")
      case True
      with d(1) fp show ?thesis by (auto simp: plain_text_def list_all_iff)
    next
      case False
      with u [of d c] d(2) show ?thesis by metis
    qed
  qed
  then show ?thesis by (simp add: plain_text_def list_all_iff)
qed

lemma takeWhile_to_sep: "x \<notin> set xs \<Longrightarrow> takeWhile (\<lambda>c. c \<noteq> x) (xs @ x # ys) = xs"
  by (induction xs) auto

lemma dropWhile_sep: "x \<notin> set xs \<Longrightarrow> dropWhile (\<lambda>c. c \<noteq> x) (xs @ x # ys) = x # ys"
  by (induction xs) auto

lemma set_join: "set (join sep xs) \<subseteq> set sep \<union> \<Union> (set ` set xs)"
  by (induction sep xs rule: join.induct) auto

lemma uri_params_share_uri:
  assumes "plain_text scheme" "plain_text who" "plain_text host" "params \<noteq> []" "list_all plain_text params"
  shows "uri_params (share_uri scheme who host port params label) = params"
proof -
  let ?pre = "scheme @ ''://'' @ who @ ''@'' @ host @ '':'' @ show_int port"
  have pre: "CHR ''?'' \<notin> set ?pre"
    using assms(1-3) plain_show_int [of port] by (auto simp: plain_text_def list_all_iff)
  have q: "CHR ''#'' \<notin> set (join ''&'' params)"
    using assms(5) set_join [of "''&''" params] by (fastforce simp: plain_text_def list_all_iff)
  have "split_on CHR ''&'' (join ''&'' params) = params"
    using assms(4,5) by (intro split_on_join) (auto simp: plain_text_def list_all_iff)
  moreover have "share_uri scheme who host port params label
      = ?pre @ CHR ''?'' # (join ''&'' params @ CHR ''#'' # quote ''/'' label)"
    by (simp add: share_uri_def)
  ultimately show ?thesis
    by (simp only: uri_params_def dropWhile_sep [OF pre] list.sel takeWhile_to_sep [OF q])
qed

lemma tls_params_shape:
  assumes "xhttp_params inbound host fp secure = Inr params \<or> grpc_params inbound host fp secure = Inr params"
  shows "\<exists>q. params = q @ tls_trust_params fp secure \<and> q \<noteq> [] \<and> list_all plain_text q
    \<and> (\<forall>x\<in>set q. x \<noteq> ''insecure=1'' \<and> \<not> startswith x ''pcs='' \<and> \<not> startswith x ''pinSHA256='')"
  using assms unfolding xhttp_params_def grpc_params_def Let_def bindR_eq_Inr
  by (elim disjE exE conjE) (force simp: startswith_def)+

lemma hysteria_params_shape:
  assumes "hysteria_params config_data host fp secure = Inr params"
  shows "\<exists>q. params = q @ hysteria_trust_params fp secure \<and> q \<noteq> [] \<and> list_all plain_text q
    \<and> (\<forall>x\<in>set q. x \<noteq> ''insecure=1'' \<and> \<not> startswith x ''pcs='' \<and> \<not> startswith x ''pinSHA256='')"
proof -
  obtain sni obfs where o: "hysteria_obfs_params config_data = Inr obfs"
    "params = (''sni='' @ quote '''' (py_str sni)) # obfs @ hysteria_trust_params fp secure"
    using assms by (auto simp: hysteria_params_def result_simps)
  have "list_all plain_text obfs \<and>
    (\<forall>x\<in>set obfs. x \<noteq> ''insecure=1'' \<and> \<not> startswith x ''pcs='' \<and> \<not> startswith x ''pinSHA256='')"
    using o(1) unfolding hysteria_obfs_params_def Let_def bindR_eq_Inr
    by (elim exE conjE) (force simp: startswith_def result_simps split: if_splits)
  with o(2) show ?thesis
    by (intro exI [of _ "(''sni='' @ quote '''' (py_str sni)) # obfs"]) (simp add: startswith_def)
qed

lemma build_share_uris_vless:
  assumes "build_share_uris r p config_data host pk fp tag secure pp = Inr uris" "p \<noteq> HYSTERIA2"
  obtains i inbound port c params where "find_inbound config_data tag = Inr (i, inbound)"
    "(if truthy_port pp then Inr (the pp) else bindR (jitem inbound ''port'') json_int) = Inr port"
    "inbound_client_id inbound = Inr c"
    "(if p = XRAY_REALITY then reality_params r inbound pk
      else if p = XRAY_XHTTP then xhttp_params inbound host fp secure
      else grpc_params inbound host fp secure) = Inr params"
    "uris = [share_uri ''vless'' (py_str c) host port params (share_label p)]"
proof -
  have "\<exists>i inbound port c params. find_inbound config_data tag = Inr (i, inbound)
    \<and> (if truthy_port pp then Inr (the pp) else bindR (jitem inbound ''port'') json_int) = Inr port
    \<and> inbound_client_id inbound = Inr c
    \<and> (if p = XRAY_REALITY then reality_params r inbound pk
      else if p = XRAY_XHTTP then xhttp_params inbound host fp secure
      else grpc_params inbound host fp secure) = Inr params
    \<and> uris = [share_uri ''vless'' (py_str c) host port params (share_label p)]"
    using assms unfolding build_share_uris_def Let_def bindR_eq_Inr case_prod_beta
    by (simp only: if_False bindR_eq_Inr) (metis sum.inject(2) prod.collapse)
  then show ?thesis using that by blast
qed

text \<open>The one URI of a TLS profile, and where its parameters come from.\<close>

lemma build_share_uris_tls:
  assumes "build_share_uris r p config_data host pk fp tag secure pp = Inr uris" "p \<noteq> XRAY_REALITY"
  shows "\<exists>scheme who port params q trust. uris = [share_uri scheme who host port params (share_label p)]
    \<and> plain_text scheme
    \<and> (plain_text who \<or> (\<exists>i inbound c. find_inbound config_data tag = Inr (i, inbound)
         \<and> inbound_client_id inbound = Inr c \<and> who = py_str c))
    \<and> params = q @ trust \<and> q \<noteq> [] \<and> list_all plain_text q
    \<and> (\<forall>x\<in>set q. x \<noteq> ''insecure=1'' \<and> \<not> startswith x ''pcs='' \<and> \<not> startswith x ''pinSHA256='')
    \<and> trust = (if p = HYSTERIA2 then hysteria_trust_params fp secure else tls_trust_params fp secure)"
proof (cases "p = HYSTERIA2")
  case True
  then obtain who port params where h: "hysteria_params config_data host fp secure = Inr params"
    "uris = [share_uri ''hysteria2'' (quote '''' who) host port params (share_label p)]"
    using assms(1) by (auto simp: build_share_uris_def build_hysteria2_uri_def quote_json_Inr bindR_eq_Inr
        Let_def)
  obtain q where "params = q @ hysteria_trust_params fp secure \<and> q \<noteq> [] \<and> list_all plain_text q
    \<and> (\<forall>x\<in>set q. x \<noteq> ''insecure=1'' \<and> \<not> startswith x ''pcs='' \<and> \<not> startswith x ''pinSHA256='')"
    using hysteria_params_shape [OF h(1)] by blast
  with True h(2) show ?thesis
    by (intro exI [of _ "''hysteria2''"] exI [of _ "quote '''' who"] exI [of _ port] exI [of _ params]
        exI [of _ q] exI [of _ "hysteria_trust_params fp secure"]) simp
next
  case False
  obtain i inbound port c params where h: "find_inbound config_data tag = Inr (i, inbound)"
    "inbound_client_id inbound = Inr c"
    "xhttp_params inbound host fp secure = Inr params \<or> grpc_params inbound host fp secure = Inr params"
    "uris = [share_uri ''vless'' (py_str c) host port params (share_label p)]"
    by (rule build_share_uris_vless [OF assms(1) False]) (use assms(2) in \<open>auto split: if_splits\<close>)
  obtain q where "params = q @ tls_trust_params fp secure \<and> q \<noteq> [] \<and> list_all plain_text q
    \<and> (\<forall>x\<in>set q. x \<noteq> ''insecure=1'' \<and> \<not> startswith x ''pcs='' \<and> \<not> startswith x ''pinSHA256='')"
    using tls_params_shape [OF h(3)] by blast
  moreover have "\<exists>i inbound c'. find_inbound config_data tag = Inr (i, inbound)
    \<and> inbound_client_id inbound = Inr c' \<and> py_str c = py_str c'" using h(1,2) by blast
  ultimately show ?thesis
    using False h(4)
    by (intro exI [of _ "''vless''"] exI [of _ "py_str c"] exI [of _ port] exI [of _ params]
        exI [of _ q] exI [of _ "tls_trust_params fp secure"]) simp
qed

text \<open>
  C23. Security of share links over TLS (every profile but Reality): read by a client, the
  one URI of the link carries \<open>insecure=1\<close> exactly when the link was made insecure, and it
  carries the certificate's pin exactly when the link is secure and there is a pin; no other pin
  ever appears.
\<close>

theorem share_uri_trust:
  assumes "build_share_uris r p config_data host pk fp tag secure pp = Inr uris"
    and "p \<noteq> XRAY_REALITY" "plain_text host" "plain_text fp"
    and "\<forall>i inbound c. find_inbound config_data tag = Inr (i, inbound) \<and> inbound_client_id inbound = Inr c
      \<longrightarrow> plain_text (py_str c)"
  shows "\<exists>uri. uris = [uri] \<and> (''insecure=1'' \<in> set (uri_params uri) \<longleftrightarrow> \<not> secure)
    \<and> (\<exists>x\<in>set (uri_params uri). startswith x ''pcs='' \<or> startswith x ''pinSHA256='')
        = (secure \<and> pin_hex fp \<noteq> [])
    \<and> (\<forall>x\<in>set (uri_params uri). startswith x ''pcs='' \<or> startswith x ''pinSHA256=''
        \<longrightarrow> x = (if p = HYSTERIA2 then ''pinSHA256='' else ''pcs='') @ pin_hex fp)"
proof -
  obtain scheme who port params q trust where u: "uris = [share_uri scheme who host port params (share_label p)]"
    "plain_text scheme" "plain_text who"
    "params = q @ trust" "q \<noteq> []" "list_all plain_text q"
    "\<forall>x\<in>set q. x \<noteq> ''insecure=1'' \<and> \<not> startswith x ''pcs='' \<and> \<not> startswith x ''pinSHA256=''"
    "trust = (if p = HYSTERIA2 then hysteria_trust_params fp secure else tls_trust_params fp secure)"
    using build_share_uris_tls [OF assms(1,2)] assms(5) by blast
  have "list_all plain_text trust"
    using u(8) plain_pin [OF assms(4)] by (simp add: hysteria_trust_params_def tls_trust_params_def Let_def)
  then have "uri_params (share_uri scheme who host port params (share_label p)) = params"
    using u assms(3) by (intro uri_params_share_uri) auto
  then show ?thesis
    using u(1,4,7,8) by (auto simp: hysteria_trust_params_def tls_trust_params_def Let_def startswith_def)
qed

definition demo_grpc :: json where
  "demo_grpc = JDict [(''inbounds'', JList [
     JDict [(''tag'', JStr ''api''), (''port'', JInt 1)],
     JDict [(''tag'', JStr ''vless-grpc''), (''port'', JInt 8443),
       (''settings'', JDict [(''clients'', JList [JDict [(''id'', JStr ''c1'')]])]),
       (''streamSettings'', JDict [(''tlsSettings'', JDict [(''serverName'', JStr ''ya.ru'')]),
         (''grpcSettings'', JDict [(''serviceName'', JStr ''Api'')])])]])]"

definition demo_inbound :: json where
  "demo_inbound = JDict [(''tag'', JStr ''vless-grpc''), (''port'', JInt 8443),
       (''settings'', JDict [(''clients'', JList [JDict [(''id'', JStr ''c1'')]])]),
       (''streamSettings'', JDict [(''tlsSettings'', JDict [(''serverName'', JStr ''ya.ru'')]),
         (''grpcSettings'', JDict [(''serviceName'', JStr ''Api'')])])]"

lemma demo_grpc_inbound: "find_inbound demo_grpc ''vless-grpc'' = Inr (1, demo_inbound)"
  "inbound_client_id demo_inbound = Inr (JStr ''c1'')"
  by code_simp+

lemma demo_grpc_uris:
  "build_share_uris 0 XRAY_GRPC demo_grpc ''h'' ''pk'' ''a1:b2'' ''vless-grpc'' True None =
     Inr [share_uri ''vless'' ''c1'' ''h'' 8443
       [''type=grpc'', ''security=tls'', ''serviceName=Api'', ''fp=chrome'', ''sni=ya.ru'', ''pcs=A1B2''] ''gRPC-Dynamic'']"
  by code_simp

theorem share_uri_trust_witness:
  "''pcs=A1B2'' \<in> set (uri_params (share_uri ''vless'' ''c1'' ''h'' 8443
       [''type=grpc'', ''security=tls'', ''serviceName=Api'', ''fp=chrome'', ''sni=ya.ru'', ''pcs=A1B2''] ''gRPC-Dynamic''))"
proof -
  have pin: "pin_hex ''a1:b2'' = ''A1B2''" by code_simp
  have id: "\<forall>i inbound c. find_inbound demo_grpc ''vless-grpc'' = Inr (i, inbound) \<and> inbound_client_id inbound = Inr c
      \<longrightarrow> plain_text (py_str c)"
    using demo_grpc_inbound by auto
  show ?thesis
    using share_uri_trust [OF demo_grpc_uris _ _ _ id] by (auto simp: pin)
qed

text \<open>
  A share URI points at the host it was built for and, unless the profile advertises a
  public port, at the very port the server listens on.
\<close>

theorem share_uri_endpoint:
  assumes "build_share_uris r p config_data host pk fp tag secure pp = Inr uris"
  shows "\<exists>scheme who port params. uris = [share_uri scheme who host port params (share_label p)]
    \<and> (if truthy_port pp then Inr (the pp) else listening_port p config_data tag) = Inr port"
proof (cases "p = HYSTERIA2")
  case True
  with assms show ?thesis
    by (force simp: build_share_uris_def build_hysteria2_uri_def quote_json_Inr bindR_eq_Inr Let_def
        listening_port_def)
next
  case False
  show ?thesis
    by (rule build_share_uris_vless [OF assms False])
      (use False in \<open>auto simp: listening_port_def split: if_splits\<close>)
qed

theorem share_uri_endpoint_witness:
  "\<exists>scheme who port params.
     [share_uri ''vless'' ''c1'' ''h'' 8443
       [''type=grpc'', ''security=tls'', ''serviceName=Api'', ''fp=chrome'', ''sni=ya.ru'', ''pcs=A1B2''] ''gRPC-Dynamic'']
       = [share_uri scheme who ''h'' port params (share_label XRAY_GRPC)]
     \<and> listening_port XRAY_GRPC demo_grpc ''vless-grpc'' = Inr port"
  using share_uri_endpoint [OF demo_grpc_uris] by (simp add: truthy_port_def)

end
