(* ===== verification/Tls_Material.thy ===== *)
theory Tls_Material
  imports Domain
begin

text \<open>
  \<open>crypto_utils.py\<close> and the TLS part of \<open>config_builder.py\<close> under
  \<open>panel/infrastructure/vpn\<close>: tokens and keys, the choice between external, reused and
  freshly minted certificates. The X.509 and X25519 operations of the cryptography library, and the
  files of the host, are arguments.
\<close>

section \<open>The library and the host\<close>

record x509_lib =
  mint :: "nat \<Rightarrow> string list \<Rightarrow> exn + string \<times> string"
  cert_fingerprint :: "string \<Rightarrow> exn + string"
  cert_sans :: "string \<Rightarrow> string list option"
  cert_public_key :: "string \<Rightarrow> string option"
  key_public_key :: "string \<Rightarrow> string option"
  x25519_pair :: "nat \<Rightarrow> nat list \<times> nat list"

record host_files =
  is_file :: "string \<Rightarrow> exn + bool"
  read_text :: "string \<Rightarrow> exn + string"

section \<open>Tokens\<close>

definition b64url_char :: "nat \<Rightarrow> char" where
  "b64url_char d = char_of (if d < 26 then 65 + d else if d < 52 then 71 + d else if d < 62 then d - 4
     else if d = 62 then 45 else 95)"

text \<open>\<open>base64.urlsafe_b64encode\<close> on a list of bytes.\<close>

fun b64url :: "nat list \<Rightarrow> string" where
  "b64url [] = []"
| "b64url [a] = [b64url_char (a div 4), b64url_char (a mod 4 * 16), CHR ''='', CHR ''='']"
| "b64url [a, b] = [b64url_char (a div 4), b64url_char (a mod 4 * 16 + b div 16), b64url_char (b mod 16 * 4), CHR ''='']"
| "b64url (a # b # c # bytes) =
     [b64url_char (a div 4), b64url_char (a mod 4 * 16 + b div 16), b64url_char (b mod 16 * 4 + c div 64),
      b64url_char (c mod 64)] @ b64url bytes"

definition to_base64 :: "nat list \<Rightarrow> string" where
  "to_base64 bytes = rstrip_char CHR ''='' (b64url bytes)"

text \<open>\<open>secrets.token_urlsafe\<close> and \<open>secrets.token_hex(4)\<close>, on the bytes drawn.\<close>

definition generate_token :: "nat list \<Rightarrow> string" where
  "generate_token bytes = to_base64 bytes"

definition token_hex4 :: "nat \<Rightarrow> string" where
  "token_hex4 n = hex_digits 8 (n mod 2 ^ 32)"

section \<open>Certificates\<close>

definition generate_self_signed_cert :: "x509_lib \<Rightarrow> nat \<Rightarrow> string list \<Rightarrow> exn + string \<times> string \<times> string" where
  "generate_self_signed_cert x r dns_names =
     (let names = map strip (filter (\<lambda>n. n \<noteq> [] \<and> strip n \<noteq> []) dns_names) in
      if names = [] then raise ValueError ''dns_names must contain at least one name for the certificate SAN''
      else bindR (mint x r names) (\<lambda>(private_pem, cert_pem).
           bindR (cert_fingerprint x cert_pem) (\<lambda>fp. Inr (private_pem, cert_pem, fp))))"

definition cert_has_dns_san :: "x509_lib \<Rightarrow> string \<Rightarrow> string option \<Rightarrow> bool" where
  "cert_has_dns_san x cert_pem required_name = (case cert_sans x cert_pem of
     None \<Rightarrow> False
   | Some names \<Rightarrow> (if names = [] then False
       else (case required_name of None \<Rightarrow> True | Some n \<Rightarrow> n \<in> set names)))"

definition cert_matches_private_key :: "x509_lib \<Rightarrow> string \<Rightarrow> string \<Rightarrow> bool" where
  "cert_matches_private_key x cert_pem private_pem =
     (case (cert_public_key x cert_pem, key_public_key x private_pem) of
        (Some a, Some b) \<Rightarrow> a = b | _ \<Rightarrow> False)"

section \<open>What a previous version hands on\<close>

record previous_secrets =
  prev_client_id :: "json option"
  prev_private_key :: "string option"
  prev_public_key :: "string option"
  prev_cert_fingerprint :: "string option"
  prev_password :: "string option"
  prev_obfs_password :: "string option"
  prev_short_ids :: "json list option"
  prev_reality_dest :: "string option"
  prev_reality_server_names :: "json list option"
  prev_xhttp_path :: "string option"
  prev_grpc_service_name :: "string option"
  prev_grpc_sni :: "string option"

definition no_secrets :: previous_secrets where
  "no_secrets = \<lparr>prev_client_id = None, prev_private_key = None, prev_public_key = None,
     prev_cert_fingerprint = None, prev_password = None, prev_obfs_password = None,
     prev_short_ids = None, prev_reality_dest = None, prev_reality_server_names = None,
     prev_xhttp_path = None, prev_grpc_service_name = None, prev_grpc_sni = None\<rparr>"

text \<open>\<open>previous and previous.f\<close> for a string: the value when it is there and not empty.\<close>

definition some_text :: "string option \<Rightarrow> string option" where
  "some_text s = (case s of None \<Rightarrow> None | Some t \<Rightarrow> if t = [] then None else Some t)"

definition previous_text :: "previous_secrets option \<Rightarrow> (previous_secrets \<Rightarrow> string option) \<Rightarrow> string option" where
  "previous_text prev f = (case prev of None \<Rightarrow> None | Some p \<Rightarrow> some_text (f p))"

lemma some_text_Some: "some_text s = Some t \<longleftrightarrow> s = Some t \<and> t \<noteq> []"
  by (auto simp: some_text_def split: option.splits)

lemma previous_text_Some: "previous_text prev f = Some t \<longleftrightarrow> (\<exists>p. prev = Some p \<and> f p = Some t \<and> t \<noteq> [])"
  by (auto simp: previous_text_def some_text_Some split: option.splits)

section \<open>Resolution\<close>

record tls_material =
  tls_private :: string
  tls_cert :: string
  tls_fingerprint :: string
  tls_cert_path :: string
  tls_key_path :: string
  tls_extra :: "(string \<times> string) list"

text \<open>
  \<open>_load_external_tls\<close>: any \<open>OSError\<close> of the two files is reported as a
  \<open>PermissionError\<close>.
\<close>

definition read_pair :: "host_files \<Rightarrow> string \<Rightarrow> string \<Rightarrow> exn + (string \<times> string) option" where
  "read_pair fs cert_path key_path =
     bindR (is_file fs cert_path) (\<lambda>b1.
     bindR (if b1 then is_file fs key_path else Inr False) (\<lambda>b2.
     if \<not> b2 then Inr None
     else bindR (read_text fs cert_path) (\<lambda>cert_pem.
          bindR (read_text fs key_path) (\<lambda>private_pem. Inr (Some (cert_pem, private_pem))))))"

definition load_external_tls :: "x509_lib \<Rightarrow> host_files \<Rightarrow> vpn_profile_settings \<Rightarrow> exn + tls_material option" where
  "load_external_tls x fs ps = (case (tls_cert_file ps, tls_key_file ps) of
     (Some cert_path, Some key_path) \<Rightarrow>
       (case read_pair fs cert_path key_path of
          Inl e \<Rightarrow> if caught_by [OSError] e then raise PermissionError '''' else Inl e
        | Inr None \<Rightarrow> Inr None
        | Inr (Some (cert_pem, private_pem)) \<Rightarrow>
            if \<not> cert_matches_private_key x cert_pem private_pem then Inr None
            else bindR (cert_fingerprint x cert_pem) (\<lambda>fp.
                 Inr (Some \<lparr>tls_private = private_pem, tls_cert = cert_pem, tls_fingerprint = fp,
                   tls_cert_path = cert_path, tls_key_path = key_path, tls_extra = []\<rparr>)))
   | _ \<Rightarrow> Inr None)"

definition try_reuse_tls ::
  "x509_lib \<Rightarrow> previous_secrets option \<Rightarrow> string \<Rightarrow> (string \<times> string \<times> string) option" where
  "try_reuse_tls x prev primary =
     (case (previous_text prev prev_private_key, previous_text prev prev_public_key,
            previous_text prev prev_cert_fingerprint) of
        (Some k, Some c, Some fp) \<Rightarrow>
          if cert_has_dns_san x c (Some primary) \<and> cert_matches_private_key x c k
          then Some (k, c, fp) else None
      | _ \<Rightarrow> None)"

definition resolve_tls ::
  "x509_lib \<Rightarrow> host_files \<Rightarrow> nat \<Rightarrow> vpn_profile_settings \<Rightarrow> previous_secrets option \<Rightarrow> string list
    \<Rightarrow> bool \<Rightarrow> string \<Rightarrow> exn + tls_material" where
  "resolve_tls x fs r ps prev dns_names rot prefix =
     bindR (if rot then Inr None else load_external_tls x fs ps) (\<lambda>external.
     case external of Some m \<Rightarrow> Inr m
     | None \<Rightarrow>
       (let dir = the_or ''/usr/local/etc/xray/certs'' (cert_dir ps);
            file_prefix = the_or prefix (some_text (cert_prefix ps));
            cert_file = path_join dir (file_prefix @ ''-cert.pem'');
            key_file = path_join dir (file_prefix @ ''-key.pem'');
            material = (\<lambda>k c fp. \<lparr>tls_private = k, tls_cert = c, tls_fingerprint = fp,
               tls_cert_path = cert_file, tls_key_path = key_file, tls_extra = [(''cert'', c), (''key'', k)]\<rparr>)
        in (case (if rot then None else try_reuse_tls x prev (hd dns_names)) of
              Some (k, c, fp) \<Rightarrow> Inr (material k c fp)
            | None \<Rightarrow> bindR (generate_self_signed_cert x r dns_names) (\<lambda>(k, c, fp). Inr (material k c fp)))))"

text \<open>
  What the cryptography library documents of a self-signed certificate: it belongs to the key it
  was made for, and it lists the names asked for.
\<close>

definition mint_ok :: "x509_lib \<Rightarrow> bool" where
  "mint_ok x \<longleftrightarrow> (\<forall>r names k c. mint x r names = Inr (k, c) \<longrightarrow>
     cert_matches_private_key x c k \<and> cert_sans x c = Some names)"

lemma load_external_match:
  "load_external_tls x fs ps = Inr (Some m) \<Longrightarrow>
   cert_matches_private_key x (tls_cert m) (tls_private m) \<and> tls_extra m = []
   \<and> tls_cert_file ps = Some (tls_cert_path m) \<and> tls_key_file ps = Some (tls_key_path m)
   \<and> read_text fs (tls_cert_path m) = Inr (tls_cert m) \<and> read_text fs (tls_key_path m) = Inr (tls_private m)"
  by (auto simp: load_external_tls_def read_pair_def bindR_eq_Inr split: option.splits sum.splits if_splits)

lemma try_reuse_match:
  "try_reuse_tls x prev n = Some (k, c, fp) \<Longrightarrow>
   cert_matches_private_key x c k \<and> cert_has_dns_san x c (Some n)
   \<and> previous_text prev prev_private_key = Some k \<and> previous_text prev prev_public_key = Some c
   \<and> previous_text prev prev_cert_fingerprint = Some fp"
  by (auto simp: try_reuse_tls_def split: option.splits if_splits)

lemma generate_match:
  "mint_ok x \<Longrightarrow> generate_self_signed_cert x r [n] = Inr (k, c, fp) \<Longrightarrow>
   cert_matches_private_key x c k \<and> cert_has_dns_san x c (Some (strip n))"
  by (auto simp: generate_self_signed_cert_def Let_def bindR_eq_Inr mint_ok_def cert_has_dns_san_def
      split: if_splits)

text \<open>
  C21. The TLS material a build settles on is always a matching pair. With rotation on it is freshly
  minted for the server name; with rotation off it is the profile's external pair, or else a pair
  whose certificate names the server. Files are written exactly when the pair is not external.
\<close>

theorem resolve_tls_match:
  assumes "mint_ok x" "strip n = n" "resolve_tls x fs r ps prev [n] rot prefix = Inr m"
  shows "cert_matches_private_key x (tls_cert m) (tls_private m)
    \<and> (tls_extra m = [] \<and> \<not> rot \<and> tls_cert_file ps = Some (tls_cert_path m)
        \<or> tls_extra m = [(''cert'', tls_cert m), (''key'', tls_private m)]
          \<and> cert_has_dns_san x (tls_cert m) (Some n))
    \<and> (rot \<longrightarrow> generate_self_signed_cert x r [n] = Inr (tls_private m, tls_cert m, tls_fingerprint m))"
proof -
  obtain ext where ext: "(if rot then Inr None else load_external_tls x fs ps) = Inr ext"
    using assms(3) by (auto simp: resolve_tls_def bindR_eq_Inr)
  show ?thesis
  proof (cases ext)
    case (Some m')
    then have "m' = m" "\<not> rot" "load_external_tls x fs ps = Inr (Some m)"
      using assms(3) ext by (auto simp: resolve_tls_def split: if_splits)
    with load_external_match [of x fs ps m] show ?thesis by simp
  next
    case None
    note res = assms(3) [unfolded resolve_tls_def ext None bindR.simps option.case Let_def list.sel(1)]
    show ?thesis
    proof (cases "if rot then None else try_reuse_tls x prev n")
      case (Some kcf)
      then obtain k c fp where "try_reuse_tls x prev n = Some (k, c, fp)" "\<not> rot" "kcf = (k, c, fp)"
        by (cases kcf) (auto split: if_splits)
      with try_reuse_match [OF this(1)] res show ?thesis by auto
    next
      case None
      note res' = res [unfolded None option.case]
      obtain k c fp where "generate_self_signed_cert x r [n] = Inr (k, c, fp)"
        "tls_private m = k" "tls_cert m = c" "tls_fingerprint m = fp" "tls_extra m = [(''cert'', c), (''key'', k)]"
        using res' by (cases "generate_self_signed_cert x r [n]") auto
      with generate_match [OF assms(1) this(1)] assms(2) show ?thesis by simp
    qed
  qed
qed

definition demo_x509 :: x509_lib where
  "demo_x509 = \<lparr>mint = (\<lambda>r names. if names \<noteq> [] \<and> list_all (\<lambda>n. CHR '','' \<notin> set n) names
        then Inr (show_nat r, show_nat r @ '':'' @ join '','' names) else raise ValueError ''''),
     cert_fingerprint = (\<lambda>c. Inr (''fp'' @ c)),
     cert_sans = (\<lambda>c. case dropWhile (\<lambda>x. x \<noteq> CHR '':'') c of [] \<Rightarrow> None | _ # ns \<Rightarrow> Some (split_on CHR '','' ns)),
     cert_public_key = (\<lambda>c. Some (takeWhile (\<lambda>x. x \<noteq> CHR '':'') c)),
     key_public_key = (\<lambda>k. Some k), x25519_pair = (\<lambda>r. ([r], [r]))\<rparr>"

definition empty_profile :: vpn_profile_settings where
  "empty_profile = \<lparr>template_file = ''t.json'', service_name = ''xray'', config_filename = ''config.json'',
     inbound_tag = ''in'', port_candidates = [8443], active_config_path = None, cert_dir = None,
     cert_prefix = None, grpc_sni_hosts = [], grpc_service_names = [], xhttp_paths = [],
     reality_dest_hosts = [], reality_server_names = [], share_public_port = None, profile_share_host = None, listen_address = None,
     nginx_stream_conf = None, nginx_panel_backend = None, tls_cert_file = None, tls_key_file = None\<rparr>"

definition no_files :: host_files where
  "no_files = \<lparr>is_file = (\<lambda>p. Inr False), read_text = (\<lambda>p. raise FileNotFoundError '''')\<rparr>"

lemma demo_x509_ok: "mint_ok demo_x509"
proof -
  have sep: "CHR '':'' \<notin> set (show_nat r)" for r
    by (metis digit_char_plain(4) set_show_nat)
  have tw: "takeWhile (\<lambda>x. x \<noteq> CHR '':'') (show_nat r @ CHR '':'' # ys) = show_nat r"
    and dw: "dropWhile (\<lambda>x. x \<noteq> CHR '':'') (show_nat r @ CHR '':'' # ys) = CHR '':'' # ys" for r ys
    using sep [of r] by (auto simp: takeWhile_append dropWhile_append)
  show ?thesis unfolding mint_ok_def
  proof (intro allI impI)
    fix r names k c
    assume "mint demo_x509 r names = Inr (k, c)"
    then have m: "names \<noteq> []" "\<forall>n\<in>set names. CHR '','' \<notin> set n" "k = show_nat r"
      "c = show_nat r @ CHR '':'' # join '','' names"
      by (auto simp: demo_x509_def list_all_iff split: if_splits)
    have "split_on CHR '','' (join '','' names) = names"
      using m(1,2) by (intro split_on_join) auto
    then show "cert_matches_private_key demo_x509 c k \<and> cert_sans demo_x509 c = Some names"
      by (simp add: m(3,4) cert_matches_private_key_def demo_x509_def tw dw)
  qed
qed

theorem resolve_tls_match_witness:
  "cert_matches_private_key demo_x509 ''5:a.b'' ''5''"
proof -
  have run: "resolve_tls demo_x509 no_files 5 empty_profile None [''a.b''] True ''grpc'' =
    Inr \<lparr>tls_private = ''5'', tls_cert = ''5:a.b'', tls_fingerprint = ''fp5:a.b'',
      tls_cert_path = ''/usr/local/etc/xray/certs/grpc-cert.pem'',
      tls_key_path = ''/usr/local/etc/xray/certs/grpc-key.pem'',
      tls_extra = [(''cert'', ''5:a.b''), (''key'', ''5'')]\<rparr>"
    by code_simp
  have "strip ''a.b'' = ''a.b''" by code_simp
  from resolve_tls_match [OF demo_x509_ok this run] show ?thesis by simp
qed

end
