(* ===== verification/Config_Builder.thy ===== *)
theory Config_Builder
  imports Port_Picker Client_Uri Tls_Material
begin

text \<open>
  \<open>ProfileConfigBuilder\<close> of \<open>config_builder.py\<close> and the template loader under
  \<open>panel/infrastructure/vpn\<close>: the configuration built for each profile, what regeneration
  keeps of the previous version, and which fields are secret. The code changes the template in place
  through references; each step here returns the changed document. Randomness is a record of draws.
\<close>

section \<open>Environment\<close>

record draws =
  d_port :: nat
  d_client_id :: uuid
  d_x25519 :: nat
  d_short_id_1 :: nat
  d_short_id_2 :: nat
  d_short_id_3 :: nat
  d_dest :: nat
  d_sni :: nat
  d_service :: nat
  d_path :: nat
  d_cert :: nat
  d_auth :: "nat list"
  d_obfs :: "nat list"

record build_env =
  env_draws :: draws
  env_x509 :: x509_lib
  env_files :: host_files
  env_json_loads :: "string \<Rightarrow> exn + json"
  env_yaml_load :: "string \<Rightarrow> exn + json"
  env_can_bind :: "bool \<Rightarrow> int \<Rightarrow> bool"

record build_result =
  br_config :: json
  br_port :: int
  br_private_key :: string
  br_public_key :: string
  br_fingerprint :: string
  br_client_id :: "json option"
  br_extra_files :: "(string \<times> string) list"

section \<open>Templates\<close>

text \<open>\<open>path.suffix\<close>.\<close>

definition path_suffix :: "string \<Rightarrow> string" where
  "path_suffix p = (let name = last (split_on CHR ''/'' p); ext = takeWhile (\<lambda>c. c \<noteq> CHR ''.'') (rev name) in
     if ext \<noteq> [] \<and> length ext + 1 < length name then CHR ''.'' # rev ext else [])"

definition resolve_template_path :: "build_env \<Rightarrow> panel_settings \<Rightarrow> string \<Rightarrow> exn + string" where
  "resolve_template_path env st template =
     bindR (is_file (env_files env) template) (\<lambda>here.
     if here then Inr template
     else let candidate = path_join (paths_templates st) template in
       bindR (is_file (env_files env) candidate) (\<lambda>there.
       if there then Inr candidate
       else raise FileNotFoundError (''Template not found: '' @ template @ '' (looked in '' @ paths_templates st @ '')'')))"

definition load_template :: "build_env \<Rightarrow> string \<Rightarrow> exn + json" where
  "load_template env path =
     bindR (read_text (env_files env) path) (\<lambda>text.
     bindR (if path_suffix path \<in> {''.yaml'', ''.yml''} then env_yaml_load env text else env_json_loads env text) (\<lambda>data.
     if is_jdict data then Inr data else raise ValueError (''Template must be a mapping: '' @ path)))"

text \<open>Changing the inbound at a position, and \<open>set_client_id\<close>.\<close>

definition upd_inbound :: "nat \<Rightarrow> (json \<Rightarrow> exn + json) \<Rightarrow> json \<Rightarrow> exn + json" where
  "upd_inbound i f config = jupd ''inbounds'' (jupd_index i f) config"

fun jset_each :: "string \<Rightarrow> json \<Rightarrow> json list \<Rightarrow> exn + json list" where
  "jset_each k v [] = Inr []"
| "jset_each k v (x # xs) = bindR (jset k v x) (\<lambda>x'. bindR (jset_each k v xs) (\<lambda>xs'. Inr (x' # xs')))"

definition set_clients_id :: "json \<Rightarrow> json \<Rightarrow> exn + json" where
  "set_clients_id client_id inbound =
     bindR (jget inbound ''settings'' (JDict [])) (\<lambda>settings.
     bindR (jget settings ''clients'' (JList [])) (\<lambda>clients.
     bindR (jiter clients) (\<lambda>cs.
     bindR (jset_each ''id'' client_id cs) (\<lambda>cs'.
     if cs = [] then Inr inbound
     else jupd ''settings'' (jset ''clients'' (JList cs')) inbound))))"

definition set_client_id :: "json \<Rightarrow> json \<Rightarrow> string \<Rightarrow> exn + json" where
  "set_client_id config client_id tag =
     bindR (find_inbound config tag) (\<lambda>(i, inbound). upd_inbound i (set_clients_id client_id) config)"

section \<open>Names\<close>

text \<open>The first candidate that is not blank, for TLS names and for share hosts.\<close>

fun first_nonblank :: "string option list \<Rightarrow> string" where
  "first_nonblank [] = ''localhost''"
| "first_nonblank (c # cs) = (let v = strip (the_or '''' c) in if v \<noteq> [] then v else first_nonblank cs)"

lemma strip_first_nonblank: "strip (first_nonblank cs) = first_nonblank cs"
  by (induction cs rule: first_nonblank.induct) (simp_all add: Let_def, code_simp)

definition tls_server_name :: "panel_settings \<Rightarrow> vpn_profile_settings \<Rightarrow> string option \<Rightarrow> string" where
  "tls_server_name st ps share_host = first_nonblank [share_host, profile_share_host ps, Some (public_host st)]"

definition effective_share_host :: "panel_settings \<Rightarrow> vpn_profile_settings \<Rightarrow> string option \<Rightarrow> string" where
  "effective_share_host st ps share_host = first_nonblank [share_host, profile_share_host ps, Some (public_host st)]"

section \<open>Parts the builders share\<close>

definition set_listen :: "vpn_profile_settings \<Rightarrow> json \<Rightarrow> exn + json" where
  "set_listen ps inbound = (case some_text (listen_address ps) of
     None \<Rightarrow> Inr inbound | Some l \<Rightarrow> jset ''listen'' (JStr l) inbound)"

definition pick_client_id :: "draws \<Rightarrow> previous_secrets option \<Rightarrow> bool \<Rightarrow> json" where
  "pick_client_id d prev rot = (case Option.bind prev prev_client_id of
     Some c \<Rightarrow> if truthy c \<and> \<not> rot then c else JStr (uuid_str (d_client_id d))
   | None \<Rightarrow> JStr (uuid_str (d_client_id d)))"

definition reality_keys :: "build_env \<Rightarrow> previous_secrets option \<Rightarrow> bool \<Rightarrow> string \<times> string" where
  "reality_keys env prev rot =
     (case (previous_text prev prev_private_key, previous_text prev prev_public_key, rot) of
        (Some k, Some pk, False) \<Rightarrow> (k, pk)
      | _ \<Rightarrow> (let (k, pk) = x25519_pair (env_x509 env) (d_x25519 (env_draws env)) in (to_base64 k, to_base64 pk)))"

definition reality_short_ids :: "draws \<Rightarrow> previous_secrets option \<Rightarrow> bool \<Rightarrow> json list" where
  "reality_short_ids d prev rot =
     (let fresh = [JStr (token_hex4 (d_short_id_1 d)), JStr (token_hex4 (d_short_id_2 d)),
                   JStr (token_hex4 (d_short_id_3 d))] in
      case Option.bind prev prev_short_ids of
        Some ids \<Rightarrow> if ids \<noteq> [] \<and> \<not> rot then ids else fresh
      | None \<Rightarrow> fresh)"

text \<open>\<open>dest_host = dest_hostname(...)\<close>; \<open>if dest_host: reality["serverNames"] = [dest_host]\<close>.\<close>

definition server_names_from_dest :: "json \<Rightarrow> exn + json" where
  "server_names_from_dest reality =
     bindR (jget reality ''dest'' JNull) (\<lambda>dest.
     let h = dest_hostname (py_str (jor dest (JStr ''''))) in
     if h \<noteq> [] then jset ''serverNames'' (JList [JStr h]) reality else Inr reality)"

definition set_dest :: "draws \<Rightarrow> vpn_profile_settings \<Rightarrow> previous_secrets option \<Rightarrow> bool \<Rightarrow> json \<Rightarrow> exn + json" where
  "set_dest d ps prev rot reality =
     (case (previous_text prev prev_reality_dest, rot) of
        (Some dest, False) \<Rightarrow>
          bindR (jset ''dest'' (JStr dest) reality) (\<lambda>reality.
          case Option.bind prev prev_reality_server_names of
            Some names \<Rightarrow> if names \<noteq> [] then jset ''serverNames'' (JList names) reality
                          else server_names_from_dest reality
          | None \<Rightarrow> server_names_from_dest reality)
      | _ \<Rightarrow>
          bindR (if reality_dest_hosts ps \<noteq> []
                 then bindR (random_choice (d_dest d) (reality_dest_hosts ps)) (\<lambda>h. jset ''dest'' (JStr h) reality)
                 else Inr reality) server_names_from_dest)"

definition set_reality ::
  "draws \<Rightarrow> vpn_profile_settings \<Rightarrow> previous_secrets option \<Rightarrow> regenerate_policy \<Rightarrow> string \<Rightarrow> json \<Rightarrow> exn + json" where
  "set_reality d ps prev pol private_key reality =
     bindR (jset ''shortIds'' (JList (reality_short_ids d prev (rotate_short_ids pol))) reality) (\<lambda>reality.
     bindR (jset ''privateKey'' (JStr private_key) reality) (\<lambda>reality.
     set_dest d ps prev (rotate_dest pol) reality))"

section \<open>The four builders\<close>

definition build_xray_reality ::
  "build_env \<Rightarrow> vpn_profile_settings \<Rightarrow> json \<Rightarrow> previous_secrets option \<Rightarrow> int list \<Rightarrow> int option
    \<Rightarrow> regenerate_policy \<Rightarrow> exn + build_result" where
  "build_xray_reality env ps config prev exclude preferred pol =
     (let d = env_draws env; tag = inbound_tag ps in
     bindR (pick_port (env_can_bind env) (d_port d) (port_candidates ps) exclude False preferred) (\<lambda>port.
     bindR (find_inbound config tag) (\<lambda>(i, _).
     bindR (upd_inbound i (jset ''port'' (JInt port)) config) (\<lambda>config.
     bindR (upd_inbound i (set_listen ps) config) (\<lambda>config.
     let client_id = pick_client_id d prev (rotate_client_id pol);
         (private_key, public_key) = reality_keys env prev (rotate_reality_keys pol) in
     bindR (upd_inbound i (jupd ''streamSettings'' (jupd ''realitySettings''
        (set_reality d ps prev pol private_key))) config) (\<lambda>config.
     bindR (set_client_id config client_id tag) (\<lambda>config.
     Inr \<lparr>br_config = config, br_port = port, br_private_key = private_key, br_public_key = public_key,
       br_fingerprint = '''', br_client_id = Some client_id, br_extra_files = []\<rparr>)))))))"

definition json_in :: "json \<Rightarrow> string list \<Rightarrow> bool" where
  "json_in v xs = (case v of JStr s \<Rightarrow> s \<in> set xs | _ \<Rightarrow> False)"

text \<open>The server name of a gRPC build, and the TLS settings that go with it.\<close>

definition set_grpc_tls ::
  "draws \<Rightarrow> panel_settings \<Rightarrow> vpn_profile_settings \<Rightarrow> previous_secrets option \<Rightarrow> json \<Rightarrow> string option
    \<Rightarrow> json \<Rightarrow> exn + json" where
  "set_grpc_tls d st ps prev preferred_sni share_host tls =
     bindR (jset ''alpn'' (JList [JStr ''h2'']) tls) (\<lambda>tls.
     bindR (jpop ''fingerprint'' tls) (\<lambda>tls.
     let pinned = strip (the_or '''' (case some_text share_host of None \<Rightarrow> profile_share_host ps | Some h \<Rightarrow> Some h)) in
     if pinned \<noteq> [] then jset ''serverName'' (JStr (tls_server_name st ps share_host)) tls
     else if grpc_sni_hosts ps \<noteq> [] then
       (let keep = jor preferred_sni (opt_json (Option.bind prev prev_grpc_sni)) in
        if truthy keep \<and> json_in keep (grpc_sni_hosts ps) then jset ''serverName'' keep tls
        else bindR (random_choice (d_sni d) (grpc_sni_hosts ps)) (\<lambda>h. jset ''serverName'' (JStr h) tls))
     else Inr tls))"

definition grpc_tls_name :: "panel_settings \<Rightarrow> vpn_profile_settings \<Rightarrow> string option \<Rightarrow> json \<Rightarrow> exn + json" where
  "grpc_tls_name st ps share_host tls =
     (let pinned = strip (the_or '''' (case some_text share_host of None \<Rightarrow> profile_share_host ps | Some h \<Rightarrow> Some h)) in
      if pinned = [] \<and> grpc_sni_hosts ps \<noteq> [] then jitem tls ''serverName''
      else Inr (JStr (tls_server_name st ps share_host)))"

definition set_grpc_service ::
  "draws \<Rightarrow> vpn_profile_settings \<Rightarrow> previous_secrets option \<Rightarrow> json \<Rightarrow> bool \<Rightarrow> json \<Rightarrow> exn + json" where
  "set_grpc_service d ps prev preferred_service rot grpc =
     (if grpc_service_names ps = [] then Inr grpc
      else let keep = jor preferred_service (opt_json (Option.bind prev prev_grpc_service_name)) in
        if \<not> rot \<and> truthy keep \<and> json_in keep (grpc_service_names ps) then jset ''serviceName'' keep grpc
        else bindR (random_choice (d_service d) (grpc_service_names ps)) (\<lambda>s. jset ''serviceName'' (JStr s) grpc))"

definition certificates_json :: "tls_material \<Rightarrow> json" where
  "certificates_json m = JList [JDict [(''certificateFile'', JStr (tls_cert_path m)), (''keyFile'', JStr (tls_key_path m))]]"

definition tls_result :: "json \<Rightarrow> int \<Rightarrow> tls_material \<Rightarrow> json option \<Rightarrow> build_result" where
  "tls_result config port m client_id = \<lparr>br_config = config, br_port = port, br_private_key = tls_private m,
     br_public_key = tls_cert m, br_fingerprint = tls_fingerprint m, br_client_id = client_id,
     br_extra_files = tls_extra m\<rparr>"

text \<open>The names of a certificate are strings; the code gives the TLS name on as it is.\<close>

definition build_xray_grpc ::
  "build_env \<Rightarrow> panel_settings \<Rightarrow> vpn_profile_settings \<Rightarrow> json \<Rightarrow> previous_secrets option \<Rightarrow> int list
    \<Rightarrow> int option \<Rightarrow> json \<Rightarrow> json \<Rightarrow> regenerate_policy \<Rightarrow> string option \<Rightarrow> exn + build_result" where
  "build_xray_grpc env st ps config prev exclude preferred preferred_sni preferred_service pol share_host =
     (let d = env_draws env; tag = inbound_tag ps in
     bindR (pick_port (env_can_bind env) (d_port d) (port_candidates ps) exclude False preferred) (\<lambda>port.
     bindR (find_inbound config tag) (\<lambda>(i, _).
     bindR (upd_inbound i (jset ''port'' (JInt port)) config) (\<lambda>config.
     bindR (upd_inbound i (set_listen ps) config) (\<lambda>config.
     let client_id = pick_client_id d prev (rotate_client_id pol) in
     bindR (set_client_id config client_id tag) (\<lambda>config.
     bindR (upd_inbound i (jupd ''streamSettings'' (jupd ''tlsSettings''
        (set_grpc_tls d st ps prev preferred_sni share_host))) config) (\<lambda>config.
     bindR (find_inbound config tag) (\<lambda>(_, inbound).
     bindR (jitem inbound ''streamSettings'') (\<lambda>stream.
     bindR (jitem stream ''tlsSettings'') (\<lambda>tls.
     bindR (grpc_tls_name st ps share_host tls) (\<lambda>tls_name.
     bindR (upd_inbound i (jupd ''streamSettings'' (jupd ''grpcSettings''
        (set_grpc_service d ps prev preferred_service (rotate_service_name pol)))) config) (\<lambda>config.
     bindR (resolve_tls (env_x509 env) (env_files env) (d_cert d) ps prev [py_str tls_name] (rotate_tls pol) ''grpc'') (\<lambda>m.
     bindR (upd_inbound i (jupd ''streamSettings'' (jupd ''tlsSettings''
        (jset ''certificates'' (certificates_json m)))) config) (\<lambda>config.
     Inr (tls_result config port m (Some client_id))))))))))))))))"

definition set_xhttp_path :: "draws \<Rightarrow> vpn_profile_settings \<Rightarrow> previous_secrets option \<Rightarrow> bool \<Rightarrow> json \<Rightarrow> exn + json" where
  "set_xhttp_path d ps prev rot xhttp = (case (previous_text prev prev_xhttp_path, rot) of
     (Some path, False) \<Rightarrow> jset ''path'' (JStr path) xhttp
   | _ \<Rightarrow> if xhttp_paths ps \<noteq> []
          then bindR (random_choice (d_path d) (xhttp_paths ps)) (\<lambda>path. jset ''path'' (JStr path) xhttp)
          else Inr xhttp)"

definition build_xray_xhttp ::
  "build_env \<Rightarrow> panel_settings \<Rightarrow> vpn_profile_settings \<Rightarrow> json \<Rightarrow> previous_secrets option \<Rightarrow> int list
    \<Rightarrow> int option \<Rightarrow> regenerate_policy \<Rightarrow> string option \<Rightarrow> exn + build_result" where
  "build_xray_xhttp env st ps config prev exclude preferred pol share_host =
     (let d = env_draws env; tag = inbound_tag ps in
     bindR (pick_port (env_can_bind env) (d_port d) (port_candidates ps) exclude False preferred) (\<lambda>port.
     bindR (find_inbound config tag) (\<lambda>(i, _).
     bindR (upd_inbound i (jset ''port'' (JInt port)) config) (\<lambda>config.
     bindR (upd_inbound i (set_listen ps) config) (\<lambda>config.
     let client_id = pick_client_id d prev (rotate_client_id pol);
         tls_name = tls_server_name st ps share_host in
     bindR (set_client_id config client_id tag) (\<lambda>config.
     bindR (upd_inbound i (jupd ''streamSettings'' (\<lambda>stream.
        bindR (jset ''security'' (JStr ''tls'') stream) (\<lambda>stream.
        jupd ''xhttpSettings'' (\<lambda>xhttp.
          bindR (jset ''host'' (JStr tls_name) xhttp) (\<lambda>xhttp.
          bindR (jset ''mode'' (JStr ''stream-up'') xhttp) (\<lambda>xhttp.
          set_xhttp_path d ps prev (rotate_path pol) xhttp))) stream))) config) (\<lambda>config.
     bindR (resolve_tls (env_x509 env) (env_files env) (d_cert d) ps prev [tls_name] (rotate_tls pol) ''xhttp'') (\<lambda>m.
     bindR (upd_inbound i (jupd ''streamSettings'' (jset ''tlsSettings'' (JDict
        [(''serverName'', JStr tls_name), (''alpn'', JList [JStr ''h2'', JStr ''http/1.1'']),
         (''certificates'', certificates_json m)]))) config) (\<lambda>config.
     Inr (tls_result config port m (Some client_id)))))))))))"

definition keep_or_token :: "previous_secrets option \<Rightarrow> (previous_secrets \<Rightarrow> string option) \<Rightarrow> bool \<Rightarrow> nat list \<Rightarrow> string" where
  "keep_or_token prev f rot bytes = (case (previous_text prev f, rot) of
     (Some s, False) \<Rightarrow> s | _ \<Rightarrow> generate_token bytes)"

definition build_hysteria2 ::
  "build_env \<Rightarrow> panel_settings \<Rightarrow> vpn_profile_settings \<Rightarrow> json \<Rightarrow> previous_secrets option \<Rightarrow> int list
    \<Rightarrow> int option \<Rightarrow> regenerate_policy \<Rightarrow> string option \<Rightarrow> exn + build_result" where
  "build_hysteria2 env st ps config prev exclude preferred pol share_host =
     (let d = env_draws env;
          blocked = exclude @ [server_port st];
          preferred = (if preferred = None \<and> preferred_in (share_public_port ps) (port_candidates ps)
                       then share_public_port ps else preferred) in
     bindR (pick_port (env_can_bind env) (d_port d) (port_candidates ps) blocked True preferred) (\<lambda>port.
     let password = keep_or_token prev prev_password (rotate_auth pol) (d_auth d);
         obfs_password = keep_or_token prev prev_obfs_password (rotate_obfs pol) (d_obfs d);
         tls_name = tls_server_name st ps share_host in
     bindR (resolve_tls (env_x509 env) (env_files env) (d_cert d) ps prev [tls_name] (rotate_tls pol) ''hysteria'') (\<lambda>m.
     bindR (jset ''listen'' (JStr ('':'' @ show_int port)) config) (\<lambda>config.
     bindR (jupd ''auth'' (jset ''password'' (JStr password)) config) (\<lambda>config.
     bindR (jupd ''tls'' (jset ''cert'' (JStr (tls_cert_path m))) config) (\<lambda>config.
     bindR (jupd ''tls'' (jset ''key'' (JStr (tls_key_path m))) config) (\<lambda>config.
     bindR (jupd ''tls'' (jset ''sni'' (JStr tls_name)) config) (\<lambda>config.
     bindR (jset ''obfs'' (JDict [(''type'', JStr ''salamander''),
        (''salamander'', JDict [(''password'', JStr obfs_password)])]) config) (\<lambda>config.
     Inr (tls_result config port m None))))))))))"

section \<open>The builder\<close>

definition build ::
  "build_env \<Rightarrow> panel_settings \<Rightarrow> config_profile \<Rightarrow> previous_secrets option \<Rightarrow> int list \<Rightarrow> int option
    \<Rightarrow> json \<Rightarrow> json \<Rightarrow> regenerate_policy option \<Rightarrow> string option \<Rightarrow> exn + build_result" where
  "build env st p prev exclude preferred preferred_sni preferred_service policy share_host =
     bindR (profile_settings_of st p) (\<lambda>ps.
     bindR (resolve_template_path env st (template_file ps)) (\<lambda>path.
     bindR (load_template env path) (\<lambda>config.
     let pol = the_or (for_profile p (Some ps)) policy;
         host = stored_share_host share_host in
     case p of
       XRAY_REALITY \<Rightarrow> build_xray_reality env ps config prev exclude preferred pol
     | XRAY_GRPC \<Rightarrow> build_xray_grpc env st ps config prev exclude preferred preferred_sni preferred_service pol host
     | XRAY_XHTTP \<Rightarrow> build_xray_xhttp env st ps config prev exclude preferred pol host
     | HYSTERIA2 \<Rightarrow> build_hysteria2 env st ps config prev exclude preferred pol host)))"

fun sensitive_fields :: "config_profile \<Rightarrow> string list" where
  "sensitive_fields HYSTERIA2 = [''auth.password'', ''obfs.salamander.password'']"
| "sensitive_fields XRAY_REALITY = [''inbounds.0.streamSettings.realitySettings.privateKey'']"
| "sensitive_fields XRAY_GRPC = []"
| "sensitive_fields XRAY_XHTTP = []"

definition build_client_uris ::
  "nat \<Rightarrow> panel_settings \<Rightarrow> config_profile \<Rightarrow> json \<Rightarrow> string \<Rightarrow> string \<Rightarrow> bool \<Rightarrow> string option
    \<Rightarrow> exn + string list" where
  "build_client_uris r st p config_data public_key fp secure share_host =
     bindR (profile_settings_of st p) (\<lambda>ps.
     build_share_uris r p config_data (effective_share_host st ps share_host) public_key fp
       (inbound_tag ps) secure (share_public_port ps))"

section \<open>Secrets of the previous version\<close>

record inbound_scan =
  sc_client_id :: "json option"
  sc_short_ids :: "json list option"
  sc_dest :: "string option"
  sc_server_names :: "json list option"
  sc_path :: "string option"
  sc_service :: "string option"
  sc_sni :: "string option"

definition empty_scan :: inbound_scan where
  "empty_scan = \<lparr>sc_client_id = None, sc_short_ids = None, sc_dest = None, sc_server_names = None,
     sc_path = None, sc_service = None, sc_sni = None\<rparr>"

text \<open>\<open>x.get(k) or {}\<close>.\<close>

definition jget_dict :: "json \<Rightarrow> string \<Rightarrow> exn + json" where
  "jget_dict x k = bindR (jget x k JNull) (\<lambda>v. Inr (jor v (JDict [])))"

definition get_text :: "json \<Rightarrow> string \<Rightarrow> string option \<Rightarrow> exn + string option" where
  "get_text x k old = bindR (jget x k JNull) (\<lambda>v. Inr (if truthy v then Some (py_str v) else old))"

definition get_list :: "json \<Rightarrow> string \<Rightarrow> json list option \<Rightarrow> exn + json list option" where
  "get_list x k old = bindR (jget x k JNull) (\<lambda>v.
     if truthy v then bindR (jiter v) (\<lambda>xs. Inr (Some xs)) else Inr old)"

definition scan_client :: "json \<Rightarrow> json option \<Rightarrow> exn + json option" where
  "scan_client inbound old =
     bindR (jget inbound ''settings'' (JDict [])) (\<lambda>settings.
     bindR (jget settings ''clients'' (JList [])) (\<lambda>clients.
     if truthy clients then
       bindR (jindex clients 0) (\<lambda>c.
       bindR (jget c ''id'' JNull) (\<lambda>cid. Inr (if truthy cid \<and> old = None then Some cid else old)))
     else Inr old))"

definition scan_inbound :: "json \<Rightarrow> inbound_scan \<Rightarrow> exn + inbound_scan" where
  "scan_inbound inbound sc =
     bindR (scan_client inbound (sc_client_id sc)) (\<lambda>cid.
     bindR (jget_dict inbound ''streamSettings'') (\<lambda>stream.
     bindR (jget_dict stream ''realitySettings'') (\<lambda>reality.
     bindR (get_list reality ''shortIds'' (sc_short_ids sc)) (\<lambda>ids.
     bindR (get_text reality ''dest'' (sc_dest sc)) (\<lambda>dest.
     bindR (get_list reality ''serverNames'' (sc_server_names sc)) (\<lambda>names.
     bindR (jget_dict stream ''xhttpSettings'') (\<lambda>xhttp.
     bindR (get_text xhttp ''path'' (sc_path sc)) (\<lambda>path.
     bindR (jget_dict stream ''grpcSettings'') (\<lambda>grpc.
     bindR (get_text grpc ''serviceName'' (sc_service sc)) (\<lambda>service.
     bindR (jget_dict stream ''tlsSettings'') (\<lambda>tls.
     bindR (get_text tls ''serverName'' (sc_sni sc)) (\<lambda>sni.
     Inr \<lparr>sc_client_id = cid, sc_short_ids = ids, sc_dest = dest, sc_server_names = names,
       sc_path = path, sc_service = service, sc_sni = sni\<rparr>))))))))))))"

fun scan_inbounds :: "json list \<Rightarrow> inbound_scan \<Rightarrow> exn + inbound_scan" where
  "scan_inbounds [] sc = Inr sc"
| "scan_inbounds (x # xs) sc = bindR (scan_inbound x sc) (scan_inbounds xs)"

definition hysteria_passwords :: "json \<Rightarrow> exn + string option \<times> string option" where
  "hysteria_passwords config =
     bindR (jget_dict config ''auth'') (\<lambda>auth.
     bindR (jget auth ''password'' JNull) (\<lambda>password.
     bindR (jget_dict config ''obfs'') (\<lambda>obfs.
     bindR (jget_dict obfs ''salamander'') (\<lambda>sal.
     bindR (jget sal ''password'' JNull) (\<lambda>obfs_password.
     Inr (if truthy password then Some (py_str password) else None,
          if truthy obfs_password then Some (py_str obfs_password) else None))))))"

definition previous_for_regenerate ::
  "config_profile \<Rightarrow> json \<Rightarrow> string \<Rightarrow> string \<Rightarrow> string \<Rightarrow> exn + previous_secrets" where
  "previous_for_regenerate p config private_plain public_key fp =
     bindR (jget config ''inbounds'' (JList [])) (\<lambda>v.
     bindR (jiter v) (\<lambda>inbounds.
     bindR (scan_inbounds inbounds empty_scan) (\<lambda>sc.
     case p of
       XRAY_REALITY \<Rightarrow> Inr (no_secrets\<lparr>prev_client_id := sc_client_id sc, prev_private_key := Some private_plain,
         prev_public_key := Some public_key, prev_short_ids := sc_short_ids sc, prev_reality_dest := sc_dest sc,
         prev_reality_server_names := sc_server_names sc\<rparr>)
     | XRAY_GRPC \<Rightarrow> Inr (no_secrets\<lparr>prev_client_id := sc_client_id sc,
         prev_private_key := some_text (Some private_plain), prev_public_key := some_text (Some public_key),
         prev_cert_fingerprint := some_text (Some fp), prev_grpc_service_name := sc_service sc,
         prev_grpc_sni := sc_sni sc\<rparr>)
     | XRAY_XHTTP \<Rightarrow> Inr (no_secrets\<lparr>prev_client_id := sc_client_id sc,
         prev_private_key := some_text (Some private_plain), prev_public_key := some_text (Some public_key),
         prev_cert_fingerprint := some_text (Some fp), prev_xhttp_path := sc_path sc\<rparr>)
     | HYSTERIA2 \<Rightarrow> bindR (hysteria_passwords config) (\<lambda>(password, obfs_password).
         Inr (no_secrets\<lparr>prev_password := password, prev_obfs_password := obfs_password,
           prev_private_key := some_text (Some private_plain), prev_public_key := some_text (Some public_key),
           prev_cert_fingerprint := some_text (Some fp)\<rparr>)))))"

section \<open>Inbounds and the changes made to them\<close>

lemma find_tagged_iff:
  "find_tagged n xs tag = Inr (m, ib) \<longleftrightarrow>
     (\<exists>i. m = n + i \<and> i < length xs \<and> xs ! i = ib \<and> jget ib ''tag'' JNull = Inr (JStr tag)
       \<and> (\<forall>j<i. \<exists>t. jget (xs ! j) ''tag'' JNull = Inr t \<and> t \<noteq> JStr tag))"
proof (induction n xs tag rule: find_tagged.induct)
  case (2 n x rest tag)
  show ?case
  proof (cases "jget x ''tag'' JNull")
    case (Inl e)
    then show ?thesis by (auto simp: nth_Cons' less_Suc_eq_0_disj dest: spec [of _ 0])
  next
    case (Inr t)
    show ?thesis
    proof (cases "t = JStr tag")
      case True
      with Inr show ?thesis by (auto simp: intro: exI [of _ 0] dest: spec [of _ 0])
    next
      case False
      have "(\<exists>i. m = n + i \<and> i < length (x # rest) \<and> (x # rest) ! i = ib \<and> jget ib ''tag'' JNull = Inr (JStr tag)
          \<and> (\<forall>j<i. \<exists>t. jget ((x # rest) ! j) ''tag'' JNull = Inr t \<and> t \<noteq> JStr tag))
        \<longleftrightarrow> (\<exists>i. m = Suc n + i \<and> i < length rest \<and> rest ! i = ib \<and> jget ib ''tag'' JNull = Inr (JStr tag)
          \<and> (\<forall>j<i. \<exists>t. jget (rest ! j) ''tag'' JNull = Inr t \<and> t \<noteq> JStr tag))" (is "?L = ?R")
      proof
        assume ?L
        then obtain i where i: "m = n + i" "i < length (x # rest)" "(x # rest) ! i = ib"
          "jget ib ''tag'' JNull = Inr (JStr tag)"
          "\<forall>j<i. \<exists>t. jget ((x # rest) ! j) ''tag'' JNull = Inr t \<and> t \<noteq> JStr tag" by blast
        then obtain k where k: "i = Suc k" using Inr False by (cases i) auto
        have "\<forall>j<k. \<exists>t. jget (rest ! j) ''tag'' JNull = Inr t \<and> t \<noteq> JStr tag"
          using i(5) k by (auto dest: spec [of _ "Suc _"])
        with i k show ?R by (intro exI [of _ k]) auto
      next
        assume ?R
        then obtain k where "m = Suc n + k" "k < length rest" "rest ! k = ib"
          "jget ib ''tag'' JNull = Inr (JStr tag)"
          "\<forall>j<k. \<exists>t. jget (rest ! j) ''tag'' JNull = Inr t \<and> t \<noteq> JStr tag" by blast
        with Inr False show ?L by (intro exI [of _ "Suc k"]) (auto simp: less_Suc_eq_0_disj)
      qed
      with 2 Inr False show ?thesis by simp
    qed
  qed
qed simp

definition keeps :: "string \<Rightarrow> (json \<Rightarrow> exn + json) \<Rightarrow> bool" where
  "keeps k f \<longleftrightarrow> (\<forall>x x'. f x = Inr x' \<longrightarrow> jitem x' k = jitem x k)"

lemma keeps_Inr [intro]: "keeps k (\<lambda>x. Inr x)"
  by (simp add: keeps_def)

lemma keeps_jset [intro]: "k \<noteq> k' \<Longrightarrow> keeps k (jset k' v)"
  by (auto simp: keeps_def jset_Inr)

lemma keeps_jupd [intro]: "k \<noteq> k' \<Longrightarrow> keeps k (jupd k' f)"
  by (auto simp: keeps_def jitem_jupd_other)

lemma keeps_bind: "keeps k f \<Longrightarrow> (\<And>x. keeps k (g x)) \<Longrightarrow> keeps k (\<lambda>x. bindR (f x) (g x))"
  by (auto simp: keeps_def bindR_eq_Inr)

lemma keeps_if: "(b \<Longrightarrow> keeps k f) \<Longrightarrow> (\<not> b \<Longrightarrow> keeps k g) \<Longrightarrow> keeps k (\<lambda>x. if b then f x else g x)"
  by (auto simp: keeps_def)

lemma jget_tag: "jget x k JNull = Inr (JStr t) \<longleftrightarrow> jitem x k = Inr (JStr t)"
proof (cases x)
  case (JDict d)
  then show ?thesis by (cases "map_of d k") auto
qed auto

lemma find_inbound_iff:
  "find_inbound config tag = Inr (i, ib) \<longleftrightarrow>
     (\<exists>d xs. config = JDict d \<and> map_of d ''inbounds'' = Some (JList xs) \<and> i < length xs \<and> xs ! i = ib
       \<and> jitem ib ''tag'' = Inr (JStr tag)
       \<and> (\<forall>j<i. \<exists>t. jget (xs ! j) ''tag'' JNull = Inr t \<and> t \<noteq> JStr tag))" (is "?L = ?R")
proof
  assume ?L
  then obtain v xs where v: "jget config ''inbounds'' (JList []) = Inr v" "jiter v = Inr xs"
    "find_tagged 0 xs tag = Inr (i, ib)"
    by (auto simp: find_inbound_def bindR_eq_Inr)
  then have f: "i < length xs" "xs ! i = ib" "jitem ib ''tag'' = Inr (JStr tag)"
    "\<forall>j<i. \<exists>t. jget (xs ! j) ''tag'' JNull = Inr t \<and> t \<noteq> JStr tag"
    by (auto simp: find_tagged_iff jget_tag)
  have "\<exists>m. ib = JDict m" using f(3) by (auto simp: jitem_Inr)
  then have "v = JList xs"
    using v(2) f(1,2) by (cases v) (auto split: prod.splits)
  moreover obtain d where "config = JDict d" "v = the_or (JList []) (map_of d ''inbounds'')"
    using v(1) by (auto simp: jget_Inr)
  ultimately show ?R
    using f by (cases "map_of d ''inbounds''") auto
next
  assume ?R
  then show ?L by (auto simp: find_inbound_def find_tagged_iff jget_tag)
qed

text \<open>A change of the inbound that keeps its tag leaves it the one the tag finds.\<close>

lemma upd_inbound_find:
  assumes "find_inbound config tag = Inr (i, ib)" "upd_inbound i f config = Inr config'" "keeps ''tag'' f"
  shows "\<exists>ib'. f ib = Inr ib' \<and> find_inbound config' tag = Inr (i, ib')"
proof -
  obtain d xs where c: "config = JDict d" "map_of d ''inbounds'' = Some (JList xs)" "i < length xs" "xs ! i = ib"
    "jitem ib ''tag'' = Inr (JStr tag)" "\<forall>j<i. \<exists>t. jget (xs ! j) ''tag'' JNull = Inr t \<and> t \<noteq> JStr tag"
    using assms(1) by (auto simp: find_inbound_iff)
  then obtain ib' where f: "f ib = Inr ib'" "config' = JDict (dict_set ''inbounds'' (JList (xs[i := ib'])) d)"
    using assms(2) by (auto simp: upd_inbound_def jupd_Inr jupd_index_def bindR_eq_Inr split: if_splits)
  have "jitem ib' ''tag'' = Inr (JStr tag)"
    using assms(3) f(1) c(5) by (auto simp: keeps_def)
  with c f show ?thesis by (auto simp: find_inbound_iff)
qed

lemma keeps_set_listen: "k \<noteq> ''listen'' \<Longrightarrow> keeps k (set_listen ps)"
  by (auto simp: keeps_def set_listen_def jset_Inr split: option.splits)

lemma keeps_set_clients_id: "k \<noteq> ''settings'' \<Longrightarrow> keeps k (set_clients_id cid)"
  by (auto simp: keeps_def set_clients_id_def bindR_eq_Inr jitem_jupd_other split: if_splits)

lemma set_client_id_find:
  assumes "find_inbound config tag = Inr (i, ib)" "set_client_id config cid tag = Inr config'"
  shows "\<exists>ib'. set_clients_id cid ib = Inr ib' \<and> find_inbound config' tag = Inr (i, ib')"
  using assms upd_inbound_find [OF assms(1) _ keeps_set_clients_id [of "''tag''" cid]]
  by (auto simp: set_client_id_def)



text \<open>The port of the tagged inbound through the steps of a build.\<close>

definition inbound_port :: "json \<Rightarrow> string \<Rightarrow> nat \<Rightarrow> int \<Rightarrow> bool" where
  "inbound_port config tag i p \<longleftrightarrow> (\<exists>ib. find_inbound config tag = Inr (i, ib) \<and> jitem ib ''port'' = Inr (JInt p))"

lemma inbound_port_set:
  "find_inbound config tag = Inr (i, ib) \<Longrightarrow> upd_inbound i (jset ''port'' (JInt p)) config = Inr config' \<Longrightarrow>
   inbound_port config' tag i p"
  using upd_inbound_find [of config tag i ib "jset ''port'' (JInt p)" config', OF _ _ keeps_jset]
  by (fastforce simp: inbound_port_def jset_Inr)

lemma inbound_port_upd:
  "inbound_port config tag i p \<Longrightarrow> upd_inbound i f config = Inr config' \<Longrightarrow> keeps ''tag'' f \<Longrightarrow> keeps ''port'' f \<Longrightarrow>
   inbound_port config' tag i p"
  using upd_inbound_find [of config tag i _ f config'] by (fastforce simp: inbound_port_def keeps_def)

lemma inbound_port_client:
  "inbound_port config tag i p \<Longrightarrow> set_client_id config cid tag = Inr config' \<Longrightarrow> inbound_port config' tag i p"
  using set_client_id_find [of config tag i _ cid config'] keeps_set_clients_id [of "''port''" cid]
  by (fastforce simp: inbound_port_def keeps_def)

lemma inbound_port_listening:
  "inbound_port config tag i p \<Longrightarrow> prof \<noteq> HYSTERIA2 \<Longrightarrow> listening_port prof config tag = Inr p"
  by (auto simp: inbound_port_def listening_port_def)

lemma port_steps:
  "inbound_port config tag i p \<Longrightarrow> upd_inbound i (jupd ''streamSettings'' f) config = Inr config' \<Longrightarrow>
   inbound_port config' tag i p"
  "inbound_port config tag i p \<Longrightarrow> upd_inbound i (set_listen ps) config = Inr config' \<Longrightarrow>
   inbound_port config' tag i p"
  by (erule (1) inbound_port_upd; simp add: keeps_jupd keeps_set_listen)+

lemma build_reality_steps:
  assumes "build_xray_reality env ps config prev ex pref pol = Inr res"
  obtains port i ib c1 c2 c3 c4 where
    "pick_port (env_can_bind env) (d_port (env_draws env)) (port_candidates ps) ex False pref = Inr port"
    "find_inbound config (inbound_tag ps) = Inr (i, ib)" "upd_inbound i (jset ''port'' (JInt port)) config = Inr c1"
    "upd_inbound i (set_listen ps) c1 = Inr c2"
    "upd_inbound i (jupd ''streamSettings'' (jupd ''realitySettings''
        (set_reality (env_draws env) ps prev pol (fst (reality_keys env prev (rotate_reality_keys pol)))))) c2 = Inr c3"
    "set_client_id c3 (pick_client_id (env_draws env) prev (rotate_client_id pol)) (inbound_tag ps) = Inr c4"
    "res = \<lparr>br_config = c4, br_port = port, br_private_key = fst (reality_keys env prev (rotate_reality_keys pol)),
       br_public_key = snd (reality_keys env prev (rotate_reality_keys pol)), br_fingerprint = '''',
       br_client_id = Some (pick_client_id (env_draws env) prev (rotate_client_id pol)), br_extra_files = []\<rparr>"
  using assms unfolding build_xray_reality_def Let_def case_prod_unfold bindR_eq_Inr
  by (elim exE conjE) (metis prod.collapse sum.inject(2))

lemma build_reality_port:
  assumes "build_xray_reality env ps config prev ex pref pol = Inr res"
  shows "\<exists>i. inbound_port (br_config res) (inbound_tag ps) i (br_port res)"
    and "pick_port (env_can_bind env) (d_port (env_draws env)) (port_candidates ps) ex False pref = Inr (br_port res)"
proof -
  obtain port i ib c1 c2 c3 c4 where s:
    "pick_port (env_can_bind env) (d_port (env_draws env)) (port_candidates ps) ex False pref = Inr port"
    "find_inbound config (inbound_tag ps) = Inr (i, ib)" "upd_inbound i (jset ''port'' (JInt port)) config = Inr c1"
    "upd_inbound i (set_listen ps) c1 = Inr c2" "\<exists>f. upd_inbound i (jupd ''streamSettings'' f) c2 = Inr c3"
    "\<exists>cid. set_client_id c3 cid (inbound_tag ps) = Inr c4" "br_config res = c4" "br_port res = port"
    by (rule build_reality_steps [OF assms]) (auto intro: that)
  have "inbound_port c1 (inbound_tag ps) i port" using s(2,3) by (rule inbound_port_set)
  then have "inbound_port c2 (inbound_tag ps) i port" using s(4) by (rule port_steps(2))
  then have "inbound_port c3 (inbound_tag ps) i port" using s(5) port_steps(1) by blast
  then show "\<exists>i. inbound_port (br_config res) (inbound_tag ps) i (br_port res)"
    using s(6-8) inbound_port_client by blast
  show "pick_port (env_can_bind env) (d_port (env_draws env)) (port_candidates ps) ex False pref = Inr (br_port res)"
    using s(1,8) by simp
qed

lemma build_grpc_port:
  assumes "build_xray_grpc env st ps config prev ex pref psni psvc pol host = Inr res"
  shows "(\<exists>i. inbound_port (br_config res) (inbound_tag ps) i (br_port res))
    \<and> pick_port (env_can_bind env) (d_port (env_draws env)) (port_candidates ps) ex False pref = Inr (br_port res)"
proof -
  obtain port i ib c1 c2 c3 c4 c5 c6 m cid f g h where s:
    "pick_port (env_can_bind env) (d_port (env_draws env)) (port_candidates ps) ex False pref = Inr port"
    "find_inbound config (inbound_tag ps) = Inr (i, ib)" "upd_inbound i (jset ''port'' (JInt port)) config = Inr c1"
    "upd_inbound i (set_listen ps) c1 = Inr c2" "set_client_id c2 cid (inbound_tag ps) = Inr c3"
    "upd_inbound i (jupd ''streamSettings'' f) c3 = Inr c4" "upd_inbound i (jupd ''streamSettings'' g) c4 = Inr c5"
    "upd_inbound i (jupd ''streamSettings'' h) c5 = Inr c6" "res = tls_result c6 port m (Some cid)"
    using assms unfolding build_xray_grpc_def Let_def case_prod_unfold bindR_eq_Inr
    by (elim exE conjE) (metis prod.collapse sum.inject(2))
  have "inbound_port c1 (inbound_tag ps) i port" using s(2,3) by (rule inbound_port_set)
  then have "inbound_port c2 (inbound_tag ps) i port" using s(4) by (rule port_steps(2))
  then have "inbound_port c3 (inbound_tag ps) i port" using s(5) by (rule inbound_port_client)
  then have "inbound_port c4 (inbound_tag ps) i port" using s(6) by (rule port_steps(1))
  then have "inbound_port c5 (inbound_tag ps) i port" using s(7) by (rule port_steps(1))
  then have "inbound_port c6 (inbound_tag ps) i port" using s(8) by (rule port_steps(1))
  with s(1,9) show ?thesis by (auto simp: tls_result_def)
qed

lemma build_xhttp_port:
  assumes "build_xray_xhttp env st ps config prev ex pref pol host = Inr res"
  shows "(\<exists>i. inbound_port (br_config res) (inbound_tag ps) i (br_port res))
    \<and> pick_port (env_can_bind env) (d_port (env_draws env)) (port_candidates ps) ex False pref = Inr (br_port res)"
proof -
  obtain port i ib c1 c2 c3 c4 c5 m cid f g where s:
    "pick_port (env_can_bind env) (d_port (env_draws env)) (port_candidates ps) ex False pref = Inr port"
    "find_inbound config (inbound_tag ps) = Inr (i, ib)" "upd_inbound i (jset ''port'' (JInt port)) config = Inr c1"
    "upd_inbound i (set_listen ps) c1 = Inr c2" "set_client_id c2 cid (inbound_tag ps) = Inr c3"
    "upd_inbound i (jupd ''streamSettings'' f) c3 = Inr c4" "upd_inbound i (jupd ''streamSettings'' g) c4 = Inr c5"
    "res = tls_result c5 port m (Some cid)"
    using assms unfolding build_xray_xhttp_def Let_def case_prod_unfold bindR_eq_Inr
    by (elim exE conjE) (metis prod.collapse sum.inject(2))
  have "inbound_port c1 (inbound_tag ps) i port" using s(2,3) by (rule inbound_port_set)
  then have "inbound_port c2 (inbound_tag ps) i port" using s(4) by (rule port_steps(2))
  then have "inbound_port c3 (inbound_tag ps) i port" using s(5) by (rule inbound_port_client)
  then have "inbound_port c4 (inbound_tag ps) i port" using s(6) by (rule port_steps(1))
  then have "inbound_port c5 (inbound_tag ps) i port" using s(7) by (rule port_steps(1))
  with s(1,8) show ?thesis by (auto simp: tls_result_def)
qed

lemma lstrip_colon_show: "lstrip_char CHR '':'' (CHR '':'' # show_int n) = show_int n"
proof -
  obtain c s where c: "show_int n = c # s" by (cases "show_int n") (use show_int_ne in auto)
  have "c \<noteq> CHR '':''"
  proof (cases "c = CHR ''-''")
    case False
    then obtain k where "k < 16" "c = digit_char k" using set_show_int [of c n] c by auto
    then show ?thesis using digit_char_plain(4) by metis
  qed simp
  then show ?thesis by (simp add: lstrip_char_def c)
qed

lemma build_hysteria_steps:
  assumes "build_hysteria2 env st ps config prev ex pref pol host = Inr res"
  obtains port m d auth auth' tls tls' sni where
    "pick_port (env_can_bind env) (d_port (env_draws env)) (port_candidates ps) (ex @ [server_port st]) True
       (if pref = None \<and> preferred_in (share_public_port ps) (port_candidates ps) then share_public_port ps else pref) = Inr port"
    "resolve_tls (env_x509 env) (env_files env) (d_cert (env_draws env)) ps prev [tls_server_name st ps host] (rotate_tls pol) ''hysteria'' = Inr m"
    "br_config res = JDict d" "map_of d ''listen'' = Some (JStr ('':'' @ show_int port))"
    "map_of d ''auth'' = Some auth'" "jset ''password'' (JStr (keep_or_token prev prev_password (rotate_auth pol) (d_auth (env_draws env)))) auth = Inr auth'"
    "map_of d ''tls'' = Some tls'" "jset ''sni'' (JStr (tls_server_name st ps host)) tls = Inr tls'"
    "map_of d ''obfs'' = Some (JDict [(''type'', JStr ''salamander''), (''salamander'',
       JDict [(''password'', JStr (keep_or_token prev prev_obfs_password (rotate_obfs pol) (d_obfs (env_draws env))))])])"
    "br_port res = port" "br_private_key res = tls_private m" "br_public_key res = tls_cert m"
proof -
  obtain port m c1 c2 c3 c4 c5 c6 where s:
    "pick_port (env_can_bind env) (d_port (env_draws env)) (port_candidates ps) (ex @ [server_port st]) True
       (if pref = None \<and> preferred_in (share_public_port ps) (port_candidates ps) then share_public_port ps else pref) = Inr port"
    "resolve_tls (env_x509 env) (env_files env) (d_cert (env_draws env)) ps prev [tls_server_name st ps host] (rotate_tls pol) ''hysteria'' = Inr m"
    "jset ''listen'' (JStr ('':'' @ show_int port)) config = Inr c1"
    "jupd ''auth'' (jset ''password'' (JStr (keep_or_token prev prev_password (rotate_auth pol) (d_auth (env_draws env))))) c1 = Inr c2"
    "jupd ''tls'' (jset ''cert'' (JStr (tls_cert_path m))) c2 = Inr c3"
    "jupd ''tls'' (jset ''key'' (JStr (tls_key_path m))) c3 = Inr c4"
    "jupd ''tls'' (jset ''sni'' (JStr (tls_server_name st ps host))) c4 = Inr c5"
    "jset ''obfs'' (JDict [(''type'', JStr ''salamander''), (''salamander'',
       JDict [(''password'', JStr (keep_or_token prev prev_obfs_password (rotate_obfs pol) (d_obfs (env_draws env))))])]) c5 = Inr c6"
    "res = tls_result c6 port m None"
    using assms unfolding build_hysteria2_def Let_def bindR_eq_Inr
    by (elim exE conjE) (metis sum.inject(2))
  obtain d1 where d1: "c1 = JDict d1" "map_of d1 ''listen'' = Some (JStr ('':'' @ show_int port))"
    using s(3) by (auto simp: jset_Inr)
  obtain d2 auth auth' where d2: "c2 = JDict d2" "d2 = dict_set ''auth'' auth' d1"
    "jset ''password'' (JStr (keep_or_token prev prev_password (rotate_auth pol) (d_auth (env_draws env)))) auth = Inr auth'"
    using s(4) d1 by (auto simp: jupd_Inr)
  obtain d3 tls1 where d3: "c3 = JDict d3" "d3 = dict_set ''tls'' tls1 d2"
    using s(5) d2 by (auto simp: jupd_Inr)
  obtain d4 tls2 where d4: "c4 = JDict d4" "d4 = dict_set ''tls'' tls2 d3"
    using s(6) d3 by (auto simp: jupd_Inr)
  obtain d5 tls tls' where d5: "c5 = JDict d5" "d5 = dict_set ''tls'' tls' d4"
    "jset ''sni'' (JStr (tls_server_name st ps host)) tls = Inr tls'"
    using s(7) d4 by (auto simp: jupd_Inr)
  obtain d where d: "c6 = JDict d" "d = dict_set ''obfs'' (JDict [(''type'', JStr ''salamander''), (''salamander'',
       JDict [(''password'', JStr (keep_or_token prev prev_obfs_password (rotate_obfs pol) (d_obfs (env_draws env))))])]) d5"
    using s(8) d5 by (auto simp: jset_Inr)
  have "map_of d ''listen'' = Some (JStr ('':'' @ show_int port))"
    "map_of d ''auth'' = Some auth'" "map_of d ''tls'' = Some tls'"
    "map_of d ''obfs'' = Some (JDict [(''type'', JStr ''salamander''), (''salamander'',
       JDict [(''password'', JStr (keep_or_token prev prev_obfs_password (rotate_obfs pol) (d_obfs (env_draws env))))])])"
    using d1(2) by (simp_all add: d d5 d4 d3 d2)
  with s(1,2,9) d(1) d2(3) d5(3) that [of port m d auth' auth tls' tls] show ?thesis by (simp add: tls_result_def)
qed

lemma build_hysteria_port:
  assumes "build_hysteria2 env st ps config prev ex pref pol host = Inr res"
  shows "listening_port HYSTERIA2 (br_config res) tag = Inr (br_port res) \<and> br_port res \<in> set (port_candidates ps)"
  by (rule build_hysteria_steps [OF assms])
    (auto simp: listening_port_def hysteria_listen_port_def lstrip_colon_show dest: pick_port_in)

text \<open>
  C20. Whatever the profile, the configuration that a build returns listens on the port the
  build reports, and that port is one of the profile's candidates.
\<close>

theorem build_port:
  assumes "build env st p prev exclude preferred psni psvc policy host = Inr res"
  shows "\<exists>ps. profile_settings_of st p = Inr ps
    \<and> listening_port p (br_config res) (inbound_tag ps) = Inr (br_port res)
    \<and> br_port res \<in> set (port_candidates ps)"
proof -
  obtain ps path config where s: "profile_settings_of st p = Inr ps"
    "(case p of
       XRAY_REALITY \<Rightarrow> build_xray_reality env ps config prev exclude preferred (the_or (for_profile p (Some ps)) policy)
     | XRAY_GRPC \<Rightarrow> build_xray_grpc env st ps config prev exclude preferred psni psvc (the_or (for_profile p (Some ps)) policy) (stored_share_host host)
     | XRAY_XHTTP \<Rightarrow> build_xray_xhttp env st ps config prev exclude preferred (the_or (for_profile p (Some ps)) policy) (stored_share_host host)
     | HYSTERIA2 \<Rightarrow> build_hysteria2 env st ps config prev exclude preferred (the_or (for_profile p (Some ps)) policy) (stored_share_host host)) = Inr res"
    using assms by (auto simp: build_def bindR_eq_Inr Let_def)
  show ?thesis
  proof (cases p)
    case XRAY_REALITY
    with s build_reality_port [of env ps config prev exclude preferred _ res] show ?thesis
      by (auto dest: pick_port_in inbound_port_listening)
  next
    case XRAY_GRPC
    with s build_grpc_port [of env st ps config prev exclude preferred psni psvc _ _ res] show ?thesis
      by (auto dest: pick_port_in inbound_port_listening)
  next
    case XRAY_XHTTP
    with s build_xhttp_port [of env st ps config prev exclude preferred _ _ res] show ?thesis
      by (auto dest: pick_port_in inbound_port_listening)
  next
    case HYSTERIA2
    with s build_hysteria_port [of env st ps config prev exclude preferred _ _ res] show ?thesis by auto
  qed
qed

section \<open>What regeneration keeps\<close>

lemma hysteria_passwords_built:
  assumes "build_hysteria2 env st ps config prev ex pref pol host = Inr res"
  shows "hysteria_passwords (br_config res) =
    (let pw = keep_or_token prev prev_password (rotate_auth pol) (d_auth (env_draws env));
         obfs = keep_or_token prev prev_obfs_password (rotate_obfs pol) (d_obfs (env_draws env))
     in Inr (some_text (Some pw), some_text (Some obfs)))"
proof -
  have dict: "jget_dict (JDict d) k = Inr v" if "map_of d k = Some v" "truthy v" for d k v
    using that by (simp add: jget_dict_def jor_def)
  show ?thesis
    by (rule build_hysteria_steps [OF assms])
      (auto simp: hysteria_passwords_def Let_def dict jset_Inr some_text_def)
qed

text \<open>
  Regenerating a Hysteria2 configuration with the auth rotation off keeps its password, and
  with the obfs rotation off its obfs password: what the next regeneration reads from the new
  document is what was read from the old one.
\<close>

theorem hysteria_regenerate_keeps:
  assumes "previous_for_regenerate HYSTERIA2 old k c fp = Inr prev"
    and "hysteria_passwords old = Inr (Some pw, Some obfs)"
    and "build env st HYSTERIA2 (Some prev) ex pref psni psvc (Some pol) host = Inr res"
  shows "\<exists>pw' obfs'. hysteria_passwords (br_config res) = Inr (pw', obfs')
    \<and> (\<not> rotate_auth pol \<longrightarrow> pw' = Some pw) \<and> (\<not> rotate_obfs pol \<longrightarrow> obfs' = Some obfs)"
proof -
  have prev: "prev_password prev = Some pw" "prev_obfs_password prev = Some obfs"
    using assms(1,2) by (auto simp: previous_for_regenerate_def bindR_eq_Inr no_secrets_def)
  have ne: "pw \<noteq> []" "obfs \<noteq> []"
  proof -
    have str: "truthy v \<Longrightarrow> py_str v \<noteq> []" for v
      by (cases v) (auto simp: py_repr.simps)
    show "pw \<noteq> []" "obfs \<noteq> []"
      using assms(2) by (auto simp: hysteria_passwords_def bindR_eq_Inr str split: if_splits)
  qed
  obtain ps config where b: "build_hysteria2 env st ps config (Some prev) ex pref pol (stored_share_host host) = Inr res"
    using assms(3) by (auto simp: build_def bindR_eq_Inr Let_def)
  show ?thesis
    unfolding hysteria_passwords_built [OF b] Let_def
    using prev ne by (auto simp: keep_or_token_def previous_text_def some_text_def split: bool.splits)
qed

















section \<open>A concrete run\<close>

definition demo_draws :: draws where
  "demo_draws = \<lparr>d_port = 1, d_client_id = 5, d_x25519 = 7, d_short_id_1 = 1, d_short_id_2 = 2,
     d_short_id_3 = 3, d_dest = 0, d_sni = 0,
     d_service = 0, d_path = 0, d_cert = 4, d_auth = [1, 2, 3], d_obfs = [4, 5, 6]\<rparr>"

definition demo_reality :: json where
  "demo_reality = JDict [(''inbounds'', JList [JDict [(''tag'', JStr ''in''), (''port'', JInt 2053),
     (''settings'', JDict [(''clients'', JList [JDict [(''id'', JStr ''old''), (''flow'', JStr ''f'')]])]),
     (''streamSettings'', JDict [(''realitySettings'', JDict [(''dest'', JStr ''ya.ru:443''),
       (''serverNames'', JList [JStr ''ya.ru'']), (''privateKey'', JStr ''k''), (''shortIds'', JList [JStr ''a''])])])]])]"

definition demo_hysteria :: json where
  "demo_hysteria = JDict [(''auth'', JDict [(''password'', JStr ''placeholder'')]), (''listen'', JStr '':8443''),
     (''tls'', JDict [(''sni'', JStr '''')])]"

definition demo_env :: build_env where
  "demo_env = \<lparr>env_draws = demo_draws, env_x509 = demo_x509,
     env_files = \<lparr>is_file = (\<lambda>p. Inr (p = ''t.json'' \<or> p = ''t.yaml'')), read_text = (\<lambda>p. Inr p)\<rparr>,
     env_json_loads = (\<lambda>t. Inr demo_reality), env_yaml_load = (\<lambda>t. Inr demo_hysteria),
     env_can_bind = (\<lambda>udp p. True)\<rparr>"

definition demo_settings :: panel_settings where
  "demo_settings = \<lparr>server_port = 8000, jwt_expire_minutes = 60,
     rate_limit_login = \<lparr>max_attempts = Some 5, max_requests = None, window_seconds = 60\<rparr>,
     rate_limit_share = \<lparr>max_attempts = None, max_requests = Some 30, window_seconds = 60\<rparr>,
     audit_enabled = True, audit_log_failed_login = True, paths_configs = ''/opt/vpn/configs'',
     paths_templates = ''configs'',
     systemd = \<lparr>per_config = False, unit_dir = ''/etc/systemd/system'', service_prefix = ''vpn'',
       xray_binary = ''/usr/local/bin/xray'', hysteria_binary = ''/usr/local/bin/hysteria'',
       xray_config_dir = ''/usr/local/etc/xray/configs'', hysteria_config_dir = ''/usr/local/etc/hysteria/configs'',
       service_ready_timeout_seconds = 30, service_ready_settle_us = 2000000, service_ready_max_wait_seconds = 600\<rparr>,
     public_host = ''vpn.example'', public_host_aliases = [],
     connectivity_probe_enabled = True, connectivity_probe_timeout_us = 12000000, connectivity_probe_cache_seconds = 60,
     connectivity_probe_url = ''https://ya.ru/'',
     profiles = [(''xray-reality'', empty_profile\<lparr>port_candidates := [8443, 2053]\<rparr>),
       (''hysteria2'', empty_profile\<lparr>template_file := ''t.yaml'', port_candidates := [8443, 3478]\<rparr>)]\<rparr>"

theorem build_port_witness:
  "\<exists>res. build demo_env demo_settings XRAY_REALITY None [8443] None JNull JNull None None = Inr res
    \<and> br_port res = 2053 \<and> listening_port XRAY_REALITY (br_config res) ''in'' = Inr 2053"
proof -
  have "map_sum id br_port (build demo_env demo_settings XRAY_REALITY None [8443] None JNull JNull None None) = Inr 2053"
    by code_simp
  then obtain res where res: "build demo_env demo_settings XRAY_REALITY None [8443] None JNull JNull None None = Inr res"
    "br_port res = 2053"
    by (cases "build demo_env demo_settings XRAY_REALITY None [8443] None JNull JNull None None") auto
  have ps: "profile_settings_of demo_settings XRAY_REALITY = Inr (empty_profile\<lparr>port_candidates := [8443, 2053]\<rparr>)"
    by (simp add: profile_settings_of_def demo_settings_def)
  have tag: "inbound_tag (empty_profile\<lparr>port_candidates := [8443, 2053]\<rparr>) = ''in''"
    by (simp add: empty_profile_def)
  show ?thesis using build_port [OF res(1)] res by (auto simp: ps tag)
qed

definition demo_keep :: regenerate_policy where
  "demo_keep = default_policy\<lparr>rotate_client_id := False, rotate_reality_keys := False,
     rotate_short_ids := False, rotate_dest := False\<rparr>"

definition demo_old_hysteria :: json where
  "demo_old_hysteria = JDict [(''auth'', JDict [(''password'', JStr ''pw'')]),
     (''obfs'', JDict [(''salamander'', JDict [(''password'', JStr ''ob'')])])]"

theorem hysteria_regenerate_keeps_witness:
  "\<exists>prev res. previous_for_regenerate HYSTERIA2 demo_old_hysteria ''k'' ''c'' ''fp'' = Inr prev
    \<and> build demo_env demo_settings HYSTERIA2 (Some prev) [] None JNull JNull (Some demo_keep) None = Inr res
    \<and> hysteria_passwords (br_config res) = Inr (Some ''pw'', Some ''ob'')"
proof -
  have "\<not> isl (previous_for_regenerate HYSTERIA2 demo_old_hysteria ''k'' ''c'' ''fp'')" by code_simp
  then obtain prev where p: "previous_for_regenerate HYSTERIA2 demo_old_hysteria ''k'' ''c'' ''fp'' = Inr prev"
    by (cases "previous_for_regenerate HYSTERIA2 demo_old_hysteria ''k'' ''c'' ''fp''") auto
  have pw: "hysteria_passwords demo_old_hysteria = Inr (Some ''pw'', Some ''ob'')" by code_simp
  have "\<not> isl (bindR (previous_for_regenerate HYSTERIA2 demo_old_hysteria ''k'' ''c'' ''fp'') (\<lambda>prev.
    build demo_env demo_settings HYSTERIA2 (Some prev) [] None JNull JNull (Some demo_keep) None))"
    by code_simp
  then obtain res where r: "build demo_env demo_settings HYSTERIA2 (Some prev) [] None JNull JNull (Some demo_keep) None = Inr res"
    unfolding p by (cases "build demo_env demo_settings HYSTERIA2 (Some prev) [] None JNull JNull (Some demo_keep) None") auto
  show ?thesis
    using hysteria_regenerate_keeps [OF p pw r] p r by (auto simp: demo_keep_def default_policy_def)
qed



end
