(* ===== verification/Field_Crypto.thy ===== *)
theory Field_Crypto
  imports Py_Json
begin

text \<open>
  \<open>panel/infrastructure/crypto\<close>: the dotted paths into a configuration, and the loops that
  encrypt and decrypt the sensitive fields of one. Fernet is code of a library: its two functions
  are arguments (encryption takes the randomness of the call, a number, as an argument of its own;
  decryption is \<open>None\<close> on an invalid token).
\<close>

record cipher =
  fernet_encrypt :: "nat \<Rightarrow> string \<Rightarrow> string"
  fernet_decrypt :: "string \<Rightarrow> string option"

text \<open>What Fernet documents: a token decrypts to what was encrypted, and no token is empty.\<close>

definition cipher_ok :: "cipher \<Rightarrow> bool" where
  "cipher_ok c \<longleftrightarrow> (\<forall>r s. fernet_decrypt c (fernet_encrypt c r s) = Some s \<and> fernet_encrypt c r s \<noteq> [])"

definition encryptor_encrypt :: "cipher \<Rightarrow> nat \<Rightarrow> string \<Rightarrow> string" where
  "encryptor_encrypt c r plaintext = fernet_encrypt c r plaintext"

definition encryptor_decrypt :: "cipher \<Rightarrow> string \<Rightarrow> exn + string" where
  "encryptor_decrypt c ciphertext = (case fernet_decrypt c ciphertext of
     None \<Rightarrow> raise ValueError ''Failed to decrypt field'' | Some s \<Rightarrow> Inr s)"

section \<open>Paths\<close>

text \<open>One subscript of the walk: \<open>current[int(part)]\<close> on a list, \<open>current[part]\<close> otherwise.\<close>

definition path_step :: "json \<Rightarrow> string \<Rightarrow> exn + json" where
  "path_step cur part = (case cur of
     JList xs \<Rightarrow> (case py_int 10 part of None \<Rightarrow> raise ValueError '''' | Some i \<Rightarrow> jindex cur i)
   | _ \<Rightarrow> jitem cur part)"

fun get_parts :: "json \<Rightarrow> string list \<Rightarrow> exn + json" where
  "get_parts cur [] = Inr cur"
| "get_parts cur (part # parts) = bindR (path_step cur part) (\<lambda>next. get_parts next parts)"

definition get_by_path :: "json \<Rightarrow> string \<Rightarrow> exn + json" where
  "get_by_path data path = get_parts data (split_on CHR ''.'' path)"

text \<open>\<open>current[int(last)] = value\<close> on a list, \<open>current[last] = value\<close> otherwise.\<close>

definition path_assign :: "json \<Rightarrow> string \<Rightarrow> json \<Rightarrow> exn + json" where
  "path_assign cur part v = (case cur of
     JList xs \<Rightarrow> (case py_int 10 part of
         None \<Rightarrow> raise ValueError ''''
       | Some i \<Rightarrow> (case py_index (length xs) i of
             None \<Rightarrow> raise IndexError '''' | Some n \<Rightarrow> Inr (JList (xs[n := v]))))
   | _ \<Rightarrow> jset part v cur)"

fun set_parts :: "json \<Rightarrow> string list \<Rightarrow> json \<Rightarrow> exn + json" where
  "set_parts cur [] v = Inr cur"
| "set_parts cur [part] v = path_assign cur part v"
| "set_parts cur (part # q # parts) v =
     bindR (path_step cur part) (\<lambda>next.
     bindR (set_parts next (q # parts) v) (\<lambda>next'. path_assign cur part next'))"

definition set_by_path :: "json \<Rightarrow> string \<Rightarrow> json \<Rightarrow> exn + json" where
  "set_by_path data path v = set_parts data (split_on CHR ''.'' path) v"

section \<open>The two loops\<close>

definition path_errors :: "exn_kind list" where
  "path_errors = [KeyError, IndexError, TypeError, ValueError]"

text \<open>One turn of the decryption loop, and the loop.\<close>

definition decrypt_field :: "cipher \<Rightarrow> json \<Rightarrow> string \<Rightarrow> exn + json" where
  "decrypt_field c result path = (case get_by_path result path of
     Inl e \<Rightarrow> (if caught_by path_errors e then Inr result else Inl e)
   | Inr value \<Rightarrow> (case value of
       JStr s \<Rightarrow> (if s \<noteq> [] then bindR (encryptor_decrypt c s) (\<lambda>p. set_by_path result path (JStr p))
                 else Inr result)
     | _ \<Rightarrow> Inr result))"

fun decrypt_config_data_fields :: "cipher \<Rightarrow> json \<Rightarrow> string list \<Rightarrow> exn + json" where
  "decrypt_config_data_fields c result [] = Inr result"
| "decrypt_config_data_fields c result (path # paths) =
     bindR (decrypt_field c result path) (\<lambda>result. decrypt_config_data_fields c result paths)"

text \<open>The encryption loop draws the randomness of each turn from the turn's number \<open>n\<close>.\<close>

definition encrypt_field :: "cipher \<Rightarrow> nat \<Rightarrow> json \<Rightarrow> string \<Rightarrow> exn + json" where
  "encrypt_field c n result path = (case get_by_path result path of
     Inl e \<Rightarrow> (if caught_by path_errors e then Inr result else Inl e)
   | Inr value \<Rightarrow> (case value of
       JStr s \<Rightarrow> (if s \<noteq> [] then set_by_path result path (JStr (encryptor_encrypt c n s))
                 else Inr result)
     | _ \<Rightarrow> Inr result))"

fun encrypt_config_data_fields :: "cipher \<Rightarrow> nat \<Rightarrow> json \<Rightarrow> string list \<Rightarrow> exn + json" where
  "encrypt_config_data_fields c n result [] = Inr result"
| "encrypt_config_data_fields c n result (path # paths) =
     bindR (encrypt_field c n result path) (\<lambda>result. encrypt_config_data_fields c (Suc n) result paths)"

section \<open>Updates at a leaf\<close>

text \<open>
  The walk by positions: the child a part names in a container, if any. An update of the leaf at a
  path changes nothing when the path leads nowhere; both loops are made of such updates.
\<close>

fun children :: "json \<Rightarrow> json list" where
  "children (JList xs) = xs"
| "children (JDict d) = map snd d"
| "children _ = []"

fun put_children :: "json \<Rightarrow> json list \<Rightarrow> json" where
  "put_children (JList xs) ys = JList ys"
| "put_children (JDict d) ys = JDict (zip (map fst d) ys)"
| "put_children v ys = v"

fun key_pos :: "string \<Rightarrow> (string \<times> json) list \<Rightarrow> nat option" where
  "key_pos k [] = None"
| "key_pos k ((k', v) # d) = (if k' = k then Some 0 else map_option Suc (key_pos k d))"

fun child_pos :: "json \<Rightarrow> string \<Rightarrow> nat option" where
  "child_pos (JList xs) part = (case py_int 10 part of None \<Rightarrow> None | Some i \<Rightarrow> py_index (length xs) i)"
| "child_pos (JDict d) part = key_pos part d"
| "child_pos _ part = None"

fun leaf_upd :: "(json \<Rightarrow> exn + json) \<Rightarrow> string list \<Rightarrow> json \<Rightarrow> exn + json" where
  "leaf_upd g [] v = g v"
| "leaf_upd g (part # parts) v = (case child_pos v part of
     None \<Rightarrow> Inr v
   | Some n \<Rightarrow> bindR (leaf_upd g parts (children v ! n)) (\<lambda>c. Inr (put_children v ((children v)[n := c]))))"


fun container :: "json \<Rightarrow> bool" where
  "container (JList xs) = True"
| "container (JDict d) = True"
| "container _ = False"

lemma key_pos_lt: "key_pos k d = Some n \<Longrightarrow> n < length d"
  by (induction k d arbitrary: n rule: key_pos.induct) (auto split: if_splits)

lemma key_pos_map_of: "map_of d k = map_option (\<lambda>n. map snd d ! n) (key_pos k d)"
  by (induction k d rule: key_pos.induct) (auto simp: option.map_comp comp_def)

lemma key_pos_dict_set:
  "key_pos k d = Some n \<Longrightarrow> dict_set k c d = zip (map fst d) ((map snd d)[n := c])"
  by (induction k d arbitrary: n rule: key_pos.induct) (auto simp: zip_map_fst_snd split: if_splits)

lemma key_pos_zip:
  "length ys = length d \<Longrightarrow> key_pos k (zip (map fst d) ys) = key_pos k d"
proof (induction k d arbitrary: ys rule: key_pos.induct)
  case (2 k k' v d)
  then show ?case by (cases ys) auto
qed simp

lemma child_pos_lt: "child_pos v part = Some n \<Longrightarrow> n < length (children v) \<and> container v"
  by (cases v) (auto dest: key_pos_lt py_index_lt split: option.splits)

lemma children_put: "container v \<Longrightarrow> length ys = length (children v) \<Longrightarrow> children (put_children v ys) = ys"
  by (cases v) auto

lemma container_put [simp]: "container (put_children v ys) = container v"
  by (cases v) auto

lemma put_children_put: "length ys = length (children v) \<Longrightarrow> put_children (put_children v ys) zs = put_children v zs"
  by (cases v) auto

lemma put_children_same: "put_children v (children v) = v"
  by (cases v) (auto simp: zip_map_fst_snd)

lemma child_pos_put: "length ys = length (children v) \<Longrightarrow> child_pos (put_children v ys) part = child_pos v part"
  by (cases v) (auto simp: key_pos_zip cong: option.case_cong)

lemma path_step_pos:
  "case child_pos v part of Some n \<Rightarrow> path_step v part = Inr (children v ! n)
   | None \<Rightarrow> (\<exists>e. path_step v part = Inl e \<and> caught_by path_errors e)"
  by (cases v) (auto simp: path_step_def key_pos_map_of path_errors_def caught_by_def exn_subclass_def
      split: option.splits)

lemma path_assign_pos:
  "child_pos v part = Some n \<Longrightarrow> path_assign v part c = Inr (put_children v ((children v)[n := c]))"
  by (cases v) (auto simp: path_assign_def key_pos_dict_set split: option.splits)

text \<open>What the walk of the source finds and assigns, in terms of positions.\<close>

lemma get_parts_leaf:
  "case get_parts v parts of
     Inl e \<Rightarrow> caught_by path_errors e \<and> leaf_upd g parts v = Inr v
   | Inr w \<Rightarrow> (parts \<noteq> [] \<longrightarrow> leaf_upd g parts v = bindR (g w) (set_parts v parts) \<and> set_parts v parts w = Inr v)"
proof (induction parts arbitrary: v)
  case (Cons part parts)
  show ?case
  proof (cases "child_pos v part")
    case None
    with path_step_pos [of v part] show ?thesis by auto
  next
    case (Some n)
    let ?c = "children v ! n"
    have step: "path_step v part = Inr ?c" using path_step_pos [of v part] Some by simp
    have lt: "n < length (children v)" using Some child_pos_lt by blast
    have put: "put_children v ((children v)[n := ?c]) = v"
      by (simp add: put_children_same)
    show ?thesis
    proof (cases parts)
      case Nil
      then show ?thesis
        using Some step put by (cases "g ?c") (simp_all add: path_assign_pos)
    next
      case (Cons q rest)
      show ?thesis
        using Cons.IH [of ?c] Some step put local.Cons
        by (cases "get_parts ?c parts")
          (auto simp: path_assign_pos bindR_assoc intro!: arg_cong [of _ _ "bindR _"] ext)
    qed
  qed
qed simp


definition on_strings :: "(string \<Rightarrow> exn + string) \<Rightarrow> json \<Rightarrow> exn + json" where
  "on_strings f v = (case v of
     JStr s \<Rightarrow> (if s \<noteq> [] then bindR (f s) (\<lambda>p. Inr (JStr p)) else Inr v)
   | _ \<Rightarrow> Inr v)"

lemma decrypt_field_leaf:
  "decrypt_field c v path = leaf_upd (on_strings (encryptor_decrypt c)) (split_on CHR ''.'' path) v"
  using get_parts_leaf [where v = v and parts = "split_on CHR ''.'' path" and g = "on_strings (encryptor_decrypt c)"]
  by (auto simp: decrypt_field_def get_by_path_def set_by_path_def on_strings_def bindR_assoc
      split: sum.splits json.splits)

lemma encrypt_field_leaf:
  "encrypt_field c n v path =
     leaf_upd (on_strings (\<lambda>s. Inr (encryptor_encrypt c n s))) (split_on CHR ''.'' path) v"
  using get_parts_leaf [where v = v and parts = "split_on CHR ''.'' path" and g = "on_strings (\<lambda>s. Inr (encryptor_encrypt c n s))"]
  by (auto simp: encrypt_field_def get_by_path_def set_by_path_def on_strings_def
      split: sum.splits json.splits)

lemma leaf_upd_shape:
  "leaf_upd g parts v = Inr w \<Longrightarrow> container v \<Longrightarrow> (\<And>u. container u \<Longrightarrow> g u = Inr u) \<Longrightarrow> container w"
  by (cases parts) (auto simp: result_simps split: option.splits)

lemma leaf_upd_compose:
  assumes "\<And>v w. f v = Inr w \<Longrightarrow> container v = container w \<and> (container v \<longrightarrow> w = v)"
    and "\<And>v w. f v = Inr w \<Longrightarrow> g w = Inr v"
  shows "leaf_upd f parts v = Inr w \<Longrightarrow> leaf_upd g parts w = Inr v"
proof (induction parts arbitrary: v w)
  case (Cons part parts)
  show ?case
  proof (cases "child_pos v part")
    case (Some n)
    then obtain c where c: "leaf_upd f parts (children v ! n) = Inr c"
      "w = put_children v ((children v)[n := c])"
      using Cons.prems by (auto simp: result_simps)
    have lt: "n < length (children v)" "container v" using child_pos_lt [OF Some] by auto
    then show ?thesis
      using Some Cons.IH [OF c(1)] c(2)
      by (simp add: child_pos_put children_put put_children_put put_children_same)
  qed (use Cons.prems in auto)
qed (use assms in auto)

lemma leaf_upd_commute:
  assumes keep: "\<And>v. container v \<Longrightarrow> g v = Inr v"
    and leaf: "\<And>v w. g v = Inr w \<Longrightarrow> container w = container v"
    and err: "\<And>v e. g v = Inl e \<Longrightarrow> e = e0"
  shows "bindR (leaf_upd g ps v) (leaf_upd g qs) = bindR (leaf_upd g qs v) (leaf_upd g ps)"
proof (induction ps arbitrary: qs v)
  case Nil
  have nc: "\<not> container u \<Longrightarrow> child_pos u q = None" for u q by (cases u) auto
  show ?case
  proof (cases qs)
    case (Cons q rest)
    show ?thesis
    proof (cases "container v")
      case True
      have "container w \<Longrightarrow> g w = Inr w" for w by (rule keep)
      with True leaf_upd_shape [of g qs v] show ?thesis by (cases "leaf_upd g qs v") (auto simp: keep)
    next
      case False
      with Cons nc leaf show ?thesis by (cases "g v") auto
    qed
  qed simp
next
  case (Cons p ps)
  have nc: "\<not> container u \<Longrightarrow> child_pos u q = None" for u q by (cases u) auto
  have errs: "leaf_upd g rs u = Inl e \<Longrightarrow> e = e0" for rs u e
    by (induction rs arbitrary: u) (auto simp: result_simps err split: option.splits)
  show ?case
  proof (cases qs)
    case Nil
    show ?thesis
    proof (cases "container v")
      case True
      with Nil leaf_upd_shape [of g "p # ps" v] show ?thesis
        by (cases "leaf_upd g (p # ps) v") (auto simp: keep)
    next
      case False
      with Nil nc leaf show ?thesis by (cases "g v") auto
    qed
  next
    case (Cons q rest)
    show ?thesis
    proof (cases "child_pos v p = None \<or> child_pos v q = None")
      case True
      then show ?thesis
        using Cons child_pos_lt [of v p] child_pos_lt [of v q]
        by (auto simp: child_pos_put bindR_assoc split: option.splits)
    next
      case False
      then obtain m n where mn: "child_pos v p = Some m" "child_pos v q = Some n" by auto
      have lt: "m < length (children v)" "n < length (children v)" "container v"
        using child_pos_lt mn by blast+
      show ?thesis
      proof (cases "m = n")
        case True
        have "bindR (bindR (leaf_upd g ps (children v ! n)) (leaf_upd g rest)) k
            = bindR (bindR (leaf_upd g rest (children v ! n)) (leaf_upd g ps)) k" for k :: "json \<Rightarrow> exn + json"
          by (simp add: Cons.IH)
        with True Cons mn lt show ?thesis
          by (simp add: bindR_assoc child_pos_put children_put put_children_put)
      next
        case False
        with Cons mn lt show ?thesis
          by (cases "leaf_upd g ps (children v ! m)"; cases "leaf_upd g rest (children v ! n)")
            (auto simp: child_pos_put children_put put_children_put list_update_swap dest: errs)
      qed
    qed
  qed
qed


section \<open>The contract of the two loops\<close>

text \<open>
  What a pair of loops over the same list of places needs for one to undo the other although both
  run in the same order: each step is undone by its counterpart, and the undoing steps commute.
\<close>

locale field_loops =
  fixes valid :: "'c \<Rightarrow> bool"
    and enc_at :: "'c \<Rightarrow> nat \<Rightarrow> 'd \<Rightarrow> 'p \<Rightarrow> exn + 'd"
    and dec_at :: "'c \<Rightarrow> 'd \<Rightarrow> 'p \<Rightarrow> exn + 'd"
    and enc_all :: "'c \<Rightarrow> nat \<Rightarrow> 'd \<Rightarrow> 'p list \<Rightarrow> exn + 'd"
    and dec_all :: "'c \<Rightarrow> 'd \<Rightarrow> 'p list \<Rightarrow> exn + 'd"
  assumes enc_nil: "enc_all c n d [] = Inr d"
    and enc_cons: "enc_all c n d (p # ps) = bindR (enc_at c n d p) (\<lambda>d. enc_all c (Suc n) d ps)"
    and dec_nil: "dec_all c d [] = Inr d"
    and dec_cons: "dec_all c d (p # ps) = bindR (dec_at c d p) (\<lambda>d. dec_all c d ps)"
    and enc_total: "\<exists>d'. enc_at c n d p = Inr d'"
    and undo: "valid c \<Longrightarrow> enc_at c n d p = Inr d' \<Longrightarrow> dec_at c d' p = Inr d"
    and dec_commute: "bindR (dec_at c d p) (\<lambda>d. dec_at c d q) = bindR (dec_at c d q) (\<lambda>d. dec_at c d p)"
begin

lemma dec_all_commute:
  "bindR (dec_at c d p) (\<lambda>d. dec_all c d ps) = bindR (dec_all c d ps) (\<lambda>d. dec_at c d p)"
proof (induction ps arbitrary: d)
  case (Cons q ps)
  have "bindR (dec_at c d p) (\<lambda>d. dec_all c d (q # ps))
      = bindR (bindR (dec_at c d p) (\<lambda>d. dec_at c d q)) (\<lambda>d. dec_all c d ps)"
    by (simp add: dec_cons bindR_assoc)
  also have "\<dots> = bindR (dec_at c d q) (\<lambda>d. bindR (dec_at c d p) (\<lambda>d. dec_all c d ps))"
    by (simp add: dec_commute [of c d p q] bindR_assoc)
  also have "\<dots> = bindR (dec_all c d (q # ps)) (\<lambda>d. dec_at c d p)"
    by (simp add: dec_cons Cons.IH bindR_assoc)
  finally show ?case .
qed (simp add: dec_nil)

lemma enc_all_total: "\<exists>d'. enc_all c n d ps = Inr d'"
proof (induction ps arbitrary: n d)
  case (Cons p ps)
  then show ?case using enc_total [of c n d p] by (auto simp: enc_cons)
qed (simp add: enc_nil)

lemma dec_enc_all: "valid c \<Longrightarrow> bindR (enc_all c n d ps) (\<lambda>d'. dec_all c d' ps) = Inr d"
proof (induction ps arbitrary: n d)
  case (Cons p ps)
  obtain d1 where d1: "enc_at c n d p = Inr d1" using enc_total by blast
  obtain d2 where d2: "enc_all c (Suc n) d1 ps = Inr d2" using enc_all_total by blast
  have "dec_all c d2 ps = Inr d1" using Cons.IH [of "Suc n" d1] Cons.prems d2 by simp
  then have "dec_all c d2 (p # ps) = Inr d"
    by (simp add: dec_cons dec_all_commute undo [OF Cons.prems d1])
  then show ?case by (simp add: enc_cons d1 d2)
qed (simp add: enc_nil dec_nil)

end

lemma on_strings_container:
  "container v \<Longrightarrow> on_strings f v = Inr v"
  "on_strings f v = Inr w \<Longrightarrow> container w = container v"
  by (cases v; auto simp: on_strings_def result_simps split: if_splits)+

lemma on_strings_error: "on_strings (encryptor_decrypt c) v = Inl e \<Longrightarrow> e = Exn ValueError ''Failed to decrypt field''"
  by (cases v) (auto simp: on_strings_def result_simps encryptor_decrypt_def split: if_splits option.splits)

lemma leaf_upd_error:
  "leaf_upd g ps v = Inl e \<Longrightarrow> (\<And>v e. g v = Inl e \<Longrightarrow> e = e0) \<Longrightarrow> e = e0"
  by (induction g ps v rule: leaf_upd.induct) (auto simp: result_simps split: option.splits)

lemma encrypt_field_total: "\<exists>d'. encrypt_field c n d p = Inr d'"
proof -
  have "leaf_upd (on_strings (\<lambda>s. Inr (f s))) ps v \<noteq> Inl e" for f ps v e
    by (induction ps arbitrary: v) (auto simp: on_strings_def result_simps split: option.splits json.splits)
  then show ?thesis unfolding encrypt_field_leaf by (metis sum.exhaust)
qed

lemma encrypt_field_undo:
  assumes "cipher_ok c" "encrypt_field c n d p = Inr d'" shows "decrypt_field c d' p = Inr d"
proof -
  let ?f = "on_strings (\<lambda>s. Inr (encryptor_encrypt c n s))" and ?g = "on_strings (encryptor_decrypt c)"
  have c: "?f v = Inr w \<Longrightarrow> ?g w = Inr v" for v w
    using assms(1) by (cases v)
      (auto simp: on_strings_def encryptor_encrypt_def encryptor_decrypt_def cipher_ok_def split: if_splits)
  have s: "?f v = Inr w \<Longrightarrow> container v = container w \<and> (container v \<longrightarrow> w = v)" for v w
    by (cases v) (auto simp: on_strings_def split: if_splits)
  show ?thesis
    using assms(2) leaf_upd_compose [where f = ?f and g = ?g, OF s c]
    by (simp add: encrypt_field_leaf decrypt_field_leaf)
qed

interpretation fields: field_loops cipher_ok encrypt_field decrypt_field
  encrypt_config_data_fields decrypt_config_data_fields
proof
  fix c d p q
  show "bindR (decrypt_field c d p) (\<lambda>d. decrypt_field c d q)
      = bindR (decrypt_field c d q) (\<lambda>d. decrypt_field c d p)"
    unfolding decrypt_field_leaf
    by (rule leaf_upd_commute [OF on_strings_container(1) on_strings_container(2) on_strings_error])
qed (simp_all add: encrypt_field_total encrypt_field_undo)

lemma get_parts_upd:
  assumes "leaf_upd (on_strings (\<lambda>s. Inr (f s))) qs v = Inr w" "get_parts v ps = Inr (JStr s)" "s \<noteq> []"
  shows "get_parts w ps = Inr (JStr (f s)) \<or> (ps \<noteq> qs \<and> get_parts w ps = Inr (JStr s))"
  using assms
proof (induction ps arbitrary: v w qs)
  case Nil
  then show ?case by (cases qs) (auto simp: on_strings_def)
next
  case (Cons p ps)
  then obtain m where m: "child_pos v p = Some m" "path_step v p = Inr (children v ! m)"
    using path_step_pos [of v p] by (auto split: option.splits)
  have lt: "m < length (children v)" "container v" using child_pos_lt [OF m(1)] by auto
  show ?case
  proof (cases qs)
    case Nil
    with Cons.prems lt show ?thesis by (auto simp: on_strings_container(1))
  next
    case (Cons q rest)
    show ?thesis
    proof (cases "child_pos v q")
      case None
      with Cons Cons.prems m show ?thesis by auto
    next
      case (Some n)
      obtain c where c: "leaf_upd (on_strings (\<lambda>s. Inr (f s))) rest (children v ! n) = Inr c"
        "w = put_children v ((children v)[n := c])"
        using Cons.prems(1) Cons Some by (auto simp: result_simps)
      have w: "path_step w p = Inr ((children v)[n := c] ! m)"
        using path_step_pos [of w p] m lt c(2) by (simp add: child_pos_put children_put)
      show ?thesis
      proof (cases "m = n")
        case True
        with Cons.IH [OF c(1), unfolded True [symmetric]] Cons.prems Cons m w lt show ?thesis by auto
      next
        case False
        with Cons.prems Cons m w lt Some show ?thesis by auto
      qed
    qed
  qed
qed

lemma encrypt_keeps_token:
  "cipher_ok c \<Longrightarrow> encrypt_config_data_fields c n d paths = Inr d' \<Longrightarrow>
   get_by_path d p = Inr (JStr (fernet_encrypt c r t)) \<Longrightarrow>
   \<exists>r t. get_by_path d' p = Inr (JStr (fernet_encrypt c r t))"
proof (induction paths arbitrary: n d r t)
  case (Cons q paths)
  then obtain d1 where d1: "encrypt_field c n d q = Inr d1" "encrypt_config_data_fields c (Suc n) d1 paths = Inr d'"
    by (auto simp: result_simps)
  have "fernet_encrypt c r t \<noteq> []" using Cons.prems(1) by (auto simp: cipher_ok_def)
  then show ?case
    using get_parts_upd [OF d1(1) [unfolded encrypt_field_leaf] Cons.prems(3) [unfolded get_by_path_def]]
      Cons.IH [OF Cons.prems(1) d1(2)]
    by (auto simp: get_by_path_def encryptor_encrypt_def)
qed auto

section \<open>Properties\<close>

text \<open>
  C6. Decrypting the sensitive fields of a configuration whose sensitive fields were encrypted gives
  the configuration back, whatever the configuration and whatever the list of paths: missing, bad,
  repeated and overlapping paths included, and encryption itself never fails.
\<close>

theorem decrypt_encrypt_config_data:
  "cipher_ok c \<Longrightarrow>
   bindR (encrypt_config_data_fields c n d paths) (\<lambda>d'. decrypt_config_data_fields c d' paths) = Inr d"
  by (rule fields.dec_enc_all)

definition demo_cipher :: cipher where
  "demo_cipher = \<lparr>fernet_encrypt = (\<lambda>r s. CHR ''g'' # show_nat r @ CHR ''.'' # s),
     fernet_decrypt = (\<lambda>t. case t of [] \<Rightarrow> None | x # xs \<Rightarrow> (case dropWhile (\<lambda>c. c \<noteq> CHR ''.'') xs of
        [] \<Rightarrow> None | y # ys \<Rightarrow> if x = CHR ''g'' then Some ys else None))\<rparr>"

lemma dropWhile_to_sep: "x \<notin> set xs \<Longrightarrow> dropWhile (\<lambda>c. c \<noteq> x) (xs @ x # ys) = x # ys"
  by (induction xs) auto

lemma demo_cipher_ok: "cipher_ok demo_cipher"
proof -
  have "digit_char d \<noteq> CHR ''.''" if "d < 16" for d
    using of_char_digit_char [OF that] by (auto split: if_splits)
  then have "CHR ''.'' \<notin> set (show_nat r)" for r
    by (metis set_show_nat)
  then show ?thesis
    by (simp add: cipher_ok_def demo_cipher_def dropWhile_to_sep)
qed

theorem decrypt_encrypt_config_data_witness:
  "bindR (encrypt_config_data_fields demo_cipher 3
     (JDict [(''auth'', JDict [(''password'', JStr ''pw'')]), (''obfs'', JList [JStr ''x''])])
     [''auth.password'', ''obfs.0'', ''obfs.-1'', ''obfs.none'', ''missing''])
     (\<lambda>d'. decrypt_config_data_fields demo_cipher d'
       [''auth.password'', ''obfs.0'', ''obfs.-1'', ''obfs.none'', ''missing''])
   = Inr (JDict [(''auth'', JDict [(''password'', JStr ''pw'')]), (''obfs'', JList [JStr ''x''])])"
  by (rule decrypt_encrypt_config_data [OF demo_cipher_ok])

text \<open>
  C24. After encryption no listed path leads to plaintext: wherever a path of the list led to a
  non-empty string, it now leads to a token of the cipher.
\<close>

theorem encrypt_hides_listed_fields:
  assumes "cipher_ok c" "encrypt_config_data_fields c n d paths = Inr d'" "p \<in> set paths"
    "get_by_path d p = Inr (JStr s)" "s \<noteq> []"
  shows "\<exists>r t. get_by_path d' p = Inr (JStr (fernet_encrypt c r t))"
  using assms(2-5)
proof (induction paths arbitrary: n d s)
  case (Cons q paths)
  then obtain d1 where d1: "encrypt_field c n d q = Inr d1" "encrypt_config_data_fields c (Suc n) d1 paths = Inr d'"
    by (auto simp: result_simps)
  note g = get_parts_upd [OF d1(1) [unfolded encrypt_field_leaf] Cons.prems(3) [unfolded get_by_path_def] Cons.prems(4)]
  show ?case
  proof (cases "get_by_path d1 p = Inr (JStr (fernet_encrypt c n s))")
    case True
    then show ?thesis by (rule encrypt_keeps_token [OF assms(1) d1(2)])
  next
    case False
    with g Cons.prems(2) have "get_by_path d1 p = Inr (JStr s)" "p \<in> set paths"
      by (auto simp: get_by_path_def encryptor_encrypt_def)
    then show ?thesis using Cons.IH [OF d1(2)] Cons.prems(4) by blast
  qed
qed simp

theorem encrypt_hides_listed_fields_witness:
  "\<exists>r t. get_by_path (JDict [(''auth'', JDict [(''password'', JStr ''g0.pw'')])]) ''auth.password''
     = Inr (JStr (fernet_encrypt demo_cipher r t))"
  by (rule encrypt_hides_listed_fields [where n = 0 and paths = "[''auth.password'']"
        and d = "JDict [(''auth'', JDict [(''password'', JStr ''pw'')])]" and s = "''pw''"])
    (simp_all add: demo_cipher_ok, code_simp+)

end
