(* ===== verification/Store.thy ===== *)
theory Store
  imports Domain
begin

text \<open>
  \<open>panel/infrastructure/persistence\<close>: the tables of \<open>models.py\<close>, the repository of
  configurations and versions (\<open>repositories/vpn_config.py\<close>), the users, and the session with
  its commit and rollback. A table is the list of its rows in insertion order; a column that only
  ever holds the \<open>value\<close> of an enumeration has that enumeration as its type; a time is a
  number of seconds. Fresh ids and the current time are arguments. Rows with equal sort keys are
  listed in insertion order.
\<close>

section \<open>Tables\<close>

record config_row =
  row_id :: uuid
  row_name :: string
  row_protocol :: vpn_protocol_type
  row_profile :: config_profile
  row_status :: config_status
  row_current_version :: "int option"
  row_last_task_id :: "string option"
  row_error_message :: "string option"
  row_policy :: "json option"
  row_share_host :: "string option"
  row_is_active :: bool
  row_created_by :: uuid
  row_updated_by :: uuid
  row_created_at :: int
  row_updated_at :: int

record version_row =
  v_id :: uuid
  v_config_id :: uuid
  v_version :: int
  v_port :: int
  v_private_key :: string
  v_public_key :: string
  v_cert_fingerprint :: string
  v_config_data :: json
  v_created_at :: int

record share_row =
  s_id :: uuid
  s_token_hash :: string
  s_config_id :: "uuid option"
  s_config_version :: "int option"
  s_secure :: bool
  s_is_permanent :: bool
  s_expires_at :: "int option"
  s_revoked_at :: "int option"
  s_created_by :: uuid
  s_created_at :: int
  s_last_accessed_at :: "int option"
  s_access_count :: int

record audit_row =
  a_id :: uuid
  a_user_id :: "uuid option"
  a_event_type :: string
  a_payload :: json
  a_created_at :: int

record db =
  users :: "user list"
  configs :: "config_row list"
  versions :: "version_row list"
  shares :: "share_row list"
  rate_entries :: "((string \<times> int) \<times> int) list"
  audit_logs :: "audit_row list"

definition empty_db :: db where
  "empty_db = \<lparr>users = [], configs = [], versions = [], shares = [], rate_entries = [], audit_logs = []\<rparr>"

section \<open>Sessions\<close>

text \<open>What the session sees, and what is committed.\<close>

record session =
  cur :: db
  com :: db

definition open_session :: "db \<Rightarrow> session" where
  "open_session d = \<lparr>cur = d, com = d\<rparr>"

definition commit :: "session \<Rightarrow> session" where
  "commit s = s\<lparr>com := cur s\<rparr>"

definition rollback :: "session \<Rightarrow> session" where
  "rollback s = s\<lparr>cur := com s\<rparr>"

section \<open>Rows by key\<close>

definition find_row :: "('r \<Rightarrow> bool) \<Rightarrow> 'r list \<Rightarrow> 'r option" where
  "find_row P rows = (case filter P rows of [] \<Rightarrow> None | r # _ \<Rightarrow> Some r)"

definition upd_rows :: "('r \<Rightarrow> bool) \<Rightarrow> ('r \<Rightarrow> 'r) \<Rightarrow> 'r list \<Rightarrow> 'r list" where
  "upd_rows P f rows = map (\<lambda>r. if P r then f r else r) rows"

definition get_model :: "db \<Rightarrow> uuid \<Rightarrow> bool \<Rightarrow> config_row option" where
  "get_model d config_id active_only =
     find_row (\<lambda>r. row_id r = config_id \<and> (active_only \<longrightarrow> row_is_active r)) (configs d)"

definition upd_config :: "uuid \<Rightarrow> (config_row \<Rightarrow> config_row) \<Rightarrow> db \<Rightarrow> db" where
  "upd_config config_id f d = d\<lparr>configs := upd_rows (\<lambda>r. row_id r = config_id) f (configs d)\<rparr>"

definition find_version :: "db \<Rightarrow> uuid \<Rightarrow> int \<Rightarrow> version_row option" where
  "find_version d config_id version =
     find_row (\<lambda>v. v_config_id v = config_id \<and> v_version v = version) (versions d)"

section \<open>Entities\<close>

definition version_to_entity :: "version_row \<Rightarrow> vpn_config_version" where
  "version_to_entity v = \<lparr>ver_id = v_id v, ver_config_id = v_config_id v, ver_version = v_version v,
     ver_port = v_port v, ver_public_key = v_public_key v, ver_cert_fingerprint = v_cert_fingerprint v,
     ver_created_at = v_created_at v\<rparr>"

definition policy_from_model :: "config_row \<Rightarrow> exn + regenerate_policy option" where
  "policy_from_model r = (case row_policy r of
     None \<Rightarrow> Inr None | Some raw \<Rightarrow> bindR (policy_validate raw) (\<lambda>p. Inr (Some p)))"

text \<open>\<open>model.share_public_host or None\<close>.\<close>

definition host_or_none :: "string option \<Rightarrow> string option" where
  "host_or_none h = (case h of None \<Rightarrow> None | Some s \<Rightarrow> if s = [] then None else Some s)"

definition config_to_entity :: "config_row \<Rightarrow> version_row option \<Rightarrow> exn + vpn_config" where
  "config_to_entity r v = bindR (policy_from_model r) (\<lambda>policy.
     Inr \<lparr>cfg_id = row_id r, cfg_name = row_name r, cfg_protocol = row_protocol r, cfg_profile = row_profile r,
       cfg_status = row_status r, cfg_current_version = row_current_version r,
       cfg_last_task_id = row_last_task_id r, cfg_error_message = row_error_message r,
       cfg_is_active = row_is_active r, cfg_created_by = row_created_by r, cfg_updated_by = row_updated_by r,
       cfg_created_at = row_created_at r, cfg_updated_at = row_updated_at r,
       cfg_current_version_detail = map_option version_to_entity v, cfg_regenerate_policy = policy,
       cfg_share_public_host = host_or_none (row_share_host r)\<rparr>)"

definition load_current_version :: "db \<Rightarrow> config_row \<Rightarrow> version_row option" where
  "load_current_version d r = (case row_current_version r of
     None \<Rightarrow> None | Some v \<Rightarrow> find_version d (row_id r) v)"

section \<open>Reading\<close>

record config_list_result =
  list_items :: "vpn_config list"
  list_total :: nat

fun map_result :: "('a \<Rightarrow> exn + 'b) \<Rightarrow> 'a list \<Rightarrow> exn + 'b list" where
  "map_result f [] = Inr []"
| "map_result f (x # xs) = bindR (f x) (\<lambda>y. bindR (map_result f xs) (\<lambda>ys. Inr (y # ys)))"

definition active_rows :: "db \<Rightarrow> vpn_protocol_type option \<Rightarrow> config_row list" where
  "active_rows d protocol =
     filter (\<lambda>r. row_is_active r \<and> (case protocol of None \<Rightarrow> True | Some p \<Rightarrow> row_protocol r = p)) (configs d)"

definition list_active :: "db \<Rightarrow> vpn_protocol_type option \<Rightarrow> nat \<Rightarrow> nat \<Rightarrow> exn + config_list_result" where
  "list_active d protocol limit offset =
     (let rows = active_rows d protocol;
          page = take limit (drop offset (sort_key (\<lambda>r. - row_created_at r) rows))
      in bindR (map_result (\<lambda>r. config_to_entity r None) page) (\<lambda>items.
         Inr \<lparr>list_items = items, list_total = length rows\<rparr>))"

definition get_by_id :: "db \<Rightarrow> uuid \<Rightarrow> bool \<Rightarrow> exn + vpn_config option" where
  "get_by_id d config_id active_only = (case get_model d config_id active_only of
     None \<Rightarrow> Inr None
   | Some r \<Rightarrow> bindR (config_to_entity r (load_current_version d r)) (\<lambda>c. Inr (Some c)))"

definition has_version :: "db \<Rightarrow> uuid \<Rightarrow> int \<Rightarrow> bool" where
  "has_version d config_id version =
     (length (filter (\<lambda>v. v_config_id v = config_id \<and> v_version v = version) (versions d)) > 0)"

definition list_used_ports :: "db \<Rightarrow> uuid option \<Rightarrow> int list" where
  "list_used_ports d exclude =
     remdups (map v_port (filter (\<lambda>v. case exclude of None \<Rightarrow> True | Some c \<Rightarrow> v_config_id v \<noteq> c) (versions d)))"

record version_snapshot =
  snap_config_id :: uuid
  snap_protocol :: vpn_protocol_type
  snap_profile :: config_profile
  snap_name :: string
  snap_version :: int
  snap_port :: int
  snap_public_key :: string
  snap_cert_fingerprint :: string
  snap_config_data :: json
  snap_share_host :: "string option"

definition get_version_snapshot :: "db \<Rightarrow> uuid \<Rightarrow> int \<Rightarrow> version_snapshot option" where
  "get_version_snapshot d config_id version = (case get_model d config_id False of
     None \<Rightarrow> None
   | Some r \<Rightarrow> (case find_version d config_id version of
       None \<Rightarrow> None
     | Some v \<Rightarrow> Some \<lparr>snap_config_id = config_id, snap_protocol = row_protocol r, snap_profile = row_profile r,
         snap_name = row_name r, snap_version = v_version v, snap_port = v_port v,
         snap_public_key = v_public_key v, snap_cert_fingerprint = v_cert_fingerprint v,
         snap_config_data = v_config_data v, snap_share_host = host_or_none (row_share_host r)\<rparr>))"

definition list_current_version_snapshots :: "db \<Rightarrow> version_snapshot list" where
  "list_current_version_snapshots d =
     (let rows = sort_key row_created_at (filter (\<lambda>r. row_is_active r \<and> row_status r = ACTIVE
         \<and> row_current_version r \<noteq> None) (configs d))
      in concat (map (\<lambda>r. case get_version_snapshot d (row_id r) (the (row_current_version r)) of
           None \<Rightarrow> [] | Some s \<Rightarrow> [s]) rows))"

definition get_version_private_key :: "db \<Rightarrow> uuid \<Rightarrow> int \<Rightarrow> string option" where
  "get_version_private_key d config_id version = map_option v_private_key (find_version d config_id version)"

definition config_not_found :: "uuid \<Rightarrow> exn + 'a" where
  "config_not_found config_id = raise ValueError (''Config not found: '' @ uuid_str config_id)"

definition get_regenerate_policy_raw :: "db \<Rightarrow> uuid \<Rightarrow> exn + json option" where
  "get_regenerate_policy_raw d config_id = (case get_model d config_id False of
     None \<Rightarrow> config_not_found config_id | Some r \<Rightarrow> Inr (row_policy r))"

definition get_share_public_host :: "db \<Rightarrow> uuid \<Rightarrow> exn + string option" where
  "get_share_public_host d config_id = (case get_model d config_id False of
     None \<Rightarrow> config_not_found config_id | Some r \<Rightarrow> Inr (host_or_none (row_share_host r)))"

definition get_regenerate_context ::
  "db \<Rightarrow> uuid \<Rightarrow> exn + vpn_protocol_type \<times> config_profile \<times> string \<times> int" where
  "get_regenerate_context d config_id = (case get_model d config_id True of
     None \<Rightarrow> config_not_found config_id
   | Some r \<Rightarrow> (case row_current_version r of
       None \<Rightarrow> raise ValueError ''Config has no version to regenerate from''
     | Some v \<Rightarrow> Inr (row_protocol r, row_profile r, row_name r, v + 1)))"

section \<open>Writing\<close>

text \<open>The foreign key to the users table, and the primary key of the configurations.\<close>

definition user_exists :: "db \<Rightarrow> uuid \<Rightarrow> bool" where
  "user_exists d u = list_ex (\<lambda>x. user_id x = u) (users d)"

definition config_exists :: "db \<Rightarrow> uuid \<Rightarrow> bool" where
  "config_exists d c = list_ex (\<lambda>r. row_id r = c) (configs d)"

definition soft_delete :: "db \<Rightarrow> uuid \<Rightarrow> uuid \<Rightarrow> int \<Rightarrow> db \<times> bool" where
  "soft_delete d config_id updated_by now = (case get_model d config_id True of
     None \<Rightarrow> (d, False)
   | Some _ \<Rightarrow> (upd_config config_id (\<lambda>r. r\<lparr>row_is_active := False, row_updated_by := updated_by,
       row_updated_at := now\<rparr>) d, True))"

definition insert_config :: "db \<Rightarrow> config_row \<Rightarrow> exn + db" where
  "insert_config d r =
     (if config_exists d (row_id r) \<or> \<not> user_exists d (row_created_by r) \<or> \<not> user_exists d (row_updated_by r)
      then raise IntegrityError '''' else Inr (d\<lparr>configs := configs d @ [r]\<rparr>))"

definition create_pending ::
  "db \<Rightarrow> uuid \<Rightarrow> int \<Rightarrow> string \<Rightarrow> vpn_protocol_type \<Rightarrow> config_profile \<Rightarrow> uuid \<Rightarrow> regenerate_policy option
    \<Rightarrow> string option \<Rightarrow> exn + db \<times> vpn_config" where
  "create_pending d new_id now name protocol profile created_by policy share_host =
     (let r = \<lparr>row_id = new_id, row_name = name, row_protocol = protocol, row_profile = profile,
        row_status = PENDING, row_current_version = None, row_last_task_id = None, row_error_message = None,
        row_policy = map_option (\<lambda>p. bools_json (to_stored p)) policy,
        row_share_host = stored_share_host share_host, row_is_active = True,
        row_created_by = created_by, row_updated_by = created_by, row_created_at = now, row_updated_at = now\<rparr>
      in bindR (insert_config d r) (\<lambda>d'. bindR (config_to_entity r None) (\<lambda>c. Inr (d', c))))"

definition set_last_task_id :: "db \<Rightarrow> uuid \<Rightarrow> string \<Rightarrow> int \<Rightarrow> exn + db" where
  "set_last_task_id d config_id task_id now = (case get_model d config_id True of
     None \<Rightarrow> config_not_found config_id
   | Some _ \<Rightarrow> Inr (upd_config config_id (\<lambda>r. r\<lparr>row_last_task_id := Some task_id, row_updated_at := now\<rparr>) d))"

definition mark_processing :: "db \<Rightarrow> uuid \<Rightarrow> int \<Rightarrow> exn + db" where
  "mark_processing d config_id now = (case get_model d config_id False of
     None \<Rightarrow> config_not_found config_id
   | Some _ \<Rightarrow> Inr (upd_config config_id (\<lambda>r. r\<lparr>row_status := PROCESSING, row_error_message := None,
       row_updated_at := now\<rparr>) d))"

definition mark_active :: "db \<Rightarrow> uuid \<Rightarrow> int \<Rightarrow> int \<Rightarrow> exn + db" where
  "mark_active d config_id version now = (case get_model d config_id False of
     None \<Rightarrow> config_not_found config_id
   | Some _ \<Rightarrow> Inr (upd_config config_id (\<lambda>r. r\<lparr>row_status := ACTIVE, row_current_version := Some version,
       row_error_message := None, row_updated_at := now\<rparr>) d))"

definition mark_failed :: "db \<Rightarrow> uuid \<Rightarrow> string \<Rightarrow> int \<Rightarrow> exn + db" where
  "mark_failed d config_id message now = (case get_model d config_id False of
     None \<Rightarrow> config_not_found config_id
   | Some _ \<Rightarrow> Inr (upd_config config_id (\<lambda>r. r\<lparr>row_status := FAILED,
       row_error_message := Some (take 2000 message), row_updated_at := now\<rparr>) d))"

definition insert_version_row :: "db \<Rightarrow> version_row \<Rightarrow> exn + db" where
  "insert_version_row d v =
     (if list_ex (\<lambda>w. v_id w = v_id v) (versions d) \<or> has_version d (v_config_id v) (v_version v)
         \<or> \<not> config_exists d (v_config_id v)
      then raise IntegrityError '''' else Inr (d\<lparr>versions := versions d @ [v]\<rparr>))"

definition insert_version ::
  "db \<Rightarrow> uuid \<Rightarrow> int \<Rightarrow> uuid \<Rightarrow> int \<Rightarrow> int \<Rightarrow> string \<Rightarrow> string \<Rightarrow> string \<Rightarrow> json \<Rightarrow> exn + db" where
  "insert_version d new_id now config_id version port private_key_encrypted public_key fp config_data =
     insert_version_row d \<lparr>v_id = new_id, v_config_id = config_id, v_version = version, v_port = port,
       v_private_key = private_key_encrypted, v_public_key = public_key, v_cert_fingerprint = fp,
       v_config_data = config_data, v_created_at = now\<rparr>"

definition update_version_config_data ::
  "db \<Rightarrow> uuid \<Rightarrow> int \<Rightarrow> json \<Rightarrow> int \<Rightarrow> uuid \<Rightarrow> int \<Rightarrow> exn + db" where
  "update_version_config_data d config_id version config_data port updated_by now =
     (case get_model d config_id True of
        None \<Rightarrow> config_not_found config_id
      | Some _ \<Rightarrow> (case find_version d config_id version of
          None \<Rightarrow> raise ValueError (''Version not found: '' @ uuid_str config_id @ '' v'' @ show_int version)
        | Some _ \<Rightarrow>
            Inr (upd_config config_id (\<lambda>r. r\<lparr>row_updated_by := updated_by, row_updated_at := now\<rparr>)
              (d\<lparr>versions := upd_rows (\<lambda>v. v_config_id v = config_id \<and> v_version v = version)
                 (\<lambda>v. v\<lparr>v_config_data := config_data, v_port := port\<rparr>) (versions d)\<rparr>))))"

definition prepare_regenerate :: "db \<Rightarrow> uuid \<Rightarrow> uuid \<Rightarrow> int \<Rightarrow> exn + db" where
  "prepare_regenerate d config_id updated_by now = (case get_model d config_id True of
     None \<Rightarrow> config_not_found config_id
   | Some r \<Rightarrow>
       if row_current_version r = None then raise ValueError ''Config has no version to regenerate from''
       else if row_status r = PENDING \<or> row_status r = PROCESSING
         then raise ValueError ''Config is not ready for regenerate''
       else let d' = upd_config config_id (\<lambda>r. r\<lparr>row_status := PENDING, row_error_message := None,
              row_updated_by := updated_by, row_updated_at := now\<rparr>) d
         in bindR (config_to_entity (r\<lparr>row_status := PENDING, row_error_message := None,
              row_updated_by := updated_by, row_updated_at := now\<rparr>) None) (\<lambda>_. Inr d'))"

definition update_regenerate_policy ::
  "db \<Rightarrow> uuid \<Rightarrow> regenerate_policy \<Rightarrow> uuid \<Rightarrow> int \<Rightarrow> exn + db \<times> vpn_config" where
  "update_regenerate_policy d config_id policy updated_by now = (case get_model d config_id True of
     None \<Rightarrow> config_not_found config_id
   | Some r \<Rightarrow>
       let f = (\<lambda>r. r\<lparr>row_policy := Some (bools_json (to_stored policy)), row_updated_by := updated_by,
                     row_updated_at := now\<rparr>)
       in bindR (config_to_entity (f r) (load_current_version d (f r))) (\<lambda>c. Inr (upd_config config_id f d, c)))"

definition create_with_version ::
  "db \<Rightarrow> uuid \<Rightarrow> int \<Rightarrow> string \<Rightarrow> vpn_protocol_type \<Rightarrow> config_status \<Rightarrow> uuid \<Rightarrow> version_row \<Rightarrow> exn + db \<times> vpn_config" where
  "create_with_version d new_id now name protocol status created_by version =
     (let r = \<lparr>row_id = new_id, row_name = name, row_protocol = protocol,
        row_profile = default_for_protocol (protocol_value protocol),
        row_status = status, row_current_version = Some (v_version version), row_last_task_id = None,
        row_error_message = None, row_policy = None, row_share_host = None, row_is_active = True,
        row_created_by = created_by, row_updated_by = created_by, row_created_at = now, row_updated_at = now\<rparr>;
        v = version\<lparr>v_config_id := new_id\<rparr>
      in bindR (insert_config d r) (\<lambda>d1. bindR (insert_version_row d1 v) (\<lambda>d2.
         bindR (config_to_entity r (Some v)) (\<lambda>c. Inr (d2, c)))))"

section \<open>Users and audit log\<close>

definition get_by_username :: "db \<Rightarrow> string \<Rightarrow> user option" where
  "get_by_username d name = find_row (\<lambda>u. username u = name) (users d)"

definition get_user_by_id :: "db \<Rightarrow> uuid \<Rightarrow> user option" where
  "get_user_by_id d u = find_row (\<lambda>x. user_id x = u) (users d)"

definition create_user :: "db \<Rightarrow> uuid \<Rightarrow> int \<Rightarrow> string \<Rightarrow> string \<Rightarrow> exn + db \<times> user" where
  "create_user d new_id now name hash =
     (if list_ex (\<lambda>u. user_id u = new_id \<or> username u = name) (users d) then raise IntegrityError ''''
      else let u = \<lparr>user_id = new_id, username = name, password_hash = hash, user_created_at = now\<rparr>
           in Inr (d\<lparr>users := users d @ [u]\<rparr>, u))"

definition audit_insert :: "db \<Rightarrow> uuid \<Rightarrow> int \<Rightarrow> string \<Rightarrow> json \<Rightarrow> uuid option \<Rightarrow> db" where
  "audit_insert d new_id now event payload u =
     d\<lparr>audit_logs := audit_logs d @ [\<lparr>a_id = new_id, a_user_id = u, a_event_type = event, a_payload = payload,
       a_created_at = now\<rparr>]\<rparr>"

section \<open>Rows and updates\<close>

lemma find_row_Some: "find_row P rows = Some r \<Longrightarrow> r \<in> set rows \<and> P r"
  by (auto simp: find_row_def split: list.splits dest!: arg_cong [of "filter P rows" _ set])

lemma find_row_None: "find_row P rows = None \<longleftrightarrow> (\<forall>r\<in>set rows. \<not> P r)"
  by (auto simp: find_row_def filter_empty_conv split: list.splits)
    (metis filter_empty_conv list.distinct(1))

lemma find_row_map:
  "(\<And>r. r \<in> set rows \<Longrightarrow> P (f r) = P r) \<Longrightarrow> find_row P (map f rows) = map_option f (find_row P rows)"
proof -
  assume p: "\<And>r. r \<in> set rows \<Longrightarrow> P (f r) = P r"
  have "filter P (map f rows) = map f (filter P rows)"
    unfolding filter_map comp_def using p by (auto intro!: arg_cong [of _ _ "map f"] filter_cong)
  then show ?thesis by (simp add: find_row_def split: list.splits)
qed

lemma find_row_append: "find_row P (xs @ ys) = (case find_row P xs of None \<Rightarrow> find_row P ys | Some r \<Rightarrow> Some r)"
  by (simp add: find_row_def split: list.splits)

lemma find_row_single: "find_row P [r] = (if P r then Some r else None)"
  by (simp add: find_row_def)

text \<open>The fields an update of a configuration leaves alone.\<close>

definition keeps_identity :: "(config_row \<Rightarrow> config_row) \<Rightarrow> bool" where
  "keeps_identity f \<longleftrightarrow> (\<forall>r. row_id (f r) = row_id r \<and> row_is_active (f r) = row_is_active r)"

lemma get_model_id: "get_model d c b = Some r \<Longrightarrow> row_id r = c \<and> r \<in> set (configs d) \<and> (b \<longrightarrow> row_is_active r)"
  by (auto simp: get_model_def dest: find_row_Some)

lemma get_model_active: "get_model d c True = Some r \<Longrightarrow> distinct (map row_id (configs d)) \<Longrightarrow> get_model d c False = Some r"
proof -
  assume r: "get_model d c True = Some r" and dist: "distinct (map row_id (configs d))"
  have m: "row_id r = c" "r \<in> set (configs d)" using get_model_id [OF r] by auto
  show "get_model d c False = Some r"
  proof (cases "get_model d c False")
    case None
    with m show ?thesis by (auto simp: get_model_def find_row_None)
  next
    case (Some q)
    then have "row_id q = c" "q \<in> set (configs d)" using get_model_id by auto
    with m dist Some show ?thesis by (auto simp: distinct_map inj_on_def)
  qed
qed

lemma get_model_upd:
  "keeps_identity f \<Longrightarrow> get_model (upd_config c f d) c' b = map_option (\<lambda>r. if row_id r = c then f r else r) (get_model d c' b)"
  unfolding get_model_def upd_config_def upd_rows_def by (simp add: find_row_map keeps_identity_def)

lemma upd_config_simps [simp]:
  "versions (upd_config c f d) = versions d" "users (upd_config c f d) = users d"
  "shares (upd_config c f d) = shares d" "rate_entries (upd_config c f d) = rate_entries d"
  "audit_logs (upd_config c f d) = audit_logs d"
  by (simp_all add: upd_config_def)

lemma upd_config_ids: "keeps_identity f \<Longrightarrow> map row_id (configs (upd_config c f d)) = map row_id (configs d)"
  by (simp add: upd_config_def upd_rows_def keeps_identity_def)

lemma has_version_iff: "has_version d c v \<longleftrightarrow> (\<exists>x\<in>set (versions d). v_config_id x = c \<and> v_version x = v)"
  by (auto simp: has_version_def filter_empty_conv)

lemma has_version_upd [simp]: "has_version (upd_config c f d) = has_version d"
  by (intro ext) (simp add: has_version_iff)

lemma find_version_has: "find_version d c v \<noteq> None \<longleftrightarrow> has_version d c v"
  by (auto simp: find_version_def has_version_iff find_row_None)

lemma config_exists_iff: "config_exists d c \<longleftrightarrow> get_model d c False \<noteq> None"
  by (auto simp: config_exists_def get_model_def find_row_None list_ex_iff)

lemma config_exists_ids: "config_exists d c \<longleftrightarrow> c \<in> set (map row_id (configs d))"
  by (auto simp: config_exists_def list_ex_iff)

section \<open>The contract of the version store\<close>

text \<open>
  What the worker relies on when it adds a version and makes it current; the consequences are
  proved once here.
\<close>

locale version_store =
  fixes has :: "'s \<Rightarrow> 'k \<Rightarrow> int \<Rightarrow> bool"
    and current :: "'s \<Rightarrow> 'k \<Rightarrow> int option"
    and insert_at :: "'x \<Rightarrow> 's \<Rightarrow> 'k \<Rightarrow> int \<Rightarrow> exn + 's"
    and activate :: "int \<Rightarrow> 's \<Rightarrow> 'k \<Rightarrow> int \<Rightarrow> exn + 's"
  assumes insert_fresh: "insert_at x s k v = Inr s' \<Longrightarrow> \<not> has s k v"
    and insert_has: "insert_at x s k v = Inr s' \<Longrightarrow> has s' k' w \<longleftrightarrow> has s k' w \<or> (k' = k \<and> w = v)"
    and insert_current: "insert_at x s k v = Inr s' \<Longrightarrow> current s' k' = current s k'"
    and activate_has: "activate t s k v = Inr s' \<Longrightarrow> has s' k' w \<longleftrightarrow> has s k' w"
    and activate_current: "activate t s k v = Inr s' \<Longrightarrow> current s' k' = (if k' = k then Some v else current s k')"
begin

lemma activate_consistent:
  "activate t s k v = Inr s' \<Longrightarrow> has s k v \<Longrightarrow> (\<And>k v. current s k = Some v \<Longrightarrow> has s k v) \<Longrightarrow>
   current s' k' = Some w \<Longrightarrow> has s' k' w"
  by (auto simp: activate_has activate_current split: if_splits)

lemma insert_consistent:
  "insert_at x s k v = Inr s' \<Longrightarrow> (\<And>k v. current s k = Some v \<Longrightarrow> has s k v) \<Longrightarrow>
   current s' k' = Some w \<Longrightarrow> has s' k' w"
  by (auto simp: insert_has insert_current)

lemma insert_contiguous:
  "insert_at x s k v = Inr s' \<Longrightarrow> v = 1 \<or> (1 < v \<and> has s k (v - 1)) \<Longrightarrow>
   (\<And>k v. has s k v \<Longrightarrow> v = 1 \<or> (1 < v \<and> has s k (v - 1))) \<Longrightarrow>
   has s' k' w \<Longrightarrow> w = 1 \<or> (1 < w \<and> has s' k' (w - 1))"
  by (auto simp: insert_has)

lemma new_version_current:
  "insert_at x s k v = Inr s1 \<Longrightarrow> activate t s1 k v = Inr s2 \<Longrightarrow>
   \<not> has s k v \<and> has s2 k v \<and> current s2 k = Some v"
  by (auto simp: insert_fresh insert_has activate_has activate_current)

end

definition config_current :: "db \<Rightarrow> uuid \<Rightarrow> int option" where
  "config_current d c = Option.bind (get_model d c False) row_current_version"

definition insert_version_at :: "version_row \<Rightarrow> db \<Rightarrow> uuid \<Rightarrow> int \<Rightarrow> exn + db" where
  "insert_version_at x d c v = insert_version d (v_id x) (v_created_at x) c v (v_port x) (v_private_key x)
     (v_public_key x) (v_cert_fingerprint x) (v_config_data x)"

lemma insert_version_row_Inr: "insert_version_row d v = Inr d' \<longleftrightarrow>
  \<not> list_ex (\<lambda>w. v_id w = v_id v) (versions d) \<and> \<not> has_version d (v_config_id v) (v_version v)
  \<and> config_exists d (v_config_id v) \<and> d' = d\<lparr>versions := versions d @ [v]\<rparr>"
  by (auto simp: insert_version_row_def)

lemma mark_active_Inr: "mark_active d c v now = Inr d' \<longleftrightarrow> get_model d c False \<noteq> None
  \<and> d' = upd_config c (\<lambda>r. r\<lparr>row_status := ACTIVE, row_current_version := Some v, row_error_message := None,
        row_updated_at := now\<rparr>) d"
  by (auto simp: mark_active_def config_not_found_def split: option.splits)

interpretation version_table: version_store has_version config_current insert_version_at
  "\<lambda>now d c v. mark_active d c v now"
proof
  fix x d c v d' c' w and t :: int
  let ?f = "\<lambda>r. r\<lparr>row_status := ACTIVE, row_current_version := Some v, row_error_message := None, row_updated_at := t\<rparr>"
  show "insert_version_at x d c v = Inr d' \<Longrightarrow> \<not> has_version d c v"
    by (simp add: insert_version_at_def insert_version_def insert_version_row_Inr)
  show "insert_version_at x d c v = Inr d' \<Longrightarrow> has_version d' c' w \<longleftrightarrow> has_version d c' w \<or> (c' = c \<and> w = v)"
    by (auto simp: insert_version_at_def insert_version_def insert_version_row_Inr has_version_iff)
  show "insert_version_at x d c v = Inr d' \<Longrightarrow> config_current d' c' = config_current d c'"
    by (auto simp: insert_version_at_def insert_version_def insert_version_row_Inr config_current_def get_model_def)
  show "mark_active d c v t = Inr d' \<Longrightarrow> has_version d' c' w \<longleftrightarrow> has_version d c' w"
    by (auto simp: mark_active_Inr)
  have k: "keeps_identity ?f" by (simp add: keeps_identity_def)
  show "mark_active d c v t = Inr d' \<Longrightarrow> config_current d' c' = (if c' = c then Some v else config_current d c')"
    by (cases "get_model d c' False")
      (auto simp: mark_active_Inr config_current_def get_model_upd [OF k] dest: get_model_id split: option.splits)
qed

section \<open>The invariant of the store\<close>

definition store_ok :: "db \<Rightarrow> bool" where
  "store_ok d \<longleftrightarrow>
     distinct (map row_id (configs d)) \<and> distinct (map v_id (versions d))
     \<and> distinct (map (\<lambda>v. (v_config_id v, v_version v)) (versions d))
     \<and> (\<forall>v\<in>set (versions d). config_exists d (v_config_id v))
     \<and> (\<forall>c v. config_current d c = Some v \<longrightarrow> has_version d c v)
     \<and> (\<forall>c v. has_version d c v \<longrightarrow> v = 1 \<or> (1 < v \<and> has_version d c (v - 1)))
     \<and> (\<forall>r\<in>set (configs d). row_status r = ACTIVE \<longrightarrow> row_current_version r \<noteq> None)"

lemma store_okD:
  assumes "store_ok d"
  shows "distinct (map row_id (configs d))"
    and "config_current d c = Some v \<Longrightarrow> has_version d c v"
    and "has_version d c v \<Longrightarrow> v = 1 \<or> (1 < v \<and> has_version d c (v - 1))"
    and "r \<in> set (configs d) \<Longrightarrow> row_status r = ACTIVE \<Longrightarrow> row_current_version r \<noteq> None"
  using assms by (auto simp: store_ok_def)

lemma store_ok_empty: "store_ok empty_db"
  by (simp add: store_ok_def empty_db_def has_version_iff config_current_def get_model_def find_row_def)

lemma get_model_upd_any:
  assumes "\<And>r. row_id (f r) = row_id r"
  shows "get_model (upd_config c f d) c' False = map_option (\<lambda>r. if row_id r = c then f r else r) (get_model d c' False)"
  using assms unfolding get_model_def upd_config_def upd_rows_def by (simp add: find_row_map)

lemma config_exists_upd: "(\<And>r. row_id (f r) = row_id r) \<Longrightarrow> config_exists (upd_config c f d) c' = config_exists d c'"
  by (simp add: config_exists_iff get_model_upd_any)

lemma upd_config_rows: "r \<in> set (configs (upd_config c f d)) \<Longrightarrow> \<exists>q\<in>set (configs d). r = (if row_id q = c then f q else q)"
  by (auto simp: upd_config_def upd_rows_def)

text \<open>Updates that leave the id and the current version alone, and make nothing active.\<close>

lemma store_ok_upd:
  assumes "store_ok d" and f: "\<And>r. row_id (f r) = row_id r"
    "\<And>r. row_current_version (f r) = row_current_version r"
    "\<And>r. row_status (f r) = ACTIVE \<Longrightarrow> row_status r = ACTIVE"
  shows "store_ok (upd_config c f d)"
proof -
  have "config_current (upd_config c f d) c' = config_current d c'" for c'
    using f(2) by (cases "get_model d c' False") (auto simp: config_current_def get_model_upd_any f(1))
  moreover have "map row_id (configs (upd_config c f d)) = map row_id (configs d)"
    by (simp add: upd_config_def upd_rows_def f(1))
  moreover have "row_status r = ACTIVE \<Longrightarrow> row_current_version r \<noteq> None" if "r \<in> set (configs (upd_config c f d))" for r
  proof -
    obtain q where q: "q \<in> set (configs d)" "r = (if row_id q = c then f q else q)"
      using upd_config_rows [OF \<open>r \<in> set (configs (upd_config c f d))\<close>] by blast
    assume "row_status r = ACTIVE"
    then have "row_status q = ACTIVE" using q(2) f(3) by (auto split: if_splits)
    then have "row_current_version q \<noteq> None" using assms(1) q(1) by (auto simp: store_ok_def)
    then show "row_current_version r \<noteq> None" using q(2) f(2) by auto
  qed
  ultimately show ?thesis
    using assms(1) by (simp add: store_ok_def config_exists_upd f(1))
qed

lemma store_ok_soft_delete: "store_ok d \<Longrightarrow> store_ok (fst (soft_delete d c u now))"
  by (auto simp: soft_delete_def intro!: store_ok_upd split: option.splits)

lemma store_ok_set_last_task_id: "store_ok d \<Longrightarrow> set_last_task_id d c t now = Inr d' \<Longrightarrow> store_ok d'"
  by (auto simp: set_last_task_id_def config_not_found_def intro!: store_ok_upd split: option.splits)

lemma store_ok_mark_processing: "store_ok d \<Longrightarrow> mark_processing d c now = Inr d' \<Longrightarrow> store_ok d'"
  by (auto simp: mark_processing_def config_not_found_def intro!: store_ok_upd split: option.splits)

lemma store_ok_mark_failed: "store_ok d \<Longrightarrow> mark_failed d c m now = Inr d' \<Longrightarrow> store_ok d'"
  by (auto simp: mark_failed_def config_not_found_def intro!: store_ok_upd split: option.splits)

lemma store_ok_prepare_regenerate: "store_ok d \<Longrightarrow> prepare_regenerate d c u now = Inr d' \<Longrightarrow> store_ok d'"
  by (auto simp: prepare_regenerate_def config_not_found_def Let_def bindR_eq_Inr intro!: store_ok_upd
      split: option.splits if_splits)

lemma store_ok_update_policy: "store_ok d \<Longrightarrow> update_regenerate_policy d c p u now = Inr (d', e) \<Longrightarrow> store_ok d'"
  by (auto simp: update_regenerate_policy_def config_not_found_def Let_def bindR_eq_Inr intro!: store_ok_upd
      split: option.splits if_splits)

lemma store_ok_mark_active:
  assumes ok: "store_ok d" and run: "mark_active d c v now = Inr d'" and has: "has_version d c v"
  shows "store_ok d'"
proof -
  let ?f = "\<lambda>r. r\<lparr>row_status := ACTIVE, row_current_version := Some v, row_error_message := None, row_updated_at := now\<rparr>"
  have d': "d' = upd_config c ?f d" using run by (simp add: mark_active_Inr)
  have cur: "config_current d' c' = Some w \<Longrightarrow> has_version d' c' w" for c' w
    using version_table.activate_consistent [OF run has] store_okD(2) [OF ok] by blast
  have ids: "map row_id (configs d') = map row_id (configs d)"
    by (simp add: d' upd_config_def upd_rows_def)
  have act: "row_current_version r \<noteq> None" if r: "r \<in> set (configs d')" "row_status r = ACTIVE" for r
  proof -
    obtain q where "q \<in> set (configs d)" "r = (if row_id q = c then ?f q else q)"
      using upd_config_rows [of r c ?f d] r(1) d' by blast
    then show ?thesis using r(2) store_okD(4) [OF ok, of q] by (auto split: if_splits)
  qed
  have ex: "config_exists d' c' = config_exists d c'" for c' by (simp add: d' config_exists_upd)
  show ?thesis
    using ok cur ids act ex by (simp add: store_ok_def d')
qed

lemma store_ok_insert_version:
  assumes ok: "store_ok d" and run: "insert_version_row d x = Inr d'"
    and seq: "v_version x = 1 \<or> (1 < v_version x \<and> has_version d (v_config_id x) (v_version x - 1))"
  shows "store_ok d'"
proof -
  have d': "d' = d\<lparr>versions := versions d @ [x]\<rparr>" "\<not> has_version d (v_config_id x) (v_version x)"
    "config_exists d (v_config_id x)" "\<not> list_ex (\<lambda>w. v_id w = v_id x) (versions d)"
    using run by (auto simp: insert_version_row_Inr)
  have run': "insert_version_at x d (v_config_id x) (v_version x) = Inr d'"
    using run by (cases x) (simp add: insert_version_at_def insert_version_def)
  have same: "config_current d' c = config_current d c" "config_exists d' c = config_exists d c" for c
    by (simp_all add: d'(1) config_current_def config_exists_def get_model_def)
  have "has_version d' c v \<Longrightarrow> v = 1 \<or> (1 < v \<and> has_version d' c (v - 1))" for c v
    using version_table.insert_contiguous [OF run' seq] store_okD(3) [OF ok] by blast
  moreover have "config_current d' c = Some v \<Longrightarrow> has_version d' c v" for c v
    using version_table.insert_consistent [OF run'] store_okD(2) [OF ok] by blast
  moreover have "distinct (map (\<lambda>v. (v_config_id v, v_version v)) (versions d'))"
    using ok d'(2) by (auto simp: store_ok_def d'(1) has_version_iff)
  moreover have "distinct (map v_id (versions d'))"
    using ok d'(4) by (auto simp: store_ok_def d'(1) list_ex_iff)
  ultimately show ?thesis
    using ok d'(3) same by (auto simp: store_ok_def d'(1))
qed

lemma store_ok_create_pending:
  assumes ok: "store_ok d" and run: "create_pending d i now n p prof u pol h = Inr (d', e)"
  shows "store_ok d' \<and> \<not> config_exists d i \<and> cfg_id e = i \<and> cfg_current_version e = None"
proof -
  obtain r where r: "d' = d\<lparr>configs := configs d @ [r]\<rparr>" "row_id r = i" "\<not> config_exists d i"
    "row_status r = PENDING" "row_current_version r = None" "config_to_entity r None = Inr e"
    using run by (auto simp: create_pending_def Let_def bindR_eq_Inr insert_config_def split: if_splits)
  have gm: "get_model d' c False = (case get_model d c False of None \<Rightarrow> (if c = i then Some r else None) | Some q \<Rightarrow> Some q)" for c
    using r(2) by (auto simp: r(1) get_model_def find_row_append find_row_single split: option.splits)
  have cur: "config_current d' c = config_current d c" for c
    using r(5) by (auto simp: config_current_def gm split: option.splits)
  have has: "has_version d' = has_version d" by (intro ext) (simp add: r(1) has_version_iff)
  have ex: "config_exists d c \<Longrightarrow> config_exists d' c" for c
    by (auto simp: r(1) config_exists_def)
  have "distinct (map row_id (configs d'))"
    using ok r(2,3) by (auto simp: store_ok_def r(1) config_exists_ids)
  then have "store_ok d'"
    using ok ex r(4) by (auto simp: store_ok_def cur has) (auto simp: r(1))
  with r(2,3,5,6) show ?thesis
    by (auto simp: config_to_entity_def bindR_eq_Inr)
qed

lemma store_ok_update_version:
  assumes ok: "store_ok d" and run: "update_version_config_data d c v cd port u now = Inr d'"
  shows "store_ok d'"
proof -
  let ?g = "\<lambda>x. x\<lparr>v_config_data := cd, v_port := port\<rparr>"
  let ?d1 = "d\<lparr>versions := upd_rows (\<lambda>x. v_config_id x = c \<and> v_version x = v) ?g (versions d)\<rparr>"
  have m: "map h (versions ?d1) = map h (versions d)" if "\<And>x. h (?g x) = h x" for h :: "version_row \<Rightarrow> 'b"
    using that by (simp add: upd_rows_def)
  have key: "has_version e c v \<longleftrightarrow> (c, v) \<in> set (map (\<lambda>x. (v_config_id x, v_version x)) (versions e))" for e c v
    by (auto simp: has_version_iff)
  have has: "has_version ?d1 = has_version d"
    by (intro ext) (unfold key, subst m, simp_all)
  define d1 where "d1 = ?d1"
  have ids: "map v_id (versions d1) = map v_id (versions d)"
    "map (\<lambda>x. (v_config_id x, v_version x)) (versions d1) = map (\<lambda>x. (v_config_id x, v_version x)) (versions d)"
    "map v_config_id (versions d1) = map v_config_id (versions d)"
    unfolding d1_def by (rule m, simp)+
  have same: "configs d1 = configs d" by (simp add: d1_def)
  have "\<forall>x\<in>set (versions d1). config_exists d (v_config_id x)"
    using ok arg_cong [OF ids(3), of set] unfolding store_ok_def by (metis (mono_tags, lifting) image_iff list.set_map)
  then have "store_ok d1"
    using ok ids(1,2) has [folded d1_def]
    by (simp add: store_ok_def config_current_def get_model_def config_exists_def same)
  then have "store_ok ?d1" by (simp add: d1_def)
  then show ?thesis
    using run by (auto simp: update_version_config_data_def config_not_found_def intro!: store_ok_upd split: option.splits)
qed

end
