(* ===== verification/Audit_Log.thy ===== *)
theory Audit_Log
  imports Store
begin

text \<open>
  \<open>panel/infrastructure/audit/sanitizer.py\<close> and \<open>panel/application/audit_service.py\<close>:
  what is written to the audit log, and that no secret reaches it.
\<close>

section \<open>The sanitizer\<close>

definition redacted :: json where
  "redacted = JStr ''[REDACTED]''"

definition sensitive_keys :: "string list" where
  "sensitive_keys = [''password'', ''private_key'', ''secret'', ''api_key'', ''secret_key'', ''encryption_key'',
     ''access_token'', ''authorization'', ''raw_token'', ''cert_pem'', ''key_pem'']"

definition is_sensitive_key :: "string \<Rightarrow> bool" where
  "is_sensitive_key key = (let l = lower key in
     l \<in> set sensitive_keys \<or> l = ''token'' \<or> (endswith l ''_token'' \<and> l \<noteq> ''token_hash''))"

fun sanitize :: "json \<Rightarrow> json"
  and sanitize_list :: "json list \<Rightarrow> json list"
  and sanitize_items :: "(string \<times> json) list \<Rightarrow> (string \<times> json) list" where
  "sanitize (JDict d) = JDict (sanitize_items d)"
| "sanitize (JList xs) = JList (sanitize_list xs)"
| "sanitize JNull = JNull"
| "sanitize (JBool b) = JBool b"
| "sanitize (JInt i) = JInt i"
| "sanitize (JStr s) = JStr s"
| "sanitize_list [] = []"
| "sanitize_list (x # xs) = sanitize x # sanitize_list xs"
| "sanitize_items [] = []"
| "sanitize_items ((k, v) # d) = (k, if is_sensitive_key k then redacted else sanitize v) # sanitize_items d"

text \<open>No secret at any depth: below a sensitive key there is only the redaction mark.\<close>

fun clean :: "json \<Rightarrow> bool"
  and clean_list :: "json list \<Rightarrow> bool"
  and clean_items :: "(string \<times> json) list \<Rightarrow> bool" where
  "clean (JDict d) = clean_items d"
| "clean (JList xs) = clean_list xs"
| "clean JNull = True"
| "clean (JBool b) = True"
| "clean (JInt i) = True"
| "clean (JStr s) = True"
| "clean_list [] = True"
| "clean_list (x # xs) = (clean x \<and> clean_list xs)"
| "clean_items [] = True"
| "clean_items ((k, v) # d) = ((if is_sensitive_key k then v = redacted else clean v) \<and> clean_items d)"

lemma clean_sanitize: "clean (sanitize v)" "clean_list (sanitize_list xs)" "clean_items (sanitize_items d)"
  by (induction v and xs and d rule: sanitize_sanitize_list_sanitize_items.induct) auto

lemma sanitize_clean:
  "clean v \<Longrightarrow> sanitize v = v" "clean_list xs \<Longrightarrow> sanitize_list xs = xs" "clean_items d \<Longrightarrow> sanitize_items d = d"
  by (induction v and xs and d rule: sanitize_sanitize_list_sanitize_items.induct) (auto split: if_splits)

text \<open>
  C26. Sanitizing a payload leaves no value under a sensitive key at any depth, and changes nothing
  in a payload that has none, so sanitizing twice is sanitizing once.
\<close>

theorem sanitize_redacts:
  "clean (sanitize v) \<and> sanitize (sanitize v) = sanitize v \<and> (sanitize v = v) = clean v"
  using clean_sanitize(1) [of v] sanitize_clean(1) by metis

section \<open>The service\<close>

text \<open>The id and the time of the row are arguments.\<close>

definition audit_log :: "panel_settings \<Rightarrow> uuid \<Rightarrow> int \<Rightarrow> string \<Rightarrow> json \<Rightarrow> uuid option \<Rightarrow> db \<Rightarrow> db" where
  "audit_log st new_id now event payload u d =
     (if audit_enabled st then audit_insert d new_id now event (sanitize payload) u else d)"

definition audit_failed_login :: "panel_settings \<Rightarrow> uuid \<Rightarrow> int \<Rightarrow> string \<Rightarrow> string \<Rightarrow> db \<Rightarrow> db" where
  "audit_failed_login st new_id now name ip d =
     (if \<not> audit_enabled st \<or> \<not> audit_log_failed_login st then d
      else audit_log st new_id now ''auth.login.failed''
             (JDict [(''ip'', JStr ip), (''username_attempt'', JStr name)]) None d)"

definition audit_clean :: "db \<Rightarrow> bool" where
  "audit_clean d \<longleftrightarrow> (\<forall>a\<in>set (audit_logs d). clean (a_payload a))"

lemma audit_log_tables [simp]:
  "users (audit_log st i t e p u d) = users d" "configs (audit_log st i t e p u d) = configs d"
  "versions (audit_log st i t e p u d) = versions d" "shares (audit_log st i t e p u d) = shares d"
  "rate_entries (audit_log st i t e p u d) = rate_entries d"
  by (simp_all add: audit_log_def audit_insert_def)

lemma audit_log_clean: "audit_clean d \<Longrightarrow> audit_clean (audit_log st i t e p u d)"
  by (simp add: audit_clean_def audit_log_def audit_insert_def clean_sanitize(1))

lemma audit_failed_login_tables [simp]:
  "users (audit_failed_login st i t n ip d) = users d" "configs (audit_failed_login st i t n ip d) = configs d"
  "versions (audit_failed_login st i t n ip d) = versions d" "shares (audit_failed_login st i t n ip d) = shares d"
  "rate_entries (audit_failed_login st i t n ip d) = rate_entries d"
  by (simp_all add: audit_failed_login_def)

lemma audit_failed_login_clean: "audit_clean d \<Longrightarrow> audit_clean (audit_failed_login st i t n ip d)"
  by (simp add: audit_failed_login_def audit_log_clean)

lemma store_ok_cong:
  "configs d' = configs d \<Longrightarrow> versions d' = versions d \<Longrightarrow> store_ok d' = store_ok d"
  by (simp add: store_ok_def config_exists_def config_current_def get_model_def has_version_def)

lemma store_ok_audit [simp]: "store_ok (audit_log st i t e p u d) = store_ok d"
  by (rule store_ok_cong) simp_all

end
