(* ===== verification/Rate_Limit.thy ===== *)
theory Rate_Limit
  imports Audit_Log
begin

text \<open>
  \<open>repositories/rate_limit.py\<close> under \<open>panel/infrastructure/persistence\<close>: a counter per
  key and fixed time window, and which requests of any sequence it lets through.
\<close>

section \<open>The limiter\<close>

definition window_start :: "int \<Rightarrow> int \<Rightarrow> int" where
  "window_start window now = now div window * window"

definition rate_key :: "string \<Rightarrow> string \<Rightarrow> string" where
  "rate_key scope identifier = scope @ '':'' @ identifier"

text \<open>The upsert: insert a count of one, or add one to the row of the same primary key.\<close>

definition rate_count :: "db \<Rightarrow> string \<times> int \<Rightarrow> int" where
  "rate_count d k = the_or 0 (map_of (rate_entries d) k)"

definition rate_upsert :: "string \<times> int \<Rightarrow> db \<Rightarrow> db \<times> int" where
  "rate_upsert k d = (let n = rate_count d k + 1 in (d\<lparr>rate_entries := dict_set k n (rate_entries d)\<rparr>, n))"

definition check_and_increment :: "string \<Rightarrow> string \<Rightarrow> int \<Rightarrow> int \<Rightarrow> int \<Rightarrow> db \<Rightarrow> db \<times> (exn + unit)" where
  "check_and_increment scope identifier limit window now d =
     (let (d', count) = rate_upsert (rate_key scope identifier, window_start window now) d
      in (d', if count > limit then raise RateLimitExceeded '''' else Inr ()))"

definition current_count :: "string \<Rightarrow> string \<Rightarrow> int \<Rightarrow> int \<Rightarrow> db \<Rightarrow> int" where
  "current_count scope identifier window now d =
     the_or 0 (map_of (rate_entries d) (rate_key scope identifier, window_start window now))"

text \<open>\<open>rule.max_attempts or 5\<close>.\<close>

definition limit_or :: "int option \<Rightarrow> int \<Rightarrow> int" where
  "limit_or l dflt = (case l of None \<Rightarrow> dflt | Some n \<Rightarrow> if n = 0 then dflt else n)"

section \<open>Counters\<close>

locale counter_table =
  fixes count_of :: "'s \<Rightarrow> 'k \<Rightarrow> int"
    and bump :: "'k \<Rightarrow> 's \<Rightarrow> 's \<times> int"
  assumes bump_count: "count_of (fst (bump k s)) k' = count_of s k' + (if k' = k then 1 else 0)"
    and bump_result: "snd (bump k s) = count_of s k + 1"
begin

fun bump_all :: "'k list \<Rightarrow> 's \<Rightarrow> 's" where
  "bump_all [] s = s"
| "bump_all (k # ks) s = bump_all ks (fst (bump k s))"

lemma bump_all_count: "count_of (bump_all ks s) k = count_of s k + int (length (filter (\<lambda>k'. k' = k) ks))"
  by (induction ks s rule: bump_all.induct) (auto simp: bump_count)

lemma bump_after: "snd (bump k (bump_all ks s)) = count_of s k + int (length (filter (\<lambda>k'. k' = k) ks)) + 1"
  by (simp add: bump_result bump_all_count)

end

interpretation rate_counter: counter_table rate_count rate_upsert
  by unfold_locales (auto simp: rate_count_def rate_upsert_def Let_def)

section \<open>Sequences of requests\<close>

text \<open>A request of one scope: who asks, and when.\<close>

type_synonym request = "string \<times> int"

fun run_requests :: "string \<Rightarrow> int \<Rightarrow> int \<Rightarrow> db \<Rightarrow> request list \<Rightarrow> bool list" where
  "run_requests scope limit window d [] = []"
| "run_requests scope limit window d ((who, now) # rs) =
     (let (d', res) = check_and_increment scope who limit window now d
      in (\<not> isl res) # run_requests scope limit window d' rs)"

definition bucket :: "string \<Rightarrow> int \<Rightarrow> request \<Rightarrow> string \<times> int" where
  "bucket scope window r = (rate_key scope (fst r), window_start window (snd r))"

lemma run_requests_nth:
  "i < length rs \<Longrightarrow> run_requests scope limit window d rs ! i \<longleftrightarrow>
     snd (rate_upsert (bucket scope window (rs ! i))
       (rate_counter.bump_all (map (bucket scope window) (take i rs)) d)) \<le> limit"
proof (induction rs arbitrary: i d)
  case (Cons r rs)
  obtain who now where r: "r = (who, now)" by (cases r)
  have step: "run_requests scope limit window d (r # rs) =
      (snd (rate_upsert (bucket scope window r) d) \<le> limit)
        # run_requests scope limit window (fst (rate_upsert (bucket scope window r) d)) rs"
    by (simp add: r check_and_increment_def bucket_def rate_upsert_def Let_def)
  show ?case
  proof (cases i)
    case 0
    then show ?thesis by (simp add: step)
  next
    case (Suc j)
    with Cons.prems have "j < length rs" by simp
    then show ?thesis by (simp add: step Suc Cons.IH)
  qed
qed simp

text \<open>
  C19. For any sequence of requests, in any order of times and clients, a request is let through
  exactly when fewer than the limit of requests with the same client and the same window came before
  it: each client gets the first \<open>limit\<close> requests of each window and no other.
\<close>

theorem rate_limit_exact:
  assumes "i < length rs"
  shows "run_requests scope limit window d rs ! i \<longleftrightarrow>
    rate_count d (bucket scope window (rs ! i))
      + int (length (filter (\<lambda>r. bucket scope window r = bucket scope window (rs ! i)) (take i rs))) < limit"
  using run_requests_nth [OF assms, of scope limit window d]
    rate_counter.bump_after [of "bucket scope window (rs ! i)" "map (bucket scope window) (take i rs)" d]
  by (simp add: filter_map comp_def) linarith

theorem rate_limit_exact_witness:
  "run_requests ''login'' 2 60 empty_db [(''ip:a'', 0), (''ip:b'', 1), (''ip:a'', 5), (''ip:a'', 59), (''ip:a'', 60)] ! 3 \<longleftrightarrow>
     rate_count empty_db (bucket ''login'' 60 (''ip:a'', 59)) + 2 < 2"
  using rate_limit_exact [of 3 "[(''ip:a'', 0), (''ip:b'', 1), (''ip:a'', 5), (''ip:a'', 59), (''ip:a'', 60)]" "''login''" 2 60 empty_db]
  by (simp add: bucket_def rate_key_def window_start_def)

lemma check_and_increment_tables [simp]:
  "users (fst (check_and_increment s i l w t d)) = users d"
  "configs (fst (check_and_increment s i l w t d)) = configs d"
  "versions (fst (check_and_increment s i l w t d)) = versions d"
  "shares (fst (check_and_increment s i l w t d)) = shares d"
  "audit_logs (fst (check_and_increment s i l w t d)) = audit_logs d"
  by (simp_all add: check_and_increment_def rate_upsert_def Let_def)

end
