(* ===== verification/Sha256.thy ===== *)
theory Sha256
  imports Py_Text
begin

text \<open>
  \<open>hashlib.sha256(...).hexdigest()\<close> and \<open>str.encode("utf-8")\<close> of the standard
  library (the encoding is in \<open>Py_Text\<close>), which \<open>panel/infrastructure/security/share_token.py\<close> uses: FIPS 180-4 on
  32-bit words.
\<close>

unbundle bit_operations_syntax

definition rotr :: "nat \<Rightarrow> 32 word \<Rightarrow> 32 word" where
  "rotr n x = word_rotr n x"

definition shr :: "nat \<Rightarrow> 32 word \<Rightarrow> 32 word" where
  "shr n x = drop_bit n x"

text \<open>
  The constants are the first 32 bits of the fractional parts of the cube roots of the first 64
  primes, and of the square roots of the first 8.
\<close>

fun int_root :: "nat \<Rightarrow> nat \<Rightarrow> nat \<Rightarrow> nat \<Rightarrow> nat" where
  "int_root e 0 acc n = acc"
| "int_root e (Suc b) acc n = int_root e b (if (acc + 2 ^ b) ^ e \<le> n then acc + 2 ^ b else acc) n"

fun primes_from :: "nat \<Rightarrow> nat \<Rightarrow> nat list \<Rightarrow> nat list" where
  "primes_from 0 p ps = ps"
| "primes_from (Suc k) p ps = primes_from k (Suc p) (if list_all (\<lambda>q. p mod q \<noteq> 0) ps then ps @ [p] else ps)"

definition root_fraction :: "nat \<Rightarrow> nat \<Rightarrow> 32 word" where
  "root_fraction e p = of_nat (int_root e 36 0 (p * 2 ^ (32 * e)))"

definition sha_k :: "32 word list" where
  "sha_k = map (root_fraction 3) (primes_from 310 2 [])"

definition sha_init :: "32 word list" where
  "sha_init = map (root_fraction 2) [2, 3, 5, 7, 11, 13, 17, 19]"

text \<open>The message schedule, newest word first: 48 words are added to the 16 of the block.\<close>

fun sha_schedule :: "nat \<Rightarrow> 32 word list \<Rightarrow> 32 word list" where
  "sha_schedule 0 w = w"
| "sha_schedule (Suc n) w = (let w15 = w ! 14; w2 = w ! 1;
     s0 = rotr 7 w15 XOR rotr 18 w15 XOR shr 3 w15; s1 = rotr 17 w2 XOR rotr 19 w2 XOR shr 10 w2
   in sha_schedule n ((w ! 15 + s0 + w ! 6 + s1) # w))"

fun sha_round :: "32 word \<Rightarrow> 32 word list \<Rightarrow> 32 word list" where
  "sha_round kw [a, b, c, d, e, f, g, h] =
     (let t1 = h + (rotr 6 e XOR rotr 11 e XOR rotr 25 e) + ((e AND f) XOR (NOT e AND g)) + kw;
          t2 = (rotr 2 a XOR rotr 13 a XOR rotr 22 a) + ((a AND b) XOR (a AND c) XOR (b AND c))
      in [t1 + t2, a, b, c, d + t1, e, f, g])"
| "sha_round kw s = s"

fun sha_rounds :: "32 word list \<Rightarrow> 32 word list \<Rightarrow> 32 word list" where
  "sha_rounds [] s = s"
| "sha_rounds (kw # kws) s = sha_rounds kws (sha_round kw s)"

definition sha_block :: "32 word list \<Rightarrow> 32 word list \<Rightarrow> 32 word list" where
  "sha_block state block =
     map2 (+) state (sha_rounds (map2 (+) sha_k (rev (sha_schedule 48 (rev block)))) state)"

fun be_bytes :: "nat \<Rightarrow> nat \<Rightarrow> nat list" where
  "be_bytes 0 n = []"
| "be_bytes (Suc k) n = be_bytes k (n div 256) @ [n mod 256]"

fun be_words :: "nat list \<Rightarrow> 32 word list" where
  "be_words (a # b # c # d # bs) = of_nat (((a * 256 + b) * 256 + c) * 256 + d) # be_words bs"
| "be_words _ = []"

definition sha_pad :: "nat list \<Rightarrow> nat list" where
  "sha_pad m = m @ 128 # replicate ((119 - length m mod 64) mod 64) 0 @ be_bytes 8 (8 * length m)"

function sha_blocks :: "32 word list \<Rightarrow> 32 word list \<Rightarrow> 32 word list" where
  "sha_blocks state ws = (if length ws < 16 then state
     else sha_blocks (sha_block state (take 16 ws)) (drop 16 ws))"
  by auto
termination by (relation "measure (\<lambda>(s, ws). length ws)") auto

declare sha_blocks.simps [simp del]

definition sha256 :: "nat list \<Rightarrow> 32 word list" where
  "sha256 m = sha_blocks sha_init (be_words (sha_pad m))"

definition hexdigest :: "32 word list \<Rightarrow> string" where
  "hexdigest ws = concat (map (\<lambda>w. hex_digits 8 (unat w)) ws)"

definition sha256_hex :: "string \<Rightarrow> string" where
  "sha256_hex s = hexdigest (sha256 (concat (map utf8 s)))"

text \<open>A digest is 64 hexadecimal digits: eight words at every stage.\<close>

lemma length_sha_schedule: "length (sha_schedule n w) = n + length w"
  by (induction n w rule: sha_schedule.induct) (auto simp: Let_def)

lemma length_sha_round [simp]: "length (sha_round kw s) = length s"
  by (induction kw s rule: sha_round.induct) (simp_all add: Let_def)

lemma length_sha_rounds [simp]: "length (sha_rounds kws s) = length s"
  by (induction kws s rule: sha_rounds.induct) auto

lemma length_sha_block: "length (sha_block s b) = length s"
  by (simp add: sha_block_def)

lemma length_sha_blocks: "length (sha_blocks s ws) = length s"
proof (induction s ws rule: sha_blocks.induct)
  case (1 s ws)
  then show ?case by (subst sha_blocks.simps) (simp add: length_sha_block)
qed

lemma length_sha256_hex: "length (sha256_hex s) = 64"
proof -
  have "length (concat (map (\<lambda>w. hex_digits 8 (unat w)) ws)) = 8 * length ws" for ws :: "32 word list"
    by (induction ws) auto
  then show ?thesis
    by (simp add: sha256_hex_def hexdigest_def sha256_def length_sha_blocks sha_init_def)
qed

lemma sha256_hex_chars: "c \<in> set (sha256_hex s) \<Longrightarrow> \<exists>d<16. c = digit_char d"
  by (auto simp: sha256_hex_def hexdigest_def dest: set_hex_digits)

end
