(* ===== verification/Http.thy ===== *)
theory Http
  imports Py_Json
begin

text \<open>
  Requests and responses as the routers under \<open>panel/api\<close> see them:
  \<open>api/deps.py\<close> and \<open>api/middleware/security_headers.py\<close>.
\<close>

section \<open>Requests\<close>

record http_request =
  forwarded_for :: "string option"
  client_host :: "string option"

definition get_client_ip :: "http_request \<Rightarrow> string" where
  "get_client_ip req =
     (case forwarded_for req of
        Some f \<Rightarrow> if f \<noteq> [] then strip (hd (split_on CHR '','' f)) else (case client_host req of None \<Rightarrow> ''unknown'' | Some h \<Rightarrow> h)
      | None \<Rightarrow> (case client_host req of None \<Rightarrow> ''unknown'' | Some h \<Rightarrow> h))"

section \<open>Responses\<close>

text \<open>An \<open>HTTPException\<close> with its status and detail, or the value the endpoint returns.\<close>

datatype 'a reply = Failed nat string | Reply 'a

text \<open>An exception no handler catches.\<close>

definition internal_error :: "'a reply" where
  "internal_error = Failed 500 ''Internal Server Error''"

text \<open>Header names compare without case in a response.\<close>

definition security_headers :: "(string \<times> string) list" where
  "security_headers = [(''X-Content-Type-Options'', ''nosniff''), (''X-Frame-Options'', ''DENY''),
     (''Referrer-Policy'', ''no-referrer''), (''X-XSS-Protection'', ''0'')]"

definition has_header :: "string \<Rightarrow> (string \<times> string) list \<Rightarrow> bool" where
  "has_header name headers = list_ex (\<lambda>h. lower (fst h) = lower name) headers"

fun add_headers :: "(string \<times> string) list \<Rightarrow> (string \<times> string) list \<Rightarrow> (string \<times> string) list" where
  "add_headers [] headers = headers"
| "add_headers ((name, val) # extra) headers =
     add_headers extra (if has_header name headers then headers else headers @ [(name, val)])"

definition security_headers_dispatch :: "bool \<Rightarrow> (string \<times> string) list \<Rightarrow> (string \<times> string) list" where
  "security_headers_dispatch enabled headers = (if enabled then add_headers security_headers headers else headers)"

lemma has_header_append [simp]: "has_header n (xs @ ys) \<longleftrightarrow> has_header n xs \<or> has_header n ys"
  by (auto simp: has_header_def)

lemma add_headers_has: "has_header n (add_headers extra headers) \<longleftrightarrow> has_header n extra \<or> has_header n headers"
  by (induction extra headers rule: add_headers.induct) (auto simp: has_header_def)

lemma add_headers_keeps: "\<exists>new. add_headers extra headers = headers @ new"
proof (induction extra headers rule: add_headers.induct)
  case (2 name val extra headers)
  then obtain new where "add_headers ((name, val) # extra) headers
      = (if has_header name headers then headers else headers @ [(name, val)]) @ new" by auto
  then show ?case by (cases "has_header name headers") auto
qed auto

end
