(* ===== verification/Share_Links.thy ===== *)
theory Share_Links
  imports Config_Builder Field_Crypto Rate_Limit Sha256 Http "HOL-Library.Product_Lexorder"
begin

text \<open>
  Share links: \<open>repositories/share_token.py\<close>, \<open>share_expiration.py\<close>,
  \<open>create_share_link.py\<close>, \<open>create_all_share_link.py\<close>, \<open>resolve_share.py\<close>,
  \<open>revoke_share_link.py\<close>, \<open>list_active_share_links.py\<close> and the endpoints of
  \<open>api/routers/share.py\<close>. A database operation that may raise returns the new database with
  its result, or the exception; where the caller commits after an exception, the database comes with
  the exception.
\<close>

section \<open>Tokens\<close>

definition generate_share_token :: "nat list \<Rightarrow> string" where
  "generate_share_token bytes = generate_token bytes"

definition hash_share_token :: "string \<Rightarrow> string" where
  "hash_share_token token = sha256_hex token"

section \<open>Expiration\<close>

text \<open>
  A \<open>datetime\<close> of a request: with a time zone, read as seconds of UTC, or without one. The
  last second of year 9999 is the largest time.
\<close>

datatype datetime = Aware int | Naive int

definition max_datetime :: int where
  "max_datetime = 253402300799"

definition datetime_le :: "datetime \<Rightarrow> int \<Rightarrow> exn + bool" where
  "datetime_le t now = (case t of Aware s \<Rightarrow> Inr (s \<le> now) | Naive s \<Rightarrow> raise TypeError '''')"

fun utc_seconds :: "datetime \<Rightarrow> int" where
  "utc_seconds (Aware s) = s"
| "utc_seconds (Naive s) = s"

definition add_seconds :: "int \<Rightarrow> int \<Rightarrow> exn + int" where
  "add_seconds now n = (if now + n \<le> max_datetime then Inr (now + n) else raise OverflowError '''')"

record share_expiration =
  exp_permanent :: bool
  exp_at :: "int option"

definition resolve_share_expiration ::
  "bool \<Rightarrow> datetime option \<Rightarrow> int option \<Rightarrow> int \<Rightarrow> exn + share_expiration" where
  "resolve_share_expiration is_permanent expires_at ttl_seconds now =
     (case ttl_seconds of
        Some ttl \<Rightarrow>
          if ttl \<le> 0 then raise InvalidShareRequest ''ttl_seconds must be positive''
          else if expires_at \<noteq> None
            then raise InvalidShareRequest ''Specify either ttl_seconds or expires_at, not both''
          else if is_permanent
            then raise InvalidShareRequest ''ttl_seconds cannot be used with is_permanent''
          else bindR (add_seconds now ttl) (\<lambda>t. Inr \<lparr>exp_permanent = False, exp_at = Some t\<rparr>)
      | None \<Rightarrow>
          if is_permanent then
            (if expires_at \<noteq> None
             then raise InvalidShareRequest ''expires_at cannot be used with is_permanent''
             else Inr \<lparr>exp_permanent = True, exp_at = None\<rparr>)
          else (case expires_at of
              None \<Rightarrow> raise InvalidShareRequest
                ''ttl_seconds or expires_at is required when is_permanent is false''
            | Some t \<Rightarrow> bindR (datetime_le t now) (\<lambda>past.
                if past then raise InvalidShareRequest ''expires_at must be in the future''
                else Inr \<lparr>exp_permanent = False, exp_at = Some (utc_seconds t)\<rparr>)))"

text \<open>\<open>datetime.isoformat()\<close> of a UTC time in whole seconds (proleptic Gregorian calendar).\<close>

definition pad :: "nat \<Rightarrow> int \<Rightarrow> string" where
  "pad w n = (let s = show_int n in replicate (w - length s) CHR ''0'' @ s)"

definition isoformat :: "int \<Rightarrow> string" where
  "isoformat t =
     (let z = t div 86400 + 719468; sec = t mod 86400; era = z div 146097; doe = z mod 146097;
          yoe = (doe - doe div 1460 + doe div 36524 - doe div 146096) div 365;
          doy = doe - (365 * yoe + yoe div 4 - yoe div 100); mp = (5 * doy + 2) div 153;
          day = doy - (153 * mp + 2) div 5 + 1; mon = (if mp < 10 then mp + 3 else mp - 9);
          year = yoe + era * 400 + (if mon \<le> 2 then 1 else 0)
      in pad 4 year @ ''-'' @ pad 2 mon @ ''-'' @ pad 2 day @ ''T'' @ pad 2 (sec div 3600) @ '':''
         @ pad 2 (sec mod 3600 div 60) @ '':'' @ pad 2 (sec mod 60) @ ''+00:00'')"

definition opt_time_json :: "int option \<Rightarrow> json" where
  "opt_time_json t = (case t of None \<Rightarrow> JNull | Some s \<Rightarrow> JStr (isoformat s))"

definition opt_int_json :: "int option \<Rightarrow> json" where
  "opt_int_json n = (case n of None \<Rightarrow> JNull | Some i \<Rightarrow> JInt i)"

section \<open>The token repository\<close>

definition share_create ::
  "db \<Rightarrow> uuid \<Rightarrow> int \<Rightarrow> string \<Rightarrow> uuid option \<Rightarrow> int option \<Rightarrow> bool \<Rightarrow> bool \<Rightarrow> int option \<Rightarrow> uuid \<Rightarrow> exn + db \<times> share_row" where
  "share_create d new_id now token_hash config_id config_version secure is_permanent expires_at created_by =
     (let r = \<lparr>s_id = new_id, s_token_hash = token_hash, s_config_id = config_id, s_config_version = config_version,
        s_secure = secure, s_is_permanent = is_permanent, s_expires_at = expires_at, s_revoked_at = None,
        s_created_by = created_by, s_created_at = now, s_last_accessed_at = None, s_access_count = 0\<rparr>
      in if list_ex (\<lambda>q. s_id q = new_id \<or> s_token_hash q = token_hash) (shares d)
            \<or> (case config_id of None \<Rightarrow> False | Some c \<Rightarrow> \<not> config_exists d c) \<or> \<not> user_exists d created_by
         then raise IntegrityError ''''
         else Inr (d\<lparr>shares := shares d @ [r]\<rparr>, r))"

definition get_by_token_hash :: "db \<Rightarrow> string \<Rightarrow> share_row option" where
  "get_by_token_hash d token_hash = find_row (\<lambda>r. s_token_hash r = token_hash) (shares d)"

definition revoke_where :: "(share_row \<Rightarrow> bool) \<Rightarrow> int \<Rightarrow> db \<Rightarrow> db \<times> bool" where
  "revoke_where P now d = (case find_row P (shares d) of
     None \<Rightarrow> (d, False)
   | Some r \<Rightarrow> if s_revoked_at r \<noteq> None then (d, False)
       else (d\<lparr>shares := upd_rows P (\<lambda>r. r\<lparr>s_revoked_at := Some now\<rparr>) (shares d)\<rparr>, True))"

definition revoke_by_token_hash :: "string \<Rightarrow> int \<Rightarrow> db \<Rightarrow> db \<times> bool" where
  "revoke_by_token_hash token_hash now d = revoke_where (\<lambda>r. s_token_hash r = token_hash) now d"

definition revoke_by_id :: "uuid \<Rightarrow> int \<Rightarrow> db \<Rightarrow> db \<times> bool" where
  "revoke_by_id link_id now d = revoke_where (\<lambda>r. s_id r = link_id) now d"

definition record_access :: "uuid \<Rightarrow> int \<Rightarrow> db \<Rightarrow> db" where
  "record_access token_id now d = d\<lparr>shares := upd_rows (\<lambda>r. s_id r = token_id)
     (\<lambda>r. r\<lparr>s_last_accessed_at := Some now, s_access_count := s_access_count r + 1\<rparr>) (shares d)\<rparr>"

record active_share_link =
  al_id :: uuid
  al_config_id :: "uuid option"
  al_config_name :: "string option"
  al_secure :: bool
  al_is_permanent :: bool
  al_expires_at :: "int option"
  al_username :: string
  al_created_at :: int
  al_last_accessed_at :: "int option"
  al_access_count :: int

definition unexpired :: "int \<Rightarrow> share_row \<Rightarrow> bool" where
  "unexpired now r = (s_is_permanent r \<or> (case s_expires_at r of None \<Rightarrow> False | Some t \<Rightarrow> t > now))"

definition list_active_links :: "db \<Rightarrow> int \<Rightarrow> uuid option \<Rightarrow> active_share_link list" where
  "list_active_links d now config_id =
     (let rows = filter (\<lambda>r. s_revoked_at r = None \<and> unexpired now r
         \<and> (config_id = None \<or> s_config_id r = config_id)) (shares d)
      in concat (map (\<lambda>r. case get_user_by_id d (s_created_by r) of
           None \<Rightarrow> []
         | Some u \<Rightarrow> [\<lparr>al_id = s_id r, al_config_id = s_config_id r,
             al_config_name = Option.bind (s_config_id r) (\<lambda>c. map_option row_name (get_model d c False)),
             al_secure = s_secure r, al_is_permanent = s_is_permanent r, al_expires_at = s_expires_at r,
             al_username = username u, al_created_at = s_created_at r,
             al_last_accessed_at = s_last_accessed_at r, al_access_count = s_access_count r\<rparr>])
         (sort_key (\<lambda>r. - s_created_at r) rows)))"

section \<open>Creating links\<close>

record share_link_result =
  sl_token :: string
  sl_url :: string
  sl_config_id :: "uuid option"
  sl_config_version :: "int option"
  sl_config_count :: "nat option"
  sl_secure :: bool
  sl_is_permanent :: bool
  sl_expires_at :: "int option"

definition share_url :: "string \<Rightarrow> string \<Rightarrow> string" where
  "share_url public_base_url raw_token = rstrip_char CHR ''/'' public_base_url @ ''/share/'' @ raw_token"

text \<open>What a request asks for; the ids, the bytes of the token and the time are drawn.\<close>

record share_request =
  rq_secure :: bool
  rq_is_permanent :: bool
  rq_expires_at :: "datetime option"
  rq_ttl_seconds :: "int option"

record share_draws =
  sd_link_id :: uuid
  sd_audit_id :: uuid
  sd_bytes :: "nat list"
  sd_now :: int

definition create_share_link ::
  "panel_settings \<Rightarrow> share_draws \<Rightarrow> uuid \<Rightarrow> user \<Rightarrow> share_request \<Rightarrow> string \<Rightarrow> db \<Rightarrow> exn + db \<times> share_link_result" where
  "create_share_link st dr config_id u rq public_base_url d =
     bindR (resolve_share_expiration (rq_is_permanent rq) (rq_expires_at rq) (rq_ttl_seconds rq) (sd_now dr)) (\<lambda>expiration.
     bindR (get_by_id d config_id True) (\<lambda>found.
     case found of
       None \<Rightarrow> raise ConfigNotFound ''''
     | Some config \<Rightarrow>
         if cfg_current_version config = None \<or> cfg_status config \<noteq> ACTIVE
         then raise ConfigNotShareable ''Config is not ready for sharing''
         else
           let raw_token = generate_share_token (sd_bytes dr); token_hash = hash_share_token raw_token in
           bindR (share_create d (sd_link_id dr) (sd_now dr) token_hash (Some config_id) (cfg_current_version config)
               (rq_secure rq) (exp_permanent expiration) (exp_at expiration) (user_id u)) (\<lambda>(d1, row).
           let d2 = audit_log st (sd_audit_id dr) (sd_now dr) ''share.created''
               (JDict [(''config_id'', JStr (uuid_str config_id)),
                       (''config_version'', opt_int_json (cfg_current_version config)),
                       (''secure'', JBool (rq_secure rq)), (''is_permanent'', JBool (exp_permanent expiration)),
                       (''expires_at'', opt_time_json (exp_at expiration)),
                       (''ttl_seconds'', opt_int_json (rq_ttl_seconds rq))]) (Some (user_id u)) d1 in
           Inr (d2, \<lparr>sl_token = raw_token, sl_url = share_url public_base_url raw_token,
             sl_config_id = Some config_id, sl_config_version = cfg_current_version config, sl_config_count = None,
             sl_secure = rq_secure rq, sl_is_permanent = exp_permanent expiration,
             sl_expires_at = exp_at expiration\<rparr>))))"

definition create_all_share_links ::
  "panel_settings \<Rightarrow> share_draws \<Rightarrow> user \<Rightarrow> share_request \<Rightarrow> string \<Rightarrow> db \<Rightarrow> exn + db \<times> share_link_result" where
  "create_all_share_links st dr u rq public_base_url d =
     bindR (resolve_share_expiration (rq_is_permanent rq) (rq_expires_at rq) (rq_ttl_seconds rq) (sd_now dr)) (\<lambda>expiration.
     let snapshots = list_current_version_snapshots d in
     if snapshots = [] then raise ConfigNotShareable ''No active configs available for sharing''
     else
       let raw_token = generate_share_token (sd_bytes dr); token_hash = hash_share_token raw_token in
       bindR (share_create d (sd_link_id dr) (sd_now dr) token_hash None None
           (rq_secure rq) (exp_permanent expiration) (exp_at expiration) (user_id u)) (\<lambda>(d1, row).
       let d2 = audit_log st (sd_audit_id dr) (sd_now dr) ''share.created''
           (JDict [(''all_configs'', JBool True), (''secure'', JBool (rq_secure rq)),
                   (''config_count'', JInt (int (length snapshots))),
                   (''is_permanent'', JBool (exp_permanent expiration)),
                   (''expires_at'', opt_time_json (exp_at expiration)),
                   (''ttl_seconds'', opt_int_json (rq_ttl_seconds rq))]) (Some (user_id u)) d1 in
       Inr (d2, \<lparr>sl_token = raw_token, sl_url = share_url public_base_url raw_token,
         sl_config_id = None, sl_config_version = None, sl_config_count = Some (length snapshots),
         sl_secure = rq_secure rq, sl_is_permanent = exp_permanent expiration,
         sl_expires_at = exp_at expiration\<rparr>)))"

section \<open>Revoking links\<close>

text \<open>Both raise the \<open>ShareNotFound\<close> of \<open>revoke_share_link.py\<close>.\<close>

definition revoke_share_link ::
  "panel_settings \<Rightarrow> uuid \<Rightarrow> int \<Rightarrow> string \<Rightarrow> user \<Rightarrow> db \<Rightarrow> exn + db" where
  "revoke_share_link st audit_id now raw_token u d =
     (let token_hash = hash_share_token raw_token; (d1, revoked) = revoke_by_token_hash token_hash now d in
      if \<not> revoked then raise RevokeShareNotFound ''''
      else Inr (audit_log st audit_id now ''share.revoked'' (JDict [(''token_hash'', JStr token_hash)])
                  (Some (user_id u)) d1))"

definition revoke_share_link_by_id ::
  "panel_settings \<Rightarrow> uuid \<Rightarrow> int \<Rightarrow> uuid \<Rightarrow> user \<Rightarrow> db \<Rightarrow> exn + db" where
  "revoke_share_link_by_id st audit_id now link_id u d =
     (let (d1, revoked) = revoke_by_id link_id now d in
      if \<not> revoked then raise RevokeShareNotFound ''''
      else Inr (audit_log st audit_id now ''share.revoked'' (JDict [(''link_id'', JStr (uuid_str link_id))])
                  (Some (user_id u)) d1))"

section \<open>Resolving links\<close>

definition sort_snapshots :: "version_snapshot list \<Rightarrow> version_snapshot list" where
  "sort_snapshots snapshots = sort_key (\<lambda>s. (profile_order (snap_profile s), lower (snap_name s))) snapshots"

text \<open>The draw \<open>r\<close> is the choice among several Reality server names.\<close>

definition uris_for_snapshot ::
  "cipher \<Rightarrow> panel_settings \<Rightarrow> nat \<Rightarrow> version_snapshot \<Rightarrow> bool \<Rightarrow> exn + string list" where
  "uris_for_snapshot c st r s secure =
     bindR (decrypt_config_data_fields c (snap_config_data s) (sensitive_fields (snap_profile s))) (\<lambda>config_plain.
     build_client_uris r st (snap_profile s) config_plain (snap_public_key s) (snap_cert_fingerprint s) secure
       (snap_share_host s))"

fun uris_for_snapshots ::
  "cipher \<Rightarrow> panel_settings \<Rightarrow> (nat \<Rightarrow> nat) \<Rightarrow> version_snapshot list \<Rightarrow> bool \<Rightarrow> exn + string list" where
  "uris_for_snapshots c st rs [] secure = Inr []"
| "uris_for_snapshots c st rs (s # snapshots) secure =
     bindR (uris_for_snapshot c st (rs 0) s secure) (\<lambda>uris.
     bindR (uris_for_snapshots c st (\<lambda>n. rs (Suc n)) snapshots secure) (\<lambda>rest. Inr (uris @ rest)))"

definition share_uris ::
  "cipher \<Rightarrow> panel_settings \<Rightarrow> (nat \<Rightarrow> nat) \<Rightarrow> share_row \<Rightarrow> db \<Rightarrow> exn + string list" where
  "share_uris c st rs share d =
     (case s_config_id share of
        None \<Rightarrow>
          let snapshots = sort_snapshots (list_current_version_snapshots d) in
          if snapshots = [] then raise ShareNotFound ''''
          else uris_for_snapshots c st rs snapshots (s_secure share)
      | Some config_id \<Rightarrow> (case s_config_version share of
            None \<Rightarrow> raise ShareNotFound ''''
          | Some config_version \<Rightarrow> (case get_version_snapshot d config_id config_version of
                None \<Rightarrow> raise ShareNotFound ''''
              | Some snapshot \<Rightarrow> uris_for_snapshot c st (rs 0) snapshot (s_secure share))))"

definition is_expired :: "int \<Rightarrow> share_row \<Rightarrow> bool" where
  "is_expired now share = (\<not> s_is_permanent share \<and> (case s_expires_at share of None \<Rightarrow> False | Some t \<Rightarrow> t \<le> now))"

definition resolve_share ::
  "cipher \<Rightarrow> panel_settings \<Rightarrow> (nat \<Rightarrow> nat) \<Rightarrow> string \<Rightarrow> string \<Rightarrow> int \<Rightarrow> db \<Rightarrow> db \<times> (exn + string list)" where
  "resolve_share c st rs raw_token client_ip now d =
     (let rule = rate_limit_share st;
          (d1, limited) = check_and_increment ''share'' (''ip:'' @ client_ip) (limit_or (max_requests rule) 30)
            (window_seconds rule) now d in
      case limited of
        Inl e \<Rightarrow> (d1, Inl e)
      | Inr _ \<Rightarrow> (case get_by_token_hash d1 (hash_share_token raw_token) of
          None \<Rightarrow> (d1, raise ShareNotFound '''')
        | Some share \<Rightarrow>
            if s_revoked_at share \<noteq> None then (d1, raise ShareNotFound '''')
            else if is_expired now share then (d1, raise ShareNotFound '''')
            else (case share_uris c st rs share d1 of
                Inl e \<Rightarrow> (d1, Inl e)
              | Inr uris \<Rightarrow> (record_access (s_id share) now d1, Inr uris))))"

section \<open>Endpoints\<close>

text \<open>Each returns the committed database and the response; an exception no clause catches rolls back.\<close>

definition resolve_share_endpoint ::
  "cipher \<Rightarrow> panel_settings \<Rightarrow> (nat \<Rightarrow> nat) \<Rightarrow> string \<Rightarrow> http_request \<Rightarrow> int \<Rightarrow> db \<Rightarrow> db \<times> string reply" where
  "resolve_share_endpoint c st rs token req now d =
     (let (d1, res) = resolve_share c st rs token (get_client_ip req) now d in
      case res of
        Inr uris \<Rightarrow> (d1, Reply (let body = join newline uris in if body \<noteq> [] then body @ newline else body))
      | Inl e \<Rightarrow>
          if caught_by [RateLimitExceeded] e then (d1, Failed 429 ''Too many requests'')
          else if caught_by [ShareNotFound] e then (d1, Failed 404 ''Not found'')
          else (d, internal_error))"

definition create_all_share_links_endpoint ::
  "panel_settings \<Rightarrow> share_draws \<Rightarrow> user \<Rightarrow> share_request \<Rightarrow> string \<Rightarrow> db \<Rightarrow> db \<times> share_link_result reply" where
  "create_all_share_links_endpoint st dr u rq base_url d =
     (case create_all_share_links st dr u rq (rstrip_char CHR ''/'' base_url) d of
        Inr (d1, res) \<Rightarrow> (d1, Reply res)
      | Inl e \<Rightarrow>
          if caught_by [ConfigNotShareable] e then (d, Failed 409 (exn_msg e))
          else if caught_by [InvalidShareRequest] e then (d, Failed 422 (exn_msg e))
          else (d, internal_error))"

definition revoke_share_endpoint ::
  "panel_settings \<Rightarrow> uuid \<Rightarrow> int \<Rightarrow> string \<Rightarrow> user \<Rightarrow> db \<Rightarrow> db \<times> unit reply" where
  "revoke_share_endpoint st audit_id now token u d =
     (case revoke_share_link st audit_id now token u d of
        Inr d1 \<Rightarrow> (d1, Reply ())
      | Inl e \<Rightarrow> if caught_by [ShareNotFound] e then (d, Failed 404 ''Share link not found'') else (d, internal_error))"

definition revoke_share_by_id_endpoint ::
  "panel_settings \<Rightarrow> uuid \<Rightarrow> int \<Rightarrow> uuid \<Rightarrow> user \<Rightarrow> db \<Rightarrow> db \<times> unit reply" where
  "revoke_share_by_id_endpoint st audit_id now link_id u d =
     (case revoke_share_link_by_id st audit_id now link_id u d of
        Inr d1 \<Rightarrow> (d1, Reply ())
      | Inl e \<Rightarrow> if caught_by [ShareNotFound] e then (d, Failed 404 ''Share link not found'') else (d, internal_error))"

record share_link_item =
  li_id :: uuid
  li_all_configs :: bool
  li_config_id :: "uuid option"
  li_config_name :: "string option"
  li_secure :: bool
  li_is_permanent :: bool
  li_created_by :: string
  li_created_at :: int
  li_expires_at :: "int option"
  li_access_count :: int
  li_last_accessed_at :: "int option"

definition to_list_item :: "active_share_link \<Rightarrow> share_link_item" where
  "to_list_item l = \<lparr>li_id = al_id l, li_all_configs = (al_config_id l = None), li_config_id = al_config_id l,
     li_config_name = al_config_name l, li_secure = al_secure l, li_is_permanent = al_is_permanent l, li_created_by = al_username l,
     li_created_at = al_created_at l, li_expires_at = al_expires_at l, li_access_count = al_access_count l,
     li_last_accessed_at = al_last_accessed_at l\<rparr>"

definition list_active_share_links_endpoint :: "int \<Rightarrow> uuid option \<Rightarrow> db \<Rightarrow> db \<times> (share_link_item list \<times> nat) reply" where
  "list_active_share_links_endpoint now config_id d =
     (let items = map to_list_item (list_active_links d now config_id) in (d, Reply (items, length items)))"

text \<open>The endpoint of \<open>api/routers/configs.py\<close>.\<close>

definition create_share_link_endpoint ::
  "panel_settings \<Rightarrow> share_draws \<Rightarrow> uuid \<Rightarrow> user \<Rightarrow> share_request \<Rightarrow> string \<Rightarrow> db \<Rightarrow> db \<times> share_link_result reply" where
  "create_share_link_endpoint st dr config_id u rq base_url d =
     (case create_share_link st dr config_id u rq (rstrip_char CHR ''/'' base_url) d of
        Inr (d1, res) \<Rightarrow> (d1, Reply res)
      | Inl e \<Rightarrow>
          if caught_by [ConfigNotFound] e then (d, Failed 404 ''Config not found'')
          else if caught_by [ConfigNotShareable] e then (d, Failed 409 (exn_msg e))
          else if caught_by [InvalidShareRequest] e then (d, Failed 422 (exn_msg e))
          else (d, internal_error))"

section \<open>Expiration: the accepted requests\<close>

text \<open>
  A share request is accepted in exactly three forms: a permanent link without any deadline, a
  link with a time-to-live and no other deadline, or a link with an explicit deadline that carries a
  time zone; and the deadline recorded for a link that is not permanent always lies in the future.
\<close>

theorem share_expiration_spec:
  "resolve_share_expiration perm e ttl now = Inr x \<longleftrightarrow>
     (perm \<and> e = None \<and> ttl = None \<and> x = \<lparr>exp_permanent = True, exp_at = None\<rparr>)
     \<or> (\<not> perm \<and> (\<exists>t. now < t \<and> x = \<lparr>exp_permanent = False, exp_at = Some t\<rparr>
          \<and> (e = None \<and> ttl = Some (t - now) \<and> t \<le> max_datetime \<or> ttl = None \<and> e = Some (Aware t))))"
proof (cases ttl)
  case None
  then show ?thesis
    by (auto simp: resolve_share_expiration_def datetime_le_def split: datetime.splits option.splits if_splits)
next
  case (Some n)
  have shift: "(\<exists>t. now < t \<and> P t \<and> n = t - now \<and> t \<le> m) \<longleftrightarrow> 0 < n \<and> now + n \<le> m \<and> P (now + n)" for P m
    by (metis add.commute diff_add_cancel add_diff_cancel_right' less_add_same_cancel1)
  show ?thesis
    using shift [of "\<lambda>t. x = \<lparr>exp_permanent = False, exp_at = Some t\<rparr>" max_datetime]
    by (auto simp: Some resolve_share_expiration_def add_seconds_def bindR_eq_Inr split: if_splits)
qed

section \<open>Revocable tables\<close>

locale revocable =
  fixes lookup :: "'s \<Rightarrow> 'k \<Rightarrow> 'r option"
    and revoked :: "'r \<Rightarrow> bool"
    and revoke :: "'k \<Rightarrow> 's \<Rightarrow> 's \<times> bool"
  assumes revoke_ok: "snd (revoke k s) \<longleftrightarrow> (\<exists>r. lookup s k = Some r \<and> \<not> revoked r)"
    and revoke_marks: "snd (revoke k s) \<Longrightarrow> \<exists>r. lookup (fst (revoke k s)) k = Some r \<and> revoked r"
    and revoke_fails: "\<not> snd (revoke k s) \<Longrightarrow> fst (revoke k s) = s"
begin

lemma revoke_once: "\<not> snd (revoke k (fst (revoke k s)))"
  using revoke_marks revoke_ok revoke_fails by (metis option.inject)

lemma revoke_idempotent: "fst (revoke k (fst (revoke k s))) = fst (revoke k s)"
  using revoke_once revoke_fails by metis

lemma revoke_known: "lookup s k = Some r \<Longrightarrow> \<exists>r'. lookup (fst (revoke k s)) k = Some r' \<and> revoked r'"
  using revoke_ok revoke_marks revoke_fails by metis

end

lemma find_upd_rows:
  "(\<And>r. P (f r) = P r) \<Longrightarrow> find_row P (upd_rows P f rows) = map_option f (find_row P rows)"
proof -
  assume p: "\<And>r. P (f r) = P r"
  have "find_row P (upd_rows P f rows) = map_option (\<lambda>r. if P r then f r else r) (find_row P rows)"
    unfolding upd_rows_def by (rule find_row_map) (simp add: p)
  then show ?thesis by (cases "find_row P rows") (auto dest: find_row_Some)
qed

lemma revoke_where_table:
  assumes "\<And>r. P (r\<lparr>s_revoked_at := Some now\<rparr>) = P r"
  shows "snd (revoke_where P now d) \<longleftrightarrow> (\<exists>r. find_row P (shares d) = Some r \<and> \<not> s_revoked_at r \<noteq> None)"
    and "snd (revoke_where P now d) \<Longrightarrow> \<exists>r. find_row P (shares (fst (revoke_where P now d))) = Some r \<and> s_revoked_at r \<noteq> None"
    and "\<not> snd (revoke_where P now d) \<Longrightarrow> fst (revoke_where P now d) = d"
  using find_upd_rows [of P "\<lambda>r. r\<lparr>s_revoked_at := Some now\<rparr>" "shares d", OF assms]
  by (auto simp: revoke_where_def split: option.splits if_splits)

interpretation by_hash: revocable get_by_token_hash "\<lambda>r. s_revoked_at r \<noteq> None" "\<lambda>h. revoke_by_token_hash h now"
  unfolding get_by_token_hash_def revoke_by_token_hash_def
  by unfold_locales (rule revoke_where_table; simp)+

interpretation by_link_id: revocable "\<lambda>d i. find_row (\<lambda>r. s_id r = i) (shares d)" "\<lambda>r. s_revoked_at r \<noteq> None"
    "\<lambda>i. revoke_by_id i now"
  unfolding revoke_by_id_def
  by unfold_locales (rule revoke_where_table; simp)+

section \<open>What operations do to the rows of the table\<close>

text \<open>A row keeps what it links to, and stays revoked once it is.\<close>

definition share_kept :: "share_row \<Rightarrow> share_row \<Rightarrow> bool" where
  "share_kept r r' \<longleftrightarrow> s_id r' = s_id r \<and> s_token_hash r' = s_token_hash r \<and> s_config_id r' = s_config_id r
     \<and> s_config_version r' = s_config_version r \<and> s_secure r' = s_secure r \<and> s_is_permanent r' = s_is_permanent r
     \<and> s_expires_at r' = s_expires_at r \<and> s_created_by r' = s_created_by r \<and> s_created_at r' = s_created_at r
     \<and> (s_revoked_at r \<noteq> None \<longrightarrow> s_revoked_at r' \<noteq> None)"

definition shares_extend :: "share_row list \<Rightarrow> share_row list \<Rightarrow> bool" where
  "shares_extend rows rows' \<longleftrightarrow> (\<exists>kept new. rows' = kept @ new \<and> list_all2 share_kept rows kept)"

lemma share_kept_refl [simp]: "share_kept r r"
  by (simp add: share_kept_def)

lemma extend_row: "shares_extend rows rows' \<Longrightarrow> r \<in> set rows \<Longrightarrow> \<exists>r'\<in>set rows'. share_kept r r'"
proof -
  assume e: "shares_extend rows rows'" and r: "r \<in> set rows"
  obtain kept new where k: "rows' = kept @ new" "list_all2 share_kept rows kept" using e by (auto simp: shares_extend_def)
  obtain i where "i < length rows" "r = rows ! i" using r by (auto simp: in_set_conv_nth)
  then have "share_kept r (kept ! i)" "kept ! i \<in> set kept"
    using list_all2_nthD [OF k(2)] list_all2_lengthD [OF k(2)] by auto
  then show ?thesis by (auto simp: k(1))
qed

lemma share_kept_trans: "share_kept a b \<Longrightarrow> share_kept b c \<Longrightarrow> share_kept a c"
  by (auto simp: share_kept_def)

lemma shares_extend_refl [simp]: "shares_extend rows rows"
  unfolding shares_extend_def by (rule exI [of _ rows]) (simp add: list_all2_refl)

lemma shares_extend_trans:
  assumes "shares_extend a b" "shares_extend b c"
  shows "shares_extend a c"
proof -
  obtain k n k' n' where b: "b = k @ n" "list_all2 share_kept a k" and c: "c = k' @ n'" "list_all2 share_kept b k'"
    using assms by (auto simp: shares_extend_def)
  have "list_all2 share_kept k (take (length k) k')" using c(2) unfolding b(1) by (auto simp: list_all2_append1)
  then have "list_all2 share_kept a (take (length k) k')"
    using list_all2_trans [of share_kept share_kept share_kept a k] b(2) share_kept_trans by blast
  then show ?thesis
    unfolding shares_extend_def c(1)
    by (intro exI [of _ "take (length k) k'"] exI [of _ "drop (length k) k' @ n'"]) simp
qed

lemma shares_extend_append: "shares_extend rows (rows @ new)"
  unfolding shares_extend_def by (rule exI [of _ rows]) (simp add: list_all2_refl)

lemma shares_extend_upd: "(\<And>r. share_kept r (f r)) \<Longrightarrow> shares_extend rows (upd_rows P f rows)"
  unfolding shares_extend_def upd_rows_def
  by (rule exI [of _ "map (\<lambda>r. if P r then f r else r) rows"]) (simp add: list_all2_map2 list_all2_same)

lemma find_kept:
  assumes "list_all2 share_kept rows kept" "\<And>r r'. share_kept r r' \<Longrightarrow> P r' = P r" "find_row P rows = Some r"
  shows "\<exists>r'. find_row P kept = Some r' \<and> share_kept r r'"
  using assms(1,3)
proof (induction rows kept rule: list_all2_induct)
  case (Cons x xs y ys)
  show ?case
  proof (cases "P x")
    case True
    then show ?thesis using Cons.hyps(1) Cons.prems assms(2) by (auto simp: find_row_def)
  next
    case False
    then show ?thesis using Cons assms(2) by (simp add: find_row_def)
  qed
qed (simp add: find_row_def)

lemma extend_find_hash:
  assumes "shares_extend (shares d) (shares d')" "get_by_token_hash d h = Some r"
  shows "\<exists>r'. get_by_token_hash d' h = Some r' \<and> share_kept r r'"
proof -
  obtain kept new where k: "shares d' = kept @ new" "list_all2 share_kept (shares d) kept"
    using assms(1) by (auto simp: shares_extend_def)
  obtain r' where "find_row (\<lambda>r. s_token_hash r = h) kept = Some r'" "share_kept r r'"
    using find_kept [OF k(2) _ assms(2) [unfolded get_by_token_hash_def]] by (auto simp: share_kept_def)
  then show ?thesis by (auto simp: get_by_token_hash_def k(1) find_row_append)
qed

lemma share_create_Inr:
  "share_create d i now h c v sec perm e u = Inr (d', r) \<Longrightarrow>
   d' = d\<lparr>shares := shares d @ [r]\<rparr> \<and> s_id r = i \<and> s_token_hash r = h \<and> s_config_id r = c \<and> s_config_version r = v
   \<and> s_secure r = sec \<and> s_is_permanent r = perm \<and> s_expires_at r = e \<and> s_revoked_at r = None \<and> s_created_by r = u
   \<and> (\<forall>q\<in>set (shares d). s_id q \<noteq> i \<and> s_token_hash q \<noteq> h)
   \<and> (\<forall>x. c = Some x \<longrightarrow> config_exists d x) \<and> user_exists d u"
  by (auto simp: share_create_def Let_def list_ex_iff split: if_splits option.splits)

lemma extend_revoke_where: "(\<And>r. P (r\<lparr>s_revoked_at := Some now\<rparr>) = P r) \<Longrightarrow>
  shares_extend (shares d) (shares (fst (revoke_where P now d)))"
  by (auto simp: revoke_where_def share_kept_def intro!: shares_extend_upd split: option.splits)

lemma extend_record_access: "shares_extend (shares d) (shares (record_access i now d))"
  by (auto simp: record_access_def share_kept_def intro!: shares_extend_upd)

lemma create_share_link_Inr:
  assumes "create_share_link st dr c u rq b d = Inr (d', res)"
  obtains ex cfg d1 row payload where
    "resolve_share_expiration (rq_is_permanent rq) (rq_expires_at rq) (rq_ttl_seconds rq) (sd_now dr) = Inr ex"
    "get_by_id d c True = Inr (Some cfg)" "cfg_current_version cfg \<noteq> None" "cfg_status cfg = ACTIVE"
    "share_create d (sd_link_id dr) (sd_now dr) (hash_share_token (sl_token res)) (Some c)
       (cfg_current_version cfg) (rq_secure rq) (exp_permanent ex) (exp_at ex) (user_id u) = Inr (d1, row)"
    "d' = audit_log st (sd_audit_id dr) (sd_now dr) ''share.created'' payload (Some (user_id u)) d1"
    "sl_config_version res = cfg_current_version cfg" "sl_token res = generate_share_token (sd_bytes dr)"
    "sl_url res = share_url b (sl_token res)" "sl_expires_at res = exp_at ex"
proof -
  obtain ex where ex: "resolve_share_expiration (rq_is_permanent rq) (rq_expires_at rq) (rq_ttl_seconds rq) (sd_now dr) = Inr ex"
    using assms by (auto simp: create_share_link_def bindR_eq_Inr)
  obtain cfg where cfg: "get_by_id d c True = Inr (Some cfg)"
    using assms by (auto simp: create_share_link_def bindR_eq_Inr split: option.splits)
  have act: "cfg_current_version cfg \<noteq> None" "cfg_status cfg = ACTIVE"
    using assms by (auto simp: create_share_link_def ex cfg split: if_splits)
  let ?cr = "share_create d (sd_link_id dr) (sd_now dr) (hash_share_token (generate_share_token (sd_bytes dr))) (Some c)
       (cfg_current_version cfg) (rq_secure rq) (exp_permanent ex) (exp_at ex) (user_id u)"
  obtain d1 row where cr: "?cr = Inr (d1, row)"
    using assms act by (cases ?cr) (auto simp: create_share_link_def ex cfg Let_def)
  obtain v where v: "cfg_current_version cfg = Some v" using act(1) by auto
  show ?thesis
    using assms act(2) cr by (intro that [OF ex cfg act, of d1 row]) (auto simp: create_share_link_def ex cfg Let_def v)
qed

lemma create_all_links_Inr:
  assumes "create_all_share_links st dr u rq b d = Inr (d', res)"
  obtains ex d1 row payload where
    "resolve_share_expiration (rq_is_permanent rq) (rq_expires_at rq) (rq_ttl_seconds rq) (sd_now dr) = Inr ex"
    "list_current_version_snapshots d \<noteq> []"
    "share_create d (sd_link_id dr) (sd_now dr) (hash_share_token (sl_token res)) None None (rq_secure rq)
       (exp_permanent ex) (exp_at ex) (user_id u) = Inr (d1, row)"
    "d' = audit_log st (sd_audit_id dr) (sd_now dr) ''share.created'' payload (Some (user_id u)) d1"
    "sl_token res = generate_share_token (sd_bytes dr)" "sl_url res = share_url b (sl_token res)"
proof -
  obtain ex where ex: "resolve_share_expiration (rq_is_permanent rq) (rq_expires_at rq) (rq_ttl_seconds rq) (sd_now dr) = Inr ex"
    using assms by (auto simp: create_all_share_links_def bindR_eq_Inr)
  have ne: "list_current_version_snapshots d \<noteq> []"
    using assms by (auto simp: create_all_share_links_def ex)
  let ?cr = "share_create d (sd_link_id dr) (sd_now dr) (hash_share_token (generate_share_token (sd_bytes dr))) None None
       (rq_secure rq) (exp_permanent ex) (exp_at ex) (user_id u)"
  obtain d1 row where cr: "?cr = Inr (d1, row)"
    using assms ne by (cases ?cr) (auto simp: create_all_share_links_def ex Let_def)
  show ?thesis
    using assms ne by (intro that [OF ex ne, of d1 row]) (auto simp: create_all_share_links_def ex Let_def cr)
qed

lemma extend_share_create: "share_create d i now h c v sec perm e u = Inr (d', r) \<Longrightarrow> shares_extend (shares d) (shares d')"
  by (auto dest!: share_create_Inr intro: shares_extend_append)

lemma extend_create_link: "create_share_link st dr c u rq b d = Inr (d', res) \<Longrightarrow> shares_extend (shares d) (shares d')"
  by (erule create_share_link_Inr) (simp add: extend_share_create)

lemma extend_create_all: "create_all_share_links st dr u rq b d = Inr (d', res) \<Longrightarrow> shares_extend (shares d) (shares d')"
  by (erule create_all_links_Inr) (simp add: extend_share_create)

lemma extend_revoke_link: "revoke_share_link st a now t u d = Inr d' \<Longrightarrow> shares_extend (shares d) (shares d')"
  using extend_revoke_where [of "\<lambda>r. s_token_hash r = hash_share_token t" now d]
  by (auto simp: revoke_share_link_def revoke_by_token_hash_def Let_def case_prod_beta split: if_splits)

lemma extend_revoke_id: "revoke_share_link_by_id st a now i u d = Inr d' \<Longrightarrow> shares_extend (shares d) (shares d')"
  using extend_revoke_where [of "\<lambda>r. s_id r = i" now d]
  by (auto simp: revoke_share_link_by_id_def revoke_by_id_def Let_def case_prod_beta split: if_splits)

lemma extend_resolve: "shares_extend (shares d) (shares (fst (resolve_share c st rs t ip now d)))"
  using extend_record_access [of "fst (check_and_increment s i l w now d)" for s i l w]
  by (auto simp: resolve_share_def Let_def case_prod_beta split: sum.splits option.splits)

section \<open>Which links resolve\<close>

text \<open>The rate limit of the share endpoint, before a request is counted.\<close>

definition share_allowed :: "panel_settings \<Rightarrow> string \<Rightarrow> int \<Rightarrow> db \<Rightarrow> bool" where
  "share_allowed st client_ip now d =
     (current_count ''share'' (''ip:'' @ client_ip) (window_seconds (rate_limit_share st)) now d
        < limit_or (max_requests (rate_limit_share st)) 30)"

definition live_share :: "string \<Rightarrow> int \<Rightarrow> db \<Rightarrow> share_row option" where
  "live_share raw_token now d = (case get_by_token_hash d (hash_share_token raw_token) of
     None \<Rightarrow> None | Some r \<Rightarrow> if s_revoked_at r = None \<and> \<not> is_expired now r then Some r else None)"

lemma share_check:
  "snd (check_and_increment ''share'' (''ip:'' @ ip) (limit_or (max_requests (rate_limit_share st)) 30)
       (window_seconds (rate_limit_share st)) now d)
   = (if share_allowed st ip now d then Inr () else raise RateLimitExceeded '''')"
  by (auto simp: check_and_increment_def rate_upsert_def Let_def share_allowed_def current_count_def rate_count_def)

lemma snapshot_cong:
  "configs d' = configs d \<Longrightarrow> versions d' = versions d \<Longrightarrow> get_version_snapshot d' c v = get_version_snapshot d c v"
proof -
  assume "configs d' = configs d" "versions d' = versions d"
  then have "get_model d' = get_model d" "find_version d' = find_version d"
    by (intro ext; simp add: get_model_def find_version_def)+
  then show ?thesis unfolding get_version_snapshot_def by (simp only:)
qed

lemma share_uris_cong:
  assumes "configs d' = configs d" "versions d' = versions d"
  shows "share_uris c st rs r d' = share_uris c st rs r d"
proof -
  have s: "get_version_snapshot d' = get_version_snapshot d" using snapshot_cong [OF assms] by blast
  then have "list_current_version_snapshots d' = list_current_version_snapshots d"
    by (simp add: list_current_version_snapshots_def assms)
  with s show ?thesis unfolding share_uris_def by (simp only:)
qed

lemma resolve_share_result:
  "snd (resolve_share c st rs token ip now d) =
     (if \<not> share_allowed st ip now d then raise RateLimitExceeded ''''
      else case live_share token now d of None \<Rightarrow> raise ShareNotFound '''' | Some r \<Rightarrow> share_uris c st rs r d)"
proof -
  let ?chk = "check_and_increment ''share'' (''ip:'' @ ip) (limit_or (max_requests (rate_limit_share st)) 30)
       (window_seconds (rate_limit_share st)) now d"
  obtain d1 limited where chk: "?chk = (d1, limited)" by (cases ?chk)
  have tabs: "configs d1 = configs d" "versions d1 = versions d" "shares d1 = shares d"
    using check_and_increment_tables [of "''share''" "''ip:'' @ ip" "limit_or (max_requests (rate_limit_share st)) 30"
        "window_seconds (rate_limit_share st)" now d] unfolding chk by simp_all
  have su: "share_uris c st rs r d1 = share_uris c st rs r d" for r
    using tabs(1,2) by (rule share_uris_cong)
  have row: "get_by_token_hash d1 h = get_by_token_hash d h" for h
    by (simp add: get_by_token_hash_def tabs)
  have lim: "limited = (if share_allowed st ip now d then Inr () else raise RateLimitExceeded '''')"
    using share_check [of ip st now d] unfolding chk by simp
  show ?thesis
    unfolding resolve_share_def Let_def chk case_prod_conv lim row su
    by (auto simp: live_share_def split: option.splits sum.splits)
qed

lemma not_expired_iff: "\<not> is_expired now r \<longleftrightarrow> s_is_permanent r \<or> s_expires_at r = None \<or> now < the (s_expires_at r)"
  by (auto simp: is_expired_def split: option.splits)

text \<open>The URIs of a bundle: those of every snapshot, in order, each with its own draw.\<close>

lemma uris_for_snapshots_iff:
  "uris_for_snapshots c st (\<lambda>n. rs (k + n)) ss secure = Inr uris \<longleftrightarrow>
     (\<exists>uss. list_all2 (\<lambda>(i, s) us. uris_for_snapshot c st (rs i) s secure = Inr us) (enumerate k ss) uss \<and> uris = concat uss)"
proof (induction ss arbitrary: k uris)
  case (Cons s ss)
  then show ?case using Cons.IH [of "Suc k"] by (auto simp: bindR_eq_Inr list_all2_Cons1) fastforce+
qed auto

lemma share_uris_iff:
  "share_uris c st rs r d = Inr uris \<longleftrightarrow>
     (case s_config_id r of
        Some cid \<Rightarrow> \<exists>v s. s_config_version r = Some v \<and> get_version_snapshot d cid v = Some s
          \<and> uris_for_snapshot c st (rs 0) s (s_secure r) = Inr uris
      | None \<Rightarrow> \<exists>ss uss. ss = sort_snapshots (list_current_version_snapshots d) \<and> ss \<noteq> []
          \<and> list_all2 (\<lambda>(i, s) us. uris_for_snapshot c st (rs i) s (s_secure r) = Inr us) (enumerate 0 ss) uss \<and> uris = concat uss)"
  using uris_for_snapshots_iff [of c st rs 0]
  by (auto simp: share_uris_def Let_def split: option.splits)

lemma resolve_share_effect:
  "shares (fst (resolve_share c st rs token ip now d)) =
     (case (snd (resolve_share c st rs token ip now d), get_by_token_hash d (hash_share_token token)) of
        (Inr _, Some r) \<Rightarrow> upd_rows (\<lambda>q. s_id q = s_id r)
           (\<lambda>q. q\<lparr>s_last_accessed_at := Some now, s_access_count := s_access_count q + 1\<rparr>) (shares d)
      | _ \<Rightarrow> shares d)"
proof -
  let ?chk = "check_and_increment ''share'' (''ip:'' @ ip) (limit_or (max_requests (rate_limit_share st)) 30)
       (window_seconds (rate_limit_share st)) now d"
  obtain d1 limited where chk: "?chk = (d1, limited)" by (cases ?chk)
  have tabs: "shares d1 = shares d"
    using check_and_increment_tables [of "''share''" "''ip:'' @ ip" "limit_or (max_requests (rate_limit_share st)) 30"
        "window_seconds (rate_limit_share st)" now d] unfolding chk by simp
  have row: "get_by_token_hash d1 h = get_by_token_hash d h" for h
    by (simp add: get_by_token_hash_def tabs)
  show ?thesis
    unfolding resolve_share_def Let_def chk case_prod_conv row
    by (auto simp: tabs record_access_def split: option.splits sum.splits)
qed

text \<open>
  C18. A token resolves to connection URIs exactly when the client is under the rate limit and the token
  belongs to a link that is neither revoked nor at or past its deadline, and whose URIs can be built: for a
  link to one configuration those of the version stored with the link, which must exist; for a bundle
  those of the current versions of all active configurations, of which there must be one, ordered by
  profile and name. A resolved request is counted on the row of the link with its time, and a refused one
  leaves all the links as they are.
\<close>

theorem resolve_share_iff:
  "(snd (resolve_share c st rs token ip now d) = Inr uris \<longleftrightarrow>
     share_allowed st ip now d \<and>
     (\<exists>r. get_by_token_hash d (hash_share_token token) = Some r
       \<and> s_revoked_at r = None \<and> (s_is_permanent r \<or> s_expires_at r = None \<or> now < the (s_expires_at r))
       \<and> (case s_config_id r of
            Some cid \<Rightarrow> \<exists>v s. s_config_version r = Some v \<and> get_version_snapshot d cid v = Some s
              \<and> uris_for_snapshot c st (rs 0) s (s_secure r) = Inr uris
          | None \<Rightarrow> \<exists>ss uss. ss = sort_key (\<lambda>s. (profile_order (snap_profile s), lower (snap_name s))) (list_current_version_snapshots d)
              \<and> ss \<noteq> [] \<and> list_all2 (\<lambda>(i, s) us. uris_for_snapshot c st (rs i) s (s_secure r) = Inr us) (enumerate 0 ss) uss
              \<and> uris = concat uss)))
   \<and> shares (fst (resolve_share c st rs token ip now d)) =
     (case (snd (resolve_share c st rs token ip now d), get_by_token_hash d (hash_share_token token)) of
        (Inr _, Some r) \<Rightarrow> upd_rows (\<lambda>q. s_id q = s_id r)
           (\<lambda>q. q\<lparr>s_last_accessed_at := Some now, s_access_count := s_access_count q + 1\<rparr>) (shares d)
      | _ \<Rightarrow> shares d)"
proof (rule conjI, goal_cases)
  case 1
  have "snd (resolve_share c st rs token ip now d) = Inr uris \<longleftrightarrow> share_allowed st ip now d
      \<and> (\<exists>r. get_by_token_hash d (hash_share_token token) = Some r \<and> s_revoked_at r = None \<and> \<not> is_expired now r
        \<and> share_uris c st rs r d = Inr uris)"
    by (auto simp: resolve_share_result live_share_def split: option.splits)
  then show ?case by (simp only: not_expired_iff share_uris_iff sort_snapshots_def)
qed (rule resolve_share_effect)

lemma dead_reply:
  assumes "live_share token now d = None"
  shows "snd (resolve_share_endpoint c st rs token req now d) =
    (if share_allowed st (get_client_ip req) now d then Failed 404 ''Not found'' else Failed 429 ''Too many requests'')"
  using resolve_share_result [of c st rs token "get_client_ip req" now d] assms
  by (auto simp: resolve_share_endpoint_def Let_def case_prod_beta caught_by_def exn_subclass_def exn_base_def
      split: sum.splits)

text \<open>
  A token that is unknown, one that was revoked and one that expired get the same response, not
  found, so the endpoint does not tell which tokens ever existed; over the limit all get the same refusal.
\<close>

theorem dead_tokens_alike:
  assumes "live_share token now d = None"
  shows "snd (resolve_share_endpoint c st rs token req now d) =
    (if share_allowed st (get_client_ip req) now d then Failed 404 ''Not found'' else Failed 429 ''Too many requests'')"
  by (rule dead_reply [OF assms])

theorem dead_tokens_alike_witness:
  "snd (resolve_share_endpoint demo_cipher demo_settings (\<lambda>_. 0) ''tok'' \<lparr>forwarded_for = None, client_host = None\<rparr> 100 empty_db)
     = Failed 404 ''Not found''"
proof -
  have "live_share ''tok'' 100 empty_db = None"
    by (simp add: live_share_def get_by_token_hash_def empty_db_def find_row_def)
  from dead_tokens_alike [OF this, of demo_cipher demo_settings "\<lambda>_. 0" "\<lparr>forwarded_for = None, client_host = None\<rparr>"]
  show ?thesis
    by (simp add: share_allowed_def current_count_def empty_db_def limit_or_def demo_settings_def)
qed

section \<open>Sequences of requests\<close>

datatype share_event =
    LinkCreate share_draws uuid user share_request string
  | LinkCreateAll share_draws user share_request string
  | LinkRevoke uuid int string user
  | LinkRevokeId uuid int uuid user
  | LinkResolve "nat \<Rightarrow> nat" string http_request int

fun run_share_event :: "cipher \<Rightarrow> panel_settings \<Rightarrow> share_event \<Rightarrow> db \<Rightarrow> db" where
  "run_share_event c st (LinkCreate dr config_id u rq base) d = fst (create_share_link_endpoint st dr config_id u rq base d)"
| "run_share_event c st (LinkCreateAll dr u rq base) d = fst (create_all_share_links_endpoint st dr u rq base d)"
| "run_share_event c st (LinkRevoke a now token u) d = fst (revoke_share_endpoint st a now token u d)"
| "run_share_event c st (LinkRevokeId a now link_id u) d = fst (revoke_share_by_id_endpoint st a now link_id u d)"
| "run_share_event c st (LinkResolve rs token req now) d = fst (resolve_share_endpoint c st rs token req now d)"

fun run_share_events :: "cipher \<Rightarrow> panel_settings \<Rightarrow> share_event list \<Rightarrow> db \<Rightarrow> db" where
  "run_share_events c st [] d = d"
| "run_share_events c st (e # es) d = run_share_events c st es (run_share_event c st e d)"

text \<open>The tables the share endpoints never touch.\<close>

lemma share_create_tables: "share_create d i now h c v sec perm e u = Inr (d', r) \<Longrightarrow>
  configs d' = configs d \<and> versions d' = versions d \<and> users d' = users d"
  by (auto dest!: share_create_Inr)

lemma revoke_where_tables [simp]:
  "configs (fst (revoke_where P now d)) = configs d" "versions (fst (revoke_where P now d)) = versions d"
  "users (fst (revoke_where P now d)) = users d"
  by (simp_all add: revoke_where_def split: option.splits)

lemma record_access_tables [simp]:
  "configs (record_access i now d) = configs d" "versions (record_access i now d) = versions d"
  "users (record_access i now d) = users d"
  by (simp_all add: record_access_def)

lemma create_share_link_tables: "create_share_link st dr c u rq b d = Inr (d', res) \<Longrightarrow>
  configs d' = configs d \<and> versions d' = versions d \<and> users d' = users d"
  by (erule create_share_link_Inr) (auto dest!: share_create_tables)

lemma create_all_links_tables: "create_all_share_links st dr u rq b d = Inr (d', res) \<Longrightarrow>
  configs d' = configs d \<and> versions d' = versions d \<and> users d' = users d"
  by (erule create_all_links_Inr) (auto dest!: share_create_tables)

lemma revoke_link_tables: "revoke_share_link st a now t u d = Inr d' \<Longrightarrow>
  configs d' = configs d \<and> versions d' = versions d \<and> users d' = users d"
  by (auto simp: revoke_share_link_def revoke_by_token_hash_def Let_def case_prod_beta split: if_splits)

lemma revoke_id_tables: "revoke_share_link_by_id st a now i u d = Inr d' \<Longrightarrow>
  configs d' = configs d \<and> versions d' = versions d \<and> users d' = users d"
  by (auto simp: revoke_share_link_by_id_def revoke_by_id_def Let_def case_prod_beta split: if_splits)

lemma resolve_share_tables:
  "configs (fst (resolve_share c st rs t ip now d)) = configs d"
  "versions (fst (resolve_share c st rs t ip now d)) = versions d"
  "users (fst (resolve_share c st rs t ip now d)) = users d"
  by (auto simp: resolve_share_def Let_def case_prod_beta split: sum.splits option.splits)

definition share_step :: "db \<Rightarrow> db \<Rightarrow> bool" where
  "share_step d d' \<longleftrightarrow> configs d' = configs d \<and> versions d' = versions d \<and> users d' = users d
     \<and> shares_extend (shares d) (shares d')"

lemma share_step_refl [simp]: "share_step d d"
  by (simp add: share_step_def)

lemma share_step_case:
  "(\<And>y. m = Inr y \<Longrightarrow> share_step d (fst (f y))) \<Longrightarrow> (\<And>e. m = Inl e \<Longrightarrow> share_step d (fst (g e))) \<Longrightarrow>
   share_step d (fst (case m of Inr y \<Rightarrow> f y | Inl e \<Rightarrow> g e))"
  by (cases m) auto

lemma share_step_create_link: "share_step d (fst (create_share_link_endpoint st dr i u rq b d))"
  unfolding create_share_link_endpoint_def
  by (rule share_step_case)
    (auto simp: share_step_def dest: extend_create_link create_share_link_tables split: if_splits)

lemma share_step_create_all: "share_step d (fst (create_all_share_links_endpoint st dr u rq b d))"
  unfolding create_all_share_links_endpoint_def
  by (rule share_step_case)
    (auto simp: share_step_def dest: extend_create_all create_all_links_tables split: if_splits)

lemma share_step_revoke: "share_step d (fst (revoke_share_endpoint st a now t u d))"
  unfolding revoke_share_endpoint_def
  by (rule share_step_case)
    (use extend_revoke_link revoke_link_tables in \<open>simp_all add: share_step_def\<close>)

lemma share_step_revoke_id: "share_step d (fst (revoke_share_by_id_endpoint st a now i u d))"
  unfolding revoke_share_by_id_endpoint_def
  by (rule share_step_case)
    (use extend_revoke_id revoke_id_tables in \<open>simp_all add: share_step_def\<close>)

lemma share_step_resolve: "share_step d (fst (resolve_share_endpoint c st rs t req now d))"
proof -
  have "share_step d (fst (resolve_share c st rs t (get_client_ip req) now d))"
    by (simp add: share_step_def extend_resolve resolve_share_tables)
  then show ?thesis
    unfolding resolve_share_endpoint_def Let_def case_prod_unfold by (auto split: sum.split)
qed

lemma run_share_event_step: "share_step d (run_share_event c st e d)"
  by (cases e) (simp_all add: share_step_create_link share_step_create_all share_step_revoke
      share_step_revoke_id share_step_resolve)

lemma run_share_events_step: "share_step d (run_share_events c st es d)"
proof (induction c st es d rule: run_share_events.induct)
  case (2 c st e es d)
  then show ?case
    using run_share_event_step [of d c st e] shares_extend_trans by (auto simp: share_step_def)
qed simp

lemma live_share_revoked: "get_by_token_hash d (hash_share_token t) = Some r \<Longrightarrow> s_revoked_at r \<noteq> None \<Longrightarrow> live_share t now d = None"
  by (simp add: live_share_def)

lemma revoke_link_row:
  assumes "revoke_share_link st a now t u d = Inr d'"
  shows "\<exists>r. get_by_token_hash d' (hash_share_token t) = Some r \<and> s_revoked_at r \<noteq> None"
proof -
  have ok: "snd (revoke_by_token_hash (hash_share_token t) now d)"
    and d': "shares d' = shares (fst (revoke_by_token_hash (hash_share_token t) now d))"
    using assms by (auto simp: revoke_share_link_def Let_def case_prod_beta split: if_splits)
  show ?thesis
    using by_hash.revoke_marks [OF ok] by (simp add: get_by_token_hash_def d')
qed

text \<open>
  Revocation is final: once a revoke request for a token succeeds, then after any sequence of
  further share requests (links created, revoked and resolved in any order) the token gets not found at
  every time, or the rate limit refusal, never a URI.
\<close>

theorem revoked_stays_revoked:
  assumes "revoke_share_endpoint st a t0 token u d = (d1, Reply ())"
  shows "snd (resolve_share_endpoint c st rs token req now (run_share_events c st events d1)) =
    (if share_allowed st (get_client_ip req) now (run_share_events c st events d1)
     then Failed 404 ''Not found'' else Failed 429 ''Too many requests'')"
proof -
  have "revoke_share_link st a t0 token u d = Inr d1"
    using assms by (auto simp: revoke_share_endpoint_def internal_error_def split: sum.splits if_splits)
  then obtain r where "get_by_token_hash d1 (hash_share_token token) = Some r" "s_revoked_at r \<noteq> None"
    using revoke_link_row by blast
  then obtain r' where "get_by_token_hash (run_share_events c st events d1) (hash_share_token token) = Some r'"
    "s_revoked_at r' \<noteq> None"
    using extend_find_hash run_share_events_step [of d1 c st events] unfolding share_step_def share_kept_def by metis
  then show ?thesis by (intro dead_reply live_share_revoked)
qed

definition demo_user :: user where
  "demo_user = \<lparr>user_id = 1, username = ''admin'', password_hash = ''h'', user_created_at = 0\<rparr>"

definition demo_share :: share_row where
  "demo_share = \<lparr>s_id = 9, s_token_hash = hash_share_token ''tok'', s_config_id = None, s_config_version = None,
     s_secure = True, s_is_permanent = True, s_expires_at = None, s_revoked_at = None, s_created_by = 1,
     s_created_at = 0, s_last_accessed_at = None, s_access_count = 0\<rparr>"

definition demo_share_db :: db where
  "demo_share_db = empty_db\<lparr>users := [demo_user], shares := [demo_share]\<rparr>"

lemma demo_revoke: "\<exists>d1. revoke_share_endpoint demo_settings 3 50 ''tok'' demo_user demo_share_db = (d1, Reply ())"
proof -
  have "snd (revoke_by_token_hash (hash_share_token ''tok'') 50 demo_share_db)"
    by (simp add: by_hash.revoke_ok get_by_token_hash_def demo_share_db_def find_row_def demo_share_def)
  then show ?thesis
    by (simp add: revoke_share_endpoint_def revoke_share_link_def Let_def case_prod_beta)
qed

theorem revoked_stays_revoked_witness:
  "\<exists>d1. revoke_share_endpoint demo_settings 3 50 ''tok'' demo_user demo_share_db = (d1, Reply ())
     \<and> snd (resolve_share_endpoint demo_cipher demo_settings (\<lambda>_. 0) ''tok'' \<lparr>forwarded_for = None, client_host = None\<rparr> 100
         (run_share_events demo_cipher demo_settings [] d1)) = Failed 404 ''Not found''"
proof -
  obtain d1 where d1: "revoke_share_endpoint demo_settings 3 50 ''tok'' demo_user demo_share_db = (d1, Reply ())"
    using demo_revoke by blast
  have "rate_entries d1 = []"
    using d1 by (auto simp: revoke_share_endpoint_def revoke_share_link_def revoke_by_token_hash_def revoke_where_def
        demo_share_db_def empty_db_def Let_def case_prod_beta split: sum.splits if_splits option.splits)
  then have "share_allowed demo_settings ''unknown'' 100 d1"
    by (simp add: share_allowed_def current_count_def limit_or_def demo_settings_def)
  then show ?thesis
    using d1 revoked_stays_revoked [OF d1, of demo_cipher "\<lambda>_. 0" "\<lparr>forwarded_for = None, client_host = None\<rparr>" 100 "[]"]
    by (simp add: get_client_ip_def)
qed

section \<open>The invariant of the table\<close>

fun pin_ok :: "db \<Rightarrow> uuid option \<Rightarrow> int option \<Rightarrow> bool" where
  "pin_ok d None None = True"
| "pin_ok d (Some c) (Some v) = (config_exists d c \<and> has_version d c v)"
| "pin_ok d _ _ = False"

definition share_row_ok :: "db \<Rightarrow> share_row \<Rightarrow> bool" where
  "share_row_ok d r \<longleftrightarrow> (s_is_permanent r \<longleftrightarrow> s_expires_at r = None) \<and> user_exists d (s_created_by r)
     \<and> pin_ok d (s_config_id r) (s_config_version r)"

lemma pin_ok_mono:
  "pin_ok d c v \<Longrightarrow> (\<And>c. config_exists d c \<Longrightarrow> config_exists d' c) \<Longrightarrow>
   (\<And>c v. has_version d c v \<Longrightarrow> has_version d' c v) \<Longrightarrow> pin_ok d' c v"
  by (cases c; cases v) auto

definition shares_ok :: "db \<Rightarrow> bool" where
  "shares_ok d \<longleftrightarrow> distinct (map s_id (shares d)) \<and> distinct (map s_token_hash (shares d))
     \<and> (\<forall>r\<in>set (shares d). share_row_ok d r)"

lemma share_row_ok_kept: "share_row_ok d r \<Longrightarrow> share_kept r r' \<Longrightarrow> share_row_ok d r'"
  by (simp add: share_row_ok_def share_kept_def)

lemma list_all2_member: "list_all2 R xs ys \<Longrightarrow> y \<in> set ys \<Longrightarrow> \<exists>x\<in>set xs. R x y"
  by (induction rule: list_all2_induct) auto

lemma shares_ok_kept:
  assumes "shares_ok d" "list_all2 share_kept (shares d) (shares d')"
    "\<And>c. config_exists d c \<Longrightarrow> config_exists d' c" "\<And>c v. has_version d c v \<Longrightarrow> has_version d' c v"
    "\<And>u. user_exists d u \<Longrightarrow> user_exists d' u"
  shows "shares_ok d'"
proof -
  have ids: "map s_id (shares d') = map s_id (shares d)" "map s_token_hash (shares d') = map s_token_hash (shares d)"
    using assms(2) by (induction rule: list_all2_induct) (auto simp: share_kept_def)
  have "share_row_ok d' r'" if r': "r' \<in> set (shares d')" for r'
  proof -
    obtain r where r: "r \<in> set (shares d)" "share_kept r r'"
      using list_all2_member [OF assms(2) r'] by blast
    then have "share_row_ok d r'" using assms(1) share_row_ok_kept by (auto simp: shares_ok_def)
    then show ?thesis
      unfolding share_row_ok_def using assms(5) pin_ok_mono [of d _ _ d', OF _ assms(3) assms(4)] by blast
  qed
  then show ?thesis using assms(1) by (simp add: shares_ok_def ids)
qed

lemma shares_ok_cong:
  "shares_ok d \<Longrightarrow> shares d' = shares d \<Longrightarrow> users d' = users d \<Longrightarrow> configs d' = configs d \<Longrightarrow> versions d' = versions d
   \<Longrightarrow> shares_ok d'"
  by (rule shares_ok_kept [of d d'])
    (simp_all add: list_all2_refl config_exists_def has_version_def user_exists_def)

lemma shares_ok_create:
  assumes ok: "shares_ok d" and run: "share_create d i now h c v sec perm e u = Inr (d', r)"
    and exp: "perm \<longleftrightarrow> e = None"
    and ver: "case c of None \<Rightarrow> v = None | Some x \<Rightarrow> (\<exists>w. v = Some w \<and> has_version d x w)"
  shows "shares_ok d'"
proof -
  note R = share_create_Inr [OF run]
  have ex: "config_exists d' = config_exists d" "has_version d' = has_version d" "user_exists d' = user_exists d"
    using R by (intro ext; simp add: config_exists_def has_version_def user_exists_def)+
  have pin: "pin_ok d' a b = pin_ok d a b" for a b
    by (cases a; cases b) (simp_all add: ex)
  have same: "share_row_ok d' q = share_row_ok d q" for q
    by (simp add: share_row_ok_def pin ex)
  have "share_row_ok d r"
    using R exp ver by (cases c) (auto simp: share_row_ok_def)
  moreover have "shares d' = shares d @ [r]" "\<forall>q\<in>set (shares d). s_id q \<noteq> s_id r \<and> s_token_hash q \<noteq> s_token_hash r"
    using R by auto
  ultimately show ?thesis
    using ok by (auto simp: shares_ok_def same)
qed

lemma get_by_id_row:
  "get_by_id d c b = Inr (Some cfg) \<Longrightarrow> \<exists>r. get_model d c b = Some r \<and> cfg_current_version cfg = row_current_version r
     \<and> cfg_status cfg = row_status r \<and> cfg_name cfg = row_name r \<and> cfg_profile cfg = row_profile r"
  by (auto simp: get_by_id_def config_to_entity_def bindR_eq_Inr split: option.splits)

lemma get_by_id_version:
  assumes "store_ok d" "get_by_id d c b = Inr (Some cfg)" "cfg_current_version cfg = Some v"
  shows "has_version d c v"
proof -
  obtain r where r: "get_model d c b = Some r" "row_current_version r = Some v"
    using get_by_id_row [OF assms(2)] assms(3) by auto
  then have "get_model d c False = Some r"
    using store_okD(1) [OF assms(1)] by (cases b) (auto intro: get_model_active)
  then have "config_current d c = Some v" using r(2) by (simp add: config_current_def)
  then show ?thesis by (rule store_okD(2) [OF assms(1)])
qed

lemma expiration_kind: "resolve_share_expiration p e ttl now = Inr x \<Longrightarrow> exp_permanent x \<longleftrightarrow> exp_at x = None"
  by (auto simp: resolve_share_expiration_def datetime_le_def add_seconds_def bindR_eq_Inr
      split: option.splits if_splits datetime.splits)

lemma shares_ok_create_link:
  assumes "shares_ok d" "store_ok d" "create_share_link st dr c u rq b d = Inr (d', res)"
  shows "shares_ok d'"
  using assms(3)
proof (cases rule: create_share_link_Inr)
  case (1 ex cfg d1 row payload)
  have "shares_ok d1"
    using assms(1) 1(5) expiration_kind [OF 1(1)] get_by_id_version [OF assms(2) 1(2)] 1(3)
    by (rule_tac shares_ok_create) auto
  then show ?thesis by (rule shares_ok_cong) (simp_all add: 1(6))
qed

lemma shares_ok_create_all:
  assumes "shares_ok d" "create_all_share_links st dr u rq b d = Inr (d', res)"
  shows "shares_ok d'"
  using assms(2)
proof (cases rule: create_all_links_Inr)
  case (1 ex d1 row payload)
  have "shares_ok d1"
    using assms(1) 1(3) expiration_kind [OF 1(1)] by (rule shares_ok_create) simp
  then show ?thesis by (rule shares_ok_cong) (simp_all add: 1(4))
qed

lemma shares_ok_extend_same:
  assumes "shares_ok d" "share_step d d'" "length (shares d') = length (shares d)"
  shows "shares_ok d'"
proof -
  obtain kept new where k: "shares d' = kept @ new" "list_all2 share_kept (shares d) kept"
    using assms(2) by (auto simp: share_step_def shares_extend_def)
  then have "new = []" using assms(3) by (auto dest: list_all2_lengthD)
  then show ?thesis
    using assms(1,2) k by (intro shares_ok_kept [of d d'])
      (simp_all add: share_step_def config_exists_def has_version_def user_exists_def)
qed

lemma revoke_where_length: "length (shares (fst (revoke_where P now d))) = length (shares d)"
  by (simp add: revoke_where_def upd_rows_def split: option.splits)

lemma resolve_share_length: "length (shares (fst (resolve_share c st rs t ip now d))) = length (shares d)"
  by (auto simp: resolve_share_def Let_def case_prod_beta record_access_def upd_rows_def split: sum.splits option.splits)

lemma revoke_link_length: "revoke_share_link st a now t u d = Inr d' \<Longrightarrow> length (shares d') = length (shares d)"
  using revoke_where_length [of "\<lambda>r. s_token_hash r = hash_share_token t" now d]
  by (auto simp: revoke_share_link_def revoke_by_token_hash_def Let_def case_prod_beta split: if_splits)

lemma revoke_id_length: "revoke_share_link_by_id st a now i u d = Inr d' \<Longrightarrow> length (shares d') = length (shares d)"
  using revoke_where_length [of "\<lambda>r. s_id r = i" now d]
  by (auto simp: revoke_share_link_by_id_def revoke_by_id_def Let_def case_prod_beta split: if_splits)

lemma shares_ok_event:
  assumes "shares_ok d" "store_ok d"
  shows "shares_ok (run_share_event c st e d)"
proof (cases e)
  case (LinkCreate dr i u rq b)
  then show ?thesis
    using assms shares_ok_create_link [OF assms]
    by (cases "create_share_link st dr i u rq (rstrip_char CHR ''/'' b) d")
      (auto simp: create_share_link_endpoint_def)
next
  case (LinkCreateAll dr u rq b)
  then show ?thesis
    using assms shares_ok_create_all [OF assms(1)]
    by (cases "create_all_share_links st dr u rq (rstrip_char CHR ''/'' b) d")
      (auto simp: create_all_share_links_endpoint_def)
next
  case (LinkRevoke a now t u)
  have "length (shares (run_share_event c st e d)) = length (shares d)"
    using LinkRevoke revoke_link_length by (cases "revoke_share_link st a now t u d") (auto simp: revoke_share_endpoint_def)
  then show ?thesis using assms(1) run_share_event_step shares_ok_extend_same by blast
next
  case (LinkRevokeId a now i u)
  have "length (shares (run_share_event c st e d)) = length (shares d)"
    using LinkRevokeId revoke_id_length
    by (cases "revoke_share_link_by_id st a now i u d") (auto simp: revoke_share_by_id_endpoint_def)
  then show ?thesis using assms(1) run_share_event_step shares_ok_extend_same by blast
next
  case (LinkResolve rs t req now)
  have "length (shares (run_share_event c st e d)) = length (shares d)"
    using LinkResolve resolve_share_length [of c st rs t "get_client_ip req" now d]
    by (cases "resolve_share c st rs t (get_client_ip req) now d") (auto simp: resolve_share_endpoint_def split: sum.split)
  then show ?thesis using assms(1) run_share_event_step shares_ok_extend_same by blast
qed

text \<open>
  Every share link in the table names an existing version of an existing configuration (or, as a
  bundle, neither), has a deadline exactly when it is not permanent, has an existing creator, and differs
  from every other link in id and token; each share request, successful or not, keeps this so.
\<close>

theorem share_table_invariant:
  assumes "shares_ok d" "store_ok d"
  shows "shares_ok (run_share_events c st events d) \<and> store_ok (run_share_events c st events d)"
  using assms
proof (induction c st events d rule: run_share_events.induct)
  case (2 c st e es d)
  have "store_ok (run_share_event c st e d)"
    using run_share_event_step [of d c st e] 2(3) store_ok_cong unfolding share_step_def by blast
  then show ?case using 2 shares_ok_event by simp
qed simp

theorem share_table_invariant_witness:
  "shares_ok (run_share_events demo_cipher demo_settings [LinkRevoke 3 50 ''tok'' demo_user] demo_share_db)"
proof -
  have "shares_ok demo_share_db"
    by (simp add: shares_ok_def demo_share_db_def empty_db_def share_row_ok_def demo_share_def user_exists_def demo_user_def)
  moreover have "store_ok demo_share_db"
    using store_ok_empty by (rule store_ok_cong [THEN iffD2, rotated 2]) (simp_all add: demo_share_db_def)
  ultimately show ?thesis using share_table_invariant by blast
qed

text \<open>
  The administrator's list of active links shows exactly the links that resolving would accept:
  those not revoked and not past their deadline, each once and with the version's configuration.
\<close>

theorem listed_links_are_live:
  assumes "shares_ok d"
  shows "map al_id (list_active_links d now None)
    = map s_id (sort_key (\<lambda>r. - s_created_at r) (filter (\<lambda>r. s_revoked_at r = None \<and> \<not> is_expired now r) (shares d)))"
proof -
  have live: "unexpired now r \<longleftrightarrow> \<not> is_expired now r" "\<exists>u. get_user_by_id d (s_created_by r) = Some u"
    if "r \<in> set (shares d)" for r
  proof -
    have ok: "share_row_ok d r" using assms that by (simp add: shares_ok_def)
    then show "unexpired now r \<longleftrightarrow> \<not> is_expired now r"
      by (cases "s_expires_at r") (auto simp: share_row_ok_def unexpired_def is_expired_def)
    show "\<exists>u. get_user_by_id d (s_created_by r) = Some u"
      using ok by (cases "get_user_by_id d (s_created_by r)")
        (auto simp: share_row_ok_def get_user_by_id_def user_exists_def list_ex_iff find_row_None)
  qed
  let ?rows = "filter (\<lambda>r. s_revoked_at r = None \<and> \<not> is_expired now r) (shares d)"
  have f: "filter (\<lambda>r. s_revoked_at r = None \<and> unexpired now r \<and> ((None :: uuid option) = None \<or> s_config_id r = None)) (shares d) = ?rows"
    using live(1) by (intro filter_cong) auto
  have m: "map al_id (concat (map g rows)) = map s_id rows"
    if "\<And>r. r \<in> set rows \<Longrightarrow> \<exists>l. g r = [l] \<and> al_id l = s_id r" for g and rows :: "share_row list"
    using that by (induction rows) fastforce+
  show ?thesis
    unfolding list_active_links_def Let_def f by (rule m) (use live(2) in fastforce)
qed

lemma demo_share_db_ok: "shares_ok demo_share_db" "store_ok demo_share_db"
proof -
  show "shares_ok demo_share_db"
    by (simp add: shares_ok_def demo_share_db_def empty_db_def share_row_ok_def demo_share_def user_exists_def demo_user_def)
  show "store_ok demo_share_db"
    using store_ok_empty by (rule store_ok_cong [THEN iffD2, rotated 2]) (simp_all add: demo_share_db_def)
qed

theorem listed_links_are_live_witness:
  "map al_id (list_active_links demo_share_db 7 None) = [9]"
  using listed_links_are_live [OF demo_share_db_ok(1), of 7]
  by (simp add: demo_share_db_def empty_db_def demo_share_def is_expired_def)

section \<open>From creation to use\<close>

lemma fresh_token_row:
  assumes "share_create d i now h c v sec perm e u = Inr (d', r)"
  shows "get_by_token_hash d' h = Some r"
proof -
  have R: "shares d' = shares d @ [r]" "s_token_hash r = h" "\<forall>q\<in>set (shares d). s_token_hash q \<noteq> h"
    using share_create_Inr [OF assms] by auto
  then have "find_row (\<lambda>q. s_token_hash q = h) (shares d) = None" by (simp add: find_row_None)
  then show ?thesis by (simp add: get_by_token_hash_def R find_row_append find_row_single)
qed

lemma active_snapshot:
  assumes "store_ok d" "get_by_id d c True = Inr (Some cfg)" "cfg_current_version cfg = Some v"
  shows "\<exists>s. get_version_snapshot d c v = Some s \<and> snap_version s = v \<and> snap_name s = cfg_name cfg \<and> snap_profile s = cfg_profile cfg"
proof -
  obtain r where r: "get_model d c True = Some r" "cfg_name cfg = row_name r" "cfg_profile cfg = row_profile r"
    using get_by_id_row [OF assms(2)] by auto
  then have m: "get_model d c False = Some r"
    using store_okD(1) [OF assms(1)] by (auto intro: get_model_active)
  obtain x where x: "find_version d c v = Some x" "v_version x = v"
    using get_by_id_version [OF assms] by (cases "find_version d c v")
      (auto simp: find_version_def has_version_iff find_row_None dest: find_row_Some)
  show ?thesis by (simp add: get_version_snapshot_def m x r)
qed

text \<open>
  C7. A link works as soon as it is created: until its deadline, and while the client is under the
  rate limit, the token in the response resolves to the URIs of the version that was the current one of the
  active configuration at creation, with the requested certificate trust; the response names that version,
  and its URL ends in that token.
\<close>

theorem created_link_resolves:
  assumes "store_ok d"
    and "create_share_link st dr config_id u rq base d = Inr (d1, res)"
    and "\<forall>t. sl_expires_at res = Some t \<longrightarrow> now < t"
    and "share_allowed st ip now d1"
  shows "\<exists>r v s. get_model d config_id True = Some r \<and> row_status r = ACTIVE \<and> row_current_version r = Some v
    \<and> sl_config_version res = Some v \<and> get_version_snapshot d config_id v = Some s \<and> snap_version s = v
    \<and> endswith (sl_url res) (''/share/'' @ sl_token res)
    \<and> snd (resolve_share cph st rs (sl_token res) ip now d1) = uris_for_snapshot cph st (rs 0) s (rq_secure rq)"
  using assms(2)
proof (cases rule: create_share_link_Inr)
  case (1 ex cfg d0 row payload)
  obtain v where v: "cfg_current_version cfg = Some v" using 1(3) by auto
  obtain r where r: "get_model d config_id True = Some r" "row_status r = ACTIVE" "row_current_version r = Some v"
    using get_by_id_row [OF 1(2)] 1(4) v by auto
  obtain s where s: "get_version_snapshot d config_id v = Some s" "snap_version s = v"
    using active_snapshot [OF assms(1) 1(2) v] by blast
  note R = share_create_Inr [OF 1(5)]
  have row: "get_by_token_hash d1 (hash_share_token (sl_token res)) = Some row"
    using fresh_token_row [OF 1(5)] by (simp add: 1(6) get_by_token_hash_def)
  have "\<not> is_expired now row"
    using R assms(3) by (auto simp: is_expired_def 1(10) split: option.splits)
  then have "live_share (sl_token res) now d1 = Some row"
    using row R by (simp add: live_share_def)
  moreover have "get_version_snapshot d1 config_id v = Some s"
    using s(1) snapshot_cong [of d1 d config_id v] R by (simp add: 1(6))
  then have "share_uris cph st rs row d1 = uris_for_snapshot cph st (rs 0) s (rq_secure rq)"
    using R by (simp add: share_uris_def v)
  moreover have "endswith (sl_url res) (''/share/'' @ sl_token res)"
    unfolding endswith_def 1(9) share_url_def rev_append append.assoc [symmetric] by (rule startswith_append)
  ultimately show ?thesis
    using r s 1(7) v assms(4) by (simp add: resolve_share_result)
qed

definition demo_config_row :: config_row where
  "demo_config_row = \<lparr>row_id = 7, row_name = ''home'', row_protocol = HYSTERIA2_PROTOCOL, row_profile = HYSTERIA2,
     row_status = ACTIVE, row_current_version = Some 1, row_last_task_id = None, row_error_message = None,
     row_policy = None, row_share_host = None, row_is_active = True, row_created_by = 1, row_updated_by = 1,
     row_created_at = 0, row_updated_at = 0\<rparr>"

definition demo_version_row :: version_row where
  "demo_version_row = \<lparr>v_id = 8, v_config_id = 7, v_version = 1, v_port = 8443, v_private_key = ''k'',
     v_public_key = ''p'', v_cert_fingerprint = ''aa'', v_config_data = JDict [], v_created_at = 0\<rparr>"

definition demo_config_db :: db where
  "demo_config_db = empty_db\<lparr>users := [demo_user], configs := [demo_config_row], versions := [demo_version_row]\<rparr>"

lemma demo_config_db_ok: "store_ok demo_config_db"
  by (auto simp: store_ok_def demo_config_db_def empty_db_def config_exists_def config_current_def get_model_def
      find_row_def demo_config_row_def demo_version_row_def has_version_def split: if_splits)

definition demo_share_draws :: share_draws where
  "demo_share_draws = \<lparr>sd_link_id = 20, sd_audit_id = 21, sd_bytes = [1, 2, 3], sd_now = 100\<rparr>"

definition demo_share_request :: share_request where
  "demo_share_request = \<lparr>rq_secure = True, rq_is_permanent = False, rq_expires_at = None, rq_ttl_seconds = Some 60\<rparr>"

lemma demo_create_link: "\<exists>d1 res. create_share_link demo_settings demo_share_draws 7 demo_user demo_share_request ''https://vpn'' demo_config_db
    = Inr (d1, res) \<and> sl_expires_at res = Some 160 \<and> rate_entries d1 = []"
  by (simp add: create_share_link_def demo_share_request_def resolve_share_expiration_def add_seconds_def
      demo_share_draws_def max_datetime_def get_by_id_def demo_config_db_def get_model_def find_row_def
      config_to_entity_def policy_from_model_def demo_config_row_def Let_def share_create_def config_exists_def
      user_exists_def demo_user_def empty_db_def audit_log_def audit_insert_def)

theorem created_link_resolves_witness:
  "\<exists>d1 res s. create_share_link demo_settings demo_share_draws 7 demo_user demo_share_request ''https://vpn'' demo_config_db = Inr (d1, res)
     \<and> sl_config_version res = Some 1 \<and> get_version_snapshot demo_config_db 7 1 = Some s
     \<and> snd (resolve_share demo_cipher demo_settings (\<lambda>_. 0) (sl_token res) ''10.0.0.1'' 159 d1)
         = uris_for_snapshot demo_cipher demo_settings 0 s True"
proof -
  obtain d1 res where run: "create_share_link demo_settings demo_share_draws 7 demo_user demo_share_request ''https://vpn'' demo_config_db
      = Inr (d1, res)" "sl_expires_at res = Some 160" "rate_entries d1 = []"
    using demo_create_link by blast
  have "\<forall>t. sl_expires_at res = Some t \<longrightarrow> 159 < t" by (simp add: run(2))
  moreover have "share_allowed demo_settings ''10.0.0.1'' 159 d1"
    by (simp add: share_allowed_def current_count_def run(3) limit_or_def demo_settings_def)
  ultimately show ?thesis
    using created_link_resolves [OF demo_config_db_ok run(1), of 159 "''10.0.0.1''" demo_cipher "\<lambda>_. 0"] run(1)
    by (auto simp: demo_share_request_def get_model_def demo_config_db_def find_row_def demo_config_row_def)
qed

end
