(* ===== verification/Auth.thy ===== *)
theory Auth
  imports Share_Links
begin

text \<open>
  Signing in: \<open>login.py\<close>, \<open>security/jwt.py\<close>, \<open>security/password.py\<close>,
  \<open>get_current_user\<close> of \<open>api/deps.py\<close>, the endpoint of
  \<open>api/routers/auth.py\<close> and the command \<open>cli/create_admin.py\<close>. The libraries PyJWT and
  bcrypt are parameters. Times are whole seconds, which is what a token holds.
\<close>

section \<open>The libraries\<close>

text \<open>
  \<open>jwt.encode(payload, key, algorithm)\<close>; \<open>jwt.decode(token, key, algorithms)\<close> at a time,
  \<open>None\<close> when it raises \<open>PyJWTError\<close>; \<open>bcrypt.hashpw\<close> with a drawn salt and
  \<open>bcrypt.checkpw\<close>, which raises for a malformed hash.
\<close>

record auth_lib =
  jwt_encode :: "(string \<times> json) list \<Rightarrow> string \<Rightarrow> string \<Rightarrow> exn + string"
  jwt_decode :: "int \<Rightarrow> string \<Rightarrow> string \<Rightarrow> string list \<Rightarrow> (string \<times> json) list option"
  bcrypt_hash :: "nat \<Rightarrow> string \<Rightarrow> exn + string"
  bcrypt_check :: "string \<Rightarrow> string \<Rightarrow> exn + bool"

record security_settings =
  secret_key :: string
  encryption_key :: string
  jwt_algorithm :: string

text \<open>
  PyJWT: a token made with a key decodes with it to its payload between the times it carries, and not
  at all from its expiry on. bcrypt: a password is checked against its own hash.
\<close>

definition jwt_ok :: "auth_lib \<Rightarrow> bool" where
  "jwt_ok lib \<longleftrightarrow> (\<forall>payload key alg token now iat expires. jwt_encode lib payload key alg = Inr token
     \<longrightarrow> map_of payload ''iat'' = Some (JInt iat) \<longrightarrow> map_of payload ''exp'' = Some (JInt expires)
     \<longrightarrow> jwt_decode lib now token key [alg] = (if iat \<le> now \<and> now < expires then Some payload else None))"

definition bcrypt_ok :: "auth_lib \<Rightarrow> bool" where
  "bcrypt_ok lib \<longleftrightarrow> (\<forall>salt password h. bcrypt_hash lib salt password = Inr h \<longrightarrow> bcrypt_check lib password h = Inr True)"

section \<open>Tokens\<close>

definition create_access_token :: "auth_lib \<Rightarrow> panel_settings \<Rightarrow> security_settings \<Rightarrow> int \<Rightarrow> uuid \<Rightarrow> exn + string" where
  "create_access_token lib st sec now user =
     jwt_encode lib [(''sub'', JStr (uuid_str user)), (''iat'', JInt now), (''exp'', JInt (now + 60 * jwt_expire_minutes st))]
       (secret_key sec) (jwt_algorithm sec)"

definition decode_access_token :: "auth_lib \<Rightarrow> security_settings \<Rightarrow> int \<Rightarrow> string \<Rightarrow> exn + uuid" where
  "decode_access_token lib sec now token =
     (case jwt_decode lib now token (secret_key sec) [jwt_algorithm sec] of
        None \<Rightarrow> raise JwtError ''Invalid token''
      | Some payload \<Rightarrow>
          let sub = the_or JNull (map_of payload ''sub'') in
          if \<not> truthy sub then raise JwtError ''Invalid token''
          else (case uuid_of_str (py_str sub) of
              None \<Rightarrow> raise ValueError ''badly formed hexadecimal UUID string''
            | Some u \<Rightarrow> Inr u))"

section \<open>Users\<close>

text \<open>The command that creates an administrator: a message when it exits, or the committed database.\<close>

definition create_admin :: "auth_lib \<Rightarrow> nat \<Rightarrow> uuid \<Rightarrow> int \<Rightarrow> string \<Rightarrow> string \<Rightarrow> db \<Rightarrow> (string + exn) + db" where
  "create_admin lib salt new_id now name password d =
     (if password = [] then Inl (Inl ''Password must not be empty'')
      else if get_by_username d name \<noteq> None then Inl (Inl (''User already exists: '' @ name))
      else (case bindR (bcrypt_hash lib salt password) (\<lambda>h. create_user d new_id now name h) of
          Inl e \<Rightarrow> Inl (Inr e) | Inr (d', u) \<Rightarrow> Inr d'))"

definition users_ok :: "db \<Rightarrow> bool" where
  "users_ok d \<longleftrightarrow> distinct (map user_id (users d)) \<and> distinct (map username (users d))"

section \<open>Signing in\<close>

definition login :: "auth_lib \<Rightarrow> panel_settings \<Rightarrow> security_settings \<Rightarrow> uuid \<Rightarrow> int \<Rightarrow> string \<Rightarrow> string \<Rightarrow> string \<Rightarrow> db \<Rightarrow> db \<times> (exn + string)" where
  "login lib st sec audit_id now name password client_ip d =
     (let rule = rate_limit_login st;
          (d1, allowed) = check_and_increment ''login'' (''ip:'' @ client_ip) (limit_or (max_attempts rule) 5) (window_seconds rule) now d in
      case allowed of
        Inl e \<Rightarrow> (d1, Inl e)
      | Inr _ \<Rightarrow>
          let failed = (audit_failed_login st audit_id now name client_ip d1, raise InvalidCredentials '''') in
          (case get_by_username d1 name of
             None \<Rightarrow> failed
           | Some user \<Rightarrow> (case bcrypt_check lib password (password_hash user) of
               Inl e \<Rightarrow> (d1, Inl e)
             | Inr ok \<Rightarrow> if \<not> ok then failed else (d1, create_access_token lib st sec now (user_id user)))))"

record login_request =
  lg_username :: string
  lg_password :: string

definition login_request_valid :: "login_request \<Rightarrow> bool" where
  "login_request_valid rq = (1 \<le> length (lg_username rq) \<and> length (lg_username rq) \<le> 128
     \<and> 1 \<le> length (lg_password rq) \<and> length (lg_password rq) \<le> 256)"

text \<open>The endpoint commits the counter and the audit record of a refusal too; other exceptions roll back.\<close>

definition login_endpoint ::
  "auth_lib \<Rightarrow> panel_settings \<Rightarrow> security_settings \<Rightarrow> uuid \<Rightarrow> int \<Rightarrow> login_request \<Rightarrow> http_request \<Rightarrow> db \<Rightarrow> db \<times> string reply" where
  "login_endpoint lib st sec audit_id now rq req d =
     (if \<not> login_request_valid rq then (d, Failed 422 '''')
      else case login lib st sec audit_id now (lg_username rq) (lg_password rq) (get_client_ip req) d of
        (d1, Inr token) \<Rightarrow> (d1, Reply token)
      | (d1, Inl e) \<Rightarrow>
          if caught_by [RateLimitExceeded] e then (d1, Failed 429 ''Too many login attempts'')
          else if caught_by [InvalidCredentials] e then (d1, Failed 401 ''Invalid credentials'')
          else (d, internal_error))"

section \<open>The current user\<close>

definition unauthorized :: "'a reply" where
  "unauthorized = Failed 401 ''Unauthorized''"

text \<open>\<open>credentials\<close> is what the bearer scheme found in the header, if anything.\<close>

definition get_current_user :: "auth_lib \<Rightarrow> security_settings \<Rightarrow> int \<Rightarrow> string option \<Rightarrow> db \<Rightarrow> user reply" where
  "get_current_user lib sec now credentials d =
     (case some_text credentials of
        None \<Rightarrow> unauthorized
      | Some token \<Rightarrow> (case decode_access_token lib sec now token of
          Inl e \<Rightarrow> if caught_by [JwtError] e then unauthorized else internal_error
        | Inr i \<Rightarrow> (case get_user_by_id d i of None \<Rightarrow> unauthorized | Some u \<Rightarrow> Reply u)))"

section \<open>Lemmas\<close>

lemma find_row_unique:
  "distinct (map key rows) \<Longrightarrow> r \<in> set rows \<Longrightarrow> find_row (\<lambda>x. key x = key r) rows = Some r"
proof -
  assume d: "distinct (map key rows)" and r: "r \<in> set rows"
  obtain q where q: "find_row (\<lambda>x. key x = key r) rows = Some q"
    using r by (cases "find_row (\<lambda>x. key x = key r) rows") (auto simp: find_row_None)
  then show ?thesis using d r find_row_Some [OF q] by (auto simp: distinct_map inj_on_def)
qed

lemma uuid_str_not_empty: "uuid_str u \<noteq> []"
proof
  assume "uuid_str u = []"
  then have "uuid_of_str [] = Some u" by (metis uuid_of_str_uuid_str)
  moreover have "uuid_of_str [] = None" by code_simp
  ultimately show False by simp
qed

lemma get_by_username_Some: "get_by_username d name = Some u \<Longrightarrow> u \<in> set (users d) \<and> username u = name"
  using find_row_Some by (fastforce simp: get_by_username_def)

lemma login_token:
  assumes "login_endpoint lib st sec a now rq req d = (d', Reply token)"
  obtains u where "u \<in> set (users d)" "username u = lg_username rq" "bcrypt_check lib (lg_password rq) (password_hash u) = Inr True"
    "create_access_token lib st sec now (user_id u) = Inr token" "users d' = users d"
proof -
  have "\<exists>u. u \<in> set (users d) \<and> username u = lg_username rq \<and> bcrypt_check lib (lg_password rq) (password_hash u) = Inr True
    \<and> create_access_token lib st sec now (user_id u) = Inr token \<and> users d' = users d"
    using assms
    by (auto simp: login_endpoint_def login_def Let_def case_prod_beta internal_error_def dest!: get_by_username_Some
        split: if_splits sum.splits option.splits prod.splits)
  then show thesis using that by blast
qed

text \<open>
  C9. A token that signing in returns stands for the user whose name and password were given: as long
  as the user is there, it is accepted as exactly this user from the moment it is issued until the
  configured number of minutes have passed, and refused with 401 from then on.
\<close>

theorem login_session:
  assumes jwt: "jwt_ok lib" and users: "users_ok d'" and kept: "set (users d) \<subseteq> set (users d')"
    and run: "login_endpoint lib st sec a now rq req d = (d1, Reply token)" and token: "token \<noteq> []" and later: "now \<le> t"
  shows "\<exists>u. u \<in> set (users d) \<and> username u = lg_username rq \<and> bcrypt_check lib (lg_password rq) (password_hash u) = Inr True
    \<and> get_current_user lib sec t (Some token) d' = (if t < now + 60 * jwt_expire_minutes st then Reply u else unauthorized)"
proof -
  obtain u where u: "u \<in> set (users d)" "username u = lg_username rq" "bcrypt_check lib (lg_password rq) (password_hash u) = Inr True"
    "create_access_token lib st sec now (user_id u) = Inr token"
    by (rule login_token [OF run])
  let ?payload = "[(''sub'', JStr (uuid_str (user_id u))), (''iat'', JInt now), (''exp'', JInt (now + 60 * jwt_expire_minutes st))]"
  have "jwt_decode lib t token (secret_key sec) [jwt_algorithm sec] = (if t < now + 60 * jwt_expire_minutes st then Some ?payload else None)"
    using jwt u(4) later by (simp add: jwt_ok_def create_access_token_def)
  moreover have "get_user_by_id d' (user_id u) = Some u"
    using users u(1) kept by (auto simp: get_user_by_id_def users_ok_def intro: find_row_unique)
  moreover have "uuid_str (user_id u) \<noteq> []" by (rule uuid_str_not_empty)
  ultimately show ?thesis
    using u token by (auto simp: get_current_user_def decode_access_token_def some_text_def Let_def unauthorized_def caught_by_def
        exn_subclass_def exn_base_def)
qed

text \<open>One user, whose password is the text of the hash; a token is a text that stands for one payload.\<close>

definition demo_auth :: "(string \<times> json) list \<Rightarrow> auth_lib" where
  "demo_auth made = \<lparr>
     jwt_encode = (\<lambda>payload key alg. if payload = made then Inr (alg @ ''.'' @ key) else raise TypeError ''''),
     jwt_decode = (\<lambda>now token key algs.
       if token = hd algs @ ''.'' @ key \<and> (case (map_of made ''iat'', map_of made ''exp'') of
            (Some (JInt iat), Some (JInt expires)) \<Rightarrow> iat \<le> now \<and> now < expires | _ \<Rightarrow> False)
       then Some made else None),
     bcrypt_hash = (\<lambda>salt password. Inr password),
     bcrypt_check = (\<lambda>password h. Inr (password = h))\<rparr>"

definition demo_security :: security_settings where
  "demo_security = \<lparr>secret_key = ''s3'', encryption_key = ''k'', jwt_algorithm = ''HS256''\<rparr>"

definition demo_payload_of :: "int \<Rightarrow> uuid \<Rightarrow> (string \<times> json) list" where
  "demo_payload_of now u = [(''sub'', JStr (uuid_str u)), (''iat'', JInt now), (''exp'', JInt (now + 3600))]"

definition demo_login :: "string \<Rightarrow> login_request" where
  "demo_login password = \<lparr>lg_username = ''admin'', lg_password = password\<rparr>"

definition demo_origin :: http_request where
  "demo_origin = \<lparr>forwarded_for = None, client_host = Some ''10.0.0.1''\<rparr>"

definition demo_users_db :: db where
  "demo_users_db = empty_db\<lparr>users := [demo_user]\<rparr>"

lemma demo_auth_jwt_ok: "jwt_ok (demo_auth made)"
  by (auto simp: jwt_ok_def demo_auth_def)

theorem login_session_witness:
  "get_current_user (demo_auth (demo_payload_of 100 1)) demo_security 3699 (Some ''HS256.s3'') demo_users_db = Reply demo_user
   \<and> get_current_user (demo_auth (demo_payload_of 100 1)) demo_security 3700 (Some ''HS256.s3'') demo_users_db = unauthorized"
proof -
  let ?lib = "demo_auth (demo_payload_of 100 1)"
  have run: "login_endpoint ?lib demo_settings demo_security 5 100 (demo_login ''h'') demo_origin demo_users_db
      = (fst (login_endpoint ?lib demo_settings demo_security 5 100 (demo_login ''h'') demo_origin demo_users_db), Reply ''HS256.s3'')"
    by (rule prod_eqI) (simp, code_simp)
  have ok: "users_ok demo_users_db"
    by (simp add: users_ok_def demo_users_db_def)
  have one: "u = demo_user" if "u \<in> set (users demo_users_db)" for u
    using that by (simp add: demo_users_db_def)
  have minutes: "jwt_expire_minutes demo_settings = 60" by (simp add: demo_settings_def)
  note session = login_session [OF demo_auth_jwt_ok ok subset_refl run]
  show ?thesis
    using session [of 3699] session [of 3700] by (auto simp: minutes dest!: one)
qed

text \<open>
  Signing in does not tell which names exist: a request that is refused gets the same answer and
  leaves the same records, whether no user has the name or the password is not this user's.
\<close>

lemma refused_login_alike:
  assumes "get_by_username d name = None \<or> (\<exists>u. get_by_username d name = Some u \<and> bcrypt_check lib password (password_hash u) = Inr False)"
    and "snd (check_and_increment ''login'' (''ip:'' @ ip) (limit_or (max_attempts (rate_limit_login st)) 5) (window_seconds (rate_limit_login st)) now d) = Inr x"
  shows "login lib st sec a now name password ip d =
    (audit_failed_login st a now name ip (fst (check_and_increment ''login'' (''ip:'' @ ip) (limit_or (max_attempts (rate_limit_login st)) 5)
       (window_seconds (rate_limit_login st)) now d)), raise InvalidCredentials '''')"
  using assms by (auto simp: login_def Let_def case_prod_beta get_by_username_def)

section \<open>Guessing\<close>

text \<open>A request to sign in: the id of its audit record, its time, its body and its origin.\<close>

type_synonym login_event = "uuid \<times> int \<times> login_request \<times> http_request"

fun run_logins :: "auth_lib \<Rightarrow> panel_settings \<Rightarrow> security_settings \<Rightarrow> db \<Rightarrow> login_event list \<Rightarrow> string reply list" where
  "run_logins lib st sec d [] = []"
| "run_logins lib st sec d ((a, now, rq, req) # events) =
     (let (d', r) = login_endpoint lib st sec a now rq req d in r # run_logins lib st sec d' events)"

definition login_bucket :: "panel_settings \<Rightarrow> login_event \<Rightarrow> string \<times> int" where
  "login_bucket st e = (case e of (a, now, rq, req) \<Rightarrow> bucket ''login'' (window_seconds (rate_limit_login st)) (''ip:'' @ get_client_ip req, now))"

abbreviation login_limit :: "panel_settings \<Rightarrow> int" where
  "login_limit st \<equiv> limit_or (max_attempts (rate_limit_login st)) 5"

definition over_limit :: "'a reply" where
  "over_limit = Failed 429 ''Too many login attempts''"

text \<open>Neither library raises an exception class of the panel's own; \<open>checkpw\<close> may well raise \<open>ValueError\<close>.\<close>

definition foreign_errors :: "auth_lib \<Rightarrow> bool" where
  "foreign_errors lib \<longleftrightarrow>
     (\<forall>p h e. bcrypt_check lib p h = Inl e \<longrightarrow> \<not> caught_by [RateLimitExceeded, InvalidCredentials] e)
     \<and> (\<forall>p k a e. jwt_encode lib p k a = Inl e \<longrightarrow> \<not> caught_by [RateLimitExceeded, InvalidCredentials] e)"

text \<open>The answers whose request stays counted: the counter of the others was not reached, or rolled back.\<close>

definition login_counted :: "string reply \<Rightarrow> bool" where
  "login_counted r \<longleftrightarrow> r \<noteq> Failed 422 '''' \<and> r \<noteq> internal_error"

text \<open>The answers that tell whether a password is right.\<close>

definition password_verdict :: "string reply \<Rightarrow> bool" where
  "password_verdict r = (case r of Reply token \<Rightarrow> True | Failed code _ \<Rightarrow> code = 401)"

definition login_valid :: "login_event \<Rightarrow> bool" where
  "login_valid e = (case e of (a, now, rq, req) \<Rightarrow> login_request_valid rq)"

text \<open>The requests on which a library itself gives up.\<close>

definition login_raises :: "auth_lib \<Rightarrow> panel_settings \<Rightarrow> security_settings \<Rightarrow> user list \<Rightarrow> login_event \<Rightarrow> bool" where
  "login_raises lib st sec us e = (case e of (a, now, rq, req) \<Rightarrow>
     list_ex (\<lambda>u. username u = lg_username rq \<and> (isl (bcrypt_check lib (lg_password rq) (password_hash u))
       \<or> isl (create_access_token lib st sec now (user_id u)))) us)"

lemma login_step:
  assumes lib: "foreign_errors lib" and e: "e = (a, now, rq, req)"
    and run: "login_endpoint lib st sec a now rq req d = (d', r)"
  shows "rate_count d' b = rate_count d b + (if login_counted r \<and> login_bucket st e = b then 1 else 0)"
    and "r = over_limit \<longleftrightarrow> login_valid e \<and> login_limit st \<le> rate_count d (login_bucket st e)"
    and "password_verdict r \<Longrightarrow> login_counted r"
    and "r = internal_error \<Longrightarrow> login_raises lib st sec (users d) e"
    and "users d' = users d"
    and "password_verdict r \<Longrightarrow> login_valid e"
proof -
  let ?w = "window_seconds (rate_limit_login st)" and ?who = "''ip:'' @ get_client_ip req"
  obtain d1 allowed where c: "check_and_increment ''login'' ?who (login_limit st) ?w now d = (d1, allowed)"
    by fastforce
  have b: "login_bucket st e = (rate_key ''login'' ?who, window_start ?w now)"
    by (simp add: e login_bucket_def bucket_def)
  have d1: "d1 = fst (rate_upsert (login_bucket st e) d)"
    and allowed: "allowed = (if rate_count d (login_bucket st e) + 1 > login_limit st then raise RateLimitExceeded '''' else Inr ())"
    using c rate_counter.bump_result [of "login_bucket st e" d] by (auto simp: check_and_increment_def b case_prod_beta)
  have cnt: "rate_count d1 b = rate_count d b + (if login_bucket st e = b then 1 else 0)" "users d1 = users d" for b
    using rate_counter.bump_count [of "login_bucket st e" d b] d1 by (auto simp: rate_upsert_def Let_def)
  have fail: "rate_count (audit_failed_login st a now n ip d1) b = rate_count d1 b" "users (audit_failed_login st a now n ip d1) = users d1" for n ip b
    by (simp_all add: rate_count_def audit_failed_login_def)
  note replies = login_counted_def password_verdict_def over_limit_def internal_error_def
  consider "\<not> login_request_valid rq" | "login_request_valid rq" "allowed \<noteq> Inr ()"
    | "login_request_valid rq" "allowed = Inr ()" "get_by_username d1 (lg_username rq) = None"
    | u where "login_request_valid rq" "allowed = Inr ()" "get_by_username d1 (lg_username rq) = Some u" by blast
  then have "rate_count d' b = rate_count d b + (if login_counted r \<and> login_bucket st e = b then 1 else 0)
    \<and> (r = over_limit \<longleftrightarrow> login_valid e \<and> login_limit st \<le> rate_count d (login_bucket st e))
    \<and> (password_verdict r \<longrightarrow> login_counted r) \<and> (r = internal_error \<longrightarrow> login_raises lib st sec (users d) e) \<and> users d' = users d
    \<and> (password_verdict r \<longrightarrow> login_valid e)"
  proof cases
    case 1
    then have "d' = d" "r = Failed 422 []" "\<not> login_valid e" using run by (simp_all add: login_endpoint_def login_valid_def e)
    then show ?thesis by (simp add: replies)
  next
    case 2
    then have over: "login_limit st \<le> rate_count d (login_bucket st e)" "allowed = raise RateLimitExceeded []"
      using allowed by (auto split: if_splits)
    then have "d' = d1" "r = over_limit"
      using run c 2(1) by (auto simp: login_endpoint_def login_def Let_def over_limit_def caught_by_def exn_subclass_def exn_base_def)
    moreover have "login_valid e" using 2(1) by (simp add: login_valid_def e)
    ultimately show ?thesis using over(1) by (simp add: cnt replies)
  next
    case 3
    then have "d' = audit_failed_login st a now (lg_username rq) (get_client_ip req) d1" "r = Failed 401 ''Invalid credentials''"
      using run c by (auto simp: login_endpoint_def login_def Let_def caught_by_def exn_subclass_def exn_base_def)
    moreover have "login_valid e" using 3(1) by (simp add: login_valid_def e)
    moreover have "rate_count d (login_bucket st e) < login_limit st" using 3(2) allowed by (simp split: if_splits)
    ultimately show ?thesis by (simp add: cnt fail replies)
  next
    case 4
    have u: "u \<in> set (users d)" "username u = lg_username rq"
      using get_by_username_Some [OF 4(3)] cnt(2) by auto
    have under: "rate_count d (login_bucket st e) < login_limit st" using 4(2) allowed by (simp split: if_splits)
    have gives_up: ?thesis if r: "d' = d" "r = internal_error"
      and raised: "isl (bcrypt_check lib (lg_password rq) (password_hash u)) \<or> isl (create_access_token lib st sec now (user_id u))"
    proof -
      have "login_raises lib st sec (users d) e" using u raised by (auto simp: login_raises_def e list_ex_iff)
      then show ?thesis using under by (simp add: r replies)
    qed
    have foreign: "\<not> caught_by [RateLimitExceeded] x" "\<not> caught_by [InvalidCredentials] x"
      if "bcrypt_check lib p h = Inl x \<or> create_access_token lib st sec now i = Inl x" for x p h i
      using lib that by (auto simp: foreign_errors_def create_access_token_def caught_by_def)
    show ?thesis
    proof (cases "bcrypt_check lib (lg_password rq) (password_hash u)")
      case (Inl x)
      then have "d' = d \<and> r = internal_error"
        using run 4 foreign [of "lg_password rq" "password_hash u" x] c by (auto simp: login_endpoint_def login_def Let_def)
      then show ?thesis using gives_up Inl by simp
    next
      case (Inr ok)
      show ?thesis
      proof (cases "ok \<and> isl (create_access_token lib st sec now (user_id u))")
        case True
        then obtain x where x: "create_access_token lib st sec now (user_id u) = Inl x" by (auto simp: isl_def)
        then have "d' = d \<and> r = internal_error"
          using run 4 Inr True foreign [of _ _ x "user_id u"] c by (auto simp: login_endpoint_def login_def Let_def)
        then show ?thesis using gives_up True by simp
      next
        case False
        have "(\<exists>t. d' = d1 \<and> r = Reply t) \<or>
            (d' = audit_failed_login st a now (lg_username rq) (get_client_ip req) d1 \<and> r = Failed 401 ''Invalid credentials'')"
        proof (cases ok)
          case True
          then obtain t where "create_access_token lib st sec now (user_id u) = Inr t" using False
            by (cases "create_access_token lib st sec now (user_id u)") auto
          then show ?thesis using run 4 Inr True c by (auto simp: login_endpoint_def login_def Let_def)
        next
          case False
          then show ?thesis using run 4 Inr c
            by (simp add: login_endpoint_def login_def Let_def caught_by_def exn_subclass_def exn_base_def)
        qed
        moreover have "login_valid e" using 4(1) by (simp add: login_valid_def e)
        ultimately show ?thesis using under
          by (elim disjE exE conjE) (simp_all add: cnt fail replies)
      qed
    qed
  qed
  then show "rate_count d' b = rate_count d b + (if login_counted r \<and> login_bucket st e = b then 1 else 0)"
    "r = over_limit \<longleftrightarrow> login_valid e \<and> login_limit st \<le> rate_count d (login_bucket st e)"
    "password_verdict r \<Longrightarrow> login_counted r" "r = internal_error \<Longrightarrow> login_raises lib st sec (users d) e" "users d' = users d"
    "password_verdict r \<Longrightarrow> login_valid e"
    by simp_all
qed

text \<open>How many of the answered requests of a bucket are of a kind.\<close>

definition answered :: "panel_settings \<Rightarrow> (string reply \<Rightarrow> bool) \<Rightarrow> string \<times> int \<Rightarrow> (login_event \<times> string reply) list \<Rightarrow> int" where
  "answered st P b log = int (length (filter (\<lambda>(e, r). login_bucket st e = b \<and> P r) log))"

lemma logins_step:
  "run_logins lib st sec d ((a, now, rq, req) # events) =
     snd (login_endpoint lib st sec a now rq req d) # run_logins lib st sec (fst (login_endpoint lib st sec a now rq req d)) events"
  by (simp add: case_prod_beta)

lemma logins_length [simp]: "length (run_logins lib st sec d events) = length events"
  by (induction events arbitrary: d) (auto simp: case_prod_beta)

lemma login_refused_iff:
  assumes lib: "foreign_errors lib"
  shows "i < length events \<Longrightarrow> run_logins lib st sec d events ! i = over_limit \<longleftrightarrow>
    login_valid (events ! i) \<and> login_limit st \<le> rate_count d (login_bucket st (events ! i))
      + answered st login_counted (login_bucket st (events ! i)) (take i (zip events (run_logins lib st sec d events)))"
proof (induction events arbitrary: i d)
  case (Cons e events)
  obtain a now rq req where e: "e = (a, now, rq, req)" by (cases e)
  obtain d' r where run: "login_endpoint lib st sec a now rq req d = (d', r)" by fastforce
  note step = login_step [OF lib e run]
  show ?case
  proof (cases i)
    case 0
    then show ?thesis using step(2) by (simp add: e run answered_def)
  next
    case (Suc j)
    then show ?thesis
      using Cons.IH [of j d'] Cons.prems step(1) [of "login_bucket st (events ! j)"]
      by (auto simp: e run answered_def)
  qed
qed simp

lemma verdicts_bounded:
  assumes lib: "foreign_errors lib"
  shows "answered st password_verdict b (zip events (run_logins lib st sec d events)) \<le> max 0 (login_limit st - rate_count d b)"
proof (induction events arbitrary: d)
  case (Cons e events)
  obtain a now rq req where e: "e = (a, now, rq, req)" by (cases e)
  obtain d' r where run: "login_endpoint lib st sec a now rq req d = (d', r)" by fastforce
  note step = login_step [OF lib e run]
  have "password_verdict r \<Longrightarrow> rate_count d (login_bucket st e) < login_limit st"
    using step(2,6) by (auto simp: password_verdict_def over_limit_def)
  then show ?case
    using Cons.IH [of d'] step(1) [of b] step(3) by (cases "password_verdict r"; cases "login_bucket st e = b")
      (auto simp: e run answered_def split: if_splits)
qed (simp add: answered_def)

lemma failed_login_raises:
  assumes lib: "foreign_errors lib"
  shows "i < length events \<Longrightarrow> run_logins lib st sec d events ! i = internal_error \<Longrightarrow> login_raises lib st sec (users d) (events ! i)"
proof (induction events arbitrary: i d)
  case (Cons e events)
  obtain a now rq req where e: "e = (a, now, rq, req)" by (cases e)
  obtain d' r where run: "login_endpoint lib st sec a now rq req d = (d', r)" by fastforce
  note step = login_step [OF lib e run]
  show ?case
    using Cons.IH [of "i - 1" d'] Cons.prems step(4,5) by (cases i) (auto simp: e run)
qed simp

text \<open>
  C12. Guessing is bounded: over any sequence of requests to sign in, by any clients, with any names and
  passwords, a well-formed request is answered that there were too many exactly when its client already has
  as many counted requests as the limit in the same window; and no client learns in one window of more than
  the limit of passwords whether they are right. The requests that are not counted are those with a
  malformed body and those answered by an internal error, whose counter is rolled back; that answer comes
  only where bcrypt raises on the password and the hash of the user who was named, or the token of this
  user cannot be made.
\<close>

theorem guessing_bounded:
  assumes lib: "foreign_errors lib" and i: "i < length events"
    and answers: "answers = run_logins lib st sec d events"
  shows "(answers ! i = over_limit \<longleftrightarrow> login_valid (events ! i) \<and>
      login_limit st \<le> rate_count d (login_bucket st (events ! i))
        + answered st login_counted (login_bucket st (events ! i)) (take i (zip events answers)))
    \<and> answered st password_verdict b (zip events answers) \<le> max 0 (login_limit st - rate_count d b)
    \<and> (answers ! i = internal_error \<longrightarrow> login_raises lib st sec (users d) (events ! i))"
  unfolding answers using login_refused_iff [OF lib i] verdicts_bounded [OF lib] failed_login_raises [OF lib i] by blast

text \<open>A library whose check raises, as bcrypt's does, on a password with a null character.\<close>

definition demo_picky_auth :: auth_lib where
  "demo_picky_auth = (demo_auth [])\<lparr>jwt_encode := (\<lambda>payload key alg. Inr ''t''),
     bcrypt_check := (\<lambda>password h. if CHR 0x00 \<in> set password then raise ValueError '''' else Inr (password = h))\<rparr>"

definition demo_guesses :: "login_event list" where
  "demo_guesses = [(1, 0, demo_login ''a'', demo_origin), (2, 1, demo_login [CHR 0x00], demo_origin), (3, 2, demo_login ''b'', demo_origin),
     (4, 3, demo_login ''c'', demo_origin), (5, 4, demo_login ''d'', demo_origin), (6, 5, demo_login ''e'', demo_origin),
     (7, 6, demo_login ''h'', demo_origin)]"

theorem guessing_bounded_witness:
  "run_logins demo_picky_auth demo_settings demo_security demo_users_db demo_guesses ! 6 = over_limit"
proof -
  have lib: "foreign_errors demo_picky_auth"
    by (simp add: foreign_errors_def demo_picky_auth_def demo_auth_def caught_by_def exn_subclass_def exn_base_def)
  have i: "6 < length demo_guesses" by (simp add: demo_guesses_def)
  have "login_valid (demo_guesses ! 6) \<and> login_limit demo_settings \<le> rate_count demo_users_db (login_bucket demo_settings (demo_guesses ! 6))
      + answered demo_settings login_counted (login_bucket demo_settings (demo_guesses ! 6))
          (take 6 (zip demo_guesses (run_logins demo_picky_auth demo_settings demo_security demo_users_db demo_guesses)))"
    by code_simp
  with guessing_bounded [OF lib i refl, of demo_settings demo_security demo_users_db] show ?thesis by blast
qed

end
