(* ===== verification/Nginx_Mux.thy ===== *)
theory Nginx_Mux
  imports Config_Builder
begin

text \<open>
  \<open>panel/infrastructure/vpn/nginx_shared_443.py\<close>: the nginx stream map that sends each TLS
  server name arriving at port 443 to the panel or to a VPN backend, computed from the settings, the
  configuration just written and the live configurations on disk.
\<close>

section \<open>The live configurations\<close>

record mux_host =
  mux_env :: build_env
  mux_is_dir :: "string \<Rightarrow> bool"
  mux_glob :: "string \<Rightarrow> string \<Rightarrow> string list"

definition mux_profiles :: "string list" where
  "mux_profiles = [''xray-reality'', ''xray-xhttp'', ''xray-grpc'']"

definition shared_443_enabled :: "vpn_profile_settings \<Rightarrow> bool" where
  "shared_443_enabled ps = (truthy_port (share_public_port ps) \<and> some_text (listen_address ps) \<noteq> None)"

text \<open>The loop over the files: an unreadable or malformed file is skipped.\<close>

fun load_live_files :: "mux_host \<Rightarrow> bool \<Rightarrow> string \<Rightarrow> string list \<Rightarrow> exn + json list" where
  "load_live_files h yaml tag [] = Inr []"
| "load_live_files h yaml tag (path # paths) =
     (case bindR (read_text (env_files (mux_env h)) path)
             (if yaml then env_yaml_load (mux_env h) else env_json_loads (mux_env h)) of
        Inl e \<Rightarrow> load_live_files h yaml tag paths
      | Inr data \<Rightarrow>
          if \<not> is_jdict data then load_live_files h yaml tag paths
          else if tag = [] then bindR (load_live_files h yaml tag paths) (\<lambda>items. Inr (data # items))
          else (case find_inbound data tag of
              Inl e \<Rightarrow> if caught_by [KeyError] e then load_live_files h yaml tag paths else Inl e
            | Inr _ \<Rightarrow> bindR (load_live_files h yaml tag paths) (\<lambda>items. Inr (data # items))))"

definition load_live_configs :: "mux_host \<Rightarrow> panel_settings \<Rightarrow> string \<Rightarrow> exn + json list" where
  "load_live_configs h st key = (case map_of (profiles st) key of
     None \<Rightarrow> Inr []
   | Some ps \<Rightarrow>
       (let yaml = (key = ''hysteria2'');
            root = (if yaml then hysteria_config_dir (systemd st) else xray_config_dir (systemd st))
        in if \<not> mux_is_dir h root then Inr []
           else load_live_files h yaml (inbound_tag ps)
                  (sort (mux_glob h root (if yaml then ''*/config.yaml'' else ''*/config.json'')))))"

section \<open>Server names\<close>

fun add_distinct :: "string list \<Rightarrow> string list \<Rightarrow> string list" where
  "add_distinct hosts [] = hosts"
| "add_distinct hosts (c # cs) = (let v = strip c in
     add_distinct (if v \<noteq> [] \<and> v \<notin> set hosts then hosts @ [v] else hosts) cs)"

definition panel_sni_hosts :: "panel_settings \<Rightarrow> string list" where
  "panel_sni_hosts st = add_distinct [] (public_host st # public_host_aliases st)"

definition server_name_hosts :: "json list \<Rightarrow> string list" where
  "server_name_hosts names = concat (map (\<lambda>n. case n of JStr s \<Rightarrow> if strip s \<noteq> [] then [strip s] else [] | _ \<Rightarrow> []) names)"

definition reality_sni_hosts :: "vpn_profile_settings \<Rightarrow> json \<Rightarrow> exn + string list" where
  "reality_sni_hosts ps config =
     bindR (case find_inbound config (if inbound_tag ps = [] then ''inbound-reality'' else inbound_tag ps) of
              Inr (_, inbound) \<Rightarrow> Inr inbound
            | Inl _ \<Rightarrow> bindR (jget config ''inbounds'' JNull) (\<lambda>v. jindex (jor v (JList [JDict []])) 0)) (\<lambda>inbound.
     bindR (jget_dict inbound ''streamSettings'') (\<lambda>stream.
     bindR (jget_dict stream ''realitySettings'') (\<lambda>reality.
     bindR (jget reality ''serverNames'' JNull) (\<lambda>names.
     bindR (jiter (jor names (JList []))) (\<lambda>ns.
     bindR (jget reality ''dest'' JNull) (\<lambda>dest.
     let dest_host = (if truthy dest then dest_hostname (py_str dest) else []) in
     Inr (sort (remdups (filter (\<lambda>h. h \<noteq> [])
       (map dest_hostname (reality_dest_hosts ps) @ map strip (reality_server_names ps)
        @ server_name_hosts ns @ [dest_host])))))))))) "

section \<open>The map\<close>

text \<open>
  The entries of the map: the panel's names first, then the routes, where a later route of the same
  name replaces the backend of an earlier one and keeps its place.
\<close>

fun route_entries :: "string list \<Rightarrow> (string \<times> string) list \<Rightarrow> (string \<times> string) list \<Rightarrow> (string \<times> string) list" where
  "route_entries panel by_sni [] = by_sni"
| "route_entries panel by_sni ((sni, backend) # routes) =
     (if strip sni = [] \<or> strip backend = [] \<or> strip sni \<in> set panel
      then route_entries panel by_sni routes
      else route_entries panel (dict_set (strip sni) (strip backend) by_sni) routes)"

definition stripped_panel :: "string list \<Rightarrow> string list" where
  "stripped_panel panel_snis = filter (\<lambda>s. s \<noteq> []) (map strip panel_snis)"

definition mux_entries :: "string list \<Rightarrow> string \<Rightarrow> (string \<times> string) list \<Rightarrow> (string \<times> string) list" where
  "mux_entries panel_snis panel_backend routes =
     map (\<lambda>s. (s, panel_backend)) (stripped_panel panel_snis)
     @ route_entries (stripped_panel panel_snis) [] routes"

definition mux_line :: "string \<times> string \<Rightarrow> string" where
  "mux_line e = ''    '' @ fst e @ '' '' @ snd e @ '';''"

text \<open>The dash of the first comment line stands as its UTF-8 bytes.\<close>

definition render_shared_443_stream_conf :: "string list \<Rightarrow> string \<Rightarrow> (string \<times> string) list \<Rightarrow> string" where
  "render_shared_443_stream_conf panel_snis panel_backend routes =
     (let lines = map mux_line (mux_entries panel_snis panel_backend routes);
          map_body = (if lines \<noteq> [] then join newline lines else ''    default '' @ panel_backend @ '';'')
      in ''# Managed by VpnControlPanel '' @ [CHR 0xE2, CHR 0x80, CHR 0x94] @ '' do not edit by hand.'' @ newline
       @ ''# Updated automatically on Reality/xHTTP create/regenerate when share_public_port is set.'' @ newline
       @ newline
       @ ''map $ssl_preread_server_name $vcp_443_backend {'' @ newline
       @ map_body @ newline
       @ ''    default '' @ panel_backend @ '';'' @ newline
       @ ''}'' @ newline
       @ newline
       @ ''server {'' @ newline
       @ ''    listen 443 reuseport;'' @ newline
       @ ''    listen [::]:443 reuseport;'' @ newline
       @ ''    proxy_pass $vcp_443_backend;'' @ newline
       @ ''    ssl_preread on;'' @ newline
       @ ''    proxy_connect_timeout 10s;'' @ newline
       @ ''    proxy_timeout 300s;'' @ newline
       @ ''}'' @ newline)"

section \<open>Routes\<close>

text \<open>\<open>isinstance(port, int)\<close> holds of booleans too.\<close>

definition inbound_backend :: "json \<Rightarrow> string option \<Rightarrow> exn + string option" where
  "inbound_backend inbound fallback =
     bindR (jget inbound ''port'' JNull) (\<lambda>port.
     case (case port of JInt i \<Rightarrow> if i < 1 then None else Some (show_int i)
                      | JBool b \<Rightarrow> if b then Some ''True'' else None | _ \<Rightarrow> None) of
       None \<Rightarrow> Inr None
     | Some p \<Rightarrow>
         bindR (jget inbound ''listen'' JNull) (\<lambda>l.
         let listen = strip (py_str (jor l (JStr (the_or ''127.0.0.1'' (some_text fallback)))));
             listen = (if listen \<in> {''0.0.0.0'', ''::'', ''''} then ''127.0.0.1'' else listen)
         in Inr (Some (listen @ '':'' @ p))))"

definition json_strip :: "json \<Rightarrow> exn + string" where
  "json_strip v = (case v of JStr s \<Rightarrow> Inr (strip s) | _ \<Rightarrow> raise AttributeError '''')"

text \<open>\<open>(x.get(k) or "").strip()\<close>.\<close>

definition get_stripped :: "json \<Rightarrow> string \<Rightarrow> exn + string" where
  "get_stripped x k = bindR (jget x k JNull) (\<lambda>v. json_strip (jor v (JStr '''')))"

definition tls_host_from_config :: "string \<Rightarrow> json \<Rightarrow> vpn_profile_settings \<Rightarrow> exn + string option" where
  "tls_host_from_config key data ps =
     (if key = ''hysteria2''
      then bindR (jget_dict data ''tls'') (\<lambda>tls. bindR (get_stripped tls ''sni'') (\<lambda>h. Inr (some_text (Some h))))
      else (case find_inbound data (inbound_tag ps) of
          Inl _ \<Rightarrow> Inr None
        | Inr (_, inbound) \<Rightarrow>
            bindR (jget_dict inbound ''streamSettings'') (\<lambda>stream.
            bindR (jget_dict stream ''tlsSettings'') (\<lambda>tls.
            bindR (get_stripped tls ''serverName'') (\<lambda>host.
            if host \<noteq> [] then Inr (Some host)
            else bindR (jget_dict stream ''xhttpSettings'') (\<lambda>xhttp.
                 bindR (get_stripped xhttp ''host'') (\<lambda>h. Inr (some_text (Some h)))))))))"

fun detect_mux_profile_key :: "panel_settings \<Rightarrow> json \<Rightarrow> string list \<Rightarrow> string option" where
  "detect_mux_profile_key st config [] = None"
| "detect_mux_profile_key st config (key # keys) =
     (let tag = (case map_of (profiles st) key of None \<Rightarrow> '''' | Some ps \<Rightarrow> inbound_tag ps) in
      if tag \<noteq> [] \<and> \<not> isl (find_inbound config tag) then Some key
      else detect_mux_profile_key st config keys)"

text \<open>The loop over the configurations of one profile: host to backend, last one wins.\<close>

fun profile_routes ::
  "panel_settings \<Rightarrow> vpn_profile_settings \<Rightarrow> string \<Rightarrow> (string \<times> string) list \<Rightarrow> string list \<Rightarrow> json list
    \<Rightarrow> exn + (string \<times> string) list" where
  "profile_routes st ps key by_host seen [] = Inr by_host"
| "profile_routes st ps key by_host seen (data # rest) =
     (case find_inbound data (inbound_tag ps) of
        Inl _ \<Rightarrow> profile_routes st ps key by_host seen rest
      | Inr (_, inbound) \<Rightarrow>
          bindR (inbound_backend inbound (listen_address ps)) (\<lambda>backend.
          if backend = None \<or> the backend \<in> set seen then profile_routes st ps key by_host seen rest
          else bindR (tls_host_from_config key data ps) (\<lambda>host.
            let h = (case host of Some t \<Rightarrow> t
                     | None \<Rightarrow> strip (the_or (public_host st) (some_text (profile_share_host ps)))) in
            if h = [] then profile_routes st ps key by_host seen rest
            else profile_routes st ps key (dict_set h (the backend) by_host) (seen @ [the backend]) rest)))"

definition routes_for_mux_profile ::
  "mux_host \<Rightarrow> panel_settings \<Rightarrow> string \<Rightarrow> json option \<Rightarrow> exn + (string \<times> string) list" where
  "routes_for_mux_profile h st key injected = (case map_of (profiles st) key of
     None \<Rightarrow> Inr []
   | Some ps \<Rightarrow>
       if \<not> shared_443_enabled ps then Inr []
       else if key = ''xray-reality'' then
         bindR (case injected of
             Some c \<Rightarrow> if truthy c then Inr (Some c)
                        else bindR (load_live_configs h st key) (\<lambda>l. Inr (case l of [] \<Rightarrow> None | x # _ \<Rightarrow> Some x))
           | None \<Rightarrow> bindR (load_live_configs h st key) (\<lambda>l. Inr (case l of [] \<Rightarrow> None | x # _ \<Rightarrow> Some x))) (\<lambda>data.
         case data of None \<Rightarrow> Inr []
         | Some d \<Rightarrow> (case find_inbound d (inbound_tag ps) of
               Inl _ \<Rightarrow> Inr []
             | Inr (_, inbound) \<Rightarrow>
                 bindR (inbound_backend inbound (listen_address ps)) (\<lambda>backend.
                 case backend of None \<Rightarrow> Inr []
                 | Some b \<Rightarrow> bindR (reality_sni_hosts ps d) (\<lambda>snis. Inr (map (\<lambda>s. (s, b)) snis)))))
       else
         bindR (load_live_configs h st key) (\<lambda>live.
         profile_routes st ps key [] [] (case injected of None \<Rightarrow> live | Some c \<Rightarrow> live @ [c])))"

fun all_routes :: "mux_host \<Rightarrow> panel_settings \<Rightarrow> json \<Rightarrow> string option \<Rightarrow> string list \<Rightarrow> exn + (string \<times> string) list" where
  "all_routes h st config owner [] = Inr []"
| "all_routes h st config owner (key # keys) =
     bindR (routes_for_mux_profile h st key (if owner = Some key then Some config else None)) (\<lambda>r.
     bindR (all_routes h st config owner keys) (\<lambda>rs. Inr (r @ rs)))"

text \<open>
  \<open>sync_reality_shared_443\<close>: the path and the text handed to the privileged wrapper, followed
  by a reload of nginx; \<open>None\<close> when there is nothing to sync.
\<close>

definition sync_reality_shared_443 :: "mux_host \<Rightarrow> panel_settings \<Rightarrow> json \<Rightarrow> exn + (string \<times> string) option" where
  "sync_reality_shared_443 h st config = (case map_of (profiles st) ''xray-reality'' of
     None \<Rightarrow> Inr None
   | Some reality \<Rightarrow>
       if \<not> shared_443_enabled reality then Inr None
       else let panel_snis = panel_sni_hosts st in
         if panel_snis = [] then Inr None
         else let panel_backend = strip (the_or ''127.0.0.1:8443'' (some_text (nginx_panel_backend reality)));
                  owner = detect_mux_profile_key st config mux_profiles in
           bindR (all_routes h st config owner mux_profiles) (\<lambda>routes.
           Inr (Some (the_or ''/etc/nginx/stream.d/vcp-shared-443.conf'' (nginx_stream_conf reality),
             render_shared_443_stream_conf panel_snis panel_backend routes))))"

section \<open>What the map routes\<close>

definition effective_routes :: "string list \<Rightarrow> (string \<times> string) list \<Rightarrow> (string \<times> string) list" where
  "effective_routes panel routes =
     filter (\<lambda>(s, b). s \<noteq> [] \<and> b \<noteq> [] \<and> s \<notin> set panel) (map (\<lambda>(s, b). (strip s, strip b)) routes)"

lemma route_entries_put_all:
  "route_entries panel by_sni routes = alist.put_all (effective_routes panel routes) by_sni"
  by (induction panel by_sni routes rule: route_entries.induct) (auto simp: effective_routes_def)

lemma route_entries_keys: "set (dict_keys (route_entries panel [] routes)) = fst ` set (effective_routes panel routes)"
  using alist.keys_put_all [of "effective_routes panel routes" "[]"]
  by (simp add: route_entries_put_all dict_keys_def)

lemma route_entries_distinct: "distinct (map fst (route_entries panel [] routes))"
  using alist.distinct_keys_put_all [of "[]" "effective_routes panel routes"]
  by (simp add: route_entries_put_all dict_keys_def)

lemma route_entries_lookup: "map_of (route_entries panel [] routes) s = map_of (rev (effective_routes panel routes)) s"
  by (simp add: route_entries_put_all alist.get_put_all split: option.splits)

lemma add_distinct_invar:
  "distinct hosts \<Longrightarrow> (\<forall>h\<in>set hosts. h \<noteq> [] \<and> strip h = h) \<Longrightarrow>
   distinct (add_distinct hosts cs) \<and> (\<forall>h\<in>set (add_distinct hosts cs). h \<noteq> [] \<and> strip h = h)"
proof (induction cs arbitrary: hosts)
  case (Cons c cs)
  let ?hosts = "if strip c \<noteq> [] \<and> strip c \<notin> set hosts then hosts @ [strip c] else hosts"
  have "distinct ?hosts" "\<forall>h\<in>set ?hosts. h \<noteq> [] \<and> strip h = h"
    using Cons.prems by auto
  then show ?case unfolding add_distinct.simps Let_def by (rule Cons.IH)
qed simp

lemma stripped_panel_hosts: "stripped_panel (panel_sni_hosts st) = panel_sni_hosts st \<and> distinct (panel_sni_hosts st)"
proof -
  have i: "distinct (panel_sni_hosts st)" "\<forall>h\<in>set (panel_sni_hosts st). h \<noteq> [] \<and> strip h = h"
    unfolding panel_sni_hosts_def using add_distinct_invar [of "[]"] by (simp_all del: add_distinct.simps)
  then have "map strip (panel_sni_hosts st) = panel_sni_hosts st" by (intro map_idI) blast
  with i show ?thesis by (simp add: stripped_panel_def filter_id_conv)
qed

text \<open>
  C25. The stream map written for a set of routes never lists a server name twice (nginx rejects
  such a map), sends every name of the panel to the panel whatever the routes say, and every other
  name to the backend of the last route that has it, if any.
\<close>

theorem mux_entries_routing:
  "distinct (map fst (mux_entries (panel_sni_hosts st) panel_backend routes))
   \<and> map_of (mux_entries (panel_sni_hosts st) panel_backend routes) s =
       (if s \<in> set (panel_sni_hosts st) then Some panel_backend
        else map_of (rev (effective_routes (panel_sni_hosts st) routes)) s)"
proof -
  let ?panel = "panel_sni_hosts st"
  have p: "stripped_panel ?panel = ?panel" "distinct ?panel" using stripped_panel_hosts by auto
  have disj: "fst ` set (effective_routes ?panel routes) \<inter> set ?panel = {}"
    by (auto simp: effective_routes_def)
  have "set (map fst (route_entries ?panel [] routes)) = fst ` set (effective_routes ?panel routes)"
    using route_entries_keys [of ?panel routes] by (simp add: dict_keys_def)
  then have "distinct (map fst (mux_entries ?panel panel_backend routes))"
    using p disj route_entries_distinct [of ?panel routes] by (auto simp: mux_entries_def comp_def)
  moreover have "map_of (map (\<lambda>s. (s, panel_backend)) ?panel) s = (if s \<in> set ?panel then Some panel_backend else None)"
    by (simp add: map_of_map_restrict restrict_map_def)
  ultimately show ?thesis
    using disj by (auto simp: mux_entries_def p(1) map_add_def route_entries_lookup split: option.splits
        dest!: map_of_SomeD)
qed

text \<open>The routes of one profile never give two names the same backend.\<close>

lemma profile_routes_backends:
  "profile_routes st ps key by_host seen items = Inr routes \<Longrightarrow>
   distinct (map fst by_host) \<Longrightarrow> snd ` set by_host \<subseteq> set seen \<Longrightarrow> inj_on (map_of by_host) (fst ` set by_host) \<Longrightarrow>
   distinct (map fst routes) \<and> inj_on (map_of routes) (fst ` set routes)"
proof (induction items arbitrary: by_host seen)
  case (Cons data rest)
  show ?case
  proof (cases "find_inbound data (inbound_tag ps)")
    case (Inl e)
    with Cons show ?thesis by simp
  next
    case (Inr r)
    obtain i inbound where r: "r = (i, inbound)" by (cases r)
    obtain backend where b: "inbound_backend inbound (listen_address ps) = Inr backend"
      using Cons.prems(1) Inr r by (auto simp: bindR_eq_Inr)
    show ?thesis
    proof (cases "backend = None \<or> the backend \<in> set seen")
      case True
      with Cons Inr r b show ?thesis by simp
    next
      case False
      obtain host where h: "tls_host_from_config key data ps = Inr host"
        using Cons.prems(1) Inr r b False by (auto simp: bindR_eq_Inr)
      define t where "t = (case host of Some t \<Rightarrow> t | None \<Rightarrow> strip (the_or (public_host st) (some_text (profile_share_host ps))))"
      show ?thesis
      proof (cases "t = []")
        case True
        with Cons Inr r b False h show ?thesis by (simp add: t_def)
      next
        case ne: False
        let ?by = "dict_set t (the backend) by_host"
        have new: "the backend \<notin> snd ` set by_host" using False Cons.prems(3) by auto
        have d: "distinct (map fst ?by)" using Cons.prems(2) by (auto simp: fst_dict_set)
        have keys: "fst ` set ?by = insert t (fst ` set by_host)"
          using arg_cong [OF fst_dict_set [of t "the backend" by_host], of set] by (auto split: if_splits)
        have vals: "snd ` set ?by \<subseteq> insert (the backend) (snd ` set by_host)"
          by (induction t "the backend" by_host rule: dict_set.induct) auto
        have old: "k \<in> fst ` set by_host \<Longrightarrow> map_of by_host k \<noteq> Some (the backend)" for k
          using new by (auto dest!: map_of_SomeD simp: image_iff)
        have inj: "inj_on (map_of ?by) (fst ` set ?by)"
          using Cons.prems(4) old unfolding keys inj_on_def by (auto split: if_splits dest: sym)
        have run: "profile_routes st ps key ?by (seen @ [the backend]) rest = Inr routes"
          using Cons.prems(1) Inr r b False h ne by (simp add: t_def)
        have "snd ` set ?by \<subseteq> set (seen @ [the backend])" using vals Cons.prems(3) by auto
        then show ?thesis by (rule Cons.IH [OF run d _ inj])
      qed
    qed
  qed
qed simp

section \<open>The legacy keywords\<close>

text \<open>\<open>**kwargs\<close>: the keywords given. Calling with a keyword missing or one too many raises.\<close>

record mux_keywords =
  mk_panel_snis :: "string list option"
  mk_routes :: "(string \<times> string) list option"
  mk_panel_backend :: "string option"
  mk_panel_sni :: "string option"
  mk_reality_backend :: "string option"
  mk_reality_snis :: "string list option"

definition keyword :: "'a option \<Rightarrow> exn + 'a" where
  "keyword v = (case v of None \<Rightarrow> raise KeyError '''' | Some x \<Rightarrow> Inr x)"

definition render_shared_443_stream_conf_legacy :: "mux_keywords \<Rightarrow> exn + string" where
  "render_shared_443_stream_conf_legacy kw =
     (if mk_panel_snis kw \<noteq> None \<or> mk_routes kw \<noteq> None then
        (case (mk_panel_snis kw, mk_panel_backend kw, mk_routes kw, mk_panel_sni kw, mk_reality_backend kw, mk_reality_snis kw) of
           (Some snis, Some backend, Some routes, None, None, None) \<Rightarrow> Inr (render_shared_443_stream_conf snis backend routes)
         | _ \<Rightarrow> raise TypeError '''')
      else
        bindR (keyword (mk_panel_sni kw)) (\<lambda>panel_sni.
        bindR (keyword (mk_panel_backend kw)) (\<lambda>panel_backend.
        let snis = the_or [] (mk_reality_snis kw) in
        bindR (if snis = [] then Inr [] else bindR (keyword (mk_reality_backend kw)) (\<lambda>b. Inr (map (\<lambda>sni. (sni, b)) snis))) (\<lambda>routes.
        Inr (render_shared_443_stream_conf [panel_sni] panel_backend routes)))))"

lemma legacy_keywords:
  "render_shared_443_stream_conf_legacy \<lparr>mk_panel_snis = None, mk_routes = None, mk_panel_backend = Some panel,
      mk_panel_sni = Some name, mk_reality_backend = Some b, mk_reality_snis = Some snis\<rparr>
   = Inr (render_shared_443_stream_conf [name] panel (map (\<lambda>s. (s, b)) snis))"
  by (simp add: render_shared_443_stream_conf_legacy_def keyword_def Let_def)

end
