(* ===== verification/Host.thy ===== *)
theory Host
  imports Nginx_Mux
begin

text \<open>
  The machine the worker deploys to: its files, the commands run on it and its monotonic clock, with
  the actions of \<open>filesystem/writer.py\<close> and \<open>vpn/systemd_reload.py\<close> under
  \<open>panel/infrastructure\<close> and the standard library calls they use. What the commands
  answer, how long they take and which paths may be written belong to the operating system and are
  fields of the environment, functions of the state of the machine. The clock counts microseconds; a
  command takes at least one.
\<close>

section \<open>State and actions\<close>

text \<open>A file with its mode and content, or a symbolic link to a name in the same directory.\<close>

datatype entry = File nat string | Link string

record host =
  h_files :: "(string \<times> entry) list"
  h_cmds :: "(string list \<times> string option) list"
  h_clock :: int

record run_result =
  rr_code :: int
  rr_out :: string
  rr_err :: string

record os_env =
  os_systemctl_cmd :: "string option"
  os_systemctl_action :: "string option"
  os_run :: "host \<Rightarrow> string list \<Rightarrow> string option \<Rightarrow> exn + run_result"
  os_took :: "host \<Rightarrow> string list \<Rightarrow> nat"
  os_read :: "host \<Rightarrow> string \<Rightarrow> exn + unit"
  os_write :: "host \<Rightarrow> string \<Rightarrow> exn + unit"
  os_time :: int
  os_build :: build_env
  os_yaml_dump :: "json \<Rightarrow> string"

text \<open>An action changes its state (here the machine) whether it returns or raises.\<close>

type_synonym ('s, 'a) act = "'s \<Rightarrow> 's \<times> (exn + 'a)"
type_synonym 'a action = "(host, 'a) act"

definition returnH :: "'a \<Rightarrow> ('s, 'a) act" where
  "returnH x h = (h, Inr x)"

definition raiseH :: "exn \<Rightarrow> ('s, 'a) act" where
  "raiseH e h = (h, Inl e)"

definition liftH :: "exn + 'a \<Rightarrow> ('s, 'a) act" where
  "liftH r h = (h, r)"

definition bindH :: "('s, 'a) act \<Rightarrow> ('a \<Rightarrow> ('s, 'b) act) \<Rightarrow> ('s, 'b) act" where
  "bindH m f h = (case m h of (h1, Inl e) \<Rightarrow> (h1, Inl e) | (h1, Inr x) \<Rightarrow> f x h1)"

text \<open>\<open>try: m except ks as e: f e\<close>.\<close>

definition catchH :: "('s, 'a) act \<Rightarrow> exn_kind list \<Rightarrow> (exn \<Rightarrow> ('s, 'a) act) \<Rightarrow> ('s, 'a) act" where
  "catchH m ks f h = (case m h of
     (h1, Inl e) \<Rightarrow> if caught_by ks e then f e h1 else (h1, Inl e)
   | (h1, Inr x) \<Rightarrow> (h1, Inr x))"

abbreviation thenH :: "('s, 'a) act \<Rightarrow> ('s, 'b) act \<Rightarrow> ('s, 'b) act" where
  "thenH m k \<equiv> bindH m (\<lambda>_. k)"

lemma bindH_Inr: "snd (bindH m f h) = Inr y \<Longrightarrow> \<exists>x. snd (m h) = Inr x \<and> snd (f x (fst (m h))) = Inr y
    \<and> fst (bindH m f h) = fst (f x (fst (m h)))"
  by (cases "m h"; cases "snd (m h)") (auto simp: bindH_def)

lemma bindH_value: "snd (bindH m f h) = Inr y \<Longrightarrow> \<exists>x. snd (m h) = Inr x \<and> snd (f x (fst (m h))) = Inr y"
  by (cases "m h"; cases "snd (m h)") (auto simp: bindH_def)

section \<open>What actions follow\<close>

definition follows :: "('s \<Rightarrow> 's \<Rightarrow> bool) \<Rightarrow> ('s, 'a) act \<Rightarrow> bool" where
  "follows R m \<longleftrightarrow> (\<forall>h. R h (fst (m h)))"

text \<open>
  A relation between the state before and after an action that holds along sequences: to show that an
  action follows it, it is enough to look at the steps it is made of.
\<close>

locale act_frame =
  fixes R :: "'s \<Rightarrow> 's \<Rightarrow> bool"
  assumes same: "R h h"
    and seq: "R h1 h2 \<Longrightarrow> R h2 h3 \<Longrightarrow> R h1 h3"
begin

lemma pure: "follows R (returnH x)" "follows R (raiseH e)" "follows R (liftH r)"
  by (simp_all add: follows_def returnH_def raiseH_def liftH_def same)

lemma reading: "follows R (\<lambda>h. (h, f h))"
  by (simp add: follows_def same)

lemma bind: "follows R m \<Longrightarrow> (\<And>x. follows R (f x)) \<Longrightarrow> follows R (bindH m f)"
  unfolding follows_def bindH_def
  by (auto split: prod.splits sum.splits) (metis fst_conv seq)+

lemma catch: "follows R m \<Longrightarrow> (\<And>e. follows R (f e)) \<Longrightarrow> follows R (catchH m ks f)"
  unfolding follows_def catchH_def
  by (auto split: prod.splits sum.splits) (metis fst_conv seq)+

lemma ite: "follows R m \<Longrightarrow> follows R m' \<Longrightarrow> follows R (if c then m else m')"
  by simp

lemma follows_stepD: "follows R m \<Longrightarrow> m h = (h1, r) \<Longrightarrow> R h h1"
  by (metis follows_def fst_conv)

end

section \<open>Commands\<close>

text \<open>\<open>subprocess.run(cmd, check=False)\<close> and \<open>check=True\<close>.\<close>

definition run_cmd :: "os_env \<Rightarrow> string list \<Rightarrow> string option \<Rightarrow> run_result action" where
  "run_cmd env cmd input h =
     (h\<lparr>h_cmds := h_cmds h @ [(cmd, input)], h_clock := h_clock h + 1 + int (os_took env h cmd)\<rparr>,
      os_run env h cmd input)"

definition run_checked :: "os_env \<Rightarrow> string list \<Rightarrow> string option \<Rightarrow> unit action" where
  "run_checked env cmd input = bindH (run_cmd env cmd input) (\<lambda>r.
     if rr_code r \<noteq> 0 then raiseH (Exn CalledProcessError '''') else returnH ())"

definition sleepH :: "int \<Rightarrow> unit action" where
  "sleepH us h = (h\<lparr>h_clock := h_clock h + max us 0\<rparr>, Inr ())"

text \<open>\<open>shlex.split\<close>, in POSIX mode.\<close>

datatype shlex_state = Between | Word | Quoted char | Escaped "char option"

fun shlex_go :: "shlex_state \<Rightarrow> string \<Rightarrow> string \<Rightarrow> exn + string list" where
  "shlex_go Between tok [] = Inr []"
| "shlex_go Between tok (c # s) =
     (if c \<in> {CHR '' '', CHR 0x09, CHR 0x0D, CHR 0x0A} then shlex_go Between [] s
      else if c = CHR 0x5C then shlex_go (Escaped None) [] s
      else if c = CHR 0x22 \<or> c = CHR 0x27 then shlex_go (Quoted c) [] s
      else shlex_go Word [c] s)"
| "shlex_go Word tok [] = Inr [tok]"
| "shlex_go Word tok (c # s) =
     (if c \<in> {CHR '' '', CHR 0x09, CHR 0x0D, CHR 0x0A} then bindR (shlex_go Between [] s) (\<lambda>ws. Inr (tok # ws))
      else if c = CHR 0x5C then shlex_go (Escaped None) tok s
      else if c = CHR 0x22 \<or> c = CHR 0x27 then shlex_go (Quoted c) tok s
      else shlex_go Word (tok @ [c]) s)"
| "shlex_go (Quoted q) tok [] = raise ValueError ''No closing quotation''"
| "shlex_go (Quoted q) tok (c # s) =
     (if c = q then shlex_go Word tok s
      else if c = CHR 0x5C \<and> q = CHR 0x22 then shlex_go (Escaped (Some q)) tok s
      else shlex_go (Quoted q) (tok @ [c]) s)"
| "shlex_go (Escaped r) tok [] = raise ValueError ''No escaped character''"
| "shlex_go (Escaped None) tok (c # s) = shlex_go Word (tok @ [c]) s"
| "shlex_go (Escaped (Some q)) tok (c # s) =
     shlex_go (Quoted q) (tok @ (if c \<noteq> CHR 0x5C \<and> c \<noteq> q then [CHR 0x5C, c] else [c])) s"

definition shlex_split :: "string \<Rightarrow> exn + string list" where
  "shlex_split s = shlex_go Between [] s"

text \<open>\<open>splitlines()\<close>.\<close>

definition line_break :: "char \<Rightarrow> bool" where
  "line_break c = ((of_char c :: nat) \<in> {10, 11, 12, 13, 28, 29, 30, 133})"

fun lines_go :: "string \<Rightarrow> string \<Rightarrow> string list" where
  "lines_go acc [] = (if acc = [] then [] else [acc])"
| "lines_go acc [c] = (if line_break c then [acc] else [acc @ [c]])"
| "lines_go acc (c # d # s) =
     (if c = CHR 0x0D \<and> d = CHR 0x0A then acc # lines_go [] s
      else if line_break c then acc # lines_go [] (d # s)
      else lines_go (acc @ [c]) (d # s))"

definition splitlines :: "string \<Rightarrow> string list" where
  "splitlines s = lines_go [] s"

section \<open>systemctl\<close>

definition systemctl_command :: "os_env \<Rightarrow> exn + string list" where
  "systemctl_command env = shlex_split (the_or ''systemctl'' (os_systemctl_cmd env))"

definition systemctl_action :: "os_env \<Rightarrow> exn + string" where
  "systemctl_action env =
     (let action = lower (strip (the_or ''restart'' (os_systemctl_action env))) in
      if action \<noteq> ''reload'' \<and> action \<noteq> ''restart''
      then raise ValueError (''VPN_SYSTEMCTL_ACTION must be '' @ repr_str ''reload'' @ '' or '' @ repr_str ''restart''
        @ '', got: '' @ action)
      else Inr action)"

definition run_systemctl :: "os_env \<Rightarrow> string \<Rightarrow> string option \<Rightarrow> string option \<Rightarrow> unit action" where
  "run_systemctl env action service input_text =
     bindH (liftH (systemctl_command env)) (\<lambda>base.
     run_checked env (base @ [action] @ (case service of None \<Rightarrow> [] | Some s \<Rightarrow> [s])) input_text)"

definition reload_service :: "os_env \<Rightarrow> string \<Rightarrow> unit action" where
  "reload_service env service =
     bindH (liftH (systemctl_action env)) (\<lambda>action. run_systemctl env action (Some service) None)"

definition enable_service :: "os_env \<Rightarrow> string \<Rightarrow> unit action" where
  "enable_service env service = run_systemctl env ''enable'' (Some service) None"

definition write_unit_file :: "os_env \<Rightarrow> string \<Rightarrow> string \<Rightarrow> unit action" where
  "write_unit_file env service content =
     bindH (liftH (systemctl_command env)) (\<lambda>base. run_checked env (base @ [''write-unit'', service]) (Some content))"

definition remove_unit_file :: "os_env \<Rightarrow> string \<Rightarrow> unit action" where
  "remove_unit_file env service =
     bindH (liftH (systemctl_command env)) (\<lambda>base. run_checked env (base @ [''remove-unit'', service]) None)"

section \<open>Files\<close>

definition dirname :: "string \<Rightarrow> string" where
  "dirname p = rev (tl (dropWhile (\<lambda>c. c \<noteq> CHR ''/'') (rev p)))"

definition basename :: "string \<Rightarrow> string" where
  "basename p = last (split_on CHR ''/'' p)"

text \<open>What reading a path finds: a link is followed to the file beside it.\<close>

definition file_content :: "(string \<times> entry) list \<Rightarrow> string \<Rightarrow> string option" where
  "file_content files p = (case map_of files p of
     None \<Rightarrow> None
   | Some (File m c) \<Rightarrow> Some c
   | Some (Link t) \<Rightarrow> (case map_of files (path_join (dirname p) t) of Some (File m c) \<Rightarrow> Some c | _ \<Rightarrow> None))"

definition disk :: "os_env \<Rightarrow> host \<Rightarrow> host_files" where
  "disk env h = \<lparr>is_file = (\<lambda>p. bindR (os_read env h p) (\<lambda>_. Inr (file_content (h_files h) p \<noteq> None))),
     read_text = (\<lambda>p. bindR (os_read env h p) (\<lambda>_. case file_content (h_files h) p of
        None \<Rightarrow> raise FileNotFoundError '''' | Some c \<Rightarrow> Inr c))\<rparr>"

text \<open>\<open>atomic_write\<close>: the parent directories, the temporary file, its mode and the rename.\<close>

definition atomic_write :: "os_env \<Rightarrow> string \<Rightarrow> string \<Rightarrow> nat \<Rightarrow> unit action" where
  "atomic_write env path content mode h = (case os_write env h path of
     Inl e \<Rightarrow> (h, Inl e)
   | Inr _ \<Rightarrow> (h\<lparr>h_files := dict_set path (File mode content) (h_files h)\<rparr>, Inr ()))"

definition unlinkH :: "os_env \<Rightarrow> string \<Rightarrow> unit action" where
  "unlinkH env path h = (case os_write env h path of
     Inl e \<Rightarrow> (h, Inl e)
   | Inr _ \<Rightarrow> if map_of (h_files h) path = None then (h, raise FileNotFoundError '''')
       else (h\<lparr>h_files := filter (\<lambda>f. fst f \<noteq> path) (h_files h)\<rparr>, Inr ()))"

definition symlink_to :: "os_env \<Rightarrow> string \<Rightarrow> string \<Rightarrow> unit action" where
  "symlink_to env path target h = (case os_write env h path of
     Inl e \<Rightarrow> (h, Inl e)
   | Inr _ \<Rightarrow> if map_of (h_files h) path \<noteq> None then (h, raise FileExistsError '''')
       else (h\<lparr>h_files := dict_set path (Link target) (h_files h)\<rparr>, Inr ()))"

definition is_fileH :: "os_env \<Rightarrow> string \<Rightarrow> bool action" where
  "is_fileH env path h = (h, is_file (disk env h) path)"

text \<open>\<open>shutil.rmtree(d, ignore_errors=True)\<close>: what may be removed below the directory is.\<close>

definition rmtree :: "os_env \<Rightarrow> string \<Rightarrow> unit action" where
  "rmtree env d h = (h\<lparr>h_files := filter (\<lambda>f. \<not> startswith (fst f) (d @ ''/'') \<or> isl (os_write env h (fst f))) (h_files h)\<rparr>, Inr ())"

text \<open>The disk as the nginx module scans it: \<open>root.glob("*/name")\<close>.\<close>

definition glob_star :: "host \<Rightarrow> string \<Rightarrow> string \<Rightarrow> string list" where
  "glob_star h root pattern =
     filter (\<lambda>p. startswith p (root @ ''/'') \<and> (case split_on CHR ''/'' (drop (length root + 1) p) of
         [d, n] \<Rightarrow> d \<noteq> [] \<and> ''*/'' @ n = pattern | _ \<Rightarrow> False)) (map fst (h_files h))"

definition mux_of :: "os_env \<Rightarrow> host \<Rightarrow> mux_host" where
  "mux_of env h = \<lparr>mux_env = (os_build env)\<lparr>env_files := disk env h\<rparr>,
     mux_is_dir = (\<lambda>d. list_ex (\<lambda>f. startswith (fst f) (d @ ''/'')) (h_files h)),
     mux_glob = glob_star h\<rparr>"

end
