(* ===== verification/Service_Ready.thy ===== *)
theory Service_Ready
  imports Host
begin

text \<open>
  \<open>panel/infrastructure/vpn/service_ready.py\<close>: waiting for a unit to start, by polling systemd
  and the journal or through the privileged wrapper. The loops run on the monotonic clock of the
  machine and end because every command takes time.
\<close>

section \<open>Startup markers\<close>

text \<open>The characters \<open>\w\<close> matches, on U+0000 to U+00FF.\<close>

definition word_char :: "char \<Rightarrow> bool" where
  "word_char c = (let n = (of_char c :: nat) in
     (48 \<le> n \<and> n \<le> 57) \<or> (65 \<le> n \<and> n \<le> 90) \<or> n = 95 \<or> (97 \<le> n \<and> n \<le> 122)
     \<or> n \<in> {170, 178, 179, 181, 185, 186, 188, 189, 190} \<or> (192 \<le> n \<and> n \<noteq> 215 \<and> n \<noteq> 247))"

text \<open>A search for a literal without case: \<open>prev\<close> is the character before the position.\<close>

fun search_word :: "bool \<Rightarrow> string \<Rightarrow> string \<Rightarrow> bool" where
  "search_word prev w [] = False"
| "search_word prev w (c # s) =
     ((\<not> prev \<and> startswith (lower (c # s)) w
         \<and> (case drop (length w) (c # s) of [] \<Rightarrow> True | d # _ \<Rightarrow> \<not> word_char d))
      \<or> search_word (word_char c) w s)"

fun search_text :: "string \<Rightarrow> string \<Rightarrow> bool" where
  "search_text w [] = startswith [] w"
| "search_text w (c # s) = (startswith (lower (c # s)) w \<or> search_text w s)"

definition startup_marker :: "config_profile \<Rightarrow> string \<Rightarrow> bool" where
  "startup_marker p log = (if p = HYSTERIA2
     then search_text ''listening'' log \<or> search_text ''server up'' log \<or> search_text ''started'' log
     else search_word False ''started'' log)"

definition startup_log_pattern :: "config_profile \<Rightarrow> string" where
  "startup_log_pattern p = (if p = HYSTERIA2 then ''listening|server up|started''
     else [CHR 0x5C, CHR ''b''] @ ''started'' @ [CHR 0x5C, CHR ''b''])"

section \<open>Probes\<close>

definition uses_vpn_systemctl_wrapper :: "os_env \<Rightarrow> bool" where
  "uses_vpn_systemctl_wrapper env =
     (let raw = the_or '''' (os_systemctl_cmd env) in
      list_ex (\<lambda>i. startswith (drop i raw) ''vpn-systemctl'') [0..<Suc (length raw)])"

definition service_managed_by_wrapper :: "string \<Rightarrow> systemd_settings \<Rightarrow> bool" where
  "service_managed_by_wrapper service st = startswith service (service_prefix st @ ''-'')"

definition run_journalctl :: "os_env \<Rightarrow> string \<Rightarrow> int \<Rightarrow> string action" where
  "run_journalctl env service n =
     bindH (run_cmd env [''journalctl'', ''-u'', service, ''-n'', show_int n, ''--no-pager''] None)
       (\<lambda>r. returnH (rr_out r @ rr_err r))"

definition journal_has_startup_marker :: "os_env \<Rightarrow> string \<Rightarrow> config_profile \<Rightarrow> bool action" where
  "journal_has_startup_marker env service p = bindH (run_journalctl env service 40) (\<lambda>log. returnH (startup_marker p log))"

definition prop_line :: "string \<Rightarrow> (string \<times> string) list" where
  "prop_line l = (let key = takeWhile (\<lambda>c. c \<noteq> CHR ''='') l in
     if CHR ''='' \<in> set l then [(key, drop (length key + 1) l)] else [])"

definition systemd_show :: "os_env \<Rightarrow> string \<Rightarrow> (string \<times> string) list action" where
  "systemd_show env service =
     bindH (run_cmd env [''systemctl'', ''show'', service, ''-p'', ''ActiveState'', ''-p'', ''SubState'', ''-p'', ''Result''] None)
       (\<lambda>r. returnH (rev (concat (map prop_line (splitlines (rr_out r))))))"

definition systemd_running :: "os_env \<Rightarrow> string \<Rightarrow> bool action" where
  "systemd_running env service =
     bindH (run_cmd env [''systemctl'', ''is-active'', service] None) (\<lambda>active.
     if strip (rr_out active) \<noteq> ''active'' then returnH False
     else bindH (run_cmd env [''systemctl'', ''show'', ''-p'', ''SubState'', ''--value'', service] None)
            (\<lambda>state. returnH (strip (rr_out state) = ''running'')))"

definition systemd_start_failed :: "os_env \<Rightarrow> string \<Rightarrow> bool action" where
  "systemd_start_failed env service =
     bindH (run_cmd env [''systemctl'', ''is-failed'', service] None) (\<lambda>failed.
     if strip (rr_out failed) = ''failed'' then returnH True
     else bindH (systemd_show env service) (\<lambda>props.
       let active_state = the_or '''' (map_of props ''ActiveState'') in
       if active_state = ''failed'' then returnH True
       else if active_state \<in> {''activating'', ''active'', ''reloading''} then returnH False
       else returnH (the_or '''' (map_of props ''Result'') \<in> {''exit-code'', ''signal'', ''core-dump'', ''timeout''})))"

definition raise_service_failed :: "os_env \<Rightarrow> string \<Rightarrow> 'a action" where
  "raise_service_failed env service = bindH (run_journalctl env service 20) (\<lambda>log_tail.
     raiseH (Exn ServiceNotReadyError (''Service '' @ service @ '' failed during startup. Recent log:'' @ newline @ log_tail)))"

text \<open>\<open>if _systemd_start_failed(s): _raise_service_failed(s)\<close>.\<close>

definition check_not_failed :: "os_env \<Rightarrow> string \<Rightarrow> unit action" where
  "check_not_failed env service = bindH (systemd_start_failed env service) (\<lambda>failed.
     if failed then raise_service_failed env service else returnH ())"

section \<open>The clock\<close>

text \<open>No action turns the clock back, and one that starts with a command moves it on.\<close>

definition forward :: "'a action \<Rightarrow> bool" where
  "forward m \<longleftrightarrow> (\<forall>h. h_clock h \<le> h_clock (fst (m h)))"

definition takes_time :: "'a action \<Rightarrow> bool" where
  "takes_time m \<longleftrightarrow> (\<forall>h. h_clock h < h_clock (fst (m h)))"

named_theorems clock_intros "progress of the monotonic clock"

lemma takes_time_forward: "takes_time m \<Longrightarrow> forward m"
  unfolding takes_time_def forward_def by (meson order_less_imp_le)

lemma takes_timeD: "takes_time m \<Longrightarrow> m h = (h1, r) \<Longrightarrow> h_clock h < h_clock h1"
  by (metis takes_time_def fst_conv)

lemma forwardD: "forward m \<Longrightarrow> h_clock h \<le> h_clock (fst (m h))"
  by (simp add: forward_def)

lemma forward_return [clock_intros]: "forward (returnH x)" "forward (raiseH e)" "forward (liftH r)" "forward (sleepH us)"
  by (auto simp: forward_def returnH_def raiseH_def liftH_def sleepH_def)

lemma forward_bind [clock_intros]: "forward m \<Longrightarrow> (\<And>x. forward (f x)) \<Longrightarrow> forward (bindH m f)"
  unfolding forward_def bindH_def
  by (auto split: prod.splits sum.splits) (metis fst_conv order_trans)+

lemma takes_time_bind: "takes_time m \<Longrightarrow> (\<And>x. forward (f x)) \<Longrightarrow> takes_time (bindH m f)"
  unfolding forward_def takes_time_def bindH_def
  by (auto split: prod.splits sum.splits) (metis fst_conv order_less_le_trans)+

lemma takes_time_cmd: "takes_time (run_cmd env cmd input)"
  by (simp add: takes_time_def run_cmd_def)

lemma forward_cmd [clock_intros]: "forward (run_cmd env cmd input)"
  by (rule takes_time_forward [OF takes_time_cmd])

lemma forward_catch [clock_intros]: "forward m \<Longrightarrow> (\<And>e. forward (f e)) \<Longrightarrow> forward (catchH m ks f)"
  unfolding forward_def catchH_def
  by (auto split: prod.splits sum.splits) (metis fst_conv order_trans)+

lemma forward_journal [clock_intros]: "forward (run_journalctl env s n)" "forward (journal_has_startup_marker env s p)"
  unfolding run_journalctl_def journal_has_startup_marker_def by (intro clock_intros)+

lemma forward_running [clock_intros]: "forward (systemd_running env s)"
  unfolding systemd_running_def by (intro clock_intros forward_bind) (auto intro: clock_intros)

lemma takes_time_failed: "takes_time (systemd_start_failed env s)"
  unfolding systemd_start_failed_def systemd_show_def
  by (rule takes_time_bind [OF takes_time_cmd]) (auto simp: Let_def intro!: clock_intros)

lemma forward_failed [clock_intros]: "forward (systemd_start_failed env s)"
  by (rule takes_time_forward [OF takes_time_failed])

lemma forward_raise_failed [clock_intros]: "forward (raise_service_failed env s)"
  unfolding raise_service_failed_def by (intro clock_intros)

lemma takes_time_check: "takes_time (check_not_failed env s)"
  unfolding check_not_failed_def
  by (rule takes_time_bind [OF takes_time_failed]) (auto intro!: clock_intros)

lemma forward_check [clock_intros]: "forward (check_not_failed env s)"
  by (rule takes_time_forward [OF takes_time_check])

section \<open>Waiting\<close>

definition micros :: "int \<Rightarrow> int" where
  "micros seconds = seconds * 1000000"

text \<open>One turn of the loop of \<open>_wait_direct_once\<close>, up to the second of sleep that ends it.\<close>

definition direct_poll :: "os_env \<Rightarrow> string \<Rightarrow> config_profile \<Rightarrow> systemd_settings \<Rightarrow> bool action" where
  "direct_poll env service p st =
     thenH (check_not_failed env service)
       (bindH (systemd_running env service) (\<lambda>running.
        if \<not> running then returnH False
        else thenH (sleepH (service_ready_settle_us st))
          (thenH (check_not_failed env service)
            (bindH (systemd_running env service) (\<lambda>running.
             if running then journal_has_startup_marker env service p else returnH False)))))"

definition direct_turn :: "os_env \<Rightarrow> string \<Rightarrow> config_profile \<Rightarrow> systemd_settings \<Rightarrow> bool action" where
  "direct_turn env service p st = bindH (direct_poll env service p st) (\<lambda>ready.
     if ready then returnH True else thenH (sleepH (micros 1)) (returnH False))"

lemma takes_time_turn: "takes_time (direct_turn env s p st)"
  unfolding direct_turn_def direct_poll_def
  by (intro takes_time_bind takes_time_check) (auto intro!: clock_intros)

function wait_direct :: "os_env \<Rightarrow> string \<Rightarrow> config_profile \<Rightarrow> systemd_settings \<Rightarrow> int \<Rightarrow> bool action" where
  "wait_direct env service p st deadline h =
     (if h_clock h \<ge> deadline then (h, Inr False)
      else case direct_turn env service p st h of
          (h1, Inl e) \<Rightarrow> (h1, Inl e)
        | (h1, Inr ready) \<Rightarrow>
            if ready then (h1, Inr True) else wait_direct env service p st deadline h1)"
  by auto
termination
  by (relation "measure (\<lambda>(env, service, p, st, deadline, h). nat (deadline - h_clock h))")
    (auto dest!: takes_timeD [OF takes_time_turn, OF sym])

declare wait_direct.simps [simp del]

definition wait_direct_once :: "os_env \<Rightarrow> string \<Rightarrow> config_profile \<Rightarrow> systemd_settings \<Rightarrow> bool action" where
  "wait_direct_once env service p st h =
     wait_direct env service p st (h_clock h + micros (service_ready_timeout_seconds st)) h"

definition wait_via_wrapper_once :: "os_env \<Rightarrow> string \<Rightarrow> systemd_settings \<Rightarrow> unit action" where
  "wait_via_wrapper_once env service st =
     bindH (liftH (systemctl_command env)) (\<lambda>base.
     bindH (run_cmd env (base @ [''wait-ready'', service]) None) (\<lambda>r.
     if rr_code r = 0 then returnH ()
     else thenH (check_not_failed env service)
       (let detail = strip (if rr_err r \<noteq> [] then rr_err r else rr_out r) in
        raiseH (Exn ServiceNotReadyError (''Service '' @ service @ '' not ready after ''
          @ show_int (service_ready_timeout_seconds st) @ ''s: ''
          @ (if detail \<noteq> [] then detail else ''wait-ready failed''))))))"

text \<open>One turn of \<open>wait_for_service_ready\<close>: nothing when ready, or what to report later.\<close>

definition wait_turn ::
  "os_env \<Rightarrow> string \<Rightarrow> config_profile \<Rightarrow> systemd_settings \<Rightarrow> bool \<Rightarrow> int \<Rightarrow> string option action" where
  "wait_turn env service p st use_wrapper max_deadline =
     thenH (check_not_failed env service)
       (catchH
         (if use_wrapper then thenH (wait_via_wrapper_once env service st) (returnH None)
          else bindH (wait_direct_once env service p st) (\<lambda>ready. returnH (if ready then None
            else Some (''not ready after '' @ show_int (service_ready_timeout_seconds st) @ ''s chunk''))))
         [ServiceNotReadyError]
         (\<lambda>e. bindH (systemd_start_failed env service) (\<lambda>failed.
            if failed then raiseH e
            else (\<lambda>h. if h_clock h \<ge> max_deadline then (h, Inl e) else (h, Inr (Some (exn_msg e)))))))"

definition give_up :: "os_env \<Rightarrow> string \<Rightarrow> systemd_settings \<Rightarrow> string \<Rightarrow> unit action" where
  "give_up env service st last_detail = bindH (run_journalctl env service 20) (\<lambda>log_tail.
     raiseH (Exn ServiceNotReadyError (''Service '' @ service @ '' did not become ready within ''
       @ show_int (service_ready_max_wait_seconds st) @ ''s ('' @ show_int (service_ready_timeout_seconds st)
       @ ''s per attempt). '' @ last_detail @ ''. Recent log:'' @ newline @ log_tail)))"

lemma takes_time_wait_turn: "takes_time (wait_turn env s p st w d)"
proof -
  have direct: "h_clock h \<le> h_clock (fst (wait_direct env s p st t h))" for t h
  proof (induction env s p st t h rule: wait_direct.induct)
    case (1 env s p st t h)
    show ?case
    proof (cases "h_clock h \<ge> t")
      case True
      then show ?thesis by (simp add: wait_direct.simps)
    next
      case False
      obtain h1 r where dt: "direct_turn env s p st h = (h1, r)" by (cases "direct_turn env s p st h")
      have step: "h_clock h < h_clock h1" by (rule takes_timeD [OF takes_time_turn dt])
      show ?thesis
      proof (cases r)
        case (Inl e)
        then show ?thesis using False step by (subst wait_direct.simps) (simp add: dt)
      next
        case (Inr ready)
        then show ?thesis
          using False step 1 [OF False dt [symmetric] Inr] by (subst wait_direct.simps) (auto simp: dt)
      qed
    qed
  qed
  have "forward (wait_direct_once env s p st)"
    unfolding forward_def wait_direct_once_def using direct by blast
  moreover have "forward (wait_via_wrapper_once env s st)"
    unfolding wait_via_wrapper_once_def by (auto simp: Let_def intro!: clock_intros)
  moreover have "forward (\<lambda>h. if h_clock h \<ge> d then (h, Inl e) else (h, Inr (Some (exn_msg e))))" for e
    by (simp add: forward_def)
  ultimately show ?thesis
    unfolding wait_turn_def by (intro takes_time_bind takes_time_check) (auto intro!: clock_intros)
qed

function wait_ready :: "os_env \<Rightarrow> string \<Rightarrow> config_profile \<Rightarrow> systemd_settings \<Rightarrow> bool \<Rightarrow> int \<Rightarrow> string \<Rightarrow> unit action" where
  "wait_ready env service p st w max_deadline last_detail h =
     (if h_clock h \<ge> max_deadline then give_up env service st last_detail h
      else case wait_turn env service p st w max_deadline h of
          (h1, Inl e) \<Rightarrow> (h1, Inl e)
        | (h1, Inr None) \<Rightarrow> (h1, Inr ())
        | (h1, Inr (Some detail)) \<Rightarrow> wait_ready env service p st w max_deadline detail h1)"
  by auto
termination
  by (relation "measure (\<lambda>(env, service, p, st, w, d, l, h). nat (d - h_clock h))")
    (auto dest!: takes_timeD [OF takes_time_wait_turn, OF sym])

declare wait_ready.simps [simp del]

definition wait_for_service_ready :: "os_env \<Rightarrow> string \<Rightarrow> config_profile \<Rightarrow> systemd_settings \<Rightarrow> unit action" where
  "wait_for_service_ready env service p st h =
     wait_ready env service p st (uses_vpn_systemctl_wrapper env \<and> service_managed_by_wrapper service st)
       (h_clock h + micros (service_ready_max_wait_seconds st)) '''' h"

section \<open>Ready means running\<close>

text \<open>The unit was seen running and its journal then had the startup marker.\<close>

definition seen_ready :: "os_env \<Rightarrow> string \<Rightarrow> config_profile \<Rightarrow> bool" where
  "seen_ready env service p \<longleftrightarrow> (\<exists>h. snd (systemd_running env service h) = Inr True
     \<and> snd (journal_has_startup_marker env service p (fst (systemd_running env service h))) = Inr True)"

text \<open>The wrapper's \<open>wait-ready\<close> command exited with code 0.\<close>

definition wrapper_ready :: "os_env \<Rightarrow> string \<Rightarrow> bool" where
  "wrapper_ready env service \<longleftrightarrow> (\<exists>base h r. systemctl_command env = Inr base
     \<and> os_run env h (base @ [''wait-ready'', service]) None = Inr r \<and> rr_code r = 0)"

lemma return_snd [simp]: "snd (returnH x h) = Inr y \<longleftrightarrow> x = y" "snd (raiseH e h) = Inr z \<longleftrightarrow> False"
  by (auto simp: returnH_def raiseH_def)

lemma direct_poll_ready:
  assumes "snd (direct_poll env s p st h) = Inr True"
  shows "seen_ready env s p"
proof -
  obtain h1 r1 where 1: "snd (systemd_running env s h1) = Inr r1"
    "snd ((if \<not> r1 then returnH False else thenH (sleepH (service_ready_settle_us st)) (thenH (check_not_failed env s)
       (bindH (systemd_running env s) (\<lambda>running. if running then journal_has_startup_marker env s p else returnH False))))
       (fst (systemd_running env s h1))) = Inr True"
    using assms unfolding direct_poll_def by (blast dest: bindH_value)
  from 1(2) obtain h2 r2 where "snd (systemd_running env s h2) = Inr r2"
    "snd ((if r2 then journal_has_startup_marker env s p else returnH False) (fst (systemd_running env s h2))) = Inr True"
    by (cases r1) (auto dest!: bindH_value)
  then show ?thesis unfolding seen_ready_def by (cases r2) auto
qed

lemma direct_turn_ready: "snd (direct_turn env s p st h) = Inr True \<Longrightarrow> seen_ready env s p"
  unfolding direct_turn_def by (auto dest!: bindH_value split: if_splits intro: direct_poll_ready)

lemma wait_direct_ready: "snd (wait_direct env s p st t h) = Inr True \<Longrightarrow> seen_ready env s p"
proof (induction env s p st t h rule: wait_direct.induct)
  case (1 env s p st t h)
  obtain h1 r where dt: "direct_turn env s p st h = (h1, r)" by (cases "direct_turn env s p st h")
  have not_over: "\<not> h_clock h \<ge> t" using 1(2) by (subst (asm) wait_direct.simps) (auto split: if_splits)
  show ?case
  proof (cases r)
    case (Inl e)
    then show ?thesis using 1(2) not_over dt by (subst (asm) wait_direct.simps) simp
  next
    case (Inr ready)
    show ?thesis
    proof (cases ready)
      case True
      then show ?thesis using direct_turn_ready [of env s p st h] dt Inr by simp
    next
      case False
      then have "snd (wait_direct env s p st t h1) = Inr True"
        using 1(2) not_over dt Inr by (subst (asm) wait_direct.simps) simp
      then show ?thesis using 1(1) [OF not_over dt [symmetric] Inr False] by simp
    qed
  qed
qed

lemma wrapper_once_ready: "snd (wait_via_wrapper_once env s st h) = Inr () \<Longrightarrow> wrapper_ready env s"
proof -
  assume run: "snd (wait_via_wrapper_once env s st h) = Inr ()"
  obtain base where base: "systemctl_command env = Inr base"
    using run by (cases "systemctl_command env") (auto simp: wait_via_wrapper_once_def bindH_def liftH_def)
  obtain r where r: "os_run env h (base @ [''wait-ready'', s]) None = Inr r"
    using run base by (cases "os_run env h (base @ [''wait-ready'', s]) None")
      (auto simp: wait_via_wrapper_once_def bindH_def liftH_def run_cmd_def)
  have "rr_code r = 0"
    using run by (rule_tac ccontr) (auto simp: wait_via_wrapper_once_def base r liftH_def run_cmd_def Let_def
        bindH_def [of "liftH (Inr base)"] bindH_def [of "run_cmd env (base @ [''wait-ready'', s]) None"] dest!: bindH_value)
  with base r show ?thesis unfolding wrapper_ready_def by blast
qed

lemma wait_turn_ready:
  assumes "snd (wait_turn env s p st w d h) = Inr None"
  shows "if w then wrapper_ready env s else seen_ready env s p"
proof -
  let ?body = "if w then thenH (wait_via_wrapper_once env s st) (returnH None)
      else bindH (wait_direct_once env s p st) (\<lambda>ready. returnH (if ready then None
        else Some (''not ready after '' @ show_int (service_ready_timeout_seconds st) @ ''s chunk'')))"
  obtain h1 where c: "snd (catchH ?body [ServiceNotReadyError]
         (\<lambda>e. bindH (systemd_start_failed env s) (\<lambda>failed. if failed then raiseH e
            else (\<lambda>h. if h_clock h \<ge> d then (h, Inl e) else (h, Inr (Some (exn_msg e)))))) h1) = Inr None"
    using assms unfolding wait_turn_def by (blast dest: bindH_value)
  have "snd (?body h1) = Inr None"
    using c unfolding catchH_def
    by (cases "?body h1"; cases "snd (?body h1)") (auto dest!: bindH_value split: if_splits)
  then show ?thesis
    by (cases w) (auto dest!: bindH_value simp: wait_direct_once_def intro: wrapper_once_ready wait_direct_ready split: if_splits)
qed

lemma wait_ready_sound:
  "snd (wait_ready env s p st w d l h) = Inr () \<Longrightarrow> if w then wrapper_ready env s else seen_ready env s p"
proof (induction env s p st w d l h rule: wait_ready.induct)
  case (1 env s p st w d l h)
  obtain h1 r where dt: "wait_turn env s p st w d h = (h1, r)" by (cases "wait_turn env s p st w d h")
  have "snd (give_up env s st l h) \<noteq> Inr ()" unfolding give_up_def by (auto dest!: bindH_value)
  then have not_over: "\<not> h_clock h \<ge> d" using 1(2) by (subst (asm) wait_ready.simps) (auto split: if_splits)
  show ?case
  proof (cases r)
    case (Inl e)
    then show ?thesis using 1(2) not_over dt by (subst (asm) wait_ready.simps) simp
  next
    case (Inr o1)
    show ?thesis
    proof (cases o1)
      case None
      then show ?thesis using wait_turn_ready [of env s p st w d h] dt Inr by simp
    next
      case (Some detail)
      then have "snd (wait_ready env s p st w d detail h1) = Inr ()"
        using 1(2) not_over dt Inr by (subst (asm) wait_ready.simps) simp
      then show ?thesis using 1(1) [OF not_over dt [symmetric] Inr Some] by simp
    qed
  qed
qed

text \<open>
  C31. A deployment goes on only with a running service: when the wait returns without an exception,
  systemd reported the unit active and running and its journal then showed the startup marker of its
  profile, or, under the privileged wrapper, the wrapper's own check succeeded.
\<close>

theorem ready_means_running:
  assumes "snd (wait_for_service_ready env service p st h) = Inr ()"
  shows "if uses_vpn_systemctl_wrapper env \<and> service_managed_by_wrapper service st
    then wrapper_ready env service else seen_ready env service p"
  by (rule wait_ready_sound) (use assms in \<open>simp add: wait_for_service_ready_def\<close>)

section \<open>How long the wait takes\<close>

definition within :: "int \<Rightarrow> 'a action \<Rightarrow> bool" where
  "within b m \<longleftrightarrow> 0 \<le> b \<and> (\<forall>h. h_clock (fst (m h)) \<le> h_clock h + b)"

lemma withinD: "within b m \<Longrightarrow> h_clock (fst (m h)) \<le> h_clock h + b"
  by (simp add: within_def)

lemma within_mono: "within a m \<Longrightarrow> a \<le> b \<Longrightarrow> within b m"
  unfolding within_def by (meson add_left_mono order_trans)

lemma within_sleep: "within (max us 0) (sleepH us)"
  by (simp add: within_def sleepH_def)

lemma within_bind:
  assumes "within a m" "\<And>x. within b (f x)"
  shows "within (a + b) (bindH m f)"
proof -
  have "h_clock (fst (bindH m f h)) \<le> h_clock h + (a + b)" for h
  proof (cases "m h")
    case (Pair h1 r)
    have m: "h_clock h1 \<le> h_clock h + a" using withinD [OF assms(1), of h] Pair by simp
    show ?thesis
    proof (cases r)
      case (Inl e)
      then show ?thesis using m assms(2) [of undefined] Pair by (simp add: bindH_def within_def)
    next
      case (Inr x)
      then show ?thesis using m withinD [OF assms(2), of x h1] Pair by (simp add: bindH_def)
    qed
  qed
  then show ?thesis using assms by (simp add: within_def)
qed

lemma within_catch:
  assumes "within a m" "\<And>e. within b (f e)"
  shows "within (a + b) (catchH m ks f)"
proof -
  have "h_clock (fst (catchH m ks f h)) \<le> h_clock h + (a + b)" for h
  proof (cases "m h")
    case (Pair h1 r)
    have m: "h_clock h1 \<le> h_clock h + a" "0 \<le> b"
      using withinD [OF assms(1), of h] assms(2) Pair by (auto simp: within_def)
    show ?thesis
    proof (cases r)
      case (Inl e)
      then show ?thesis using m withinD [OF assms(2), of e h1] Pair by (simp add: catchH_def)
    next
      case (Inr x)
      then show ?thesis using m Pair by (simp add: catchH_def)
    qed
  qed
  then show ?thesis using assms by (simp add: within_def)
qed

text \<open>Every command answers within \<open>T\<close> microseconds.\<close>

definition answers_within :: "int \<Rightarrow> os_env \<Rightarrow> bool" where
  "answers_within T env \<longleftrightarrow> (\<forall>h cmd. 1 + int (os_took env h cmd) \<le> T)"

lemma answers_pos: "answers_within T env \<Longrightarrow> 0 \<le> T"
proof -
  assume "answers_within T env"
  then have "1 + int (os_took env h cmd) \<le> T" for h cmd by (simp add: answers_within_def)
  from this [of undefined undefined] show ?thesis by simp
qed

lemma within_cmd: "answers_within T env \<Longrightarrow> within T (run_cmd env cmd input)"
  using answers_pos by (auto simp: within_def run_cmd_def answers_within_def add.assoc)

lemma within_bindI: "within a m \<Longrightarrow> (\<And>x. within b (f x)) \<Longrightarrow> a + b \<le> c \<Longrightarrow> within c (bindH m f)"
  by (rule within_mono [OF within_bind])

lemma within_return [simp]: "0 \<le> c \<Longrightarrow> within c (returnH x)" "0 \<le> c \<Longrightarrow> within c (raiseH e)" "0 \<le> c \<Longrightarrow> within c (liftH r)"
  by (simp_all add: within_def returnH_def raiseH_def liftH_def)

lemma within_if: "within b m \<Longrightarrow> within b m' \<Longrightarrow> within b (if c then m else m')"
  by simp

lemma within_journal: "answers_within T env \<Longrightarrow> within T (run_journalctl env s n)"
  unfolding run_journalctl_def by (rule within_bindI [OF within_cmd, where b = 0], assumption) simp_all

lemma within_marker: "answers_within T env \<Longrightarrow> within T (journal_has_startup_marker env s p)"
  unfolding journal_has_startup_marker_def by (rule within_bindI [OF within_journal, where b = 0], assumption) simp_all

lemma within_running: "answers_within T env \<Longrightarrow> within (2 * T) (systemd_running env s)"
  unfolding systemd_running_def
  by (rule within_bindI [OF within_cmd, where b = T], assumption)
    (auto intro!: within_if within_bindI [OF within_cmd, where b = 0] dest: answers_pos)

lemma within_show: "answers_within T env \<Longrightarrow> within T (systemd_show env s)"
  unfolding systemd_show_def by (rule within_bindI [OF within_cmd, where b = 0], assumption) simp_all

lemma within_failed: "answers_within T env \<Longrightarrow> within (2 * T) (systemd_start_failed env s)"
  unfolding systemd_start_failed_def Let_def
  by (rule within_bindI [OF within_cmd, where b = T], assumption)
    (auto intro!: within_if within_bindI [OF within_show, where b = 0] dest: answers_pos)

lemma within_raise_failed: "answers_within T env \<Longrightarrow> within T (raise_service_failed env s)"
  unfolding raise_service_failed_def by (rule within_bindI [OF within_journal, where b = 0], assumption) simp_all

lemma within_check: "answers_within T env \<Longrightarrow> within (3 * T) (check_not_failed env s)"
  unfolding check_not_failed_def
  by (rule within_bindI [OF within_failed, where b = T], assumption)
    (auto intro!: within_if within_raise_failed dest: answers_pos)

lemma within_poll: "answers_within T env \<Longrightarrow> within (11 * T + max (service_ready_settle_us st) 0) (direct_poll env s p st)"
  unfolding direct_poll_def
  apply (rule within_bindI [OF within_check, where b = "8 * T + max (service_ready_settle_us st) 0"], assumption)
   apply (rule within_bindI [OF within_running, where b = "6 * T + max (service_ready_settle_us st) 0"], assumption)
    apply (rule within_if, simp add: answers_pos)
    apply (rule within_bindI [OF within_sleep, where b = "6 * T"])
     apply (rule within_bindI [OF within_check, where b = "3 * T"], assumption)
      apply (rule within_bindI [OF within_running, where b = T], assumption)
       apply (auto intro: within_if within_marker dest: answers_pos)
  done

definition turn_bound :: "int \<Rightarrow> systemd_settings \<Rightarrow> int" where
  "turn_bound T st = 11 * T + max (service_ready_settle_us st) 0 + micros 1"

lemma within_turn: "answers_within T env \<Longrightarrow> within (turn_bound T st) (direct_turn env s p st)"
  unfolding direct_turn_def turn_bound_def
  apply (rule within_bindI [OF within_poll, where b = "micros 1"], assumption)
   apply (rule within_if, simp add: micros_def)
   apply (rule within_bindI [OF within_sleep, where b = 0])
    apply (simp_all add: micros_def)
  done

lemma wait_direct_bound:
  "answers_within T env \<Longrightarrow> h_clock (fst (wait_direct env s p st t h)) \<le> max (h_clock h) (t + turn_bound T st)"
proof (induction env s p st t h rule: wait_direct.induct)
  case (1 env s p st t h)
  obtain h1 r where dt: "direct_turn env s p st h = (h1, r)" by (cases "direct_turn env s p st h")
  have b: "h_clock h1 \<le> h_clock h + turn_bound T st" using withinD [OF within_turn [OF 1(2)], of s p st h] dt by simp
  show ?case
  proof (cases "h_clock h \<ge> t")
    case True
    then show ?thesis by (subst wait_direct.simps) simp
  next
    case False
    show ?thesis
    proof (cases r)
      case (Inl e)
      then show ?thesis using False b dt by (subst wait_direct.simps) simp
    next
      case (Inr ready)
      show ?thesis
        using False b dt Inr 1(1) [OF False dt [symmetric] Inr] 1(2) by (subst wait_direct.simps) auto
    qed
  qed
qed

lemma within_direct_once:
  assumes "answers_within T env" "0 \<le> service_ready_timeout_seconds st"
  shows "within (micros (service_ready_timeout_seconds st) + turn_bound T st) (wait_direct_once env s p st)"
proof -
  have "0 \<le> turn_bound T st" using answers_pos [OF assms(1)] by (simp add: turn_bound_def micros_def)
  moreover have "h_clock (fst (wait_direct_once env s p st h))
      \<le> h_clock h + (micros (service_ready_timeout_seconds st) + turn_bound T st)" for h
    using wait_direct_bound [OF assms(1), of s p st "h_clock h + micros (service_ready_timeout_seconds st)" h]
      calculation assms(2) by (simp add: wait_direct_once_def micros_def)
  ultimately show ?thesis using assms(2) by (simp add: within_def micros_def)
qed

lemma within_wrapper: "answers_within T env \<Longrightarrow> within (4 * T) (wait_via_wrapper_once env s st)"
  unfolding wait_via_wrapper_once_def Let_def
  apply (rule within_bindI [where a = 0 and b = "4 * T"], simp)
   apply (rule within_bindI [OF within_cmd, where b = "3 * T"], assumption)
    apply (rule within_if, simp add: answers_pos)
    apply (rule within_bindI [OF within_check, where b = 0], assumption)
     apply simp_all
  done

definition attempt_bound :: "int \<Rightarrow> systemd_settings \<Rightarrow> int" where
  "attempt_bound T st = 5 * T + micros (service_ready_timeout_seconds st) + turn_bound T st"

lemma within_wait_turn:
  assumes T: "answers_within T env" and t: "0 \<le> service_ready_timeout_seconds st"
  shows "within (attempt_bound T st) (wait_turn env s p st w d)"
proof -
  define B where "B = micros (service_ready_timeout_seconds st) + turn_bound T st"
  have pos: "0 \<le> T" by (rule answers_pos [OF T])
  then have B: "4 * T \<le> B" "0 \<le> B" using t by (simp_all add: B_def turn_bound_def micros_def)
  have wrap: "within B (thenH (wait_via_wrapper_once env s st) (returnH None))"
    by (rule within_bindI [OF within_wrapper [OF T], where b = 0]) (use B in simp_all)
  have direct: "within B (bindH (wait_direct_once env s p st) (\<lambda>ready. returnH (if ready then None
        else Some (''not ready after '' @ show_int (service_ready_timeout_seconds st) @ ''s chunk''))))"
    by (rule within_bindI [OF within_direct_once [OF T t], where b = 0]) (simp_all add: B_def)
  have handler: "within (2 * T) (bindH (systemd_start_failed env s) (\<lambda>failed. if failed then raiseH e
            else (\<lambda>h. if h_clock h \<ge> d then (h, Inl e) else (h, Inr (Some (exn_msg e))))))" for e
    by (rule within_bindI [OF within_failed [OF T], where b = 0]) (auto simp: within_def raiseH_def)
  show ?thesis
    unfolding wait_turn_def attempt_bound_def
    by (rule within_bindI [OF within_check [OF T], where b = "B + 2 * T"], rule within_catch)
      (use wrap direct handler in \<open>auto simp: B_def intro: within_if\<close>)
qed

lemma wait_ready_bound:
  "answers_within T env \<Longrightarrow> 0 \<le> service_ready_timeout_seconds st \<Longrightarrow>
   h_clock (fst (wait_ready env s p st w d l h)) \<le> max (h_clock h) (d + attempt_bound T st) + T"
proof (induction env s p st w d l h rule: wait_ready.induct)
  case (1 env s p st w d l h)
  obtain h1 r where dt: "wait_turn env s p st w d h = (h1, r)" by (cases "wait_turn env s p st w d h")
  have b: "h_clock h1 \<le> h_clock h + attempt_bound T st"
    using withinD [OF within_wait_turn [OF 1(2,3)], of s p w d h] dt by simp
  have pos: "0 \<le> T" by (rule answers_pos [OF 1(2)])
  have give: "within T (give_up env s st l)"
    unfolding give_up_def by (rule within_bindI [OF within_journal [OF 1(2)], where b = 0]) simp_all
  show ?case
  proof (cases "h_clock h \<ge> d")
    case True
    then show ?thesis using withinD [OF give, of h] by (subst wait_ready.simps) simp
  next
    case False
    show ?thesis
    proof (cases r)
      case (Inl e)
      then show ?thesis using False b dt pos by (subst wait_ready.simps) simp
    next
      case (Inr o1)
      show ?thesis
      proof (cases o1)
        case None
        then show ?thesis using False b dt Inr pos by (subst wait_ready.simps) simp
      next
        case (Some detail)
        then show ?thesis
          using False b dt Inr 1(1) [OF False dt [symmetric] Inr Some 1(2,3)] by (subst wait_ready.simps) simp
      qed
    qed
  qed
qed

text \<open>
  C32. The wait ends in bounded time, ready or not: if every command answers within \<open>T\<close>, at most
  the maximum wait passes, plus one attempt (its timeout, the settling time, a second of sleep) and the
  time of seventeen commands. The bound needs no assumption on what the commands answer.
\<close>

theorem wait_ends_in_time:
  assumes "answers_within T env" and "0 \<le> service_ready_timeout_seconds st"
    and "0 \<le> service_ready_max_wait_seconds st"
  shows "h_clock (fst (wait_for_service_ready env service p st h))
    \<le> h_clock h + micros (service_ready_max_wait_seconds st + service_ready_timeout_seconds st + 1)
       + max (service_ready_settle_us st) 0 + 17 * T"
proof -
  let ?d = "h_clock h + micros (service_ready_max_wait_seconds st)"
  have "0 \<le> T" by (rule answers_pos [OF assms(1)])
  moreover have "h_clock (fst (wait_for_service_ready env service p st h)) \<le> max (h_clock h) (?d + attempt_bound T st) + T"
    unfolding wait_for_service_ready_def by (rule wait_ready_bound [OF assms(1,2)])
  ultimately show ?thesis
    using assms(2,3) by (simp add: attempt_bound_def turn_bound_def micros_def)
qed

section \<open>A concrete machine\<close>

text \<open>A machine on which every unit is active and every journal says it started.\<close>

definition demo_run :: "host \<Rightarrow> string list \<Rightarrow> string option \<Rightarrow> exn + run_result" where
  "demo_run h cmd input = Inr \<lparr>rr_code = 0, rr_out =
     (if cmd ! 1 = ''is-active'' then ''active''
      else if cmd ! 1 = ''show'' \<and> length cmd = 6 then ''running''
      else if cmd ! 0 = ''journalctl'' then ''core started'' else ''''), rr_err = ''''\<rparr>"

definition demo_os :: os_env where
  "demo_os = \<lparr>os_systemctl_cmd = None, os_systemctl_action = None, os_run = demo_run,
     os_took = (\<lambda>h cmd. 999), os_read = (\<lambda>h p. Inr ()), os_write = (\<lambda>h p. Inr ()), os_time = 1700000000,
     os_build = demo_env, os_yaml_dump = (\<lambda>j. json_show 0 j)\<rparr>"

definition demo_host :: host where
  "demo_host = \<lparr>h_files = [(''t.json'', File 420 ''{}''), (''t.yaml'', File 420 '''')], h_cmds = [], h_clock = 0\<rparr>"

lemma bindH_next: "snd (m h) = Inr x \<Longrightarrow> snd (f x (fst (m h))) = Inr y \<Longrightarrow> snd (bindH m f h) = Inr y"
  by (cases "m h") (auto simp: bindH_def)

lemma snd_sleepH: "snd (sleepH us h) = Inr ()"
  by (simp add: sleepH_def)

lemma wait_direct_first: "snd (direct_turn env s p st h) = Inr True \<Longrightarrow> h_clock h < t \<Longrightarrow> snd (wait_direct env s p st t h) = Inr True"
  by (subst wait_direct.simps, cases "direct_turn env s p st h") simp

lemma wait_turn_direct:
  assumes "snd (check_not_failed env s h) = Inr ()" "snd (wait_direct_once env s p st (fst (check_not_failed env s h))) = Inr True"
  shows "snd (wait_turn env s p st False d h) = Inr None"
proof -
  obtain h1 where c: "check_not_failed env s h = (h1, Inr ())" using assms(1) by (cases "check_not_failed env s h") simp
  obtain h2 where w: "wait_direct_once env s p st h1 = (h2, Inr True)"
    using assms(2) c by (cases "wait_direct_once env s p st h1") simp
  show ?thesis unfolding wait_turn_def bindH_def catchH_def returnH_def by (simp add: c w)
qed

text \<open>On this machine every command of the wait answers as a running unit does, in any state.\<close>

lemma demo_checked: "snd (check_not_failed demo_os s h) = Inr ()"
proof -
  have "snd (systemd_start_failed demo_os s h) = Inr False" for h
    unfolding systemd_start_failed_def systemd_show_def bindH_def run_cmd_def demo_os_def demo_run_def returnH_def
    by (simp add: splitlines_def strip_def lstrip_def rstrip_def)
  then show ?thesis unfolding check_not_failed_def by (rule bindH_next) simp
qed

lemma demo_running: "snd (systemd_running demo_os s h) = Inr True"
proof -
  have "strip ''active'' = ''active''" "strip ''running'' = ''running''" by code_simp+
  then show ?thesis
    unfolding systemd_running_def bindH_def run_cmd_def demo_os_def demo_run_def returnH_def by simp
qed

lemma demo_marked: "snd (journal_has_startup_marker demo_os s p h) = Inr True"
proof -
  have "startup_marker p ''core started''" by (cases "p = HYSTERIA2") (simp add: startup_marker_def, code_simp)+
  then show ?thesis
    unfolding journal_has_startup_marker_def run_journalctl_def bindH_def run_cmd_def demo_os_def demo_run_def returnH_def
    by simp
qed

lemma demo_turn: "snd (direct_turn demo_os s p st h) = Inr True"
proof -
  have "snd (direct_poll demo_os s p st h) = Inr True" for h
    unfolding direct_poll_def
    by (rule bindH_next [OF demo_checked] bindH_next [OF demo_running] bindH_next [OF snd_sleepH]
      | simp add: demo_marked)+
  then show ?thesis unfolding direct_turn_def by (rule bindH_next) simp
qed

lemma demo_ready:
  assumes "0 < service_ready_timeout_seconds st" "0 < service_ready_max_wait_seconds st"
  shows "snd (wait_for_service_ready demo_os s p st h) = Inr ()"
proof -
  have "snd (wait_direct_once demo_os s p st h) = Inr True" for h
    unfolding wait_direct_once_def by (rule wait_direct_first [OF demo_turn]) (use assms in \<open>simp add: micros_def\<close>)
  then have turn: "snd (wait_turn demo_os s p st False d h) = Inr None" for d
    by (rule wait_turn_direct [OF demo_checked])
  have later: "\<not> h_clock h \<ge> h_clock h + micros (service_ready_max_wait_seconds st)"
    by (use assms in \<open>simp add: micros_def\<close>)
  have "\<not> uses_vpn_systemctl_wrapper demo_os" by code_simp
  then show ?thesis
    unfolding wait_for_service_ready_def using later turn [of "h_clock h + micros (service_ready_max_wait_seconds st)"]
    by (subst wait_ready.simps, cases "wait_turn demo_os s p st False
      (h_clock h + micros (service_ready_max_wait_seconds st)) h") simp
qed

theorem ready_means_running_witness:
  "seen_ready demo_os ''xray'' XRAY_REALITY"
proof -
  have "\<not> uses_vpn_systemctl_wrapper demo_os" by code_simp
  moreover have "snd (wait_for_service_ready demo_os ''xray'' XRAY_REALITY (systemd demo_settings) demo_host) = Inr ()"
    by (rule demo_ready) (simp_all add: demo_settings_def)
  ultimately show ?thesis using ready_means_running by simp
qed

theorem wait_ends_in_time_witness:
  "h_clock (fst (wait_for_service_ready demo_os ''xray'' XRAY_REALITY (systemd demo_settings) demo_host)) \<le> 633017000"
proof -
  have "answers_within 1000 demo_os" by (simp add: answers_within_def demo_os_def)
  from wait_ends_in_time [OF this, of "systemd demo_settings" "''xray''" XRAY_REALITY demo_host]
  show ?thesis by (simp add: demo_settings_def demo_host_def micros_def)
qed

end
