(* ===== verification/Deploy.thy ===== *)
theory Deploy
  imports Service_Ready
begin

text \<open>
  Putting a built configuration into service: the systemd unit of a configuration
  (\<open>panel/infrastructure/vpn/systemd_unit.py\<close>) and \<open>write_files\<close> of
  \<open>config_builder.py\<close>. Writing a file is one step of the machine (\<open>atomic_write\<close>
  replaces a complete temporary file); directories are not listed, making one only asks whether it may
  be made.
\<close>

section \<open>Units\<close>

definition config_service_name :: "uuid \<Rightarrow> string \<Rightarrow> string" where
  "config_service_name config_id prefix = prefix @ ''-'' @ uuid_str config_id"

definition live_config_path :: "config_profile \<Rightarrow> uuid \<Rightarrow> string \<Rightarrow> systemd_settings \<Rightarrow> string" where
  "live_config_path p config_id filename st =
     path_join (path_join (if p = HYSTERIA2 then hysteria_config_dir st else xray_config_dir st) (uuid_str config_id)) filename"

definition unit_file_path :: "string \<Rightarrow> systemd_settings \<Rightarrow> string" where
  "unit_file_path service st = path_join (unit_dir st) (service @ ''.service'')"

definition unit_exec_start :: "config_profile \<Rightarrow> string \<Rightarrow> systemd_settings \<Rightarrow> string" where
  "unit_exec_start p config_path st =
     (if p = HYSTERIA2 then hysteria_binary st @ '' server -c '' @ config_path
      else xray_binary st @ '' run -config '' @ config_path)"

definition render_unit :: "config_profile \<Rightarrow> string \<Rightarrow> string \<Rightarrow> string \<Rightarrow> systemd_settings \<Rightarrow> string" where
  "render_unit p service config_path config_name st =
     (let description = (if strip config_name \<noteq> [] then strip config_name else service) in
      ''[Unit]'' @ newline
      @ ''Description=VPN '' @ description @ '' ('' @ profile_value p @ '')'' @ newline
      @ ''After=network-online.target'' @ newline
      @ ''Wants=network-online.target'' @ newline
      @ newline
      @ ''[Service]'' @ newline
      @ ''Type=simple'' @ newline
      @ ''ExecStart='' @ unit_exec_start p config_path st @ newline
      @ ''LimitNOFILE=1048576'' @ newline
      @ newline
      @ ''[Install]'' @ newline
      @ ''WantedBy=multi-user.target'' @ newline)"

definition install_config_unit :: "os_env \<Rightarrow> config_profile \<Rightarrow> uuid \<Rightarrow> string \<Rightarrow> string \<Rightarrow> systemd_settings \<Rightarrow> string action" where
  "install_config_unit env p config_id filename config_name st =
     (let service = config_service_name config_id (service_prefix st);
          config_path = live_config_path p config_id filename st;
          unit_path = unit_file_path service st;
          unit_content = render_unit p service config_path config_name st in
      bindH (is_fileH env unit_path) (\<lambda>present.
      thenH (catchH (atomic_write env unit_path unit_content 420) [PermissionError]
              (\<lambda>e. write_unit_file env service unit_content))
      (thenH (run_systemctl env ''daemon-reload'' None None)
      (thenH (if present then returnH () else enable_service env service)
      (thenH (reload_service env service)
      (thenH (wait_for_service_ready env service p st) (returnH service)))))))"

text \<open>\<open>try: run_systemctl(action, s) except CalledProcessError: pass\<close>.\<close>

definition try_systemctl :: "os_env \<Rightarrow> string \<Rightarrow> string \<Rightarrow> unit action" where
  "try_systemctl env action service =
     catchH (run_systemctl env action (Some service) None) [CalledProcessError] (\<lambda>e. returnH ())"

definition remove_config_unit :: "os_env \<Rightarrow> config_profile \<Rightarrow> uuid \<Rightarrow> string \<Rightarrow> systemd_settings \<Rightarrow> unit action" where
  "remove_config_unit env p config_id filename st =
     (let service = config_service_name config_id (service_prefix st);
          unit_path = unit_file_path service st in
      bindH (is_fileH env unit_path) (\<lambda>present.
      if \<not> present then returnH ()
      else thenH (catchH
             (thenH (try_systemctl env ''stop'' service)
             (thenH (try_systemctl env ''disable'' service)
             (thenH (unlinkH env unit_path)
               (run_systemctl env ''daemon-reload'' None None))))
             [OSError, PermissionError, CalledProcessError]
             (\<lambda>e. remove_unit_file env service))
           (rmtree env (dirname (live_config_path p config_id filename st)))))"

definition stop_config_unit :: "os_env \<Rightarrow> uuid \<Rightarrow> systemd_settings \<Rightarrow> unit action" where
  "stop_config_unit env config_id st = try_systemctl env ''stop'' (config_service_name config_id (service_prefix st))"

section \<open>Writing the files of a build\<close>

text \<open>
  \<open>_apply_tls_cert_paths\<close>: the first inbound whose certificate list is not empty is changed;
  an object reached through the defaults has no certificates.
\<close>

definition set_cert_paths :: "string \<Rightarrow> string \<Rightarrow> json \<Rightarrow> exn + json" where
  "set_cert_paths cert_file key_file certificate =
     bindR (jset ''certificateFile'' (JStr cert_file) certificate) (jset ''keyFile'' (JStr key_file))"

definition inbound_certificates :: "json \<Rightarrow> exn + json" where
  "inbound_certificates inbound =
     bindR (jget inbound ''streamSettings'' (JDict [])) (\<lambda>stream.
     bindR (jget stream ''tlsSettings'' (JDict [])) (\<lambda>tls. jget tls ''certificates'' JNull))"

fun first_certificates :: "nat \<Rightarrow> json list \<Rightarrow> exn + nat option" where
  "first_certificates i [] = Inr None"
| "first_certificates i (inbound # rest) =
     bindR (inbound_certificates inbound) (\<lambda>certificates.
     if truthy certificates then Inr (Some i) else first_certificates (Suc i) rest)"

text \<open>\<open>certificates[0]\<close> of a dictionary is a missing key.\<close>

definition upd_first :: "(json \<Rightarrow> exn + json) \<Rightarrow> json \<Rightarrow> exn + json" where
  "upd_first f certificates = bindR (jindex certificates 0) (\<lambda>_. jupd_index 0 f certificates)"

definition apply_tls_cert_paths :: "config_profile \<Rightarrow> json \<Rightarrow> string \<Rightarrow> string \<Rightarrow> exn + json" where
  "apply_tls_cert_paths p config cert_file key_file =
     (if p = HYSTERIA2 then
        bindR (jsetdefault ''tls'' (JDict []) config)
          (jupd ''tls'' (\<lambda>tls. bindR (jset ''cert'' (JStr cert_file) tls) (jset ''key'' (JStr key_file))))
      else if p = XRAY_GRPC \<or> p = XRAY_XHTTP then
        bindR (jget config ''inbounds'' (JList [])) (\<lambda>v.
        bindR (jiter v) (\<lambda>inbounds.
        bindR (first_certificates 0 inbounds) (\<lambda>found.
        case found of None \<Rightarrow> Inr config
        | Some i \<Rightarrow> upd_inbound i (jupd ''streamSettings'' (jupd ''tlsSettings'' (jupd ''certificates''
            (upd_first (set_cert_paths cert_file key_file))))) config)))
      else Inr config)"

definition mkdirH :: "os_env \<Rightarrow> string \<Rightarrow> unit action" where
  "mkdirH env d h = (h, bindR (os_write env h d) (\<lambda>_. Inr ()))"

text \<open>\<open>path.exists() or path.is_symlink()\<close>.\<close>

definition presentH :: "os_env \<Rightarrow> string \<Rightarrow> bool action" where
  "presentH env path h = (h, bindR (os_read env h path) (\<lambda>_. Inr (map_of (h_files h) path \<noteq> None)))"

definition pem_body :: "string \<Rightarrow> string" where
  "pem_body content = (if endswith content newline then content else content @ newline)"

definition pem_name :: "string \<Rightarrow> string \<Rightarrow> string" where
  "pem_name prefix kind = prefix @ ''-'' @ kind @ ''.pem''"

definition versioned_name :: "string \<Rightarrow> string \<Rightarrow> int \<Rightarrow> string" where
  "versioned_name prefix kind timestamp = prefix @ ''-'' @ kind @ ''-'' @ show_int timestamp @ ''.pem''"

fun write_pem_files :: "os_env \<Rightarrow> string \<Rightarrow> string \<Rightarrow> (string \<times> string) list \<Rightarrow> unit action" where
  "write_pem_files env base prefix [] = returnH ()"
| "write_pem_files env base prefix ((kind, content) # rest) =
     (let versioned = path_join base (versioned_name prefix kind (os_time env));
          stable = path_join base (pem_name prefix kind) in
      thenH (atomic_write env versioned (pem_body content) 416)
      (bindH (presentH env stable) (\<lambda>present.
       thenH (if present then unlinkH env stable else returnH ())
       (thenH (symlink_to env stable (basename versioned))
         (write_pem_files env base prefix rest)))))"

text \<open>The directory of the certificate files, and the configuration after they are written.\<close>

definition cert_base_of :: "vpn_profile_settings \<Rightarrow> string option \<Rightarrow> string \<Rightarrow> string" where
  "cert_base_of ps live_path base_path = (case live_path of Some l \<Rightarrow> dirname l | None \<Rightarrow> the_or base_path (cert_dir ps))"

definition cert_prefix_of :: "vpn_profile_settings \<Rightarrow> string" where
  "cert_prefix_of ps = the_or ''cert'' (some_text (cert_prefix ps))"

definition write_certificates ::
  "os_env \<Rightarrow> config_profile \<Rightarrow> vpn_profile_settings \<Rightarrow> string \<Rightarrow> build_result \<Rightarrow> json action" where
  "write_certificates env p ps base res =
     (if br_extra_files res = [] then returnH (br_config res)
      else thenH (mkdirH env base)
        (bindH (liftH (apply_tls_cert_paths p (br_config res)
             (path_join base (pem_name (cert_prefix_of ps) ''cert'')) (path_join base (pem_name (cert_prefix_of ps) ''key''))))
          (\<lambda>config. thenH (write_pem_files env base (cert_prefix_of ps) (br_extra_files res)) (returnH config))))"

definition config_body :: "os_env \<Rightarrow> config_profile \<Rightarrow> json \<Rightarrow> string" where
  "config_body env p config = (if p = HYSTERIA2 then os_yaml_dump env config else json_show 0 config)"

definition sync_nginx :: "os_env \<Rightarrow> panel_settings \<Rightarrow> json \<Rightarrow> unit action" where
  "sync_nginx env st config =
     bindH (\<lambda>h. (h, sync_reality_shared_443 (mux_of env h) st config)) (\<lambda>todo.
     case todo of None \<Rightarrow> returnH ()
     | Some (conf_path, conf) \<Rightarrow>
         thenH (run_systemctl env ''write-nginx-stream'' (Some conf_path) (Some conf))
           (run_systemctl env ''reload-nginx'' None None))"

text \<open>Starting the service of a written configuration.\<close>

definition activate ::
  "os_env \<Rightarrow> panel_settings \<Rightarrow> config_profile \<Rightarrow> vpn_profile_settings \<Rightarrow> uuid \<Rightarrow> string \<Rightarrow> string option \<Rightarrow> string \<Rightarrow> unit action" where
  "activate env st p ps config_id config_name live_path body =
     (case live_path of
        Some live \<Rightarrow> thenH (atomic_write env live body 384)
          (thenH (install_config_unit env p config_id (config_filename ps) config_name (systemd st)) (returnH ()))
      | None \<Rightarrow>
          thenH (case active_config_path ps of None \<Rightarrow> returnH ()
              | Some a \<Rightarrow> thenH (mkdirH env (dirname a)) (atomic_write env a body 384))
          (thenH (reload_service env (service_name ps))
            (wait_for_service_ready env (service_name ps) p (systemd st))))"

text \<open>The configuration as \<open>write_files\<close> leaves it in the result of the build.\<close>

definition write_files ::
  "os_env \<Rightarrow> panel_settings \<Rightarrow> config_profile \<Rightarrow> uuid \<Rightarrow> build_result \<Rightarrow> string \<Rightarrow> json action" where
  "write_files env st p config_id res config_name =
     bindH (liftH (profile_settings_of st p)) (\<lambda>ps.
     let base_path = path_join (paths_configs st) (uuid_str config_id);
         live_path = (if per_config (systemd st)
           then Some (live_config_path p config_id (config_filename ps) (systemd st)) else None) in
     thenH (mkdirH env base_path)
     (thenH (case live_path of None \<Rightarrow> returnH () | Some l \<Rightarrow> mkdirH env (dirname l))
     (bindH (write_certificates env p ps (cert_base_of ps live_path base_path) res) (\<lambda>config.
      thenH (atomic_write env (path_join base_path (config_filename ps)) (config_body env p config) 384)
      (thenH (activate env st p ps config_id config_name live_path (config_body env p config))
      (thenH (if p = XRAY_REALITY \<or> p = XRAY_XHTTP \<or> p = XRAY_GRPC then sync_nginx env st config else returnH ())
        (returnH config)))))))"


section \<open>What actions leave alone\<close>

text \<open>
  A relation between the machine before and after that running a command and sleeping follow, and
  that holds along a sequence. Every action made of commands then follows it, the waiting loops
  included.
\<close>

locale host_frame = act_frame R
  for R :: "host \<Rightarrow> host \<Rightarrow> bool" +
  assumes cmd: "R h (h\<lparr>h_cmds := h_cmds h @ [c], h_clock := h_clock h + 1 + int n\<rparr>)"
    and pause: "R h (h\<lparr>h_clock := h_clock h + max us 0\<rparr>)"
begin

lemma commands:
  "follows R (sleepH us)"
  "follows R (run_cmd env cmd input)" "follows R (is_fileH env q)" "follows R (presentH env q)" "follows R (mkdirH env q)"
  by (simp_all add: follows_def sleepH_def run_cmd_def is_fileH_def presentH_def mkdirH_def same cmd pause)

lemmas steps = pure commands reading bind catch ite

lemma checked: "follows R (run_checked env cmd input)"
  unfolding run_checked_def by (intro steps)

lemma systemctl: "follows R (run_systemctl env a s i)" "follows R (reload_service env n)"
    "follows R (enable_service env n)" "follows R (write_unit_file env n c)" "follows R (remove_unit_file env n)"
    "follows R (try_systemctl env a n)"
  unfolding run_systemctl_def reload_service_def enable_service_def write_unit_file_def remove_unit_file_def try_systemctl_def
  by (intro steps checked)+

lemma probes: "follows R (run_journalctl env s n)" "follows R (journal_has_startup_marker env s p)"
    "follows R (systemd_running env s)" "follows R (raise_service_failed env s)"
  unfolding run_journalctl_def journal_has_startup_marker_def systemd_running_def raise_service_failed_def
  by (intro steps)+

lemma failed: "follows R (systemd_start_failed env s)"
  unfolding systemd_start_failed_def systemd_show_def Let_def by (intro steps)

lemma check: "follows R (check_not_failed env s)"
  unfolding check_not_failed_def by (intro steps failed probes)

lemma turn: "follows R (direct_turn env s p st)"
  unfolding direct_turn_def direct_poll_def by (intro steps check probes)

lemma wait_direct: "R h (fst (wait_direct env s p st t h))"
proof (induction env s p st t h rule: wait_direct.induct)
  case (1 env s p st t h)
  obtain h1 r where dt: "direct_turn env s p st h = (h1, r)" by (cases "direct_turn env s p st h")
  have f: "R h h1" by (rule follows_stepD [OF turn dt])
  show ?case
  proof (cases "h_clock h \<ge> t")
    case True
    then show ?thesis by (subst wait_direct.simps) (simp add: same)
  next
    case False
    show ?thesis
    proof (cases r)
      case (Inl e)
      then show ?thesis using False f dt by (subst wait_direct.simps) simp
    next
      case (Inr ready)
      then show ?thesis
        using False f seq [OF f] 1 [OF False dt [symmetric] Inr] by (subst wait_direct.simps) (cases ready; simp add: dt)
    qed
  qed
qed

lemma wait_turn: "follows R (wait_turn env s p st w d)"
proof -
  have direct: "follows R (wait_direct_once env s p st)"
    by (simp add: follows_def wait_direct_once_def wait_direct)
  have wrapper: "follows R (wait_via_wrapper_once env s st)"
    unfolding wait_via_wrapper_once_def Let_def by (intro steps check)
  have late: "follows R (\<lambda>h. if h_clock h \<ge> d then (h, Inl e) else (h, Inr x))" for e :: exn and x :: "string option"
    by (simp add: follows_def same)
  show ?thesis
    unfolding wait_turn_def by (intro steps check failed direct wrapper late)
qed

lemma wait_ready: "R h (fst (wait_ready env s p st w d l h))"
proof (induction env s p st w d l h rule: wait_ready.induct)
  case (1 env s p st w d l h)
  obtain h1 r where dt: "Service_Ready.wait_turn env s p st w d h = (h1, r)"
    by (cases "Service_Ready.wait_turn env s p st w d h")
  have f: "R h h1" by (rule follows_stepD [OF wait_turn dt])
  have give: "follows R (give_up env s st l)" unfolding give_up_def by (intro steps probes)
  show ?case
  proof (cases "h_clock h \<ge> d")
    case True
    then show ?thesis using give by (subst wait_ready.simps) (simp add: follows_def)
  next
    case False
    show ?thesis
    proof (cases r)
      case (Inl e)
      then show ?thesis using False f dt by (subst wait_ready.simps) simp
    next
      case (Inr detail)
      then show ?thesis
        using False f seq [OF f] dt 1 [OF False dt [symmetric] Inr] by (subst wait_ready.simps) (cases detail; simp)
    qed
  qed
qed

lemma wait: "follows R (wait_for_service_ready env s p st)"
  by (simp add: follows_def wait_for_service_ready_def wait_ready)

lemma sync: "follows R (sync_nginx env st config)"
proof -
  have "follows R (case todo of None \<Rightarrow> returnH () | Some (conf_path, conf) \<Rightarrow>
         thenH (run_systemctl env ''write-nginx-stream'' (Some conf_path) (Some conf))
           (run_systemctl env ''reload-nginx'' None None))" for todo
    by (cases todo) (auto intro!: steps systemctl split: prod.splits)
  then show ?thesis unfolding sync_nginx_def by (intro steps)
qed

lemmas all_steps = steps checked systemctl probes failed check wait sync

end

text \<open>The files stay, the command log only grows, the clock does not go back.\<close>

interpretation files: host_frame "\<lambda>h h'. h_files h' = h_files h"
  by unfold_locales auto

interpretation log: host_frame "\<lambda>h h'. set (h_cmds h) \<subseteq> set (h_cmds h')"
  by unfold_locales auto

interpretation clock: host_frame "\<lambda>h h'. h_clock h \<le> h_clock h'"
  by unfold_locales auto

text \<open>Only the files of a set of paths change.\<close>

definition agree_off :: "string set \<Rightarrow> host \<Rightarrow> host \<Rightarrow> bool" where
  "agree_off Q h h' \<longleftrightarrow> (\<forall>q. q \<notin> Q \<longrightarrow> map_of (h_files h') q = map_of (h_files h) q)"

abbreviation touches :: "string set \<Rightarrow> 'a action \<Rightarrow> bool" where
  "touches Q \<equiv> follows (agree_off Q)"

interpretation off: host_frame "agree_off Q" for Q
  by unfold_locales (auto simp: agree_off_def)

lemma touchesD: "touches Q m \<Longrightarrow> m h = (h1, r) \<Longrightarrow> q \<notin> Q \<Longrightarrow> map_of (h_files h1) q = map_of (h_files h) q"
  using off.follows_stepD by (fastforce simp: agree_off_def)

lemma map_of_filter_other: "q \<noteq> path \<Longrightarrow> map_of (filter (\<lambda>f. fst f \<noteq> path) files) q = map_of files q"
  by (induction files) auto

lemma touches_write: "path \<in> Q \<Longrightarrow> touches Q (atomic_write env path c mode)"
    "path \<in> Q \<Longrightarrow> touches Q (unlinkH env path)" "path \<in> Q \<Longrightarrow> touches Q (symlink_to env path t)"
  by (auto simp: follows_def agree_off_def atomic_write_def unlinkH_def symlink_to_def intro!: map_of_filter_other split: sum.splits)

lemma bindH_run: "bindH m f h = (h', Inr y) \<longleftrightarrow> (\<exists>h1 x. m h = (h1, Inr x) \<and> f x h1 = (h', Inr y))"
  by (auto simp: bindH_def split: prod.splits sum.splits)

lemma returnH_run [simp]: "returnH x h = (h', Inr y) \<longleftrightarrow> h' = h \<and> y = x"
  by (auto simp: returnH_def)

lemma liftH_run [simp]: "liftH r h = (h', Inr y) \<longleftrightarrow> h' = h \<and> r = Inr y"
  by (auto simp: liftH_def)

lemma mkdirH_run: "mkdirH env d h = (h', Inr y) \<Longrightarrow> h' = h"
  by (simp add: mkdirH_def)

lemma atomic_write_run: "atomic_write env path c mode h = (h', Inr y) \<Longrightarrow> h' = h\<lparr>h_files := dict_set path (File mode c) (h_files h)\<rparr>"
  by (auto simp: atomic_write_def split: sum.splits)

lemma touches_install:
  "unit_file_path (config_service_name cid (service_prefix st)) st \<in> Q \<Longrightarrow> touches Q (install_config_unit env p cid fn nm st)"
  unfolding install_config_unit_def Let_def by (intro off.all_steps touches_write)

lemma touches_activate:
  assumes "\<And>l. live_path = Some l \<Longrightarrow> l \<in> Q \<and> unit_file_path (config_service_name cid (service_prefix (systemd st))) (systemd st) \<in> Q"
    and "\<And>a. active_config_path ps = Some a \<Longrightarrow> live_path = None \<Longrightarrow> a \<in> Q"
  shows "touches Q (activate env st p ps cid nm live_path body)"
proof (cases live_path)
  case None
  have "touches Q (case active_config_path ps of None \<Rightarrow> returnH ()
     | Some a \<Rightarrow> thenH (mkdirH env (dirname a)) (atomic_write env a body 384))"
    using assms(2) None by (cases "active_config_path ps") (auto intro!: touches_write off.all_steps)
  then show ?thesis
    unfolding activate_def None option.case by (intro off.all_steps)
next
  case (Some l)
  then show ?thesis
    unfolding activate_def Some option.case using assms(1) [OF Some] by (intro off.all_steps touches_write touches_install) auto
qed

section \<open>The unit of a configuration\<close>

definition unit_content_of :: "config_profile \<Rightarrow> uuid \<Rightarrow> string \<Rightarrow> string \<Rightarrow> systemd_settings \<Rightarrow> string" where
  "unit_content_of p config_id filename config_name st =
     render_unit p (config_service_name config_id (service_prefix st)) (live_config_path p config_id filename st) config_name st"

definition unit_path_of :: "uuid \<Rightarrow> systemd_settings \<Rightarrow> string" where
  "unit_path_of config_id st = unit_file_path (config_service_name config_id (service_prefix st)) st"

text \<open>The unit is on disk, or was handed to the wrapper.\<close>

definition unit_installed :: "os_env \<Rightarrow> host \<Rightarrow> config_profile \<Rightarrow> uuid \<Rightarrow> string \<Rightarrow> string \<Rightarrow> systemd_settings \<Rightarrow> bool" where
  "unit_installed env h p cid fn nm st \<longleftrightarrow>
     map_of (h_files h) (unit_path_of cid st) = Some (File 420 (unit_content_of p cid fn nm st))
     \<or> (\<exists>base. systemctl_command env = Inr base
         \<and> (base @ [''write-unit'', config_service_name cid (service_prefix st)], Some (unit_content_of p cid fn nm st)) \<in> set (h_cmds h))"


definition serving :: "os_env \<Rightarrow> string \<Rightarrow> config_profile \<Rightarrow> systemd_settings \<Rightarrow> bool" where
  "serving env service p st \<longleftrightarrow>
     (if uses_vpn_systemctl_wrapper env \<and> service_managed_by_wrapper service st
      then wrapper_ready env service else seen_ready env service p)"

lemma wait_serving: "wait_for_service_ready env service p st h = (h', Inr ()) \<Longrightarrow> serving env service p st"
  unfolding serving_def wait_for_service_ready_def by (drule arg_cong [of _ _ snd], rule wait_ready_sound) simp

lemma unit_written:
  assumes "catchH (atomic_write env path c 420) [PermissionError] (\<lambda>e. write_unit_file env service c) h = (h', Inr ())"
  shows "map_of (h_files h') path = Some (File 420 c)
    \<or> (\<exists>base. systemctl_command env = Inr base \<and> (base @ [''write-unit'', service], Some c) \<in> set (h_cmds h'))"
proof (cases "snd (atomic_write env path c 420 h)")
  case (Inl e)
  then have "write_unit_file env service c (fst (atomic_write env path c 420 h)) = (h', Inr ())"
    using assms by (cases "atomic_write env path c 420 h") (auto simp: catchH_def split: if_splits)
  then show ?thesis
    by (auto simp: write_unit_file_def bindH_run run_checked_def run_cmd_def raiseH_def split: if_splits)
next
  case (Inr u)
  then have "atomic_write env path c 420 h = (h', Inr ())"
    using assms by (cases "atomic_write env path c 420 h") (auto simp: catchH_def)
  from atomic_write_run [OF this] show ?thesis by simp
qed

lemma install_run:
  assumes "install_config_unit env p cid fn nm st h = (h', Inr s)"
  shows "s = config_service_name cid (service_prefix st) \<and> unit_installed env h' p cid fn nm st \<and> serving env s p st"
proof -
  let ?service = "config_service_name cid (service_prefix st)"
  let ?path = "unit_path_of cid st" and ?c = "unit_content_of p cid fn nm st"
  obtain h0 present h1 h2 h3 h4 where
    w: "catchH (atomic_write env ?path ?c 420) [PermissionError] (\<lambda>e. write_unit_file env ?service ?c) h0 = (h1, Inr ())"
    and d: "run_systemctl env ''daemon-reload'' None None h1 = (h2, Inr ())"
    and e: "(if present then returnH () else enable_service env ?service) h2 = (h3, Inr ())"
    and r: "reload_service env ?service h3 = (h4, Inr ())"
    and wait: "wait_for_service_ready env ?service p st h4 = (h', Inr ())" and s: "s = ?service"
    using assms unfolding install_config_unit_def Let_def bindH_run unit_path_of_def unit_content_of_def by auto
  have rest: "follows R (if present then returnH () else enable_service env ?service)" if "host_frame R" for R
    using that by (auto intro: act_frame.pure [OF host_frame.axioms(1)] host_frame.systemctl)
  have files: "h_files h' = h_files h1"
    using files.follows_stepD [OF files.systemctl(1) d] files.follows_stepD [OF rest [OF files.host_frame_axioms] e]
      files.follows_stepD [OF files.systemctl(2) r] files.follows_stepD [OF files.wait wait] by simp
  have cmds: "set (h_cmds h1) \<subseteq> set (h_cmds h')"
    using log.follows_stepD [OF log.systemctl(1) d] log.follows_stepD [OF rest [OF log.host_frame_axioms] e]
      log.follows_stepD [OF log.systemctl(2) r] log.follows_stepD [OF log.wait wait] by blast
  show ?thesis
    using unit_written [OF w] files cmds wait_serving [OF wait] s by (auto simp: unit_installed_def)
qed

section \<open>A deployment that succeeds\<close>

text \<open>Where the daemon reads its configuration, and which service it is.\<close>

definition run_path :: "panel_settings \<Rightarrow> vpn_profile_settings \<Rightarrow> config_profile \<Rightarrow> uuid \<Rightarrow> string option" where
  "run_path st ps p cid = (if per_config (systemd st) then Some (live_config_path p cid (config_filename ps) (systemd st))
     else active_config_path ps)"

definition run_service :: "panel_settings \<Rightarrow> vpn_profile_settings \<Rightarrow> uuid \<Rightarrow> string" where
  "run_service st ps cid = (if per_config (systemd st) then config_service_name cid (service_prefix (systemd st)) else service_name ps)"

definition stored_path :: "panel_settings \<Rightarrow> vpn_profile_settings \<Rightarrow> uuid \<Rightarrow> string" where
  "stored_path st ps cid = path_join (path_join (paths_configs st) (uuid_str cid)) (config_filename ps)"

lemma activate_run:
  assumes run: "activate env st p ps cid nm (if per_config (systemd st) then run_path st ps p cid else None) body h = (h', Inr ())"
    and apart: "per_config (systemd st) \<Longrightarrow> run_path st ps p cid \<noteq> Some (unit_path_of cid (systemd st))"
  shows "(\<forall>a. run_path st ps p cid = Some a \<longrightarrow> map_of (h_files h') a = Some (File 384 body))
    \<and> serving env (run_service st ps cid) p (systemd st)
    \<and> (per_config (systemd st) \<longrightarrow> unit_installed env h' p cid (config_filename ps) nm (systemd st))"
proof (cases "per_config (systemd st)")
  case True
  let ?live = "live_config_path p cid (config_filename ps) (systemd st)"
  obtain h1 s where w: "atomic_write env ?live body 384 h = (h1, Inr ())"
    and i: "install_config_unit env p cid (config_filename ps) nm (systemd st) h1 = (h', Inr s)"
    using run True by (auto simp: activate_def run_path_def bindH_run)
  have "map_of (h_files h') ?live = map_of (h_files h1) ?live"
    using touchesD [OF touches_install i, where Q = "{unit_path_of cid (systemd st)}"] apart True
    by (simp add: unit_path_of_def run_path_def)
  then show ?thesis
    using install_run [OF i] atomic_write_run [OF w] True by (auto simp: run_path_def run_service_def)
next
  case False
  obtain h1 h2 where w: "(case active_config_path ps of None \<Rightarrow> returnH ()
              | Some a \<Rightarrow> thenH (mkdirH env (dirname a)) (atomic_write env a body 384)) h = (h1, Inr ())"
    and r: "reload_service env (service_name ps) h1 = (h2, Inr ())"
    and wait: "wait_for_service_ready env (service_name ps) p (systemd st) h2 = (h', Inr ())"
    using run False unfolding activate_def by (auto simp: bindH_run)
  have "h_files h' = h_files h1"
    using files.follows_stepD [OF files.systemctl(2) r] files.follows_stepD [OF files.wait wait] by simp
  moreover have "map_of (h_files h1) a = Some (File 384 body)" if "active_config_path ps = Some a" for a
    using w that by (auto simp: bindH_run dest!: mkdirH_run atomic_write_run)
  ultimately show ?thesis
    using wait_serving [OF wait] False by (simp add: run_path_def run_service_def)
qed

text \<open>The paths of the certificates are the only thing it changes in a Hysteria2 document.\<close>

lemma write_certificates_keeps:
  assumes "write_certificates env HYSTERIA2 ps base res h = (h', Inr config)" "k \<noteq> ''tls''"
  shows "jitem config k = jitem (br_config res) k"
  using assms by (cases "br_config res")
    (auto simp: write_certificates_def apply_tls_cert_paths_def bindH_run bindR_eq_Inr jupd_Inr split: if_splits option.splits)

text \<open>The steps of a run of \<open>write_files\<close> that returns.\<close>

definition cert_base :: "panel_settings \<Rightarrow> vpn_profile_settings \<Rightarrow> config_profile \<Rightarrow> uuid \<Rightarrow> string" where
  "cert_base st ps p cid = cert_base_of ps (if per_config (systemd st) then run_path st ps p cid else None)
     (path_join (paths_configs st) (uuid_str cid))"

lemma write_files_steps:
  assumes run: "write_files env st p cid res nm h = (h', Inr config)" and ps: "profile_settings_of st p = Inr ps"
  obtains h0 h1 h2 h3 where "write_certificates env p ps (cert_base st ps p cid) res h0 = (h1, Inr config)"
    "atomic_write env (stored_path st ps cid) (config_body env p config) 384 h1 = (h2, Inr ())"
    "activate env st p ps cid nm (if per_config (systemd st) then run_path st ps p cid else None) (config_body env p config) h2
       = (h3, Inr ())" "h_files h' = h_files h3" "set (h_cmds h3) \<subseteq> set (h_cmds h')" "h_files h0 = h_files h"
proof -
  let ?live = "if per_config (systemd st) then run_path st ps p cid else None"
  have live: "?live = (if per_config (systemd st) then Some (live_config_path p cid (config_filename ps) (systemd st)) else None)"
    by (simp add: run_path_def)
  obtain ha hb h1 h2 h3 where m: "mkdirH env (path_join (paths_configs st) (uuid_str cid)) h = (ha, Inr ())"
    "(case ?live of None \<Rightarrow> returnH () | Some l \<Rightarrow> mkdirH env (dirname l)) ha = (hb, Inr ())"
    and s: "write_certificates env p ps (cert_base st ps p cid) res hb = (h1, Inr config)"
    "atomic_write env (stored_path st ps cid) (config_body env p config) 384 h1 = (h2, Inr ())"
    "activate env st p ps cid nm ?live (config_body env p config) h2 = (h3, Inr ())"
    and n: "(if p = XRAY_REALITY \<or> p = XRAY_XHTTP \<or> p = XRAY_GRPC then sync_nginx env st config else returnH ()) h3 = (h', Inr ())"
    using run ps unfolding write_files_def bindH_run liftH_run Let_def live cert_base_def stored_path_def by auto
  have "h_files h' = h_files h3"
    by (rule files.follows_stepD [OF files.ite [OF files.sync files.pure(1)] n])
  moreover have "set (h_cmds h3) \<subseteq> set (h_cmds h')"
    by (rule log.follows_stepD [OF log.ite [OF log.sync log.pure(1)] n])
  moreover have "h_files hb = h_files h"
    using m by (auto split: option.splits if_splits dest!: mkdirH_run)
  ultimately show ?thesis using that s by blast
qed


lemma deployment:
  assumes run: "write_files env st p cid res nm h = (h', Inr config)" and ps: "profile_settings_of st p = Inr ps"
    and apart: "per_config (systemd st) \<Longrightarrow> unit_path_of cid (systemd st) \<noteq> stored_path st ps cid
      \<and> Some (unit_path_of cid (systemd st)) \<noteq> run_path st ps p cid"
  shows "map_of (h_files h') (stored_path st ps cid) = Some (File 384 (config_body env p config))
    \<and> (\<forall>a. run_path st ps p cid = Some a \<longrightarrow> map_of (h_files h') a = Some (File 384 (config_body env p config)))
    \<and> serving env (run_service st ps cid) p (systemd st)
    \<and> (per_config (systemd st) \<longrightarrow> unit_installed env h' p cid (config_filename ps) nm (systemd st))"
proof -
  let ?live = "if per_config (systemd st) then run_path st ps p cid else None"
  let ?body = "config_body env p config"
  obtain h1 h2 h3 where w: "atomic_write env (stored_path st ps cid) ?body 384 h1 = (h2, Inr ())"
    and a: "activate env st p ps cid nm ?live ?body h2 = (h3, Inr ())" and f: "h_files h' = h_files h3"
    and l: "set (h_cmds h3) \<subseteq> set (h_cmds h')"
    by (rule write_files_steps [OF run ps])
  have ran: "(\<forall>a. run_path st ps p cid = Some a \<longrightarrow> map_of (h_files h3) a = Some (File 384 ?body))
    \<and> serving env (run_service st ps cid) p (systemd st)
    \<and> (per_config (systemd st) \<longrightarrow> unit_installed env h3 p cid (config_filename ps) nm (systemd st))"
    by (rule activate_run [OF a]) (use apart in auto)
  have "map_of (h_files h3) (stored_path st ps cid) = Some (File 384 ?body)"
  proof (cases "run_path st ps p cid = Some (stored_path st ps cid)")
    case True
    then show ?thesis using ran by simp
  next
    case False
    let ?Q = "{q. Some q = run_path st ps p cid \<or> per_config (systemd st) \<and> q = unit_path_of cid (systemd st)}"
    have "touches ?Q (activate env st p ps cid nm ?live ?body)"
      by (rule touches_activate) (auto simp: unit_path_of_def run_path_def split: if_splits)
    from touchesD [OF this a] have "map_of (h_files h3) (stored_path st ps cid) = map_of (h_files h2) (stored_path st ps cid)"
      by (rule) (use False apart in \<open>auto dest: sym\<close>)
    then show ?thesis using atomic_write_run [OF w] by simp
  qed
  moreover have "unit_installed env h3 p cid fn nm st' \<Longrightarrow> unit_installed env h' p cid fn nm st'" for fn st'
    using f l by (auto simp: unit_installed_def)
  ultimately show ?thesis using ran f by simp
qed


text \<open>
  C29. When \<open>write_files\<close> returns, the service of the configuration is running, and what it
  runs from and what is kept under the configurations directory are both the text of the very
  configuration it returns (the one the worker then stores), readable by its owner only; a unit of the
  configuration's own has been installed.
\<close>

theorem deployed_config:
  assumes run: "write_files env st p cid res nm h = (h', Inr config)" and ps: "profile_settings_of st p = Inr ps"
    and apart: "per_config (systemd st) \<Longrightarrow> unit_path_of cid (systemd st) \<noteq> stored_path st ps cid
      \<and> Some (unit_path_of cid (systemd st)) \<noteq> run_path st ps p cid"
  shows "map_of (h_files h') (stored_path st ps cid) = Some (File 384 (config_body env p config))
    \<and> (\<forall>a. run_path st ps p cid = Some a \<longrightarrow> map_of (h_files h') a = Some (File 384 (config_body env p config)))
    \<and> serving env (run_service st ps cid) p (systemd st)
    \<and> (per_config (systemd st) \<longrightarrow> unit_installed env h' p cid (config_filename ps) nm (systemd st))"
  by (rule deployment [OF run ps]) (use apart in auto)

section \<open>The certificates of a deployment\<close>

lemma split_on_append: "split_on c (x @ c # s) = split_on c x @ split_on c s"
proof (induction x)
  case (Cons a x)
  then show ?case by (cases "split_on c x") auto
qed simp

lemma path_join_slash: "\<not> startswith n ''/'' \<Longrightarrow> \<not> endswith d ''/'' \<Longrightarrow> path_join d n = d @ CHR ''/'' # n"
  by (simp add: path_join_def)

lemma no_slash_start: "CHR ''/'' \<notin> set n \<Longrightarrow> \<not> startswith n ''/''"
  by (cases n) (auto simp: startswith_def)

lemma basename_path_join: "CHR ''/'' \<notin> set n \<Longrightarrow> \<not> endswith d ''/'' \<Longrightarrow> basename (path_join d n) = n"
  by (simp add: path_join_slash no_slash_start basename_def split_on_append split_on_no_sep)

lemma dirname_path_join: "CHR ''/'' \<notin> set n \<Longrightarrow> \<not> endswith d ''/'' \<Longrightarrow> dirname (path_join d n) = d"
  unfolding path_join_slash [OF no_slash_start] dirname_def by (simp, subst dropWhile_append2) auto

lemma path_join_inj:
  "CHR ''/'' \<notin> set n \<Longrightarrow> CHR ''/'' \<notin> set m \<Longrightarrow> \<not> endswith d ''/'' \<Longrightarrow> path_join d n = path_join d m \<longleftrightarrow> n = m"
  by (simp add: path_join_slash no_slash_start)

text \<open>The certificate and key files a configuration names.\<close>

definition named_tls :: "config_profile \<Rightarrow> json \<Rightarrow> exn + (json \<times> json) option" where
  "named_tls p config =
     (if p = HYSTERIA2 then
        bindR (jitem config ''tls'') (\<lambda>tls. bindR (jitem tls ''cert'') (\<lambda>c. bindR (jitem tls ''key'') (\<lambda>k. Inr (Some (c, k)))))
      else if p = XRAY_GRPC \<or> p = XRAY_XHTTP then
        bindR (jget config ''inbounds'' (JList [])) (\<lambda>v.
        bindR (jiter v) (\<lambda>inbounds.
        bindR (first_certificates 0 inbounds) (\<lambda>found.
        case found of None \<Rightarrow> Inr None
        | Some i \<Rightarrow> bindR (inbound_certificates (inbounds ! i)) (\<lambda>certificates.
            bindR (jindex certificates 0) (\<lambda>certificate.
            bindR (jitem certificate ''certificateFile'') (\<lambda>c.
            bindR (jitem certificate ''keyFile'') (\<lambda>k. Inr (Some (c, k)))))))))
      else Inr None)"

lemma first_certificates_Some:
  "first_certificates n inbounds = Inr (Some i) \<Longrightarrow>
     n \<le> i \<and> i - n < length inbounds \<and> (\<exists>cs. inbound_certificates (inbounds ! (i - n)) = Inr cs \<and> truthy cs)"
proof (induction n inbounds rule: first_certificates.induct)
  case (2 n inbound rest)
  obtain cs where cs: "inbound_certificates inbound = Inr cs" using 2(2) by (auto simp: bindR_eq_Inr)
  show ?case
  proof (cases "truthy cs")
    case True
    then show ?thesis using 2(2) cs by simp
  next
    case False
    then have "first_certificates (Suc n) rest = Inr (Some i)" using 2(2) cs by simp
    from 2(1) [OF cs False this] show ?thesis by (auto simp: nth_Cons' Suc_diff_le)
  qed
qed simp

lemma first_certificates_upd:
  "first_certificates n inbounds = Inr (Some i) \<Longrightarrow> inbound_certificates x = Inr cs \<Longrightarrow> truthy cs \<Longrightarrow>
   first_certificates n (inbounds[i - n := x]) = Inr (Some i)"
proof (induction n inbounds rule: first_certificates.induct)
  case (2 n inbound rest)
  obtain cs0 where cs0: "inbound_certificates inbound = Inr cs0" using 2(2) by (auto simp: bindR_eq_Inr)
  show ?case
  proof (cases "truthy cs0")
    case True
    then have "i = n" using 2(2) cs0 by simp
    then show ?thesis using 2(3,4) by simp
  next
    case False
    then have f: "first_certificates (Suc n) rest = Inr (Some i)" using 2(2) cs0 by simp
    have "Suc n \<le> i" using first_certificates_Some [OF f] by simp
    then have "(inbound # rest)[i - n := x] = inbound # rest[i - Suc n := x]"
      by (cases i) (simp_all add: Suc_diff_le)
    then show ?thesis using 2(1) [OF cs0 False f 2(3,4)] cs0 False by simp
  qed
qed simp


lemma jupd_index_Inr: "jupd_index i f d = Inr d' \<longleftrightarrow>
  (\<exists>xs v'. d = JList xs \<and> i < length xs \<and> f (xs ! i) = Inr v' \<and> d' = JList (xs[i := v']))"
  by (cases d) (auto simp: jupd_index_def bindR_eq_Inr)

lemma upd_inbound_Inr: "upd_inbound i f config = Inr config' \<longleftrightarrow> (\<exists>m xs v'. config = JDict m
   \<and> map_of m ''inbounds'' = Some (JList xs) \<and> i < length xs \<and> f (xs ! i) = Inr v'
   \<and> config' = JDict (dict_set ''inbounds'' (JList (xs[i := v'])) m))"
  unfolding upd_inbound_def jupd_Inr jupd_index_Inr by auto

lemma jupd_certificates:
  assumes "jupd ''streamSettings'' (jupd ''tlsSettings'' (jupd ''certificates'' (upd_first (set_cert_paths c k)))) x = Inr x'"
  shows "\<exists>cs certificate. inbound_certificates x' = Inr cs \<and> truthy cs \<and> jindex cs 0 = Inr certificate
    \<and> jitem certificate ''certificateFile'' = Inr (JStr c) \<and> jitem certificate ''keyFile'' = Inr (JStr k)"
proof -
  obtain m s1 s1' t1 t1' c1 c1' where u: "upd_first (set_cert_paths c k) c1 = Inr c1'" and x': "x' = JDict (dict_set ''streamSettings'' s1' m)"
    "s1' = JDict (dict_set ''tlsSettings'' t1' s1)" "t1' = JDict (dict_set ''certificates'' c1' t1)"
    using assms by (auto simp: jupd_Inr)
  obtain xs e e' where e: "c1 = JList xs" "0 < length xs" "set_cert_paths c k (xs ! 0) = Inr e'" "c1' = JList (xs[0 := e'])"
    using u unfolding upd_first_def by (auto simp: bindR_eq_Inr jupd_index_Inr)
  have "jitem e' ''certificateFile'' = Inr (JStr c) \<and> jitem e' ''keyFile'' = Inr (JStr k)"
    using e(3) by (auto simp: set_cert_paths_def bindR_eq_Inr jset_Inr)
  moreover have "inbound_certificates x' = Inr c1'"
    by (simp add: inbound_certificates_def x')
  moreover have "truthy c1'" "jindex c1' 0 = Inr e'" using e by (simp_all add: py_index_def)
  ultimately show ?thesis by blast
qed

lemma apply_tls_names:
  assumes "apply_tls_cert_paths p config c k = Inr config'" "named_tls p config' = Inr (Some names)"
  shows "names = (JStr c, JStr k)"
proof (cases "p = HYSTERIA2")
  case True
  then obtain d t where "config' = JDict d" "map_of d ''tls'' = Some (JDict t)" "map_of t ''cert'' = Some (JStr c)"
    "map_of t ''key'' = Some (JStr k)"
    using assms(1) by (auto simp: apply_tls_cert_paths_def bindR_eq_Inr jupd_Inr jset_Inr)
  then show ?thesis using assms(2) True by (simp add: named_tls_def)
next
  case False
  show ?thesis
  proof (cases "p = XRAY_GRPC \<or> p = XRAY_XHTTP")
    case False
    then show ?thesis using assms(2) \<open>p \<noteq> HYSTERIA2\<close> by (simp add: named_tls_def)
  next
    case tls: True
    obtain v inbounds found where f: "jget config ''inbounds'' (JList []) = Inr v" "jiter v = Inr inbounds"
      "first_certificates 0 inbounds = Inr found"
      "(case found of None \<Rightarrow> Inr config | Some i \<Rightarrow> upd_inbound i (jupd ''streamSettings'' (jupd ''tlsSettings''
          (jupd ''certificates'' (upd_first (set_cert_paths c k))))) config) = Inr config'"
      using assms(1) False tls by (auto simp: apply_tls_cert_paths_def bindR_eq_Inr)
    show ?thesis
    proof (cases found)
      case None
      then show ?thesis using assms(2) f False tls by (simp add: named_tls_def)
    next
      case (Some i)
      then obtain m xs x' where u: "config = JDict m" "map_of m ''inbounds'' = Some (JList xs)" "i < length xs"
        "jupd ''streamSettings'' (jupd ''tlsSettings'' (jupd ''certificates'' (upd_first (set_cert_paths c k)))) (xs ! i) = Inr x'"
        "config' = JDict (dict_set ''inbounds'' (JList (xs[i := x'])) m)"
        using f(4) by (auto simp: upd_inbound_Inr)
      have xs: "inbounds = xs" using f(1,2) u(1,2) by auto
      obtain cs certificate where cs: "inbound_certificates x' = Inr cs" "truthy cs" "jindex cs 0 = Inr certificate"
        "jitem certificate ''certificateFile'' = Inr (JStr c)" "jitem certificate ''keyFile'' = Inr (JStr k)"
        using jupd_certificates [OF u(4)] by blast
      have "first_certificates 0 (xs[i := x']) = Inr (Some i)"
        using first_certificates_upd [OF f(3) [unfolded xs Some] cs(1,2)] by simp
      then show ?thesis using assms(2) False tls u(3,5) cs by (simp add: named_tls_def)
    qed
  qed
qed

section \<open>The certificate files\<close>

lemma show_int_no_slash: "CHR ''/'' \<notin> set (show_int i)"
proof -
  have "\<forall>d\<in>set [0..<16]. digit_char d \<noteq> CHR ''/''" by code_simp
  then show ?thesis using set_show_int by fastforce
qed

definition pem_paths :: "os_env \<Rightarrow> string \<Rightarrow> string \<Rightarrow> string list" where
  "pem_paths env base prefix = concat (map (\<lambda>kind. [path_join base (versioned_name prefix kind (os_time env)),
     path_join base (pem_name prefix kind)]) [''cert'', ''key''])"

text \<open>One round of \<open>write_pem_files\<close>.\<close>

lemma write_pem_round:
  assumes run: "write_pem_files env base prefix ((kind, content) # rest) h = (h', Inr ())"
    and base: "\<not> endswith base ''/''" and plain: "CHR ''/'' \<notin> set (prefix @ kind)"
  obtains h1 where "write_pem_files env base prefix rest h1 = (h', Inr ())"
    "map_of (h_files h1) (path_join base (versioned_name prefix kind (os_time env))) = Some (File 416 (pem_body content))"
    "map_of (h_files h1) (path_join base (pem_name prefix kind)) = Some (Link (versioned_name prefix kind (os_time env)))"
    "agree_off {path_join base (versioned_name prefix kind (os_time env)), path_join base (pem_name prefix kind)} h h1"
proof -
  let ?vn = "versioned_name prefix kind (os_time env)"
  let ?v = "path_join base ?vn" and ?s = "path_join base (pem_name prefix kind)"
  obtain h1 h2 h3 present where r: "atomic_write env ?v (pem_body content) 416 h = (h1, Inr ())"
    "presentH env ?s h1 = (h1, Inr present)" "(if present then unlinkH env ?s else returnH ()) h1 = (h2, Inr ())"
    "symlink_to env ?s (basename ?v) h2 = (h3, Inr ())" "write_pem_files env base prefix rest h3 = (h', Inr ())"
    using run by (auto simp: Let_def bindH_run presentH_def)
  have slash: "CHR ''/'' \<notin> set ?vn" "CHR ''/'' \<notin> set (pem_name prefix kind)"
    using plain show_int_no_slash by (auto simp: versioned_name_def pem_name_def)
  have ne: "?v \<noteq> ?s"
    unfolding path_join_inj [OF slash base] by (simp add: versioned_name_def pem_name_def)
  have h3: "h_files h3 = dict_set ?s (Link ?vn) (h_files h2)"
    using r(4) by (auto simp: symlink_to_def basename_path_join [OF slash(1) base] split: sum.splits if_splits)
  have h2: "agree_off {?s} h1 h2"
    using off.follows_stepD [OF off.ite [OF touches_write(2) off.pure(1)] r(3)] by simp
  show ?thesis
  proof (rule that [OF r(5)])
    show "map_of (h_files h3) ?v = Some (File 416 (pem_body content))"
      using h2 ne atomic_write_run [OF r(1)] by (simp add: h3 agree_off_def)
    show "map_of (h_files h3) ?s = Some (Link ?vn)" by (simp add: h3)
    show "agree_off {?v, ?s} h h3"
      using h2 atomic_write_run [OF r(1)] by (simp add: h3 agree_off_def)
  qed
qed

lemma write_pem_touches: "(\<forall>(kind, c)\<in>set files. path_join base (versioned_name prefix kind (os_time env)) \<in> Q
    \<and> path_join base (pem_name prefix kind) \<in> Q) \<Longrightarrow> touches Q (write_pem_files env base prefix files)"
proof (induction env base prefix files rule: write_pem_files.induct)
  case (2 env base prefix kind content rest)
  then show ?case
    by (auto simp: Let_def intro!: off.all_steps touches_write)
qed (simp add: off.all_steps)


lemma file_content_link:
  assumes "map_of files (path_join base n) = Some (Link t)" "map_of files (path_join base t) = Some (File m c)"
    and "CHR ''/'' \<notin> set n" "\<not> endswith base ''/''"
  shows "file_content files (path_join base n) = Some c"
  using assms by (simp add: file_content_def dirname_path_join)

definition config_paths :: "panel_settings \<Rightarrow> vpn_profile_settings \<Rightarrow> config_profile \<Rightarrow> uuid \<Rightarrow> string list" where
  "config_paths st ps p cid = stored_path st ps cid # (case run_path st ps p cid of None \<Rightarrow> [] | Some a \<Rightarrow> [a])
     @ (if per_config (systemd st) then [unit_path_of cid (systemd st)] else [])"

lemma activate_config_paths:
  "touches (set (config_paths st ps p cid)) (activate env st p ps cid nm (if per_config (systemd st) then run_path st ps p cid else None) body)"
  by (rule touches_activate) (auto simp: config_paths_def unit_path_of_def run_path_def split: if_splits)

text \<open>
  When \<open>write_files\<close> returns for a build with a certificate of its own, the certificate
  and key paths the deployed configuration names (if it names any) lead, through the stable link
  beside the versioned file, to exactly the certificate and the key of that build.
\<close>

theorem deployed_certificates:
  assumes run: "write_files env st p cid res nm h = (h', Inr config)" and ps: "profile_settings_of st p = Inr ps"
    and extra: "br_extra_files res = [(''cert'', c), (''key'', k)]"
    and named: "named_tls p config = Inr (Some (cert_file, key_file))"
    and base: "\<not> endswith (cert_base st ps p cid) ''/''" and plain: "CHR ''/'' \<notin> set (cert_prefix_of ps)"
    and apart: "set (pem_paths env (cert_base st ps p cid) (cert_prefix_of ps)) \<inter> set (config_paths st ps p cid) = {}"
  shows "\<exists>cf kf. cert_file = JStr cf \<and> key_file = JStr kf
    \<and> file_content (h_files h') cf = Some (pem_body c) \<and> file_content (h_files h') kf = Some (pem_body k)"
proof -
  let ?base = "cert_base st ps p cid" and ?prefix = "cert_prefix_of ps" and ?t = "os_time env"
  let ?v = "\<lambda>kind. path_join ?base (versioned_name ?prefix kind ?t)" and ?s = "\<lambda>kind. path_join ?base (pem_name ?prefix kind)"
  obtain h0 h1 h2 h3 where c: "write_certificates env p ps ?base res h0 = (h1, Inr config)"
    and w: "atomic_write env (stored_path st ps cid) (config_body env p config) 384 h1 = (h2, Inr ())"
    and a: "activate env st p ps cid nm (if per_config (systemd st) then run_path st ps p cid else None) (config_body env p config) h2
       = (h3, Inr ())" and f: "h_files h' = h_files h3"
    by (rule write_files_steps [OF run ps])
  obtain ha where named_by: "apply_tls_cert_paths p (br_config res) (?s ''cert'') (?s ''key'') = Inr config"
    and pem: "write_pem_files env ?base ?prefix [(''cert'', c), (''key'', k)] ha = (h1, Inr ())"
    using c extra by (auto simp: write_certificates_def bindH_run)
  obtain hb where r1: "write_pem_files env ?base ?prefix [(''key'', k)] hb = (h1, Inr ())"
    "map_of (h_files hb) (?v ''cert'') = Some (File 416 (pem_body c))" "map_of (h_files hb) (?s ''cert'') = Some (Link (versioned_name ?prefix ''cert'' ?t))"
    by (rule write_pem_round [OF pem base]) (use plain in auto)
  obtain hc where r2: "write_pem_files env ?base ?prefix [] hc = (h1, Inr ())"
    "map_of (h_files hc) (?v ''key'') = Some (File 416 (pem_body k))" "map_of (h_files hc) (?s ''key'') = Some (Link (versioned_name ?prefix ''key'' ?t))"
    "agree_off {?v ''key'', ?s ''key''} hb hc"
    by (rule write_pem_round [OF r1(1) base]) (use plain in auto)
  have keep: "map_of (h_files h') q = map_of (h_files h1) q" if "q \<in> set (pem_paths env ?base ?prefix)" for q
  proof -
    have q: "q \<notin> set (config_paths st ps p cid)" using that apart by auto
    then have "q \<noteq> stored_path st ps cid" by (auto simp: config_paths_def)
    then show ?thesis
      using touchesD [OF activate_config_paths a q] atomic_write_run [OF w] f by simp
  qed
  have slash: "CHR ''/'' \<notin> set (pem_name ?prefix kind)" "CHR ''/'' \<notin> set (versioned_name ?prefix kind ?t)"
    if "kind \<in> {''cert'', ''key''}" for kind
    using that plain show_int_no_slash by (auto simp: pem_name_def versioned_name_def)
  have ne: "?v ''cert'' \<notin> {?v ''key'', ?s ''key''}" "?s ''cert'' \<notin> {?v ''key'', ?s ''key''}"
    using slash base by (simp_all add: path_join_inj) (auto simp: pem_name_def versioned_name_def)
  have h1: "h1 = hc" using r2(1) by simp
  have cert: "map_of (h_files h') (?v ''cert'') = Some (File 416 (pem_body c))"
    "map_of (h_files h') (?s ''cert'') = Some (Link (versioned_name ?prefix ''cert'' ?t))"
    "map_of (h_files h') (?v ''key'') = Some (File 416 (pem_body k))"
    "map_of (h_files h') (?s ''key'') = Some (Link (versioned_name ?prefix ''key'' ?t))"
    using keep r1 r2 ne h1 by (simp_all add: agree_off_def pem_paths_def)
  have "file_content (h_files h') (?s ''cert'') = Some (pem_body c)" "file_content (h_files h') (?s ''key'') = Some (pem_body k)"
    using file_content_link [OF cert(2,1) slash(1) base] file_content_link [OF cert(4,3) slash(1) base] by auto
  then show ?thesis using apply_tls_names [OF named_by named] by auto
qed


section \<open>The text of a unit\<close>

definition unit_lines :: "config_profile \<Rightarrow> string \<Rightarrow> string \<Rightarrow> string \<Rightarrow> systemd_settings \<Rightarrow> string list" where
  "unit_lines p service config_path config_name st =
     [''[Unit]'', ''Description=VPN '' @ (if strip config_name \<noteq> [] then strip config_name else service) @ '' ('' @ profile_value p @ '')'',
      ''After=network-online.target'', ''Wants=network-online.target'', '''', ''[Service]'', ''Type=simple'',
      ''ExecStart='' @ unit_exec_start p config_path st, ''LimitNOFILE=1048576'', '''', ''[Install]'',
      ''WantedBy=multi-user.target'', '''']"

lemma render_unit_join: "render_unit p service config_path config_name st = join newline (unit_lines p service config_path config_name st)"
  by (simp add: render_unit_def unit_lines_def Let_def)

text \<open>
  A unit says what it is meant to say: if no name or path has a line feed in it, the lines of
  the unit are the twelve lines of the template, with one \<open>ExecStart\<close>, that starts the daemon
  of the profile on the given configuration file.
\<close>

theorem render_unit_lines:
  assumes "CHR 0x0A \<notin> set (config_name @ service @ unit_exec_start p config_path st)"
  shows "split_on CHR 0x0A (render_unit p service config_path config_name st) = unit_lines p service config_path config_name st
    \<and> filter (\<lambda>l. startswith l ''ExecStart='') (unit_lines p service config_path config_name st)
        = [''ExecStart='' @ unit_exec_start p config_path st]"
proof -
  have name: "CHR 0x0A \<notin> set (strip config_name)" using assms set_strip by fastforce
  have prof: "CHR 0x0A \<notin> set (profile_value p)" by (cases p) simp_all
  have "split_on CHR 0x0A (join newline (unit_lines p service config_path config_name st)) = unit_lines p service config_path config_name st"
  proof (rule split_on_join)
    fix l assume "l \<in> set (unit_lines p service config_path config_name st)"
    then show "CHR 0x0A \<notin> set l" using assms name prof by (auto simp: unit_lines_def split: if_splits)
  qed (simp add: unit_lines_def)
  then show ?thesis
    by (simp add: render_unit_join) (simp add: unit_lines_def startswith_def)
qed

text \<open>The name of a configuration may have a line feed, and then its second line is a line of the unit.\<close>

lemma unit_line_from_name:
  "''ExecStartPre=/tmp/x'' \<in> set (split_on CHR 0x0A (render_unit XRAY_REALITY ''vpn-1'' ''/c.json'' (''a'' @ newline @ ''[Service]'' @ newline
     @ ''ExecStartPre=/tmp/x'' @ newline @ ''b'') (systemd demo_settings)))"
  by code_simp

section \<open>Removing a configuration\<close>

definition live_dir :: "config_profile \<Rightarrow> uuid \<Rightarrow> string \<Rightarrow> systemd_settings \<Rightarrow> string" where
  "live_dir p cid fn st = dirname (live_config_path p cid fn st)"

lemma map_of_filter_keys: "map_of (filter (\<lambda>f. Q (fst f)) files) q = (if Q q then map_of files q else None)"
  by (induction files) auto

text \<open>Up to the directory, removing touches the unit's own file only.\<close>

lemma removing_keeps:
  "touches {unit} (catchH (thenH (try_systemctl env ''stop'' service) (thenH (try_systemctl env ''disable'' service)
      (thenH (unlinkH env unit) (run_systemctl env ''daemon-reload'' None None))))
      [OSError, PermissionError, CalledProcessError] (\<lambda>e. remove_unit_file env service))"
  unfolding try_systemctl_def remove_unit_file_def by (intro off.all_steps touches_write) simp

lemma removing_clears:
  assumes c: "catchH (thenH (try_systemctl env ''stop'' service) (thenH (try_systemctl env ''disable'' service)
      (thenH (unlinkH env unit) (run_systemctl env ''daemon-reload'' None None))))
      [OSError, PermissionError, CalledProcessError] (\<lambda>e. remove_unit_file env service) h = (h1, Inr ())"
  shows "map_of (h_files h1) unit = None
    \<or> (\<exists>base. systemctl_command env = Inr base \<and> (base @ [''remove-unit'', service], None) \<in> set (h_cmds h1))"
proof -
  let ?body = "thenH (try_systemctl env ''stop'' service) (thenH (try_systemctl env ''disable'' service)
    (thenH (unlinkH env unit) (run_systemctl env ''daemon-reload'' None None)))"
  show ?thesis
  proof (cases "snd (?body h)")
    case (Inl e)
    then have "remove_unit_file env service (fst (?body h)) = (h1, Inr ())"
      using c by (cases "?body h") (auto simp: catchH_def split: if_splits)
    then show ?thesis
      by (auto simp: remove_unit_file_def bindH_run run_checked_def run_cmd_def raiseH_def split: if_splits)
  next
    case (Inr u)
    then have "?body h = (h1, Inr ())" using c by (cases "?body h") (auto simp: catchH_def)
    then obtain g1 g2 where "unlinkH env unit g1 = (g2, Inr ())" "run_systemctl env ''daemon-reload'' None None g2 = (h1, Inr ())"
      by (auto simp: bindH_run)
    moreover have "h_files h1 = h_files g2" by (rule files.follows_stepD [OF files.systemctl(1) calculation(2)])
    ultimately show ?thesis
      by (auto simp: unlinkH_def map_of_filter_keys [where Q = "\<lambda>q. q \<noteq> unit"] split: sum.splits if_splits)
  qed
qed

text \<open>
  C30. Removing a configuration does all of its work or none: when it returns and the unit's file was on
  disk, the file is gone (or the wrapper was told to remove the unit) and no file is left below the
  directory the configuration was deployed to, with its certificates and keys, given that the files there
  may be removed; every other file stays as it was, the copy that was stored for the panel with its secrets
  included. When the unit's file was not there, nothing at all is done and the deployed files stay too.
\<close>

theorem removed_config_unit:
  assumes run: "remove_config_unit env p cid fn st h = (h', Inr ())"
    and may: "\<And>g q. startswith q (live_dir p cid fn st @ ''/'') \<Longrightarrow> os_write env g q = Inr ()"
    and apart: "\<not> startswith (unit_path_of cid st) (live_dir p cid fn st @ ''/'')"
  shows "if is_file (disk env h) (unit_path_of cid st) = Inr True then
      (map_of (h_files h') (unit_path_of cid st) = None
        \<or> (\<exists>base. systemctl_command env = Inr base
             \<and> (base @ [''remove-unit'', config_service_name cid (service_prefix st)], None) \<in> set (h_cmds h')))
      \<and> (\<forall>q. startswith q (live_dir p cid fn st @ ''/'') \<longrightarrow> map_of (h_files h') q = None)
      \<and> (\<forall>q. \<not> startswith q (live_dir p cid fn st @ ''/'') \<and> q \<noteq> unit_path_of cid st \<longrightarrow> map_of (h_files h') q = map_of (h_files h) q)
    else h' = h"
proof (cases "is_file (disk env h) (unit_path_of cid st) = Inr True")
  case False
  then show ?thesis
    using run by (auto simp: remove_config_unit_def Let_def bindH_run is_fileH_def unit_path_of_def returnH_def split: if_splits)
next
  case unit: True
  let ?service = "config_service_name cid (service_prefix st)" and ?unit = "unit_path_of cid st"
  let ?body = "thenH (try_systemctl env ''stop'' ?service) (thenH (try_systemctl env ''disable'' ?service)
    (thenH (unlinkH env ?unit) (run_systemctl env ''daemon-reload'' None None)))"
  obtain h1 where c: "catchH ?body [OSError, PermissionError, CalledProcessError] (\<lambda>e. remove_unit_file env ?service) h = (h1, Inr ())"
    and r: "rmtree env (live_dir p cid fn st) h1 = (h', Inr ())"
    using run unit by (auto simp: remove_config_unit_def Let_def bindH_run is_fileH_def unit_path_of_def live_dir_def)
  have h': "h' = h1\<lparr>h_files := filter (\<lambda>f. \<not> startswith (fst f) (live_dir p cid fn st @ ''/'') \<or> isl (os_write env h1 (fst f))) (h_files h1)\<rparr>"
    using r by (simp add: rmtree_def)
  have gone: "map_of (h_files h1) ?unit = None \<or> (\<exists>base. systemctl_command env = Inr base
       \<and> (base @ [''remove-unit'', ?service], None) \<in> set (h_cmds h1))"
    by (rule removing_clears [OF c])
  have files': "h_files h' = filter (\<lambda>f. \<not> startswith (fst f) (live_dir p cid fn st @ ''/'') \<or> isl (os_write env h1 (fst f))) (h_files h1)"
    by (simp add: h')
  have "map_of (h_files h') q = (if \<not> startswith q (live_dir p cid fn st @ ''/'') \<or> isl (os_write env h1 q) then map_of (h_files h1) q else None)" for q
    unfolding files'
    by (rule map_of_filter_keys [where Q = "\<lambda>q. \<not> startswith q (live_dir p cid fn st @ ''/'') \<or> isl (os_write env h1 q)"])
  moreover have "h_cmds h' = h_cmds h1" by (simp add: h')
  moreover have "map_of (h_files h1) q = map_of (h_files h) q" if "q \<noteq> ?unit" for q
    using touchesD [OF removing_keeps c] that by blast
  ultimately show ?thesis using gone may apart unit by auto
qed

text \<open>A configuration whose unit file is not there keeps its deployed files.\<close>

lemma remove_without_unit: "is_file (disk env h) (unit_path_of cid st) = Inr False \<Longrightarrow> remove_config_unit env p cid fn st h = (h, Inr ())"
  by (simp add: remove_config_unit_def Let_def bindH_def is_fileH_def unit_path_of_def returnH_def)

section \<open>A concrete deployment\<close>

definition demo_tls_profile :: vpn_profile_settings where
  "demo_tls_profile = empty_profile\<lparr>template_file := ''t.yaml'', config_filename := ''config.yaml'', cert_prefix := Some ''hysteria''\<rparr>"

definition demo_unit_settings :: panel_settings where
  "demo_unit_settings = demo_settings\<lparr>systemd := (systemd demo_settings)\<lparr>per_config := True\<rparr>,
     profiles := [(''hysteria2'', demo_tls_profile)]\<rparr>"

definition demo_built :: build_result where
  "demo_built = \<lparr>br_config = demo_hysteria, br_port = 8443, br_private_key = ''key'', br_public_key = ''cert'',
     br_fingerprint = ''fp'', br_client_id = None, br_extra_files = [(''cert'', ''PEM 1''), (''key'', ''PEM 2'')]\<rparr>"

lemma demo_writes: "snd (atomic_write demo_os path c m h) = Inr ()" "snd (mkdirH demo_os d h) = Inr ()"
    "fst (mkdirH demo_os d h) = h" "snd (is_fileH demo_os q h) = Inr (file_content (h_files h) q \<noteq> None)"
  by (simp_all add: atomic_write_def mkdirH_def demo_os_def is_fileH_def disk_def)

lemma demo_systemctl: "snd (run_systemctl demo_os a s i h) = Inr ()"
proof -
  have "systemctl_command demo_os = Inr [''systemctl'']" by code_simp
  then show ?thesis
    unfolding run_systemctl_def run_checked_def bindH_def liftH_def run_cmd_def demo_os_def demo_run_def returnH_def by simp
qed

lemma demo_reload: "snd (reload_service demo_os s h) = Inr ()"
proof -
  have "systemctl_action demo_os = Inr ''restart''" by code_simp
  then show ?thesis unfolding reload_service_def bindH_def liftH_def by (simp add: demo_systemctl)
qed

lemma demo_install:
  assumes "0 < service_ready_timeout_seconds st" "0 < service_ready_max_wait_seconds st"
  shows "snd (install_config_unit demo_os p cid fn nm st h) = Inr (config_service_name cid (service_prefix st))"
proof -
  have w: "snd (catchH (atomic_write demo_os path c 420) ks f h) = Inr ()" for path c ks f h
    using demo_writes(1) [of path c 420 h] by (cases "atomic_write demo_os path c 420 h") (auto simp: catchH_def)
  have e: "snd ((if present then returnH () else enable_service demo_os s) h) = Inr ()" for present s h
    by (simp add: enable_service_def demo_systemctl)
  show ?thesis
    unfolding install_config_unit_def Let_def
    by (rule bindH_next [OF demo_writes(4)], rule bindH_next [OF w], rule bindH_next [OF demo_systemctl],
        rule bindH_next [OF e], rule bindH_next [OF demo_reload], rule bindH_next [OF demo_ready [OF assms]]) simp
qed

definition demo_live_dir :: string where
  "demo_live_dir = ''/usr/local/etc/hysteria/configs/00000000-0000-0000-0000-000000000005''"

definition demo_deployed :: json where
  "demo_deployed = JDict [(''auth'', JDict [(''password'', JStr ''placeholder'')]), (''listen'', JStr '':8443''),
       (''tls'', JDict [(''sni'', JStr ''''), (''cert'', JStr (demo_live_dir @ ''/hysteria-cert.pem'')),
         (''key'', JStr (demo_live_dir @ ''/hysteria-key.pem''))])]"

lemma demo_unit_profile: "profile_settings_of demo_unit_settings HYSTERIA2 = Inr demo_tls_profile"
  by (simp add: profile_settings_of_def demo_unit_settings_def)

text \<open>On this machine a deployment succeeds whenever its certificate files can be written.\<close>

lemma demo_write_files:
  assumes "snd (write_certificates demo_os HYSTERIA2 demo_tls_profile
      (cert_base_of demo_tls_profile (Some (live_config_path HYSTERIA2 cid (config_filename demo_tls_profile) (systemd demo_unit_settings)))
        (path_join (paths_configs demo_unit_settings) (uuid_str cid))) res h) = Inr config"
  shows "snd (write_files demo_os demo_unit_settings HYSTERIA2 cid res nm h) = Inr config"
proof -
  let ?live = "live_config_path HYSTERIA2 cid (config_filename demo_tls_profile) (systemd demo_unit_settings)"
  have per: "per_config (systemd demo_unit_settings)" by (simp add: demo_unit_settings_def)
  have act: "snd (activate demo_os demo_unit_settings HYSTERIA2 demo_tls_profile cid nm (Some ?live) body h) = Inr ()" for body h
    unfolding activate_def option.case
    by (rule bindH_next [OF demo_writes(1)], rule bindH_next [OF demo_install]) (simp_all add: demo_unit_settings_def demo_settings_def)
  show ?thesis
    apply (simp only: write_files_def Let_def per if_True option.case)
    apply (rule bindH_next [where x = demo_tls_profile])
     apply (simp add: liftH_def demo_unit_profile)
    apply (rule bindH_next [OF demo_writes(2)])
    apply (rule bindH_next [OF demo_writes(2)])
    apply (rule bindH_next [where x = config])
     apply (simp add: demo_writes(3) liftH_def demo_unit_profile assms)
    apply (rule bindH_next [OF demo_writes(1)])
    apply (rule bindH_next [OF act])
    by (simp add: bindH_def returnH_def)
qed

lemma demo_deploy: "\<exists>h'. write_files demo_os demo_unit_settings HYSTERIA2 5 demo_built ''home'' demo_host = (h', Inr demo_deployed)"
proof -
  have "snd (write_files demo_os demo_unit_settings HYSTERIA2 5 demo_built ''home'' demo_host) = Inr demo_deployed"
    by (rule demo_write_files) code_simp
  then show ?thesis by (cases "write_files demo_os demo_unit_settings HYSTERIA2 5 demo_built ''home'' demo_host") auto
qed

theorem deployed_config_witness:
  "\<exists>h'. write_files demo_os demo_unit_settings HYSTERIA2 5 demo_built ''home'' demo_host = (h', Inr demo_deployed)
    \<and> map_of (h_files h') (demo_live_dir @ ''/config.yaml'') = Some (File 384 (config_body demo_os HYSTERIA2 demo_deployed))
    \<and> serving demo_os ''vpn-00000000-0000-0000-0000-000000000005'' HYSTERIA2 (systemd demo_unit_settings)"
proof -
  obtain h' where run: "write_files demo_os demo_unit_settings HYSTERIA2 5 demo_built ''home'' demo_host = (h', Inr demo_deployed)"
    using demo_deploy by blast
  have "unit_path_of 5 (systemd demo_unit_settings) \<noteq> stored_path demo_unit_settings demo_tls_profile 5
    \<and> Some (unit_path_of 5 (systemd demo_unit_settings)) \<noteq> run_path demo_unit_settings demo_tls_profile HYSTERIA2 5"
    by code_simp
  note t = deployed_config [OF run demo_unit_profile this]
  have "run_path demo_unit_settings demo_tls_profile HYSTERIA2 5 = Some (demo_live_dir @ ''/config.yaml'')"
    "run_service demo_unit_settings demo_tls_profile 5 = ''vpn-00000000-0000-0000-0000-000000000005''" by code_simp+
  then show ?thesis using t run by auto
qed

theorem deployed_certificates_witness:
  "\<exists>h'. write_files demo_os demo_unit_settings HYSTERIA2 5 demo_built ''home'' demo_host = (h', Inr demo_deployed)
    \<and> file_content (h_files h') (demo_live_dir @ ''/hysteria-cert.pem'') = Some (''PEM 1'' @ newline)
    \<and> file_content (h_files h') (demo_live_dir @ ''/hysteria-key.pem'') = Some (''PEM 2'' @ newline)"
proof -
  obtain h' where run: "write_files demo_os demo_unit_settings HYSTERIA2 5 demo_built ''home'' demo_host = (h', Inr demo_deployed)"
    using demo_deploy by blast
  have extra: "br_extra_files demo_built = [(''cert'', ''PEM 1''), (''key'', ''PEM 2'')]" by (simp add: demo_built_def)
  have named: "named_tls HYSTERIA2 demo_deployed = Inr (Some (JStr (demo_live_dir @ ''/hysteria-cert.pem''), JStr (demo_live_dir @ ''/hysteria-key.pem'')))"
    by (simp add: named_tls_def demo_deployed_def)
  have base: "\<not> endswith (cert_base demo_unit_settings demo_tls_profile HYSTERIA2 5) ''/''"
    and plain: "CHR ''/'' \<notin> set (cert_prefix_of demo_tls_profile)"
    and apart: "set (pem_paths demo_os (cert_base demo_unit_settings demo_tls_profile HYSTERIA2 5) (cert_prefix_of demo_tls_profile))
      \<inter> set (config_paths demo_unit_settings demo_tls_profile HYSTERIA2 5) = {}"
    by code_simp+
  have "pem_body ''PEM 1'' = ''PEM 1'' @ newline" "pem_body ''PEM 2'' = ''PEM 2'' @ newline" by code_simp+
  then show ?thesis using deployed_certificates [OF run demo_unit_profile extra named base plain apart] run by auto
qed


theorem render_unit_lines_witness:
  "filter (\<lambda>l. startswith l ''ExecStart='') (split_on CHR 0x0A (render_unit XRAY_REALITY ''vpn-1'' ''/c.json'' ''home'' (systemd demo_settings)))
    = [''ExecStart=/usr/local/bin/xray run -config /c.json'']"
proof -
  have "CHR 0x0A \<notin> set (''home'' @ ''vpn-1'' @ unit_exec_start XRAY_REALITY ''/c.json'' (systemd demo_settings))" by code_simp
  from render_unit_lines [OF this] show ?thesis by (simp add: unit_exec_start_def demo_settings_def)
qed

definition demo_stored_copy :: string where
  "demo_stored_copy = ''/opt/vpn/configs/00000000-0000-0000-0000-000000000005/config.yaml''"

definition demo_installed :: host where
  "demo_installed = \<lparr>h_files = [(''/etc/systemd/system/vpn-00000000-0000-0000-0000-000000000005.service'', File 420 ''unit''),
     (demo_live_dir @ ''/config.yaml'', File 384 ''secret''), (demo_stored_copy, File 384 ''secret'')], h_cmds = [], h_clock = 0\<rparr>"

theorem removed_config_unit_witness:
  "\<exists>h'. remove_config_unit demo_os HYSTERIA2 5 ''config.yaml'' (systemd demo_unit_settings) demo_installed = (h', Inr ())
    \<and> map_of (h_files h') (demo_live_dir @ ''/config.yaml'') = None \<and> map_of (h_files h') demo_stored_copy = Some (File 384 ''secret'')"
proof -
  have "snd (remove_config_unit demo_os HYSTERIA2 5 ''config.yaml'' (systemd demo_unit_settings) demo_installed) = Inr ()" by code_simp
  then obtain h' where run: "remove_config_unit demo_os HYSTERIA2 5 ''config.yaml'' (systemd demo_unit_settings) demo_installed = (h', Inr ())"
    by (cases "remove_config_unit demo_os HYSTERIA2 5 ''config.yaml'' (systemd demo_unit_settings) demo_installed") auto
  have unit: "is_file (disk demo_os demo_installed) (unit_path_of 5 (systemd demo_unit_settings)) = Inr True"
    and apart: "\<not> startswith (unit_path_of 5 (systemd demo_unit_settings)) (live_dir HYSTERIA2 5 ''config.yaml'' (systemd demo_unit_settings) @ ''/'')"
    and dir: "live_dir HYSTERIA2 5 ''config.yaml'' (systemd demo_unit_settings) = demo_live_dir"
    and off: "\<not> startswith demo_stored_copy (demo_live_dir @ ''/'')" "demo_stored_copy \<noteq> unit_path_of 5 (systemd demo_unit_settings)"
      "map_of (h_files demo_installed) demo_stored_copy = Some (File 384 ''secret'')"
    by code_simp+
  have may: "os_write demo_os g q = Inr ()" for g q by (simp add: demo_os_def)
  have "startswith (demo_live_dir @ ''/config.yaml'') (demo_live_dir @ ''/'')" by code_simp
  with removed_config_unit [OF run may apart] show ?thesis
    using run off by (simp add: dir unit)
qed

end
