(* ===== verification/Runtime.thy ===== *)
theory Runtime
  imports Deploy Store Field_Crypto
begin

text \<open>
  \<open>service_runtime.py\<close> and \<open>service_logs.py\<close> under \<open>panel/infrastructure/vpn\<close>:
  whether the service of a configuration runs and listens, and what its journal holds. Sockets,
  name resolution and the processes the panel starts belong to the operating system: their answers
  are fields of the environment, functions of the state of the machine.
\<close>

section \<open>The network and the processes\<close>

datatype stream = Stderr | Stdout

text \<open>
  \<open>ne_stream\<close> is what reading a stream of the started process up to its end gives; \<open>None\<close>
  when the end never comes, because the process goes on holding the stream open. \<open>ne_poll\<close> is
  its exit code once it has ended, \<open>ne_stops\<close> whether it ends within the three seconds that
  \<open>wait(timeout=3)\<close> gives it after a signal.
\<close>

record net_env =
  ne_os :: os_env
  ne_connects :: "host \<Rightarrow> int \<Rightarrow> bool"
  ne_getaddrinfo :: "host \<Rightarrow> string \<Rightarrow> exn + unit"
  ne_free_port :: "host \<Rightarrow> exn + int"
  ne_which_curl :: "string option"
  ne_temp :: "host \<Rightarrow> string \<Rightarrow> string"
  ne_popen :: "host \<Rightarrow> string list \<Rightarrow> exn + unit"
  ne_poll :: "host \<Rightarrow> int option"
  ne_stream :: "host \<Rightarrow> stream \<Rightarrow> (exn + string) option"
  ne_stops :: "host \<Rightarrow> string \<Rightarrow> bool"
  ne_draw :: nat
  ne_cipher :: cipher

definition is_tcp_port_open :: "net_env \<Rightarrow> int \<Rightarrow> bool action" where
  "is_tcp_port_open env port h =
     (h, if 0 \<le> port \<and> port \<le> 65535 then Inr (ne_connects env h port)
         else raise OverflowError ''connect_ex(): port must be 0-65535.'')"

section \<open>Is a configuration being served?\<close>

record runtime_probe =
  rp_online :: "bool option"
  rp_systemd_active :: "bool option"
  rp_port_listening :: "bool option"
  rp_detail :: "string option"

definition service_name_for_config :: "uuid \<Rightarrow> config_profile \<Rightarrow> panel_settings \<Rightarrow> string option" where
  "service_name_for_config config_id p st =
     (if per_config (systemd st) then Some (config_service_name config_id (service_prefix (systemd st)))
      else map_option service_name (map_of (profiles st) (profile_value p)))"

definition unknown_runtime :: "string \<Rightarrow> runtime_probe" where
  "unknown_runtime detail =
     \<lparr>rp_online = None, rp_systemd_active = None, rp_port_listening = None, rp_detail = Some detail\<rparr>"

definition runtime_verdict :: "config_profile \<Rightarrow> int option \<Rightarrow> bool \<Rightarrow> bool option \<Rightarrow> runtime_probe" where
  "runtime_verdict p port active listening =
     (let (online, detail) =
        (if p = HYSTERIA2 \<or> port = None then (active, if active then None else Some ''service not running'')
         else if active \<and> listening = Some True then (True, None)
         else (False, Some (if \<not> active then ''service not running''
                 else ''port '' @ show_int (the port) @ '' not listening'')))
      in \<lparr>rp_online = Some online, rp_systemd_active = Some active, rp_port_listening = listening, rp_detail = detail\<rparr>)"

definition probe_config_runtime :: "net_env \<Rightarrow> uuid \<Rightarrow> config_profile \<Rightarrow> int option \<Rightarrow> panel_settings \<Rightarrow> runtime_probe action" where
  "probe_config_runtime env config_id p port st =
     (case service_name_for_config config_id p st of
        None \<Rightarrow> returnH (unknown_runtime ''service name not configured'')
      | Some service \<Rightarrow>
          bindH (catchH (bindH (systemd_running (ne_os env) service) (\<lambda>a. returnH (Some a))) [OSError] (\<lambda>e. returnH None)) (\<lambda>systemd_active.
          case systemd_active of
            None \<Rightarrow> returnH (unknown_runtime ''systemctl unavailable'')
          | Some active \<Rightarrow>
              bindH (case port of
                  None \<Rightarrow> returnH None
                | Some n \<Rightarrow> if p \<noteq> HYSTERIA2 then bindH (is_tcp_port_open env n) (\<lambda>b. returnH (Some b)) else returnH None) (\<lambda>listening.
              returnH (runtime_verdict p port active listening))))"

section \<open>The journal\<close>

definition clamp_log_lines :: "int option \<Rightarrow> int" where
  "clamp_log_lines n = (case n of None \<Rightarrow> 100 | Some k \<Rightarrow> max 1 (min 500 k))"

definition fetch_unit_journal :: "os_env \<Rightarrow> string \<Rightarrow> int option \<Rightarrow> systemd_settings option \<Rightarrow> (string \<times> bool) action" where
  "fetch_unit_journal env service lines_in st =
     (let n = show_int (clamp_log_lines lines_in) in
      bindH (if (case st of None \<Rightarrow> False | Some s \<Rightarrow> uses_vpn_systemctl_wrapper env \<and> service_managed_by_wrapper service s)
             then bindH (liftH (systemctl_command env)) (\<lambda>base. returnH (base @ [''logs'', service, n]))
             else returnH [''journalctl'', ''-u'', service, ''-n'', n, ''--no-pager'', ''-o'', ''short-iso'']) (\<lambda>cmd.
      catchH
        (bindH (run_cmd env cmd None) (\<lambda>r.
         let text = rstrip (rr_out r); err = strip (rr_err r) in
         returnH (if rr_code r \<noteq> 0
           then (if err \<noteq> [] then err else if text \<noteq> [] then text else ''exit '' @ show_int (rr_code r), False)
           else if text = [] then (''(no journal entries for '' @ service @ '')'', True)
           else (text, True))))
        [OSError, TimeoutExpired]
        (\<lambda>e. returnH (''Failed to read journal for '' @ service @ '': '' @ exn_msg e, False))))"

text \<open>Whatever the machine answers, a journal that is returned has some text.\<close>

lemma bindH_runE: "bindH m f h = (h', Inr y) \<Longrightarrow> (\<And>h1 x. m h = (h1, Inr x) \<Longrightarrow> f x h1 = (h', Inr y) \<Longrightarrow> P) \<Longrightarrow> P"
  by (auto simp: bindH_run)

lemma journal_not_empty:
  assumes "fetch_unit_journal env service n st h = (h', Inr (text, ok))"
  shows "text \<noteq> []"
  using assms unfolding fetch_unit_journal_def Let_def
  by (auto elim!: bindH_runE simp: catchH_def split: prod.splits sum.splits if_splits)

section \<open>What online means\<close>

text \<open>
  A configuration is reported online exactly when its service was running and, for a profile served
  over TCP with a known port, the port then accepted a connection; it is reported unknown only when
  it has no service name or systemd could not be asked.
\<close>

lemma runtime_online:
  assumes "probe_config_runtime env cid p port st h = (h', Inr r)"
  shows "case service_name_for_config cid p st of
      None \<Rightarrow> rp_online r = None
    | Some service \<Rightarrow> (case systemd_running (ne_os env) service h of
        (h1, Inl e) \<Rightarrow> caught_by [OSError] e \<and> rp_online r = None
      | (h1, Inr active) \<Rightarrow> rp_online r = Some (active \<and> (p = HYSTERIA2 \<or> port = None \<or> ne_connects env h1 (the port))))"
  using assms
  by (auto simp: probe_config_runtime_def is_tcp_port_open_def unknown_runtime_def runtime_verdict_def Let_def bindH_def catchH_def
      returnH_def split: option.splits prod.splits sum.splits if_splits)

text \<open>Only asking systemd goes through the machine.\<close>

lemma runtime_host:
  assumes "probe_config_runtime env cid p port st h = (h', Inr r)" "service_name_for_config cid p st = Some service"
  shows "h' = fst (systemd_running (ne_os env) service h)"
  using assms
  by (auto simp: probe_config_runtime_def is_tcp_port_open_def Let_def bindH_def catchH_def
      returnH_def split: option.splits prod.splits sum.splits if_splits)

end
