(* ===== verification/Probe.thy ===== *)
theory Probe
  imports Runtime Share_Links
begin

text \<open>
  \<open>panel/infrastructure/vpn/vpn_connectivity.py\<close>: the panel starts a VPN client for a stored
  version, waits for its local proxy and fetches a page through it. The client's configuration and
  the certificate it trusts are temporary files; results are cached per version. A run that reads the
  output of a client that never ends does not come back, so a run is a partial function.
\<close>

section \<open>Runs that may not come back\<close>

type_synonym ('s, 'a) run = "'s \<Rightarrow> ('s \<times> (exn + 'a)) option"

definition act :: "('s, 'a) act \<Rightarrow> ('s, 'a) run" where
  "act m h = Some (m h)"

definition bindP :: "('s, 'a) run \<Rightarrow> ('a \<Rightarrow> ('s, 'b) run) \<Rightarrow> ('s, 'b) run" where
  "bindP m f h = (case m h of
     None \<Rightarrow> None
   | Some (h1, Inl e) \<Rightarrow> Some (h1, Inl e)
   | Some (h1, Inr x) \<Rightarrow> f x h1)"

definition catchP :: "('s, 'a) run \<Rightarrow> exn_kind list \<Rightarrow> (exn \<Rightarrow> ('s, 'a) run) \<Rightarrow> ('s, 'a) run" where
  "catchP m ks f h = (case m h of
     None \<Rightarrow> None
   | Some (h1, Inl e) \<Rightarrow> if caught_by ks e then f e h1 else Some (h1, Inl e)
   | Some (h1, Inr x) \<Rightarrow> Some (h1, Inr x))"

text \<open>\<open>try: m finally: f\<close>: an exception of the clean-up replaces the outcome.\<close>

definition finallyP :: "('s, 'a) run \<Rightarrow> ('s, unit) act \<Rightarrow> ('s, 'a) run" where
  "finallyP m f h = (case m h of
     None \<Rightarrow> None
   | Some (h1, r) \<Rightarrow> (case f h1 of (h2, Inl e) \<Rightarrow> Some (h2, Inl e) | (h2, Inr _) \<Rightarrow> Some (h2, r)))"

abbreviation returnP :: "'a \<Rightarrow> ('s, 'a) run" where
  "returnP x \<equiv> act (returnH x)"

text \<open>What the runs that come back follow.\<close>

definition run_follows :: "('s \<Rightarrow> 's \<Rightarrow> bool) \<Rightarrow> ('s, 'a) run \<Rightarrow> bool" where
  "run_follows R m \<longleftrightarrow> (\<forall>h h' r. m h = Some (h', r) \<longrightarrow> R h h')"

lemma run_followsI: "(\<And>h h' r. m h = Some (h', r) \<Longrightarrow> R h h') \<Longrightarrow> run_follows R m"
  by (auto simp: run_follows_def)

lemma run_followsD: "run_follows R m \<Longrightarrow> m h = Some (h', r) \<Longrightarrow> R h h'"
  by (auto simp: run_follows_def)

context act_frame
begin

lemma run_act: "follows R m \<Longrightarrow> run_follows R (act m)"
  by (rule run_followsI) (auto simp: act_def dest: follows_stepD)

lemma run_bind:
  assumes "run_follows R m" "\<And>x. run_follows R (f x)"
  shows "run_follows R (bindP m f)"
proof (rule run_followsI)
  fix h h' r assume run: "bindP m f h = Some (h', r)"
  show "R h h'"
  proof (cases "m h")
    case (Some y)
    obtain h1 r1 where y: "y = (h1, r1)" by (cases y)
    have 1: "R h h1" using assms(1) Some y by (auto dest: run_followsD)
    show ?thesis
    proof (cases r1)
      case (Inr x)
      then have "R h1 h'" using run Some y by (auto simp: bindP_def intro: run_followsD [OF assms(2)])
      with 1 show ?thesis by (rule seq)
    qed (use run Some y 1 in \<open>auto simp: bindP_def\<close>)
  qed (use run in \<open>simp add: bindP_def\<close>)
qed

lemma run_catch:
  assumes "run_follows R m" "\<And>e. run_follows R (f e)"
  shows "run_follows R (catchP m ks f)"
proof (rule run_followsI)
  fix h h' r assume run: "catchP m ks f h = Some (h', r)"
  obtain h1 r1 where m: "m h = Some (h1, r1)" using run by (cases "m h") (auto simp: catchP_def)
  have 1: "R h h1" using assms(1) m by (rule run_followsD)
  show "R h h'"
  proof (cases "\<exists>e. r1 = Inl e \<and> caught_by ks e")
    case True
    then have "R h1 h'" using run m by (auto simp: catchP_def intro: run_followsD [OF assms(2)])
    with 1 show ?thesis by (rule seq)
  next
    case False
    then have "h' = h1" using run m by (cases r1) (auto simp: catchP_def)
    with 1 show ?thesis by simp
  qed
qed

lemma run_ite: "run_follows R m \<Longrightarrow> run_follows R m' \<Longrightarrow> run_follows R (if c then m else m')"
  by simp

end

section \<open>Where to dial\<close>

record connectivity =
  cn_reachable :: "bool option"
  cn_detail :: "string option"

abbreviation unreachable :: "string \<Rightarrow> connectivity" where
  "unreachable detail \<equiv> \<lparr>cn_reachable = Some False, cn_detail = Some detail\<rparr>"

abbreviation not_probed :: "string \<Rightarrow> connectivity" where
  "not_probed detail \<equiv> \<lparr>cn_reachable = None, cn_detail = Some detail\<rparr>"

definition loopback_names :: "string list" where
  "loopback_names = [''127.0.0.1'', ''::1'', ''localhost'']"

definition stripped :: "string option \<Rightarrow> string" where
  "stripped s = strip (the_or '''' s)"

definition probe_allow_loopback :: "version_snapshot \<Rightarrow> panel_settings \<Rightarrow> bool" where
  "probe_allow_loopback snapshot st = (case map_of (profiles st) (profile_value (snap_profile snapshot)) of
     None \<Rightarrow> True
   | Some ps \<Rightarrow> \<not> truthy_port (share_public_port ps)
       \<and> stripped (case some_text (snap_share_host snapshot) of Some s \<Rightarrow> Some s | None \<Rightarrow> profile_share_host ps) = [])"

definition probe_prefer_host :: "version_snapshot \<Rightarrow> panel_settings \<Rightarrow> string option" where
  "probe_prefer_host snapshot st =
     (let own = stripped (snap_share_host snapshot);
          of_profile = (case map_of (profiles st) (profile_value (snap_profile snapshot)) of
            None \<Rightarrow> '''' | Some ps \<Rightarrow> stripped (profile_share_host ps)) in
      if own \<noteq> [] then Some own
      else if of_profile \<noteq> [] then Some of_profile
      else if \<not> probe_allow_loopback snapshot st then None
      else some_text (Some (strip (public_host st))))"

fun add_hosts :: "string list \<Rightarrow> string list \<Rightarrow> string list" where
  "add_hosts hosts [] = hosts"
| "add_hosts hosts (candidate # rest) =
     (let v = strip candidate in add_hosts (if v \<noteq> [] \<and> v \<notin> set hosts then hosts @ [v] else hosts) rest)"

definition probe_connect_hosts :: "panel_settings \<Rightarrow> string option \<Rightarrow> bool \<Rightarrow> string list" where
  "probe_connect_hosts st prefer_host allow_loopback =
     (let prefer = stripped prefer_host; hosts = (if prefer \<noteq> [] then [prefer] else []) in
      if \<not> allow_loopback then hosts else add_hosts hosts [public_host st, ''127.0.0.1''])"

definition probe_dial_port :: "version_snapshot \<Rightarrow> string \<Rightarrow> panel_settings \<Rightarrow> int" where
  "probe_dial_port snapshot host st =
     (if strip host \<in> set loopback_names then snap_port snapshot
      else case Option.bind (map_of (profiles st) (profile_value (snap_profile snapshot))) share_public_port of
        Some p \<Rightarrow> p | None \<Rightarrow> snap_port snapshot)"

definition host_resolves :: "net_env \<Rightarrow> string \<Rightarrow> bool action" where
  "host_resolves env host =
     catchH (bindH (\<lambda>h. (h, ne_getaddrinfo env h host)) (\<lambda>_. returnH True)) [OSError] (\<lambda>_. returnH False)"

section \<open>The client's configuration\<close>

definition plaintext_config_data :: "net_env \<Rightarrow> version_snapshot \<Rightarrow> exn + json" where
  "plaintext_config_data env snapshot =
     (if snap_profile snapshot \<noteq> HYSTERIA2 then Inr (snap_config_data snapshot)
      else decrypt_config_data_fields (ne_cipher env) (snap_config_data snapshot) (sensitive_fields (snap_profile snapshot)))"

text \<open>The server name, unless it is empty.\<close>

definition tls_sni :: "json \<Rightarrow> string \<Rightarrow> exn + string" where
  "tls_sni tls host = bindR (jget tls ''serverName'' JNull) (\<lambda>n.
     let sni = strip (py_str (jor n (JStr ''''))) in Inr (if sni \<noteq> [] then sni else host))"

definition pinned :: "string \<Rightarrow> (string \<times> json) list" where
  "pinned fp = (let pin = pin_hex fp in
     if pin \<noteq> [] then [(''pinnedPeerCertSha256'', JStr pin)] else [])"

text \<open>The entries of \<open>streamSettings\<close> after its network and security, by profile.\<close>

definition reality_client :: "nat \<Rightarrow> version_snapshot \<Rightarrow> json \<Rightarrow> exn + json" where
  "reality_client r snapshot stream =
     bindR (jitem stream ''realitySettings'') (\<lambda>reality.
     bindR (reality_share_sni r reality) (\<lambda>sni.
     bindR (jitem reality ''shortIds'') (\<lambda>ids.
     bindR (jindex ids 0) (\<lambda>short_id.
     Inr (JDict [(''serverName'', JStr sni), (''fingerprint'', JStr ''chrome''),
       (''publicKey'', JStr (snap_public_key snapshot)), (''shortId'', JStr (py_str short_id))])))))"

definition grpc_client :: "version_snapshot \<Rightarrow> string \<Rightarrow> json \<Rightarrow> exn + (string \<times> json) list" where
  "grpc_client snapshot host stream =
     bindR (jitem stream ''tlsSettings'') (\<lambda>tls.
     bindR (jitem stream ''grpcSettings'') (\<lambda>grpc.
     bindR (tls_sni tls host) (\<lambda>sni.
     bindR (jget grpc ''serviceName'' (JStr '''')) (\<lambda>service.
     Inr [(''tlsSettings'', JDict ([(''serverName'', JStr sni), (''fingerprint'', JStr ''randomized'')]
            @ pinned (snap_cert_fingerprint snapshot))),
          (''grpcSettings'', JDict [(''serviceName'', service)])]))))"

definition xhttp_client :: "version_snapshot \<Rightarrow> string \<Rightarrow> json \<Rightarrow> exn + (string \<times> json) list" where
  "xhttp_client snapshot host stream =
     bindR (jitem stream ''xhttpSettings'') (\<lambda>xhttp.
     bindR (jget stream ''tlsSettings'' JNull) (\<lambda>tls0.
     let tls = jor tls0 (JDict []) in
     bindR (tls_sni tls host) (\<lambda>sni.
     bindR (jget tls ''alpn'' JNull) (\<lambda>alpn0.
     bindR (jiter (jor alpn0 (JList [JStr ''h2'', JStr ''http/1.1'']))) (\<lambda>alpn.
     bindR (jget xhttp ''host'' (JStr host)) (\<lambda>xhost.
     bindR (jget xhttp ''path'' (JStr ''/'')) (\<lambda>path.
     bindR (jget xhttp ''mode'' (JStr ''stream-up'')) (\<lambda>mode.
     Inr [(''tlsSettings'', JDict ([(''serverName'', JStr sni), (''fingerprint'', JStr ''chrome''), (''alpn'', JList alpn)]
            @ pinned (snap_cert_fingerprint snapshot))),
          (''xhttpSettings'', JDict [(''host'', xhost), (''path'', path), (''mode'', mode)])]))))))))"

definition client_config :: "int \<Rightarrow> json \<Rightarrow> json" where
  "client_config socks_port outbound =
     JDict [(''log'', JDict [(''loglevel'', JStr ''warning'')]),
       (''inbounds'', JList [JDict [(''tag'', JStr ''socks-in''), (''listen'', JStr ''127.0.0.1''), (''port'', JInt socks_port),
          (''protocol'', JStr ''socks''), (''settings'', JDict [(''udp'', JBool True)])]]),
       (''outbounds'', JList [outbound, JDict [(''tag'', JStr ''direct''), (''protocol'', JStr ''freedom'')]])]"

definition vless_outbound :: "string \<Rightarrow> int \<Rightarrow> (string \<times> json) list \<Rightarrow> (string \<times> json) list \<Rightarrow> json" where
  "vless_outbound host port user_settings stream_settings =
     JDict [(''tag'', JStr ''proxy''), (''protocol'', JStr ''vless''),
       (''settings'', JDict [(''vnext'', JList [JDict [(''address'', JStr host), (''port'', JInt port),
          (''users'', JList [JDict user_settings])]])]),
       (''streamSettings'', JDict stream_settings)]"

definition build_xray_client_config :: "net_env \<Rightarrow> version_snapshot \<Rightarrow> string \<Rightarrow> int \<Rightarrow> panel_settings \<Rightarrow> exn + json" where
  "build_xray_client_config env snapshot host socks_port st =
     bindR (profile_settings_of st (snap_profile snapshot)) (\<lambda>ps.
     bindR (plaintext_config_data env snapshot) (\<lambda>config_data.
     bindR (find_inbound config_data (inbound_tag ps)) (\<lambda>(i, inbound).
     bindR (jitem inbound ''settings'') (\<lambda>settings.
     bindR (jitem settings ''clients'') (\<lambda>clients.
     bindR (jindex clients 0) (\<lambda>client.
     bindR (jitem client ''id'') (\<lambda>client_id.
     bindR (jitem inbound ''streamSettings'') (\<lambda>stream.
     bindR (jitem stream ''network'') (\<lambda>network.
     bindR (jget stream ''security'' (JStr ''none'')) (\<lambda>security.
     let user = [(''id'', JStr (py_str client_id)), (''encryption'', JStr ''none'')];
         outbound = vless_outbound host (probe_dial_port snapshot host st) in
     if snap_profile snapshot = XRAY_REALITY then
       bindR (jget client ''flow'' (JStr ''xtls-rprx-vision'')) (\<lambda>flow.
       bindR (reality_client (ne_draw env) snapshot stream) (\<lambda>reality.
       Inr (client_config socks_port (outbound (user @ [(''flow'', flow)])
         [(''network'', network), (''security'', security), (''realitySettings'', reality)]))))
     else if snap_profile snapshot = XRAY_GRPC then
       bindR (grpc_client snapshot host stream) (\<lambda>extra.
       Inr (client_config socks_port (outbound user ([(''network'', network), (''security'', JStr ''tls'')] @ extra))))
     else if snap_profile snapshot = XRAY_XHTTP then
       bindR (xhttp_client snapshot host stream) (\<lambda>extra.
       Inr (client_config socks_port (outbound user ([(''network'', network), (''security'', JStr ''tls'')] @ extra))))
     else raise ValueError (''Unsupported xray profile: '' @ profile_value (snap_profile snapshot))))))))))))"

definition hysteria_obfs :: "json \<Rightarrow> exn + (string \<times> json) list" where
  "hysteria_obfs config_data =
     bindR (jget config_data ''obfs'' JNull) (\<lambda>obfs0.
     let obfs = jor obfs0 (JDict []) in
     bindR (jget obfs ''type'' (JStr '''')) (\<lambda>type.
     if lower (strip (py_str type)) = ''salamander'' then
       bindR (jget obfs ''salamander'' JNull) (\<lambda>sal.
       bindR (jget (jor sal (JDict [])) ''password'' JNull) (\<lambda>password.
       Inr (if truthy password then [(''obfs'', JDict [(''type'', JStr ''salamander''),
           (''salamander'', JDict [(''password'', JStr (py_str password))])])] else [])))
     else Inr []))"

definition build_hysteria_client_config ::
  "net_env \<Rightarrow> version_snapshot \<Rightarrow> string \<Rightarrow> int \<Rightarrow> panel_settings \<Rightarrow> string option \<Rightarrow> exn + json" where
  "build_hysteria_client_config env snapshot host socks_port st ca_path =
     bindR (plaintext_config_data env snapshot) (\<lambda>config_data.
     bindR (jitem config_data ''auth'') (\<lambda>auth.
     bindR (jitem auth ''password'') (\<lambda>password.
     bindR (hysteria_sni config_data host) (\<lambda>sni.
     let pin = pin_hex (snap_cert_fingerprint snapshot);
         tls = [(''sni'', JStr (py_str sni)), (''insecure'', JBool False)]
           @ (case ca_path of None \<Rightarrow> [] | Some p \<Rightarrow> [(''ca'', JStr p)])
           @ (if pin \<noteq> [] then [(''pinSHA256'', JStr pin)] else []) in
     bindR (hysteria_obfs config_data) (\<lambda>obfs.
     Inr (JDict ([(''server'', JStr (host @ '':'' @ show_int (probe_dial_port snapshot host st))),
       (''auth'', JStr (py_str password)), (''tls'', JDict tls),
       (''socks5'', JDict [(''listen'', JStr (''127.0.0.1:'' @ show_int socks_port))]),
       (''log'', JDict [(''level'', JStr ''warn'')])] @ obfs)))))))"


section \<open>The client process\<close>

text \<open>A temporary file with an unused name, and its removal.\<close>

definition temp_file :: "net_env \<Rightarrow> string \<Rightarrow> string \<Rightarrow> string action" where
  "temp_file env suffix body h =
     (let path = ne_temp env h suffix in
      case os_write (ne_os env) h path of
        Inl e \<Rightarrow> (h, Inl e)
      | Inr _ \<Rightarrow> (h\<lparr>h_files := dict_set path (File 384 body) (h_files h)\<rparr>, Inr path))"

definition unlink_missing_ok :: "net_env \<Rightarrow> string \<Rightarrow> unit action" where
  "unlink_missing_ok env path h = (case os_write (ne_os env) h path of
     Inl e \<Rightarrow> (h, Inl e)
   | Inr _ \<Rightarrow> (h\<lparr>h_files := filter (\<lambda>f. fst f \<noteq> path) (h_files h)\<rparr>, Inr ()))"

definition write_temp_ca :: "net_env \<Rightarrow> string \<Rightarrow> string action" where
  "write_temp_ca env pem =
     temp_file env ''.pem'' (if endswith pem newline then pem else pem @ newline)"

definition popen :: "net_env \<Rightarrow> string list \<Rightarrow> unit action" where
  "popen env cmd h = (h\<lparr>h_cmds := h_cmds h @ [(cmd, None)]\<rparr>, ne_popen env h cmd)"

definition terminate_process :: "net_env \<Rightarrow> unit action" where
  "terminate_process env h =
     (h, if ne_poll env h \<noteq> None \<or> ne_stops env h ''SIGTERM'' \<or> ne_stops env h ''SIGKILL'' then Inr () else raise TimeoutExpired '''')"

function wait_for_port :: "net_env \<Rightarrow> int \<Rightarrow> int \<Rightarrow> bool action" where
  "wait_for_port env port deadline h =
     (if h_clock h \<ge> deadline then (h, Inr False)
      else case is_tcp_port_open env port h of
          (h1, Inl e) \<Rightarrow> (h1, Inl e)
        | (h1, Inr up) \<Rightarrow>
            if up then (h, Inr True)
            else if ne_poll env h \<noteq> None then (h, Inr False)
            else wait_for_port env port deadline (h\<lparr>h_clock := h_clock h + 200000\<rparr>))"
  by auto
termination
  by (relation "measure (\<lambda>(env, port, deadline, h). nat (deadline - h_clock h))") auto

declare wait_for_port.simps [simp del]

definition read_stream :: "net_env \<Rightarrow> stream \<Rightarrow> (host, string) run" where
  "read_stream env s h = (case ne_stream env h s of
     None \<Rightarrow> None
   | Some r \<Rightarrow> Some (catchH (bindH (liftH r) (\<lambda>t. returnH (strip t))) [OSError] (\<lambda>_. returnH '''') h))"

text \<open>The last \<open>n\<close> characters.\<close>

definition tail_of :: "nat \<Rightarrow> string \<Rightarrow> string" where
  "tail_of n s = drop (length s - n) s"

definition read_process_tail :: "net_env \<Rightarrow> (host, string) run" where
  "read_process_tail env =
     bindP (read_stream env Stderr) (\<lambda>err.
     bindP (read_stream env Stdout) (\<lambda>out.
     returnP (tail_of 240 (strip (join '' | '' (filter (\<lambda>t. t \<noteq> []) [err, out]))))))"

definition socks_start_failure_detail :: "net_env \<Rightarrow> string \<Rightarrow> (host, string) run" where
  "socks_start_failure_detail env host =
     bindP (\<lambda>h. Some (h, Inr (ne_poll env h))) (\<lambda>exit_code.
     bindP (read_process_tail env) (\<lambda>tail.
     let detail = (case exit_code of
           Some code \<Rightarrow> ''probe client exited ('' @ show_int code @ '') host='' @ host
         | None \<Rightarrow> ''local socks proxy did not start (host='' @ host @ '')'') in
     returnP (take 240 (if tail \<noteq> [] then detail @ '': '' @ tail else detail))))"

definition find_curl :: "net_env \<Rightarrow> string option action" where
  "find_curl env =
     bindH (is_fileH (ne_os env) ''/usr/bin/curl'') (\<lambda>a.
     if a then returnH (Some ''/usr/bin/curl'')
     else bindH (is_fileH (ne_os env) ''/bin/curl'') (\<lambda>b.
       returnH (if b then Some ''/bin/curl'' else ne_which_curl env)))"

definition curl_via_socks :: "net_env \<Rightarrow> int \<Rightarrow> string \<Rightarrow> int \<Rightarrow> (bool \<times> string) action" where
  "curl_via_socks env port url timeout_us =
     bindH (find_curl env) (\<lambda>found. case found of
       None \<Rightarrow> returnH (False, ''curl not found'')
     | Some curl \<Rightarrow>
         catchH
           (bindH (run_cmd (ne_os env) [curl, ''-fsS'', ''--max-time'', show_int (max 1 (timeout_us div 1000000)), ''-x'',
               ''socks5h://127.0.0.1:'' @ show_int port, url] None) (\<lambda>r.
            let err = strip (rr_err r) in
            returnH (if rr_code r \<noteq> 0 then (False, take 240 (if err \<noteq> [] then err else ''curl failed'')) else (True, ''''))))
           [OSError, TimeoutExpired]
           (\<lambda>e. returnH (False, if caught_by [TimeoutExpired] e then ''connectivity probe timed out'' else exn_msg e)))"

text \<open>The body of the \<open>try\<close> once the client has been started.\<close>

definition client_answers :: "net_env \<Rightarrow> int \<Rightarrow> string \<Rightarrow> int \<Rightarrow> string \<Rightarrow> (host, connectivity) run" where
  "client_answers env socks_port host timeout_us probe_url =
     bindP (act (\<lambda>h. wait_for_port env socks_port (h_clock h + min 5000000 timeout_us) h)) (\<lambda>up.
     if \<not> up then bindP (socks_start_failure_detail env host) (\<lambda>d. returnP (unreachable d))
     else bindP (act (sleepH 500000)) (\<lambda>_.
       bindP (act (curl_via_socks env socks_port probe_url timeout_us)) (\<lambda>(ok, detail).
       returnP (if ok then \<lparr>cn_reachable = Some True, cn_detail = None\<rparr>
         else unreachable (if detail \<noteq> [] then detail else ''connectivity probe failed'')))))"

definition run_client_probe :: "net_env \<Rightarrow> string list \<Rightarrow> string \<Rightarrow> int \<Rightarrow> string \<Rightarrow> int \<Rightarrow> string \<Rightarrow> (host, connectivity) run" where
  "run_client_probe env cmd config_path socks_port host timeout_us probe_url h =
     (case popen env cmd h of
        (h1, Inl e) \<Rightarrow>
          finallyP (if caught_by [OSError] e then returnP (unreachable (exn_msg e)) else act (raiseH e))
            (unlink_missing_ok env config_path) h1
      | (h1, Inr _) \<Rightarrow>
          finallyP (catchP (client_answers env socks_port host timeout_us probe_url) [OSError] (\<lambda>e. returnP (unreachable (exn_msg e))))
            (thenH (terminate_process env) (unlink_missing_ok env config_path)) h1)"

section \<open>The probe\<close>

text \<open>One client: its configuration is written, run and removed.\<close>

definition dial :: "net_env \<Rightarrow> panel_settings \<Rightarrow> string \<Rightarrow> (string \<Rightarrow> string list) \<Rightarrow> (int \<Rightarrow> exn + string) \<Rightarrow> string \<Rightarrow> (host, connectivity) run" where
  "dial env st suffix cmd text_for host =
     bindP (act (\<lambda>h. (h, ne_free_port env h))) (\<lambda>socks_port.
     bindP (act (liftH (text_for socks_port))) (\<lambda>body.
     bindP (act (temp_file env suffix body)) (\<lambda>path.
     run_client_probe env (cmd path) path socks_port host (connectivity_probe_timeout_us st) (connectivity_probe_url st))))"

fun dial_hosts ::
  "net_env \<Rightarrow> panel_settings \<Rightarrow> version_snapshot \<Rightarrow> bool \<Rightarrow> (string \<Rightarrow> (host, connectivity) run) \<Rightarrow> string list \<Rightarrow> connectivity \<Rightarrow> (host, connectivity) run" where
  "dial_hosts env st snapshot allow_loopback try_host [] prev = returnP prev"
| "dial_hosts env st snapshot allow_loopback try_host (host # hosts) prev =
     bindP (if \<not> allow_loopback \<and> host \<notin> set loopback_names then act (host_resolves env host) else returnP True) (\<lambda>resolves.
     if \<not> resolves then dial_hosts env st snapshot allow_loopback try_host hosts (unreachable (''DNS failed for '' @ host))
     else bindP (try_host host) (\<lambda>res.
       if cn_reachable res = Some True
       then returnP \<lparr>cn_reachable = Some True,
         cn_detail = Some (''via '' @ host @ '':'' @ show_int (probe_dial_port snapshot host st))\<rparr>
       else dial_hosts env st snapshot allow_loopback try_host hosts res))"

definition probe_targets :: "version_snapshot \<Rightarrow> panel_settings \<Rightarrow> string list" where
  "probe_targets snapshot st =
     probe_connect_hosts st (probe_prefer_host snapshot st) (probe_allow_loopback snapshot st)"

definition no_host_detail :: string where
  "no_host_detail = ''no probe host (set share_public_host or vpn.public_host)''"

definition probe_via_xray :: "net_env \<Rightarrow> version_snapshot \<Rightarrow> panel_settings \<Rightarrow> (host, connectivity) run" where
  "probe_via_xray env snapshot st =
     (let binary = xray_binary (systemd st) in
      bindP (act (is_fileH (ne_os env) binary)) (\<lambda>present.
      if \<not> present then returnP (not_probed ''xray binary not found'')
      else let hosts = probe_targets snapshot st in
        if hosts = [] then returnP (not_probed no_host_detail)
        else dial_hosts env st snapshot (probe_allow_loopback snapshot st)
          (\<lambda>host. dial env st ''.json'' (\<lambda>path. [binary, ''run'', ''-config'', path])
             (\<lambda>port. bindR (build_xray_client_config env snapshot host port st) (\<lambda>c. Inr (json_compact c))) host)
          hosts (unreachable ''connectivity probe failed'')))"

definition probe_via_hysteria :: "net_env \<Rightarrow> version_snapshot \<Rightarrow> panel_settings \<Rightarrow> (host, connectivity) run" where
  "probe_via_hysteria env snapshot st =
     (let binary = hysteria_binary (systemd st) in
      bindP (act (is_fileH (ne_os env) binary)) (\<lambda>present.
      if \<not> present then returnP (not_probed ''hysteria binary not found'')
      else let hosts = probe_targets snapshot st; cert_pem = strip (snap_public_key snapshot) in
        if hosts = [] then returnP (not_probed no_host_detail)
        else if cert_pem = [] then returnP (not_probed ''hysteria certificate missing from snapshot'')
        else bindP (act (write_temp_ca env cert_pem)) (\<lambda>ca_path.
          finallyP
            (dial_hosts env st snapshot (probe_allow_loopback snapshot st)
              (\<lambda>host. dial env st ''.yaml'' (\<lambda>path. [binary, ''client'', ''-c'', path])
                 (\<lambda>port. bindR (build_hysteria_client_config env snapshot host port st (Some ca_path)) (\<lambda>c. Inr (os_yaml_dump (ne_os env) c))) host)
              hosts (unreachable ''connectivity probe failed''))
            (unlink_missing_ok env ca_path))))"

text \<open>The cache: by configuration and version, when the probe began and what it found.\<close>

type_synonym probe_cache = "((uuid \<times> int) \<times> (int \<times> connectivity)) list"

definition cached_probe :: "panel_settings \<Rightarrow> version_snapshot \<Rightarrow> int \<Rightarrow> probe_cache \<Rightarrow> connectivity option" where
  "cached_probe st snapshot now cache =
     (let success_ttl = connectivity_probe_cache_seconds st; failure_ttl = min 15 success_ttl in
      case map_of cache (snap_config_id snapshot, snap_version snapshot) of
        None \<Rightarrow> None
      | Some (cached_at, probe) \<Rightarrow>
          if now - cached_at < micros (if cn_reachable probe = Some True then success_ttl else failure_ttl) then Some probe else None)"

definition probe_version :: "net_env \<Rightarrow> version_snapshot \<Rightarrow> panel_settings \<Rightarrow> (host, connectivity) run" where
  "probe_version env snapshot st h =
     (case (if snap_profile snapshot = HYSTERIA2 then probe_via_hysteria env snapshot st h else probe_via_xray env snapshot st h) of
        Some (h1, Inl e) \<Rightarrow> Some (h1, Inr (unreachable (take 240 (''probe error: '' @ exn_msg e))))
      | r \<Rightarrow> r)"

definition probe_config_connectivity ::
  "net_env \<Rightarrow> version_snapshot \<Rightarrow> panel_settings \<Rightarrow> probe_cache \<Rightarrow> host \<Rightarrow> (probe_cache \<times> host \<times> connectivity) option" where
  "probe_config_connectivity env snapshot st cache h =
     (if \<not> connectivity_probe_enabled st then Some (cache, h, \<lparr>cn_reachable = None, cn_detail = None\<rparr>)
      else case cached_probe st snapshot (h_clock h) cache of
          Some probe \<Rightarrow> Some (cache, h, probe)
        | None \<Rightarrow> (case probe_version env snapshot st h of
            Some (h1, Inr probe) \<Rightarrow>
              Some (dict_set (snap_config_id snapshot, snap_version snapshot) (h_clock h, probe) cache, h1, probe)
          | _ \<Rightarrow> None))"


section \<open>The probe leaves no file behind\<close>

text \<open>
  What the machine must grant: temporary names are unused, temporary files may be written and
  removed, and a client that is killed ends. Without the last the clean-up raises before it removes
  the client's configuration, which holds the credentials of the version.
\<close>

definition tidy_machine :: "net_env \<Rightarrow> bool" where
  "tidy_machine env \<longleftrightarrow> (\<forall>h s. map_of (h_files h) (ne_temp env h s) = None)
    \<and> (\<forall>h h' s. os_write (ne_os env) h' (ne_temp env h s) = Inr ())
    \<and> (\<forall>h. ne_poll env h \<noteq> None \<or> ne_stops env h ''SIGTERM'' \<or> ne_stops env h ''SIGKILL'')"

lemma tidy_machineD:
  assumes "tidy_machine env"
  shows "map_of (h_files h) (ne_temp env h s) = None" "os_write (ne_os env) h' (ne_temp env h s) = Inr ()"
    "ne_poll env h \<noteq> None \<or> ne_stops env h ''SIGTERM'' \<or> ne_stops env h ''SIGKILL''"
  using assms by (auto simp: tidy_machine_def)

abbreviation tidy :: "(host, 'b) run \<Rightarrow> bool" where
  "tidy \<equiv> run_follows (\<lambda>h h'. h_files h' = h_files h)"

lemma filter_fresh: "map_of files p = None \<Longrightarrow> filter (\<lambda>f. fst f \<noteq> p) (dict_set p e files) = files"
  by (induction files) (auto split: if_splits)

lemma terminate_ok: "tidy_machine env \<Longrightarrow> terminate_process env h = (h, Inr ())"
  using tidy_machineD(3) [of env h] by (auto simp: terminate_process_def)

lemma popen_files: "popen env cmd h = (h1, r) \<Longrightarrow> h_files h1 = h_files h"
  by (auto simp: popen_def)

lemma wait_files: "wait_for_port env port d h = (h', r) \<Longrightarrow> h_files h' = h_files h"
proof (induction env port d h rule: wait_for_port.induct)
  case (1 env port d h)
  show ?case
  proof (cases "\<not> d \<le> h_clock h \<and> 0 \<le> port \<and> port \<le> 65535 \<and> \<not> ne_connects env h port \<and> ne_poll env h = None")
    case True
    then have "wait_for_port env port d (h\<lparr>h_clock := h_clock h + 200000\<rparr>) = (h', r)"
      using 1(2) by (subst (asm) wait_for_port.simps) (simp add: is_tcp_port_open_def)
    then show ?thesis
      using True 1(1) [where x = h and y = "Inr False" and b = False] by (simp add: is_tcp_port_open_def)
  next
    case False
    then show ?thesis
      using 1(2) by (subst (asm) wait_for_port.simps) (auto simp: is_tcp_port_open_def split: if_splits)
  qed
qed

lemma tidy_stream: "tidy (read_stream env s)"
  by (rule run_followsI)
    (auto simp: read_stream_def catchH_def bindH_def liftH_def returnH_def split: option.splits sum.splits if_splits)

lemma tidy_tail: "tidy (socks_start_failure_detail env host)"
proof -
  have poll: "tidy (\<lambda>h. Some (h, Inr (ne_poll env h)))" by (rule run_followsI) auto
  show ?thesis
    unfolding socks_start_failure_detail_def read_process_tail_def Let_def
    by (intro files.run_bind files.run_act files.pure tidy_stream poll)
qed

lemma tidy_answers: "tidy (client_answers env port host us url)"
proof -
  have wait: "tidy (act (\<lambda>h. wait_for_port env port (h_clock h + min 5000000 us) h))"
    by (rule run_followsI) (auto simp: act_def dest: wait_files)
  have curl: "follows (\<lambda>h h'. h_files h' = h_files h) (curl_via_socks env port url us)"
  proof -
    have found: "follows (\<lambda>h h'. h_files h' = h_files h) (case c of None \<Rightarrow> m | Some x \<Rightarrow> n x)"
      if "follows (\<lambda>h h'. h_files h' = h_files h) m" "\<And>x. follows (\<lambda>h h'. h_files h' = h_files h) (n x)" for c m n
      using that by (cases c) auto
    show ?thesis
      unfolding curl_via_socks_def find_curl_def Let_def by (intro files.steps found)
  qed
  have pair: "tidy (case x of (ok, detail) \<Rightarrow> f ok detail)" if "\<And>a b. tidy (f a b)" for x f
    using that by (cases x) auto
  show ?thesis
    unfolding client_answers_def
    by (intro files.run_bind files.run_act files.run_ite files.steps tidy_tail wait curl pair)
qed

text \<open>Started with its configuration in place, a client leaves the files as they were without it.\<close>

lemma run_client_removes:
  assumes good: "tidy_machine env"
    and run: "run_client_probe env cmd (ne_temp env h0 s) port host us url h = Some (h', r)"
  shows "h_files h' = filter (\<lambda>f. fst f \<noteq> ne_temp env h0 s) (h_files h)"
proof -
  obtain h1 r1 where p: "popen env cmd h = (h1, r1)" by (cases "popen env cmd h")
  have unlink: "unlink_missing_ok env (ne_temp env h0 s) h2 = (h2\<lparr>h_files := filter (\<lambda>f. fst f \<noteq> ne_temp env h0 s) (h_files h2)\<rparr>, Inr ())" for h2
    by (simp add: unlink_missing_ok_def tidy_machineD(2) [OF good])
  have clean: "thenH (terminate_process env) (unlink_missing_ok env (ne_temp env h0 s)) h2
      = (h2\<lparr>h_files := filter (\<lambda>f. fst f \<noteq> ne_temp env h0 s) (h_files h2)\<rparr>, Inr ())" for h2
    by (simp add: bindH_def terminate_ok [OF good] unlink)
  show ?thesis
  proof (cases r1)
    case (Inl e)
    then show ?thesis
      using run p popen_files [OF p]
      by (auto simp: run_client_probe_def finallyP_def unlink act_def returnH_def raiseH_def split: if_splits)
  next
    case (Inr x)
    have body: "tidy (catchP (client_answers env port host us url) [OSError] (\<lambda>e. returnP (unreachable (exn_msg e))))"
      by (intro files.run_catch tidy_answers files.run_act files.pure)
    obtain h2 r2 where b: "catchP (client_answers env port host us url) [OSError] (\<lambda>e. returnP (unreachable (exn_msg e))) h1 = Some (h2, r2)"
      and h': "h' = h2\<lparr>h_files := filter (\<lambda>f. fst f \<noteq> ne_temp env h0 s) (h_files h2)\<rparr>"
      using run p Inr by (auto simp: run_client_probe_def finallyP_def clean split: option.splits)
    show ?thesis using run_followsD [OF body b] h' popen_files [OF p] by simp
  qed
qed

lemma tidy_dial:
  assumes good: "tidy_machine env"
  shows "tidy (dial env st suffix cmd text_for host)"
proof -
  note fresh = tidy_machineD(1) [OF good] and removable = tidy_machineD(2) [OF good]
  have launch: "tidy (bindP (act (temp_file env suffix body)) (\<lambda>path. run_client_probe env (cmd path) path port host us url))" for body port us url
  proof (rule run_followsI)
    fix h h' r
    assume run: "bindP (act (temp_file env suffix body)) (\<lambda>path. run_client_probe env (cmd path) path port host us url) h = Some (h', r)"
    let ?p = "ne_temp env h suffix"
    have "run_client_probe env (cmd ?p) ?p port host us url (h\<lparr>h_files := dict_set ?p (File 384 body) (h_files h)\<rparr>) = Some (h', r)"
      using run by (simp add: bindP_def act_def temp_file_def Let_def removable)
    from run_client_removes [OF good this] show "h_files h' = h_files h" by (simp add: filter_fresh fresh)
  qed
  show ?thesis
    unfolding dial_def by (intro files.run_bind files.run_act files.steps launch)
qed

lemma tidy_hosts:
  assumes "\<And>host. tidy (try_host host)"
  shows "tidy (dial_hosts env st snapshot allow try_host hosts prev)"
proof (induction hosts arbitrary: prev)
  case (Cons host hosts)
  have resolves: "follows (\<lambda>h h'. h_files h' = h_files h) (host_resolves env host)"
    unfolding host_resolves_def by (intro files.steps)
  show ?case
    unfolding dial_hosts.simps by (intro files.run_bind files.run_act files.run_ite files.steps resolves assms Cons.IH)
qed (simp add: files.run_act files.pure)

lemma tidy_version:
  assumes good: "tidy_machine env"
  shows "tidy (probe_version env snapshot st)"
proof (rule run_followsI)
  note fresh = tidy_machineD(1) [OF good] and removable = tidy_machineD(2) [OF good]
  fix h h' r
  assume run: "probe_version env snapshot st h = Some (h', r)"
  have xray: "tidy (probe_via_xray env snapshot st)"
    unfolding probe_via_xray_def Let_def
    by (intro files.run_bind files.run_act files.run_ite files.steps tidy_hosts tidy_dial [OF good])
  have hysteria: "tidy (probe_via_hysteria env snapshot st)"
  proof -
    have ca: "tidy (bindP (act (write_temp_ca env pem)) (\<lambda>path. finallyP (m path) (unlink_missing_ok env path)))"
      if m: "\<And>path. tidy (m path)" for pem and m :: "string \<Rightarrow> (host, connectivity) run"
    proof (rule run_followsI)
      fix h h' r
      assume run: "bindP (act (write_temp_ca env pem)) (\<lambda>path. finallyP (m path) (unlink_missing_ok env path)) h = Some (h', r)"
      let ?p = "ne_temp env h ''.pem''"
      obtain body where "finallyP (m ?p) (unlink_missing_ok env ?p) (h\<lparr>h_files := dict_set ?p (File 384 body) (h_files h)\<rparr>) = Some (h', r)"
        using run by (auto simp: bindP_def act_def write_temp_ca_def temp_file_def Let_def removable)
      then obtain h2 r2 where "m ?p (h\<lparr>h_files := dict_set ?p (File 384 body) (h_files h)\<rparr>) = Some (h2, r2)"
        "h' = h2\<lparr>h_files := filter (\<lambda>f. fst f \<noteq> ?p) (h_files h2)\<rparr>"
        by (auto simp: finallyP_def unlink_missing_ok_def removable split: option.splits)
      then show "h_files h' = h_files h" using run_followsD [OF m] by (fastforce simp: filter_fresh fresh)
    qed
    show ?thesis
      unfolding probe_via_hysteria_def Let_def
      by (intro files.run_bind files.run_act files.run_ite files.steps ca tidy_hosts tidy_dial [OF good])
  qed
  show "h_files h' = h_files h"
    using run run_followsD [OF xray] run_followsD [OF hysteria]
    by (fastforce simp: probe_version_def split: option.splits sum.splits if_splits)
qed

text \<open>
  C37. A connectivity probe leaves no file behind: when it comes back, whatever it found, the files of
  the machine are what they were, the client's configuration with the credentials of the version and
  the certificate it trusted removed. The machine must give unused names to temporary files, let them
  be removed, and end a client that is killed.
\<close>

theorem probe_leaves_no_file:
  assumes "tidy_machine env" and "probe_config_connectivity env snapshot st cache h = Some (cache', h', p)"
  shows "h_files h' = h_files h"
  using assms(2)
  by (auto simp: probe_config_connectivity_def split: option.splits sum.splits if_splits dest: run_followsD [OF tidy_version [OF assms(1)]])


section \<open>The cache\<close>

text \<open>
  What a probe found is kept for exactly its time to live: asked again within it, for the same
  version, the panel gives the same answer without touching the machine, a success for the configured
  time and anything else for at most fifteen seconds; after it, it probes again. Results of other
  versions are not touched.
\<close>

theorem probe_cached:
  assumes enabled: "connectivity_probe_enabled st" and fresh: "cached_probe st snapshot (h_clock h) cache = None"
    and run: "probe_config_connectivity env snapshot st cache h = Some (cache', h', p)"
  shows "(if h_clock h2 - h_clock h < micros (if cn_reachable p = Some True then connectivity_probe_cache_seconds st
        else min 15 (connectivity_probe_cache_seconds st))
      then probe_config_connectivity env snapshot st cache' h2 = Some (cache', h2, p)
      else cached_probe st snapshot (h_clock h2) cache' = None)
    \<and> (snap_config_id other \<noteq> snap_config_id snapshot \<or> snap_version other \<noteq> snap_version snapshot \<longrightarrow>
        cached_probe st other now cache' = cached_probe st other now cache)"
proof -
  have c: "cache' = dict_set (snap_config_id snapshot, snap_version snapshot) (h_clock h, p) cache"
    using run enabled fresh by (auto simp: probe_config_connectivity_def split: option.splits sum.splits prod.splits)
  have "cached_probe st snapshot (h_clock h2) cache' =
    (if h_clock h2 - h_clock h < micros (if cn_reachable p = Some True then connectivity_probe_cache_seconds st
        else min 15 (connectivity_probe_cache_seconds st)) then Some p else None)"
    by (simp add: cached_probe_def Let_def c)
  moreover have "cached_probe st other now cache' = cached_probe st other now cache"
    if "snap_config_id other \<noteq> snap_config_id snapshot \<or> snap_version other \<noteq> snap_version snapshot"
    using that by (auto simp: cached_probe_def Let_def c)
  ultimately show ?thesis by (simp add: probe_config_connectivity_def enabled)
qed

section \<open>A client that neither listens nor ends\<close>

text \<open>
  When the client is still running after the time it has to open its proxy, the panel reads its error
  output up to its end, which does not come: the request never returns, and the client is not stopped.
\<close>

lemma wait_times_out:
  assumes "0 \<le> port" "port \<le> 65535" "\<And>h. \<not> ne_connects env h port" "\<And>h. ne_poll env h = None"
  shows "snd (wait_for_port env port d h) = Inr False"
  using assms
proof (induction env port d h rule: wait_for_port.induct)
  case (1 env port d h)
  show ?case
  proof (cases "d \<le> h_clock h")
    case False
    then have "snd (wait_for_port env port d (h\<lparr>h_clock := h_clock h + 200000\<rparr>)) = Inr False"
      using 1(1) [where x = h and y = "Inr False" and b = False] 1(2-5) by (simp add: is_tcp_port_open_def)
    then show ?thesis using False 1(2-5) by (subst wait_for_port.simps) (simp add: is_tcp_port_open_def)
  qed (simp add: wait_for_port.simps)
qed

lemma silent_client_hangs:
  assumes "\<And>h. ne_popen env h cmd = Inr ()" and port: "0 \<le> port" "port \<le> 65535" "\<And>h. \<not> ne_connects env h port"
    and alive: "\<And>h. ne_poll env h = None" and open_stream: "\<And>h. ne_stream env h Stderr = None"
  shows "run_client_probe env cmd path port host us url h = None"
proof -
  have "client_answers env port host us url h1 = None" for h1
  proof -
    have "snd (wait_for_port env port (h_clock h1 + min 5000000 us) h1) = Inr False"
      by (rule wait_times_out [OF port alive])
    then show ?thesis
      by (cases "wait_for_port env port (h_clock h1 + min 5000000 us) h1")
        (simp add: client_answers_def bindP_def act_def socks_start_failure_detail_def read_process_tail_def read_stream_def open_stream)
  qed
  then show ?thesis by (simp add: run_client_probe_def popen_def assms(1) finallyP_def catchP_def)
qed

section \<open>Where a probe dials\<close>

text \<open>
  For a profile behind the shared port, a probe dials the public name of the configuration or nothing:
  neither the panel's own name nor the loopback address, which would reach the server past the mux.
\<close>

lemma mux_probe_targets:
  assumes "map_of (profiles st) (profile_value (snap_profile snapshot)) = Some ps" "truthy_port (share_public_port ps)"
  shows "set (probe_targets snapshot st) \<subseteq> {stripped (snap_share_host snapshot), stripped (profile_share_host ps)} - {''''}"
proof -
  have "strip [] = []" by code_simp
  with assms show ?thesis
    by (auto simp: probe_targets_def probe_connect_hosts_def probe_prefer_host_def probe_allow_loopback_def stripped_def Let_def)
qed

text \<open>The obfuscation of the link and of the client come from the same fields.\<close>

lemma obfs_alike:
  assumes "hysteria_obfs_params config = Inr ps" "hysteria_obfs config = Inr extra"
  shows "\<exists>obfs. ps = (case obfs of None \<Rightarrow> [] | Some p \<Rightarrow> [''obfs=salamander'', ''obfs-password='' @ quote [] p])
    \<and> extra = (case obfs of None \<Rightarrow> [] | Some p \<Rightarrow> [(''obfs'', JDict [(''type'', JStr ''salamander''), (''salamander'', JDict [(''password'', JStr p)])])])"
proof (cases "ps = []")
  case True
  with assms show ?thesis
    by (intro exI [of _ None]) (auto simp: hysteria_obfs_params_def hysteria_obfs_def bindR_eq_Inr Let_def split: if_splits)
next
  case False
  with assms obtain password where "ps = [''obfs=salamander'', ''obfs-password='' @ quote [] (py_str password)]"
    "extra = [(''obfs'', JDict [(''type'', JStr ''salamander''), (''salamander'', JDict [(''password'', JStr (py_str password))])])]"
    by (auto simp: hysteria_obfs_params_def hysteria_obfs_def bindR_eq_Inr Let_def split: if_splits)
  then show ?thesis by (intro exI [of _ "Some (py_str password)"]) simp
qed

text \<open>
  The client that is started for a Hysteria2 version carries what the share link of the version carries: the
  password, the obfuscation, the certificate pin, and the server name where it dials the host of the link.
\<close>

lemma client_is_link:
  assumes link: "uris_for_snapshot (ne_cipher env) st r s True = Inr uris"
    and client: "build_hysteria_client_config env s host socks_port st ca = Inr c"
    and ps: "profile_settings_of st HYSTERIA2 = Inr ps" and prof: "snap_profile s = HYSTERIA2"
    and plain: "decrypt_config_data_fields (ne_cipher env) (snap_config_data s) (sensitive_fields HYSTERIA2) = Inr config"
    and port: "(if truthy_port (share_public_port ps) then Inr (the (share_public_port ps)) else hysteria_listen_port config)
      = Inr (probe_dial_port s host st)"
  shows "\<exists>password sni sni' obfs tls. let shared = effective_share_host st ps (snap_share_host s); n = probe_dial_port s host st;
      pin = pin_hex (snap_cert_fingerprint s) in
    uris = [share_uri ''hysteria2'' (quote '''' password) shared n
      ([''sni='' @ quote '''' sni]
       @ (case obfs of None \<Rightarrow> [] | Some p \<Rightarrow> [''obfs=salamander'', ''obfs-password='' @ quote '''' p])
       @ (if pin \<noteq> [] then [''pinSHA256='' @ pin] else []) @ [''insecure=0'']) (share_label HYSTERIA2)]
    \<and> jitem c ''server'' = Inr (JStr (host @ '':'' @ show_int n)) \<and> jitem c ''auth'' = Inr (JStr password)
    \<and> jget c ''obfs'' JNull = Inr (case obfs of None \<Rightarrow> JNull
        | Some p \<Rightarrow> JDict [(''type'', JStr ''salamander''), (''salamander'', JDict [(''password'', JStr p)])])
    \<and> jitem c ''tls'' = Inr tls \<and> jitem tls ''sni'' = Inr (JStr sni') \<and> (host = shared \<longrightarrow> sni' = sni)
    \<and> jitem tls ''insecure'' = Inr (JBool False)
    \<and> jget tls ''pinSHA256'' JNull = Inr (if pin \<noteq> [] then JStr pin else JNull)"
proof -
  let ?host = "effective_share_host st ps (snap_share_host s)" and ?n = "probe_dial_port s host st"
  have u: "build_share_uris r HYSTERIA2 config ?host (snap_public_key s) (snap_cert_fingerprint s) (inbound_tag ps) True (share_public_port ps) = Inr uris"
    using link ps plain by (auto simp: uris_for_snapshot_def build_client_uris_def prof bindR_eq_Inr)
  obtain auth password sni obfs_params where link_parts: "jitem config ''auth'' = Inr auth" "jitem auth ''password'' = Inr (JStr password)"
    "hysteria_sni config ?host = Inr sni" "hysteria_obfs_params config = Inr obfs_params"
    "uris = [share_uri ''hysteria2'' (quote '''' password) ?host ?n
      ([''sni='' @ quote '''' (py_str sni)] @ obfs_params @ hysteria_trust_params (snap_cert_fingerprint s) True) (share_label HYSTERIA2)]"
    using u port by (auto simp: build_share_uris_def build_hysteria2_uri_def hysteria_params_def bindR_eq_Inr quote_json_Inr Let_def)
  obtain sni' obfs_client where parts: "hysteria_sni config host = Inr sni'" "hysteria_obfs config = Inr obfs_client"
    "c = JDict ([(''server'', JStr (host @ '':'' @ show_int ?n)), (''auth'', JStr password),
       (''tls'', JDict ([(''sni'', JStr (py_str sni')), (''insecure'', JBool False)] @ (case ca of None \<Rightarrow> [] | Some p \<Rightarrow> [(''ca'', JStr p)])
           @ (if pin_hex (snap_cert_fingerprint s) \<noteq> [] then [(''pinSHA256'', JStr (pin_hex (snap_cert_fingerprint s)))] else []))),
       (''socks5'', JDict [(''listen'', JStr (''127.0.0.1:'' @ show_int socks_port))]),
       (''log'', JDict [(''level'', JStr ''warn'')])] @ obfs_client)"
    using client link_parts(1,2) by (auto simp: build_hysteria_client_config_def plaintext_config_data_def prof plain bindR_eq_Inr Let_def simp del: sensitive_fields.simps)
  obtain obfs where obfs: "obfs_params = (case obfs of None \<Rightarrow> [] | Some p \<Rightarrow> [''obfs=salamander'', ''obfs-password='' @ quote '''' p])"
    "obfs_client = (case obfs of None \<Rightarrow> [] | Some p \<Rightarrow> [(''obfs'', JDict [(''type'', JStr ''salamander''), (''salamander'', JDict [(''password'', JStr p)])])])"
    using obfs_alike [OF link_parts(4) parts(2)] by blast
  have "host = ?host \<longrightarrow> sni' = sni" using parts(1) link_parts(3) by auto
  then show ?thesis
    unfolding Let_def
    by (intro exI [of _ password] exI [of _ "py_str sni"] exI [of _ "py_str sni'"] exI [of _ obfs])
      (auto simp: link_parts(5) parts(3) obfs hysteria_trust_params_def Let_def split: option.splits)
qed

text \<open>The hosts a probe dials: the one of the share link, or, where no public name or port is set, the loopback address.\<close>

lemma probe_target_link:
  assumes ps: "map_of (profiles st) (profile_value (snap_profile s)) = Some ps"
    and named: "snap_share_host s = None \<or> stripped (snap_share_host s) \<noteq> []" and host: "host \<in> set (probe_targets s st)"
  shows "host = effective_share_host st ps (snap_share_host s)
    \<or> host = ''127.0.0.1'' \<and> \<not> truthy_port (share_public_port ps) \<and> snap_share_host s = None \<and> stripped (profile_share_host ps) = []"
proof -
  have blank: "strip [] = []" "strip ''127.0.0.1'' = ''127.0.0.1''" by code_simp+
  let ?profile = "stripped (profile_share_host ps)"
  show ?thesis
  proof (cases "snap_share_host s")
    case (Some own)
    then have own: "strip own \<noteq> []" "own \<noteq> []" using named blank(1) by (auto simp: stripped_def)
    then have "probe_prefer_host s st = Some (strip own)" "\<not> probe_allow_loopback s st"
      using ps by (simp_all add: probe_prefer_host_def probe_allow_loopback_def Some stripped_def some_text_def)
    then have "host = strip own" using host own by (simp add: probe_targets_def probe_connect_hosts_def stripped_def)
    then show ?thesis using own by (simp add: effective_share_host_def Some)
  next
    case None
    have shared: "effective_share_host st ps None = (if ?profile \<noteq> [] then ?profile
        else if strip (public_host st) \<noteq> [] then strip (public_host st) else ''localhost'')"
      by (simp add: effective_share_host_def stripped_def blank)
    have loop: "probe_allow_loopback s st \<longleftrightarrow> \<not> truthy_port (share_public_port ps) \<and> ?profile = []"
      using ps by (simp add: probe_allow_loopback_def None some_text_def)
    have wanted: "probe_prefer_host s st = (if ?profile \<noteq> [] then Some ?profile
        else if truthy_port (share_public_port ps) then None else some_text (Some (strip (public_host st))))"
      using ps loop by (simp add: probe_prefer_host_def None stripped_def blank)
    show ?thesis
    proof (cases "?profile = []")
      case False
      then have "host = ?profile" using host loop wanted by (simp add: probe_targets_def probe_connect_hosts_def stripped_def)
      then show ?thesis using False by (simp add: None shared)
    next
      case True
      have unshared: "\<not> truthy_port (share_public_port ps)"
        using host loop wanted True by (auto simp: probe_targets_def probe_connect_hosts_def stripped_def blank)
      then have "host \<in> {strip (public_host st), ''127.0.0.1''} - {[]}"
        using host loop wanted True
        by (auto simp: probe_targets_def probe_connect_hosts_def stripped_def blank some_text_def Let_def split: if_splits)
      then show ?thesis using True unshared by (auto simp: None shared)
    qed
  qed
qed

text \<open>A probe that found its page found it through the client it started last.\<close>

lemma bindP_Inr: "bindP m f h = Some (h', Inr y) \<longleftrightarrow> (\<exists>h1 x. m h = Some (h1, Inr x) \<and> f x h1 = Some (h', Inr y))"
  by (auto simp: bindP_def split: option.splits sum.splits)

lemma act_Inr [simp]: "act m h = Some (h', Inr y) \<longleftrightarrow> m h = (h', Inr y)"
  by (simp add: act_def)

lemma dial_hosts_found:
  "dial_hosts env st s loopback try_host hosts prev h = Some (h', Inr r) \<Longrightarrow> cn_reachable r = Some True \<Longrightarrow> cn_reachable prev \<noteq> Some True \<Longrightarrow>
   \<exists>host\<in>set hosts. \<exists>g g' res. try_host host g = Some (g', Inr res) \<and> cn_reachable res = Some True
     \<and> cn_detail r = Some (''via '' @ host @ '':'' @ show_int (probe_dial_port s host st))"
proof (induction hosts arbitrary: prev h)
  case (Cons host hosts)
  from Cons.prems(1) obtain h1 resolves where h1: "(if \<not> resolves then dial_hosts env st s loopback try_host hosts (unreachable (''DNS failed for '' @ host))
     else bindP (try_host host) (\<lambda>res. if cn_reachable res = Some True
       then returnP \<lparr>cn_reachable = Some True, cn_detail = Some (''via '' @ host @ '':'' @ show_int (probe_dial_port s host st))\<rparr>
       else dial_hosts env st s loopback try_host hosts res)) h1 = Some (h', Inr r)"
    unfolding dial_hosts.simps bindP_Inr by blast
  show ?case
  proof (cases resolves)
    case False
    then show ?thesis using h1 Cons.IH Cons.prems(2) by fastforce
  next
    case True
    then obtain g res where g: "try_host host h1 = Some (g, Inr res)"
      and rest: "(if cn_reachable res = Some True
       then returnP \<lparr>cn_reachable = Some True, cn_detail = Some (''via '' @ host @ '':'' @ show_int (probe_dial_port s host st))\<rparr>
       else dial_hosts env st s loopback try_host hosts res) g = Some (h', Inr r)"
      using h1 by (auto simp: bindP_Inr)
    show ?thesis
    proof (cases "cn_reachable res = Some True")
      case True
      then show ?thesis using g rest by (auto simp: returnH_def)
    next
      case False
      then show ?thesis using Cons.IH [of res g] rest Cons.prems(2) by auto
    qed
  qed
qed (simp add: returnH_def)

lemma dial_runs:
  assumes "dial env st suffix cmd text_for host g = Some (g', Inr res)"
  obtains socks_port body path g1 where "text_for socks_port = Inr body" "map_of (h_files g1) path = Some (File 384 body)"
    "run_client_probe env (cmd path) path socks_port host (connectivity_probe_timeout_us st) (connectivity_probe_url st) g1 = Some (g', Inr res)"
proof -
  obtain socks_port body path g1 where d: "text_for socks_port = Inr body" "temp_file env suffix body g = (g1, Inr path)"
    "run_client_probe env (cmd path) path socks_port host (connectivity_probe_timeout_us st) (connectivity_probe_url st) g1 = Some (g', Inr res)"
    using assms by (auto simp: dial_def bindP_Inr liftH_def)
  then have "map_of (h_files g1) path = Some (File 384 body)" by (auto simp: temp_file_def Let_def split: sum.splits)
  with d that show thesis by blast
qed

lemma hysteria_probe_found:
  assumes run: "probe_via_hysteria env s st h = Some (h', Inr r)" and found: "cn_reachable r = Some True"
  obtains host socks_port ca c path g g' res where "host \<in> set (probe_targets s st)"
    "build_hysteria_client_config env s host socks_port st (Some ca) = Inr c"
    "map_of (h_files g) path = Some (File 384 (os_yaml_dump (ne_os env) c))"
    "run_client_probe env [hysteria_binary (systemd st), ''client'', ''-c'', path] path socks_port host
       (connectivity_probe_timeout_us st) (connectivity_probe_url st) g = Some (g', Inr res)"
    "cn_reachable res = Some True" "cn_detail r = Some (''via '' @ host @ '':'' @ show_int (probe_dial_port s host st))"
proof -
  let ?dial = "\<lambda>ca host. dial env st ''.yaml'' (\<lambda>path. [hysteria_binary (systemd st), ''client'', ''-c'', path])
    (\<lambda>port. bindR (build_hysteria_client_config env s host port st (Some ca)) (\<lambda>c. Inr (os_yaml_dump (ne_os env) c))) host"
  obtain ca g0 g1 where "dial_hosts env st s (probe_allow_loopback s st) (?dial ca) (probe_targets s st)
      (unreachable ''connectivity probe failed'') g0 = Some (g1, Inr r)"
  proof -
    obtain present h1 where p: "(if \<not> present then returnP (not_probed ''hysteria binary not found'')
      else if probe_targets s st = [] then returnP (not_probed no_host_detail)
      else if strip (snap_public_key s) = [] then returnP (not_probed ''hysteria certificate missing from snapshot'')
      else bindP (act (write_temp_ca env (strip (snap_public_key s)))) (\<lambda>ca.
        finallyP (dial_hosts env st s (probe_allow_loopback s st) (?dial ca) (probe_targets s st) (unreachable ''connectivity probe failed''))
          (unlink_missing_ok env ca))) h1 = Some (h', Inr r)"
      using run unfolding probe_via_hysteria_def Let_def bindP_Inr by blast
    then obtain ca g0 where "finallyP (dial_hosts env st s (probe_allow_loopback s st) (?dial ca) (probe_targets s st)
        (unreachable ''connectivity probe failed'')) (unlink_missing_ok env ca) g0 = Some (h', Inr r)"
      using found by (auto simp: returnH_def bindP_Inr split: if_splits)
    then show thesis using that by (auto simp: finallyP_def split: option.splits sum.splits prod.splits)
  qed
  then obtain host g g' res where d: "host \<in> set (probe_targets s st)" "?dial ca host g = Some (g', Inr res)" "cn_reachable res = Some True"
    "cn_detail r = Some (''via '' @ host @ '':'' @ show_int (probe_dial_port s host st))"
    using dial_hosts_found [OF _ found] by fastforce
  show thesis
    by (rule dial_runs [OF d(2)]) (use d that in \<open>auto simp: bindR_eq_Inr\<close>)
qed

section \<open>A concrete probe\<close>

text \<open>A machine with both clients and curl, on which every client starts and every page loads.\<close>

definition demo_net :: net_env where
  "demo_net = \<lparr>ne_os = demo_os, ne_connects = (\<lambda>h p. True), ne_getaddrinfo = (\<lambda>h s. Inr ()), ne_free_port = (\<lambda>h. Inr 40000),
     ne_which_curl = Some ''/usr/local/bin/curl'',
     ne_temp = (\<lambda>h s. ''/tmp/'' @ replicate (sum_list (map (length \<circ> fst) (h_files h))) CHR ''t'' @ s),
     ne_popen = (\<lambda>h cmd. Inr ()), ne_poll = (\<lambda>h. None), ne_stream = (\<lambda>h s. Some (Inr '''')), ne_stops = (\<lambda>h s. s = ''SIGKILL''),
     ne_draw = 0, ne_cipher = demo_cipher\<rparr>"

definition demo_probing :: host where
  "demo_probing = demo_host\<lparr>h_files := [(''/usr/local/bin/hysteria'', File 493 ''ELF'')]\<rparr>"

definition demo_stored :: json where
  "demo_stored = JDict [(''auth'', JDict [(''password'', JStr ''g0.placeholder'')]), (''listen'', JStr '':8443''),
     (''tls'', JDict [(''sni'', JStr ''vpn.example'')])]"

definition demo_snap :: version_snapshot where
  "demo_snap = \<lparr>snap_config_id = 5, snap_protocol = HYSTERIA2_PROTOCOL, snap_profile = HYSTERIA2, snap_name = ''home'', snap_version = 1,
     snap_port = 8443, snap_public_key = ''PEM'', snap_cert_fingerprint = ''A1:B2'', snap_config_data = demo_stored, snap_share_host = None\<rparr>"

lemma demo_tidy: "tidy_machine demo_net"
proof -
  have "map_of files (''/tmp/'' @ replicate (sum_list (map (length \<circ> fst) files)) CHR ''t'' @ s) = None"
    for files :: "(string \<times> entry) list" and s
  proof -
    have "length p \<le> sum_list (map (length \<circ> fst) files)" if "(p, e) \<in> set files" for p e
      using member_le_sum_list [of "length p" "map (length \<circ> fst) files"] that by force
    then have "''/tmp/'' @ replicate (sum_list (map (length \<circ> fst) files)) CHR ''t'' @ s \<notin> fst ` set files"
      by fastforce
    then show ?thesis by (simp add: map_of_eq_None_iff)
  qed
  then show ?thesis by (simp add: tidy_machine_def demo_net_def demo_os_def)
qed

lemma demo_client_answers: "\<exists>h'. client_answers demo_net 40000 host 12000000 url h = Some (h', Inr \<lparr>cn_reachable = Some True, cn_detail = None\<rparr>)"
proof -
  have "wait_for_port demo_net 40000 (h_clock h + min 5000000 12000000) h = (h, Inr True)"
    by (subst wait_for_port.simps) (simp add: is_tcp_port_open_def demo_net_def)
  then show ?thesis
    by (auto simp: client_answers_def bindP_def act_def sleepH_def curl_via_socks_def find_curl_def is_fileH_def disk_def bindH_def returnH_def
        catchH_def run_cmd_def demo_net_def demo_os_def demo_run_def)
qed

lemma demo_dial:
  assumes "text_for 40000 = Inr body" "connectivity_probe_timeout_us st = 12000000"
  shows "\<exists>h'. dial demo_net st suffix cmd text_for host h = Some (h', Inr \<lparr>cn_reachable = Some True, cn_detail = None\<rparr>)"
proof -
  have w: "os_write (ne_os demo_net) h p = Inr ()" for h p by (simp add: demo_net_def demo_os_def)
  have f: "ne_free_port demo_net h = Inr 40000" "ne_popen demo_net h c = Inr ()" for h c by (simp_all add: demo_net_def)
  let ?p = "ne_temp demo_net h suffix"
  let ?h1 = "h\<lparr>h_files := dict_set ?p (File 384 body) (h_files h), h_cmds := h_cmds h @ [(cmd ?p, None)]\<rparr>"
  obtain h2 where "client_answers demo_net 40000 host 12000000 (connectivity_probe_url st) ?h1
      = Some (h2, Inr \<lparr>cn_reachable = Some True, cn_detail = None\<rparr>)"
    using demo_client_answers by blast
  then show ?thesis
    by (simp add: dial_def bindP_def act_def liftH_def temp_file_def Let_def w f assms run_client_probe_def popen_def finallyP_def catchP_def
        bindH_def terminate_ok [OF demo_tidy] unlink_missing_ok_def)
qed

lemma demo_via_found:
  assumes bin: "is_file (disk demo_os h) ''/usr/local/bin/hysteria'' = Inr True"
    and snap: "snap_profile s = HYSTERIA2" "snap_share_host s = None" "strip (snap_public_key s) = pem" "pem \<noteq> []"
    and client: "\<And>ca. \<exists>c. build_hysteria_client_config demo_net s ''vpn.example'' 40000 demo_unit_settings (Some ca) = Inr c"
  shows "\<exists>h'. probe_via_hysteria demo_net s demo_unit_settings h = Some (h', Inr \<lparr>cn_reachable = Some True,
    cn_detail = Some (''via vpn.example:'' @ show_int (probe_dial_port s ''vpn.example'' demo_unit_settings))\<rparr>)"
proof -
  let ?st = demo_unit_settings
  have same: "snap_profile s = snap_profile demo_snap" "snap_share_host s = snap_share_host demo_snap"
    by (simp_all add: demo_snap_def snap)
  then have loop: "probe_allow_loopback s ?st = probe_allow_loopback demo_snap ?st" by (simp only: probe_allow_loopback_def)
  with same have "probe_targets s ?st = probe_targets demo_snap ?st" by (simp only: probe_targets_def probe_prefer_host_def)
  moreover have "probe_targets demo_snap ?st = [''vpn.example'', ''127.0.0.1'']" "probe_allow_loopback demo_snap ?st" by code_simp+
  ultimately have targets: "probe_targets s ?st = [''vpn.example'', ''127.0.0.1'']" "probe_allow_loopback s ?st" using loop by simp_all
  have binary: "hysteria_binary (systemd ?st) = ''/usr/local/bin/hysteria''" and us: "connectivity_probe_timeout_us ?st = 12000000"
    by code_simp+
  let ?ca = "ne_temp demo_net h ''.pem''"
  obtain c where c: "build_hysteria_client_config demo_net s ''vpn.example'' 40000 ?st (Some ?ca) = Inr c" using client by blast
  let ?text = "\<lambda>host port. bindR (build_hysteria_client_config demo_net s host port ?st (Some ?ca)) (\<lambda>c. Inr (os_yaml_dump (ne_os demo_net) c))"
  let ?cmd = "\<lambda>path. [''/usr/local/bin/hysteria'', ''client'', ''-c'', path]"
  have w: "os_write demo_os h p = Inr ()" "ne_os demo_net = demo_os" for h p by (simp_all add: demo_net_def demo_os_def)
  obtain pem_body where ca: "write_temp_ca demo_net pem h
      = (h\<lparr>h_files := dict_set ?ca (File 384 pem_body) (h_files h)\<rparr>, Inr ?ca)"
    by (simp add: write_temp_ca_def temp_file_def Let_def w)
  have "\<exists>h2. dial demo_net ?st ''.yaml'' ?cmd (?text ''vpn.example'') ''vpn.example''
      (h\<lparr>h_files := dict_set ?ca (File 384 pem_body) (h_files h)\<rparr>)
      = Some (h2, Inr \<lparr>cn_reachable = Some True, cn_detail = None\<rparr>)"
    by (rule demo_dial [where body = "os_yaml_dump (ne_os demo_net) c"]) (simp_all add: c us)
  then obtain h2 where d: "dial demo_net ?st ''.yaml'' ?cmd (?text ''vpn.example'') ''vpn.example''
      (h\<lparr>h_files := dict_set ?ca (File 384 pem_body) (h_files h)\<rparr>)
      = Some (h2, Inr \<lparr>cn_reachable = Some True, cn_detail = None\<rparr>)" by blast
  show ?thesis
    unfolding probe_via_hysteria_def Let_def targets snap(3)
    using d snap(4) by (simp add: bindP_def act_def is_fileH_def w bin binary ca finallyP_def targets returnH_def unlink_missing_ok_def)
qed

lemma demo_found:
  assumes bin: "is_file (disk demo_os h) ''/usr/local/bin/hysteria'' = Inr True"
  shows "\<exists>cache' h'. probe_config_connectivity demo_net demo_snap demo_unit_settings [] h
    = Some (cache', h', \<lparr>cn_reachable = Some True, cn_detail = Some ''via vpn.example:8443''\<rparr>)"
proof -
  have port: "show_int (probe_dial_port demo_snap ''vpn.example'' demo_unit_settings) = ''8443''"
    and pem: "strip (snap_public_key demo_snap) = ''PEM''"
    by code_simp+
  have "bindR (build_hysteria_client_config demo_net demo_snap ''vpn.example'' 40000 demo_unit_settings (Some ca)) (\<lambda>c. Inr ()) = Inr ()" for ca
    by code_simp
  then have client: "\<exists>c. build_hysteria_client_config demo_net demo_snap ''vpn.example'' 40000 demo_unit_settings (Some ca) = Inr c" for ca
    unfolding bindR_eq_Inr by blast
  have "snap_profile demo_snap = HYSTERIA2" "snap_share_host demo_snap = None" by (simp_all add: demo_snap_def)
  then obtain h' where "probe_via_hysteria demo_net demo_snap demo_unit_settings h
      = Some (h', Inr \<lparr>cn_reachable = Some True, cn_detail = Some ''via vpn.example:8443''\<rparr>)"
    using demo_via_found [OF bin _ _ pem _ client] by (auto simp: port)
  then show ?thesis
    by (simp add: probe_config_connectivity_def probe_version_def cached_probe_def demo_snap_def demo_unit_settings_def demo_settings_def)
qed

lemma demo_binary: "is_file (disk demo_os demo_probing) ''/usr/local/bin/hysteria'' = Inr True"
  by (simp add: disk_def demo_os_def demo_probing_def file_content_def)

theorem probe_leaves_no_file_witness:
  "\<exists>cache' h'. probe_config_connectivity demo_net demo_snap demo_unit_settings [] demo_probing
      = Some (cache', h', \<lparr>cn_reachable = Some True, cn_detail = Some ''via vpn.example:8443''\<rparr>)
    \<and> h_files h' = [(''/usr/local/bin/hysteria'', File 493 ''ELF'')]"
proof -
  obtain cache' h' where run: "probe_config_connectivity demo_net demo_snap demo_unit_settings [] demo_probing
      = Some (cache', h', \<lparr>cn_reachable = Some True, cn_detail = Some ''via vpn.example:8443''\<rparr>)"
    using demo_found [of demo_probing] demo_binary by blast
  show ?thesis using run probe_leaves_no_file [OF demo_tidy run] by (simp add: demo_probing_def)
qed

theorem probe_cached_witness:
  "\<exists>cache' h'. probe_config_connectivity demo_net demo_snap demo_unit_settings [] demo_probing
      = Some (cache', h', \<lparr>cn_reachable = Some True, cn_detail = Some ''via vpn.example:8443''\<rparr>)
    \<and> probe_config_connectivity demo_net demo_snap demo_unit_settings cache' (demo_probing\<lparr>h_clock := 59999999\<rparr>)
      = Some (cache', demo_probing\<lparr>h_clock := 59999999\<rparr>, \<lparr>cn_reachable = Some True, cn_detail = Some ''via vpn.example:8443''\<rparr>)
    \<and> cached_probe demo_unit_settings demo_snap 60000000 cache' = None"
proof -
  obtain cache' h' where run: "probe_config_connectivity demo_net demo_snap demo_unit_settings [] demo_probing
      = Some (cache', h', \<lparr>cn_reachable = Some True, cn_detail = Some ''via vpn.example:8443''\<rparr>)"
    using demo_found [of demo_probing] demo_binary by blast
  have set: "connectivity_probe_enabled demo_unit_settings" "connectivity_probe_cache_seconds demo_unit_settings = 60"
    by (simp_all add: demo_unit_settings_def demo_settings_def)
  have none: "cached_probe demo_unit_settings demo_snap (h_clock demo_probing) [] = None" by (simp add: cached_probe_def)
  have at: "h_clock demo_probing = 0" by (simp add: demo_probing_def demo_host_def)
  show ?thesis
    using run probe_cached [OF set(1) none run, where ?h2.0 = "demo_probing\<lparr>h_clock := 59999999\<rparr>"]
      probe_cached [OF set(1) none run, where ?h2.0 = "demo_probing\<lparr>h_clock := 60000000\<rparr>"]
    by (auto simp: set at micros_def)
qed

end
