(* ===== verification/Worker.thy ===== *)
theory Worker
  imports Deploy Field_Crypto Store Sha256
begin

text \<open>
  The worker: \<open>panel/worker/services/config_build.py\<close>, \<open>config_task.py\<close>,
  \<open>context.py\<close>, \<open>identity.py\<close> and the handling of one task of \<open>main.py\<close>. A
  task takes the committed database and the machine and returns both: what it committed, and the
  machine, which no rollback undoes. The times of the repository's writes, the id of the new version
  and the nonces of the encryption are drawn.
\<close>

section \<open>The context of a task\<close>

record worker_ctx =
  wc_settings :: panel_settings
  wc_cipher :: cipher
  wc_os :: os_env

record task_draws =
  td_version_id :: uuid
  td_now :: "nat \<Rightarrow> int"
  td_nonce :: nat
  td_key_nonce :: nat

definition cert_fingerprint_for_keys :: "string \<Rightarrow> string \<Rightarrow> string \<Rightarrow> string" where
  "cert_fingerprint_for_keys private_key public_key explicit = (if explicit \<noteq> [] then explicit else sha256_hex public_key)"

text \<open>The instance of the command line, or else of the environment.\<close>

definition resolve_worker_id :: "string \<Rightarrow> string option \<Rightarrow> string option \<Rightarrow> string" where
  "resolve_worker_id base_id env_instance inst =
     (let raw = strip (case inst of Some i \<Rightarrow> i | None \<Rightarrow> the_or '''' env_instance) in
      if raw \<noteq> [] then base_id @ ''-'' @ raw else base_id)"

section \<open>Building a version\<close>

text \<open>What the version before the target left: its port, its secrets, its plain configuration.\<close>

record previous_build =
  pb_port :: "int option"
  pb_secrets :: "previous_secrets option"
  pb_plain :: "json option"

definition no_previous :: previous_build where
  "no_previous = \<lparr>pb_port = None, pb_secrets = None, pb_plain = None\<rparr>"

definition load_previous :: "cipher \<Rightarrow> db \<Rightarrow> uuid \<Rightarrow> int \<Rightarrow> exn + previous_build" where
  "load_previous c d config_id target_version =
     (if target_version > 1 then
        (case get_version_snapshot d config_id (target_version - 1) of
           None \<Rightarrow> Inr no_previous
         | Some snapshot \<Rightarrow>
             let encrypted_private = the_or '''' (get_version_private_key d config_id (target_version - 1)) in
             bindR (if encrypted_private \<noteq> [] then encryptor_decrypt c encrypted_private else Inr '''') (\<lambda>private_plain.
             bindR (decrypt_config_data_fields c (snap_config_data snapshot) (sensitive_fields (snap_profile snapshot))) (\<lambda>config_plain.
             bindR (previous_for_regenerate (snap_profile snapshot) config_plain private_plain
                 (snap_public_key snapshot) (snap_cert_fingerprint snapshot)) (\<lambda>previous.
             Inr \<lparr>pb_port = Some (snap_port snapshot), pb_secrets = Some previous, pb_plain = Some config_plain\<rparr>))))
      else Inr no_previous)"

fun grpc_names :: "string \<Rightarrow> json list \<Rightarrow> exn + json \<times> json" where
  "grpc_names tag [] = Inr (JNull, JNull)"
| "grpc_names tag (inbound # rest) =
     bindR (jget inbound ''tag'' JNull) (\<lambda>t.
     if t = JStr tag then
       bindR (jget inbound ''streamSettings'' (JDict [])) (\<lambda>stream.
       bindR (jget stream ''tlsSettings'' (JDict [])) (\<lambda>tls.
       bindR (jget tls ''serverName'' JNull) (\<lambda>sni.
       bindR (jget stream ''grpcSettings'' (JDict [])) (\<lambda>grpc.
       bindR (jget grpc ''serviceName'' JNull) (\<lambda>service. Inr (sni, service))))))
     else grpc_names tag rest)"

definition preferred_names :: "config_profile \<Rightarrow> string \<Rightarrow> json option \<Rightarrow> exn + json \<times> json" where
  "preferred_names p tag plain = (case plain of
     Some config_plain \<Rightarrow>
       if p = XRAY_GRPC then bindR (jget config_plain ''inbounds'' (JList [])) (\<lambda>v. bindR (jiter v) (grpc_names tag))
       else Inr (JNull, JNull)
   | None \<Rightarrow> Inr (JNull, JNull))"

text \<open>The ports a build must avoid, and the one it should keep.\<close>

definition port_wishes :: "db \<Rightarrow> uuid \<Rightarrow> int option \<Rightarrow> bool \<Rightarrow> int list \<times> int option" where
  "port_wishes d config_id previous_port rot =
     (let used_ports = list_used_ports d (Some config_id) in
      case previous_port of
        None \<Rightarrow> (used_ports, None)
      | Some q \<Rightarrow> if rot then (q # used_ports, None) else (used_ports, Some q))"

definition build_env_at :: "os_env \<Rightarrow> host \<Rightarrow> build_env" where
  "build_env_at env h = (os_build env)\<lparr>env_files := disk env h\<rparr>"

definition stored_version ::
  "worker_ctx \<Rightarrow> task_draws \<Rightarrow> uuid \<Rightarrow> config_profile \<Rightarrow> int \<Rightarrow> build_result \<Rightarrow> int \<Rightarrow> json \<Rightarrow> db \<Rightarrow> exn + db" where
  "stored_version ctx dr config_id p target_version result port config d =
     bindR (encrypt_config_data_fields (wc_cipher ctx) (td_nonce dr) config (sensitive_fields p)) (\<lambda>config_data_stored.
     let private_key_encrypted = (if br_private_key result \<noteq> [] then encryptor_encrypt (wc_cipher ctx) (td_key_nonce dr) (br_private_key result) else '''');
         fingerprint = cert_fingerprint_for_keys (br_private_key result) (br_public_key result) (br_fingerprint result) in
     insert_version d (td_version_id dr) (td_now dr 1) config_id target_version port private_key_encrypted
       (br_public_key result) fingerprint config_data_stored)"

definition build_and_persist_version ::
  "worker_ctx \<Rightarrow> task_draws \<Rightarrow> uuid \<Rightarrow> config_profile \<Rightarrow> int \<Rightarrow> string \<Rightarrow> db \<Rightarrow> db action" where
  "build_and_persist_version ctx dr config_id p target_version name d =
     (let st = wc_settings ctx; env = wc_os ctx in
      bindH (liftH (profile_settings_of st p)) (\<lambda>ps.
      bindH (liftH (get_regenerate_policy_raw d config_id)) (\<lambda>policy_raw.
      bindH (liftH (from_stored policy_raw p (Some ps))) (\<lambda>policy.
      bindH (liftH (load_previous (wc_cipher ctx) d config_id target_version)) (\<lambda>prev.
      bindH (liftH (preferred_names p (inbound_tag ps) (pb_plain prev))) (\<lambda>(sni, service).
      let (exclude, preferred) = port_wishes d config_id (pb_port prev) (rotate_port policy) in
      bindH (liftH (get_share_public_host d config_id)) (\<lambda>share_host.
      thenH (if target_version > 1 \<and> per_config (systemd st) then stop_config_unit env config_id (systemd st) else returnH ())
      (bindH (\<lambda>h. (h, build (build_env_at env h) st p (pb_secrets prev) exclude preferred sni service (Some policy) share_host)) (\<lambda>result.
       bindH (liftH (listening_port p (br_config result) (inbound_tag ps))) (\<lambda>port.
       bindH (write_files env st p config_id result name) (\<lambda>config.
       liftH (stored_version ctx dr config_id p target_version result port config d))))))))))))"

section \<open>Tasks\<close>

definition parse_payload :: "json \<Rightarrow> exn + uuid \<times> config_profile \<times> int \<times> string" where
  "parse_payload payload =
     bindR (jitem payload ''config_id'') (\<lambda>i.
     bindR (case uuid_of_str (py_str i) of None \<Rightarrow> raise ValueError '''' | Some u \<Rightarrow> Inr u) (\<lambda>config_id.
     bindR (jitem payload ''profile'') (\<lambda>pv.
     bindR (parse_profile (py_str pv)) (\<lambda>p.
     bindR (jitem payload ''target_version'') (\<lambda>tv.
     bindR (json_int tv) (\<lambda>target_version.
     bindR (jget payload ''name'' (JStr '''')) (\<lambda>name.
     Inr (config_id, p, target_version, py_str name))))))))"

text \<open>The body of the \<open>try\<close>: the database it would commit.\<close>

definition attempt_task :: "worker_ctx \<Rightarrow> task_draws \<Rightarrow> uuid \<Rightarrow> config_profile \<Rightarrow> int \<Rightarrow> string \<Rightarrow> db \<Rightarrow> db action" where
  "attempt_task ctx dr config_id p target_version name d =
     (if has_version d config_id target_version then liftH (mark_active d config_id target_version (td_now dr 0))
      else bindH (liftH (mark_processing d config_id (td_now dr 0))) (\<lambda>d1.
        bindH (build_and_persist_version ctx dr config_id p target_version name d1) (\<lambda>d2.
        liftH (mark_active d2 config_id target_version (td_now dr 2)))))"

definition run_config_task :: "worker_ctx \<Rightarrow> task_draws \<Rightarrow> json \<Rightarrow> db \<Rightarrow> host \<Rightarrow> host \<times> db \<times> (exn + unit)" where
  "run_config_task ctx dr payload d h = (case parse_payload payload of
     Inl e \<Rightarrow> (h, d, Inl e)
   | Inr (config_id, p, target_version, name) \<Rightarrow>
       (case attempt_task ctx dr config_id p target_version name d h of
          (h1, Inr d1) \<Rightarrow> (h1, d1, Inr ())
        | (h1, Inl e) \<Rightarrow>
            (case mark_failed d config_id (exn_msg e) (td_now dr 3) of
               Inl e' \<Rightarrow> (h1, d, Inl e') | Inr d1 \<Rightarrow> (h1, d1, Inl e))))"

text \<open>The two handlers run the same task; they differ in what they log.\<close>

definition task_handlers :: "string list" where
  "task_handlers = [''config.initialize'', ''config.regenerate'']"

datatype broker_call = Ack string string | Nack string string string

definition heartbeat_interval :: "int \<Rightarrow> int" where
  "heartbeat_interval lock_ttl_seconds = max (lock_ttl_seconds div 3) 1"

text \<open>
  \<open>_process_task\<close>: how the broker answers a call, and how the heartbeats went, are arguments.
  The machine, the committed database, the calls made and what is raised to the worker's loop.
\<close>

definition process_task ::
  "worker_ctx \<Rightarrow> task_draws \<Rightarrow> (broker_call \<Rightarrow> exn + unit) \<Rightarrow> exn + unit \<Rightarrow> string \<Rightarrow> string \<Rightarrow> string \<Rightarrow> json \<Rightarrow> db \<Rightarrow> host
    \<Rightarrow> host \<times> db \<times> broker_call list \<times> (exn + unit)" where
  "process_task ctx dr broker heartbeats worker_id task_id task_type payload d h =
     (if task_type \<notin> set task_handlers then
        (let call = Nack task_id worker_id (''Unknown task type: '' @ task_type) in (h, d, [call], broker call))
      else (case run_config_task ctx dr payload d h of
          (h1, d1, res) \<Rightarrow>
            let call = (case res of Inr _ \<Rightarrow> Ack task_id worker_id | Inl e \<Rightarrow> Nack task_id worker_id (exn_msg e)) in
            (h1, d1, [call], bindR heartbeats (\<lambda>_. broker call))))"


section \<open>What a build leaves behind\<close>

lemma build_and_persist_run:
  assumes "build_and_persist_version ctx dr cid p v name d h = (h', Inr d')"
  obtains ps result port config g where "profile_settings_of (wc_settings ctx) p = Inr ps"
    "listening_port p (br_config result) (inbound_tag ps) = Inr port"
    "write_files (wc_os ctx) (wc_settings ctx) p cid result name g = (h', Inr config)"
    "stored_version ctx dr cid p v result port config d = Inr d'"
  using assms that unfolding build_and_persist_version_def Let_def bindH_run liftH_run
  by (auto simp: bindH_run case_prod_beta)

lemma stored_version_run:
  assumes ok: "cipher_ok (wc_cipher ctx)" and run: "stored_version ctx dr cid p v result port config d = Inr d'"
  shows "\<exists>x. insert_version_row d x = Inr d' \<and> v_config_id x = cid \<and> v_version x = v \<and> v_port x = port
    \<and> decrypt_config_data_fields (wc_cipher ctx) (v_config_data x) (sensitive_fields p) = Inr config
    \<and> (br_private_key result \<noteq> [] \<longrightarrow> encryptor_decrypt (wc_cipher ctx) (v_private_key x) = Inr (br_private_key result))
    \<and> v_public_key x = br_public_key result"
proof -
  obtain stored where e: "encrypt_config_data_fields (wc_cipher ctx) (td_nonce dr) config (sensitive_fields p) = Inr stored"
    using run by (auto simp: stored_version_def bindR_eq_Inr)
  have "decrypt_config_data_fields (wc_cipher ctx) stored (sensitive_fields p) = Inr config"
    using fields.dec_enc_all [OF ok, of "td_nonce dr" config "sensitive_fields p"] e by simp
  moreover have "encryptor_decrypt (wc_cipher ctx) (encryptor_encrypt (wc_cipher ctx) n t) = Inr t" for n t
    using ok by (simp add: cipher_ok_def encryptor_encrypt_def encryptor_decrypt_def)
  ultimately show ?thesis
    using run e unfolding stored_version_def insert_version_def Let_def bindR.simps
    by (intro exI conjI) (assumption | auto)+
qed

text \<open>The port in the row of a stored Hysteria2 version is the one its document listens on.\<close>

lemma stored_port:
  assumes ok: "cipher_ok (wc_cipher ctx)" and run: "build_and_persist_version ctx dr cid HYSTERIA2 v name d h = (h', Inr d')"
  shows "\<exists>x config. insert_version_row d x = Inr d' \<and> v_config_id x = cid \<and> v_version x = v
    \<and> decrypt_config_data_fields (wc_cipher ctx) (v_config_data x) (sensitive_fields HYSTERIA2) = Inr config
    \<and> hysteria_listen_port config = Inr (v_port x)"
proof -
  obtain ps result port config g where ps: "profile_settings_of (wc_settings ctx) HYSTERIA2 = Inr ps"
    and port: "listening_port HYSTERIA2 (br_config result) (inbound_tag ps) = Inr port"
    and w: "write_files (wc_os ctx) (wc_settings ctx) HYSTERIA2 cid result name g = (h', Inr config)"
    and s: "stored_version ctx dr cid HYSTERIA2 v result port config d = Inr d'"
    by (rule build_and_persist_run [OF run])
  obtain h0 h1 where "write_certificates (wc_os ctx) HYSTERIA2 ps (cert_base (wc_settings ctx) ps HYSTERIA2 cid) result h0 = (h1, Inr config)"
    by (rule write_files_steps [OF w ps])
  then have "hysteria_listen_port config = Inr port"
    using port write_certificates_keeps [where k = "''listen''"] by (fastforce simp: listening_port_def hysteria_listen_port_def)
  with stored_version_run [OF ok s] show ?thesis by blast
qed

lemma find_version_insert:
  "insert_version_row d x = Inr d' \<Longrightarrow> find_version d' (v_config_id x) (v_version x) = Some x"
proof -
  assume "insert_version_row d x = Inr d'"
  then have n: "\<not> has_version d (v_config_id x) (v_version x)" and d': "d' = d\<lparr>versions := versions d @ [x]\<rparr>"
    by (simp_all add: insert_version_row_Inr)
  have "find_version d (v_config_id x) (v_version x) = None" using n find_version_has by blast
  then show ?thesis
    by (simp add: find_version_def d' find_row_append find_row_single)
qed

lemma mark_processing_Inr: "mark_processing d c now = Inr d' \<longleftrightarrow> get_model d c False \<noteq> None
  \<and> d' = upd_config c (\<lambda>r. r\<lparr>row_status := PROCESSING, row_error_message := None, row_updated_at := now\<rparr>) d"
  by (auto simp: mark_processing_def config_not_found_def split: option.splits)

lemma mark_failed_Inr: "mark_failed d c msg now = Inr d' \<longleftrightarrow> get_model d c False \<noteq> None
  \<and> d' = upd_config c (\<lambda>r. r\<lparr>row_status := FAILED, row_error_message := Some (take 2000 msg), row_updated_at := now\<rparr>) d"
  by (auto simp: mark_failed_def config_not_found_def split: option.splits)

lemma find_version_upd [simp]: "find_version (upd_config c f d) = find_version d"
  by (intro ext) (simp add: find_version_def)

lemma active_row:
  assumes "mark_active d c v now = Inr d'"
  shows "\<exists>r. get_model d' c False = Some r \<and> row_status r = ACTIVE \<and> row_current_version r = Some v \<and> row_error_message r = None"
proof -
  let ?f = "\<lambda>r. r\<lparr>row_status := ACTIVE, row_current_version := Some v, row_error_message := None, row_updated_at := now\<rparr>"
  obtain r where r: "get_model d c False = Some r" and d': "d' = upd_config c ?f d"
    using assms by (auto simp: mark_active_Inr)
  have "get_model d' c False = Some (?f r)"
    using r get_model_id [OF r] by (simp add: d' get_model_upd_any)
  then show ?thesis by simp
qed


section \<open>Tasks\<close>

lemma run_config_task_Inr:
  assumes "run_config_task ctx dr payload d h = (h', d', Inr ())" "parse_payload payload = Inr (cid, p, v, name)"
  shows "attempt_task ctx dr cid p v name d h = (h', Inr d')"
  using assms by (auto simp: run_config_task_def split: prod.splits sum.splits)

lemma run_config_task_Inl:
  assumes "run_config_task ctx dr payload d h = (h', d', Inl e)" "parse_payload payload = Inr (cid, p, v, name)"
  shows "\<exists>e0. attempt_task ctx dr cid p v name d h = (h', Inl e0)
    \<and> (get_model d cid False = None \<and> d' = d
       \<or> e = e0 \<and> mark_failed d cid (exn_msg e) (td_now dr 3) = Inr d')"
  using assms
  by (auto simp: run_config_task_def mark_failed_def config_not_found_def split: prod.splits sum.splits option.splits)

lemma attempt_task_active:
  assumes "attempt_task ctx dr cid p v name d h = (h', Inr d')"
  obtains d2 now where "mark_active d2 cid v now = Inr d'" "has_version d2 cid v"
proof (cases "has_version d cid v")
  case True
  then show ?thesis using assms that by (auto simp: attempt_task_def)
next
  case False
  then obtain d1 h1 d2 where m: "mark_active d2 cid v (td_now dr 2) = Inr d'"
    and b: "build_and_persist_version ctx dr cid p v name d1 h1 = (h', Inr d2)"
    using assms by (auto simp: attempt_task_def bindH_run)
  obtain ps result port config g where "stored_version ctx dr cid p v result port config d1 = Inr d2"
    by (rule build_and_persist_run [OF b])
  then have "has_version d2 cid v"
    by (auto simp: stored_version_def bindR_eq_Inr insert_version_def Let_def insert_version_row_Inr has_version_iff)
  with m show ?thesis by (rule that)
qed

definition active_at :: "db \<Rightarrow> uuid \<Rightarrow> int \<Rightarrow> bool" where
  "active_at d cid v \<longleftrightarrow> has_version d cid v
     \<and> (\<exists>r. get_model d cid False = Some r \<and> row_status r = ACTIVE \<and> row_current_version r = Some v \<and> row_error_message r = None)"

lemma attempt_task_active_at: "attempt_task ctx dr cid p v name d h = (h', Inr d') \<Longrightarrow> active_at d' cid v"
proof -
  assume "attempt_task ctx dr cid p v name d h = (h', Inr d')"
  then obtain d2 now where "mark_active d2 cid v now = Inr d'" "has_version d2 cid v"
    by (rule attempt_task_active)
  then show ?thesis using active_row by (fastforce simp: active_at_def mark_active_Inr)
qed

text \<open>
  C8. What runs is what is stored: when a task that had to build a version succeeds, the version
  row it committed decrypts to exactly the configuration whose text the daemon runs from, its service
  is up, and the configuration is active at that version.
\<close>

theorem stored_is_running:
  assumes ok: "cipher_ok (wc_cipher ctx)" and run: "run_config_task ctx dr payload d h = (h', d', Inr ())"
    and args: "parse_payload payload = Inr (cid, p, v, name)" and new: "\<not> has_version d cid v"
    and ps: "profile_settings_of (wc_settings ctx) p = Inr ps"
    and apart: "per_config (systemd (wc_settings ctx)) \<Longrightarrow> unit_path_of cid (systemd (wc_settings ctx)) \<noteq> stored_path (wc_settings ctx) ps cid
      \<and> Some (unit_path_of cid (systemd (wc_settings ctx))) \<noteq> run_path (wc_settings ctx) ps p cid"
  shows "active_at d' cid v
    \<and> (\<exists>x config. find_version d' cid v = Some x
        \<and> decrypt_config_data_fields (wc_cipher ctx) (v_config_data x) (sensitive_fields p) = Inr config
        \<and> map_of (h_files h') (stored_path (wc_settings ctx) ps cid) = Some (File 384 (config_body (wc_os ctx) p config))
        \<and> (\<forall>a. run_path (wc_settings ctx) ps p cid = Some a \<longrightarrow> map_of (h_files h') a = Some (File 384 (config_body (wc_os ctx) p config)))
        \<and> serving (wc_os ctx) (run_service (wc_settings ctx) ps cid) p (systemd (wc_settings ctx)))"
proof -
  have att: "attempt_task ctx dr cid p v name d h = (h', Inr d')" by (rule run_config_task_Inr [OF run args])
  then obtain d1 h1 d2 where m: "mark_active d2 cid v (td_now dr 2) = Inr d'"
    and b: "build_and_persist_version ctx dr cid p v name d1 h1 = (h', Inr d2)"
    using new by (auto simp: attempt_task_def bindH_run)
  obtain ps' result port config g where ps': "profile_settings_of (wc_settings ctx) p = Inr ps'"
    and w: "write_files (wc_os ctx) (wc_settings ctx) p cid result name g = (h', Inr config)"
    and s: "stored_version ctx dr cid p v result port config d1 = Inr d2"
    by (rule build_and_persist_run [OF b])
  obtain x where x: "insert_version_row d1 x = Inr d2" "v_config_id x = cid" "v_version x = v"
    "decrypt_config_data_fields (wc_cipher ctx) (v_config_data x) (sensitive_fields p) = Inr config"
    using stored_version_run [OF ok s] by blast
  have "find_version d' cid v = Some x"
    using find_version_insert [OF x(1)] x(2,3) m by (auto simp: mark_active_Inr)
  moreover note deployment [OF w ps apart]
  ultimately show ?thesis using attempt_task_active_at [OF att] x(4) by blast
qed

lemma config_current_upd:
  "(\<And>r. row_id (f r) = row_id r \<and> row_current_version (f r) = row_current_version r) \<Longrightarrow>
   config_current (upd_config cid f d) c = config_current d c"
  by (cases "get_model d c False") (auto simp: config_current_def get_model_upd_any)

text \<open>
  C28. A task that fails commits nothing but the failure: if the configuration exists, its row gets
  the status failed and the first 2000 characters of the message, and every version and share link,
  every other configuration and the current version itself stay as they were, whatever the build had
  done to the session; if it does not exist, nothing is committed.
\<close>

theorem failed_task:
  assumes run: "run_config_task ctx dr payload d h = (h', d', Inl e)" and args: "parse_payload payload = Inr (cid, p, v, name)"
  shows "d' = (if get_model d cid False = None then d
      else upd_config cid (\<lambda>r. r\<lparr>row_status := FAILED, row_error_message := Some (take 2000 (exn_msg e)), row_updated_at := td_now dr 3\<rparr>) d)
    \<and> versions d' = versions d \<and> shares d' = shares d \<and> config_current d' c = config_current d c"
proof -
  let ?f = "\<lambda>r. r\<lparr>row_status := FAILED, row_error_message := Some (take 2000 (exn_msg e)), row_updated_at := td_now dr 3\<rparr>"
  have d': "d' = (if get_model d cid False = None then d else upd_config cid ?f d)"
    using run_config_task_Inl [OF run args] by (auto simp: mark_failed_Inr)
  moreover have "config_current (upd_config cid ?f d) c = config_current d c" by (rule config_current_upd) simp
  ultimately show ?thesis by auto
qed

text \<open>
  Delivering a finished task again changes nothing but the time of the last update: the broker
  may deliver a task more than once, and the second run rebuilds nothing, touches no file and runs no
  command.
\<close>

theorem redelivered_task:
  assumes run: "run_config_task ctx dr payload d h = (h1, d1, Inr ())" and args: "parse_payload payload = Inr (cid, p, v, name)"
  shows "run_config_task ctx dr2 payload d1 h1 = (h1, upd_config cid (\<lambda>r. r\<lparr>row_updated_at := td_now dr2 0\<rparr>) d1, Inr ())"
proof -
  let ?f = "\<lambda>now r. r\<lparr>row_status := ACTIVE, row_current_version := Some v, row_error_message := None, row_updated_at := now\<rparr>"
  obtain d2 now where m: "mark_active d2 cid v now = Inr d1" "has_version d2 cid v"
    by (rule attempt_task_active [OF run_config_task_Inr [OF run args]])
  then have d1: "d1 = upd_config cid (?f now) d2" and has: "has_version d1 cid v" by (auto simp: mark_active_Inr)
  have ex: "get_model d1 cid False \<noteq> None" using active_row [OF m(1)] by auto
  have twice: "upd_config cid (?f t) d1 = upd_config cid (\<lambda>r. r\<lparr>row_updated_at := t\<rparr>) d1" for t
    by (simp add: d1 upd_config_def upd_rows_def)
  have "mark_active d1 cid v (td_now dr2 0) = Inr (upd_config cid (\<lambda>r. r\<lparr>row_updated_at := td_now dr2 0\<rparr>) d1)"
    using ex by (simp add: mark_active_Inr twice)
  then show ?thesis
    using args has by (simp add: run_config_task_def attempt_task_def liftH_def)
qed

text \<open>
  A delivery that comes after a later version has been made sets the current version back: the guard
  only asks whether the version exists.
\<close>

lemma stale_delivery:
  assumes "parse_payload payload = Inr (cid, p, v, name)" "has_version d cid v" "get_model d cid False \<noteq> None"
  shows "\<exists>d'. run_config_task ctx dr payload d h = (h, d', Inr ()) \<and> config_current d' cid = Some v"
proof -
  obtain d' where m: "mark_active d cid v (td_now dr 0) = Inr d'" using assms(3) by (auto simp: mark_active_def)
  then have "run_config_task ctx dr payload d h = (h, d', Inr ())"
    using assms by (simp add: run_config_task_def attempt_task_def liftH_def)
  moreover have "config_current d' cid = Some v" using active_row [OF m] by (auto simp: config_current_def)
  ultimately show ?thesis by blast
qed


text \<open>
  C27. Every task pulled from the broker is answered with exactly one call, whether or not a
  heartbeat or the call itself fails: an acknowledgement, and then the configuration is committed
  active at the version asked for, or a refusal, and then no version, no share link and no current
  version has changed.
\<close>

theorem task_answer:
  assumes run: "process_task ctx dr broker heartbeats worker_id task_id task_type payload d h = (h', d', calls, res)"
    and args: "parse_payload payload = Inr (cid, p, v, name)"
  shows "calls = [Ack task_id worker_id] \<and> active_at d' cid v
    \<or> (\<exists>reason. calls = [Nack task_id worker_id reason] \<and> versions d' = versions d \<and> shares d' = shares d
         \<and> (\<forall>c. config_current d' c = config_current d c))"
proof (cases "task_type \<in> set task_handlers")
  case False
  then show ?thesis using run by (auto simp: process_task_def Let_def)
next
  case True
  obtain r where r: "run_config_task ctx dr payload d h = (h', d', r)"
    using run True by (auto simp: process_task_def Let_def split: prod.splits)
  show ?thesis
  proof (cases r)
    case (Inl e)
    have t: "versions d' = versions d" "shares d' = shares d" "config_current d' c = config_current d c" for c
      using run_config_task_Inl [OF r [unfolded Inl] args] config_current_upd
      by (auto simp: mark_failed_Inr)
    then show ?thesis using run True r Inl by (auto simp: process_task_def Let_def)
  next
    case (Inr u)
    then have "active_at d' cid v"
      using attempt_task_active_at [OF run_config_task_Inr [OF _ args]] r by auto
    then show ?thesis using run True r Inr by (auto simp: process_task_def Let_def)
  qed
qed

section \<open>The store across a task\<close>

lemma stored_version_row:
  "stored_version ctx dr cid p v result port config d = Inr d' \<Longrightarrow>
   \<exists>x. insert_version_row d x = Inr d' \<and> v_config_id x = cid \<and> v_version x = v"
  unfolding stored_version_def bindR_eq_Inr insert_version_def Let_def by fastforce

lemma store_ok_stored_version:
  assumes "store_ok d" "stored_version ctx dr cid p v result port config d = Inr d'"
    "v = 1 \<or> (1 < v \<and> has_version d cid (v - 1))"
  shows "store_ok d'"
  using stored_version_row [OF assms(2)] store_ok_insert_version [OF assms(1)] assms(3) by blast

lemma attempt_task_store_ok:
  assumes ok: "store_ok d" and run: "attempt_task ctx dr cid p v name d h = (h', Inr d')"
    and seq: "has_version d cid v \<or> v = 1 \<or> (1 < v \<and> has_version d cid (v - 1))"
  shows "store_ok d'"
proof (cases "has_version d cid v")
  case True
  then show ?thesis using run store_ok_mark_active [OF ok] by (auto simp: attempt_task_def)
next
  case False
  then obtain d1 h1 d2 where p: "mark_processing d cid (td_now dr 0) = Inr d1" and m: "mark_active d2 cid v (td_now dr 2) = Inr d'"
    and b: "build_and_persist_version ctx dr cid p v name d1 h1 = (h', Inr d2)"
    using run by (auto simp: attempt_task_def bindH_run)
  obtain ps result port config g where s: "stored_version ctx dr cid p v result port config d1 = Inr d2"
    by (rule build_and_persist_run [OF b])
  have ok1: "store_ok d1" and has1: "has_version d1 = has_version d"
    using store_ok_mark_processing [OF ok p] p by (auto simp: mark_processing_Inr)
  have "store_ok d2"
    by (rule store_ok_stored_version [OF ok1 s]) (use seq False has1 in auto)
  moreover obtain x where "insert_version_row d1 x = Inr d2" "v_config_id x = cid" "v_version x = v"
    using stored_version_row [OF s] by blast
  then have "has_version d2 cid v" by (auto simp: insert_version_row_Inr has_version_iff)
  ultimately show ?thesis by (rule store_ok_mark_active [OF _ m])
qed

lemma run_config_task_store_ok:
  assumes ok: "store_ok d" and run: "run_config_task ctx dr payload d h = (h', d', res)"
    and seq: "\<And>cid p v name. parse_payload payload = Inr (cid, p, v, name) \<Longrightarrow>
      has_version d cid v \<or> v = 1 \<or> (1 < v \<and> has_version d cid (v - 1))"
  shows "store_ok d'"
proof (cases "parse_payload payload")
  case (Inl e)
  then show ?thesis using ok run by (simp add: run_config_task_def)
next
  case (Inr args)
  obtain cid p v name where args: "parse_payload payload = Inr (cid, p, v, name)" using Inr by (cases args) auto
  show ?thesis
  proof (cases res)
    case (Inl e)
    then show ?thesis
      using run_config_task_Inl [OF run [unfolded Inl] args] ok store_ok_mark_failed [OF ok] by auto
  next
    case (Inr u)
    then show ?thesis
      using attempt_task_store_ok [OF ok run_config_task_Inr [OF _ args] seq [OF args], of ctx dr h h' d'] run by simp
  qed
qed


section \<open>A concrete task\<close>

definition demo_ctx :: worker_ctx where
  "demo_ctx = \<lparr>wc_settings = demo_unit_settings, wc_cipher = demo_cipher, wc_os = demo_os\<rparr>"

definition demo_task :: task_draws where
  "demo_task = \<lparr>td_version_id = 50, td_now = (\<lambda>n. 100 + int n), td_nonce = 0, td_key_nonce = 9\<rparr>"

definition demo_pending :: config_row where
  "demo_pending = \<lparr>row_id = 5, row_name = ''home'', row_protocol = HYSTERIA2_PROTOCOL, row_profile = HYSTERIA2, row_status = PENDING,
     row_current_version = None, row_last_task_id = None, row_error_message = None, row_policy = None, row_share_host = None,
     row_is_active = True, row_created_by = 1, row_updated_by = 1, row_created_at = 90, row_updated_at = 90\<rparr>"

definition demo_pending_db :: db where
  "demo_pending_db = empty_db\<lparr>configs := [demo_pending]\<rparr>"

definition demo_payload :: json where
  "demo_payload = JDict [(''config_id'', JStr (uuid_str 5)), (''protocol'', JStr ''hysteria''), (''profile'', JStr ''hysteria2''),
     (''name'', JStr ''home''), (''requested_by'', JStr (uuid_str 1)), (''target_version'', JInt 1)]"

lemma demo_parsed: "parse_payload demo_payload = Inr (5, HYSTERIA2, 1, ''home'')"
proof -
  have "parse_profile ''hysteria2'' = Inr HYSTERIA2" by code_simp
  then show ?thesis by (simp add: parse_payload_def demo_payload_def)
qed


lemma demo_ctx_sel: "wc_settings demo_ctx = demo_unit_settings" "wc_cipher demo_ctx = demo_cipher" "wc_os demo_ctx = demo_os"
  by (simp_all add: demo_ctx_def)

lemma bindH_lift: "bindH (liftH (Inr x)) f = f x" "bindH (returnH x) f = f x"
  by (auto simp: bindH_def liftH_def returnH_def)

lemma bindH_read: "r h = Inr x \<Longrightarrow> bindH (\<lambda>h. (h, r h)) f h = f x h"
  by (simp add: bindH_def)

definition demo_processing_db :: db where
  "demo_processing_db = upd_config 5 (\<lambda>r. r\<lparr>row_status := PROCESSING, row_error_message := None, row_updated_at := 100\<rparr>) demo_pending_db"

definition demo_task_config :: json where
  "demo_task_config = JDict [(''auth'', JDict [(''password'', JStr ''AQID'')]), (''listen'', JStr '':8443''),
     (''tls'', JDict [(''sni'', JStr ''vpn.example''), (''cert'', JStr (demo_live_dir @ ''/hysteria-cert.pem'')),
        (''key'', JStr (demo_live_dir @ ''/hysteria-key.pem''))]),
     (''obfs'', JDict [(''type'', JStr ''salamander''), (''salamander'', JDict [(''password'', JStr ''BAUG'')])])]"

lemma demo_build: "\<exists>res. build (build_env_at demo_os demo_host) demo_unit_settings HYSTERIA2 None [] None JNull JNull
      (Some (for_profile HYSTERIA2 (Some demo_tls_profile))) None = Inr res
    \<and> listening_port HYSTERIA2 (br_config res) (inbound_tag demo_tls_profile) = Inr 8443
    \<and> snd (write_files demo_os demo_unit_settings HYSTERIA2 5 res ''home'' demo_host) = Inr demo_task_config
    \<and> br_public_key res = ''4:vpn.example''
    \<and> cert_fingerprint_for_keys (br_private_key res) (br_public_key res) (br_fingerprint res) = ''fp4:vpn.example''"
proof -
  let ?b = "build (build_env_at demo_os demo_host) demo_unit_settings HYSTERIA2 None [] None JNull JNull
      (Some (for_profile HYSTERIA2 (Some demo_tls_profile))) None"
  let ?base = "cert_base_of demo_tls_profile (Some (live_config_path HYSTERIA2 5 (config_filename demo_tls_profile) (systemd demo_unit_settings)))
        (path_join (paths_configs demo_unit_settings) (uuid_str 5))"
  have "(case ?b of Inl e \<Rightarrow> False | Inr res \<Rightarrow>
      listening_port HYSTERIA2 (br_config res) (inbound_tag demo_tls_profile) = Inr 8443
      \<and> snd (write_certificates demo_os HYSTERIA2 demo_tls_profile ?base res demo_host) = Inr demo_task_config
      \<and> br_public_key res = ''4:vpn.example''
      \<and> cert_fingerprint_for_keys (br_private_key res) (br_public_key res) (br_fingerprint res) = ''fp4:vpn.example'')"
    by code_simp
  then show ?thesis using demo_write_files by (cases ?b) auto
qed

lemma demo_attempt: "\<exists>h' d' s. attempt_task demo_ctx demo_task 5 HYSTERIA2 1 ''home'' demo_pending_db demo_host = (h', Inr d')
    \<and> get_version_snapshot d' 5 1 = Some s \<and> snap_profile s = HYSTERIA2 \<and> snap_share_host s = None \<and> snap_port s = 8443
    \<and> snap_public_key s = ''4:vpn.example'' \<and> snap_cert_fingerprint s = ''fp4:vpn.example''
    \<and> decrypt_config_data_fields demo_cipher (snap_config_data s) (sensitive_fields HYSTERIA2) = Inr demo_task_config"
proof -
  obtain res where r: "build (build_env_at demo_os demo_host) demo_unit_settings HYSTERIA2 None [] None JNull JNull
      (Some (for_profile HYSTERIA2 (Some demo_tls_profile))) None = Inr res"
    "listening_port HYSTERIA2 (br_config res) (inbound_tag demo_tls_profile) = Inr 8443"
    "snd (write_files demo_os demo_unit_settings HYSTERIA2 5 res ''home'' demo_host) = Inr demo_task_config"
    "br_public_key res = ''4:vpn.example''"
    "cert_fingerprint_for_keys (br_private_key res) (br_public_key res) (br_fingerprint res) = ''fp4:vpn.example''"
    using demo_build by blast
  let ?port = "8443 :: int" and ?config = demo_task_config
  have reads: "get_regenerate_policy_raw demo_processing_db 5 = Inr None" "get_share_public_host demo_processing_db 5 = Inr None"
    "list_used_ports demo_processing_db (Some 5) = []" "\<not> has_version demo_processing_db 5 1" "config_exists demo_processing_db 5"
    "versions demo_processing_db = []" "\<not> has_version demo_pending_db 5 1" "get_model demo_processing_db 5 False \<noteq> None"
    by code_simp+
  obtain stored where e: "encrypt_config_data_fields demo_cipher 0 ?config (sensitive_fields HYSTERIA2) = Inr stored"
    using fields.enc_all_total by blast
  have plain: "decrypt_config_data_fields demo_cipher stored (sensitive_fields HYSTERIA2) = Inr ?config"
    using fields.dec_enc_all [OF demo_cipher_ok, of 0 ?config "sensitive_fields HYSTERIA2"] e by simp
  have s: "\<exists>d2. stored_version demo_ctx demo_task 5 HYSTERIA2 1 res ?port ?config demo_processing_db = Inr d2
      \<and> configs d2 = configs demo_processing_db
      \<and> (\<exists>x. find_version d2 5 1 = Some x \<and> v_version x = 1 \<and> v_port x = 8443 \<and> v_config_data x = stored \<and> v_public_key x = ''4:vpn.example''
           \<and> v_cert_fingerprint x = ''fp4:vpn.example'')"
    using reads e by (simp add: stored_version_def demo_ctx_def demo_task_def insert_version_def insert_version_row_def Let_def r(4) r(5) [unfolded r(4)] find_version_def find_row_def)
  then obtain d2 where d2: "stored_version demo_ctx demo_task 5 HYSTERIA2 1 res ?port ?config demo_processing_db = Inr d2"
    "configs d2 = configs demo_processing_db"
    and x: "\<exists>x. find_version d2 5 1 = Some x \<and> v_version x = 1 \<and> v_port x = 8443 \<and> v_config_data x = stored \<and> v_public_key x = ''4:vpn.example''
           \<and> v_cert_fingerprint x = ''fp4:vpn.example''" by blast
  have build: "snd (build_and_persist_version demo_ctx demo_task 5 HYSTERIA2 1 ''home'' demo_processing_db demo_host) = Inr d2"
  proof -
    have f: "from_stored None HYSTERIA2 (Some demo_tls_profile) = Inr (for_profile HYSTERIA2 (Some demo_tls_profile))"
      by (simp add: from_stored_def)
    have "snd (bindH (write_files demo_os demo_unit_settings HYSTERIA2 5 res ''home'') (\<lambda>config.
        liftH (stored_version demo_ctx demo_task 5 HYSTERIA2 1 res ?port config demo_processing_db)) demo_host) = Inr d2"
      by (rule bindH_next [where m = "write_files demo_os demo_unit_settings HYSTERIA2 5 res ''home''" and x = ?config, OF r(3)])
        (simp add: liftH_def d2(1))
    then show ?thesis
      unfolding build_and_persist_version_def Let_def demo_ctx_sel
      by (simp add: bindH_lift bindH_read demo_unit_profile reads f load_previous_def no_previous_def preferred_names_def
          port_wishes_def r)
  qed
  then obtain h' where b: "build_and_persist_version demo_ctx demo_task 5 HYSTERIA2 1 ''home'' demo_processing_db demo_host = (h', Inr d2)"
    by (cases "build_and_persist_version demo_ctx demo_task 5 HYSTERIA2 1 ''home'' demo_processing_db demo_host") auto
  have p: "mark_processing demo_pending_db 5 (td_now demo_task 0) = Inr demo_processing_db"
    by (simp add: mark_processing_Inr demo_task_def demo_processing_db_def demo_pending_db_def get_model_def find_row_def demo_pending_def)
  obtain row where row: "get_model d2 5 False = Some row" "row_profile row = HYSTERIA2" "row_share_host row = None"
    by (simp add: get_model_def find_row_def d2(2) demo_processing_db_def demo_pending_db_def demo_pending_def upd_config_def upd_rows_def)
  obtain d3 where d3: "mark_active d2 5 1 (td_now demo_task 2) = Inr d3" using row(1) by (auto simp: mark_active_def)
  then obtain row' where "get_model d3 5 False = Some row'" "row_profile row' = HYSTERIA2" "row_share_host row' = None"
    using row by (auto simp: mark_active_Inr get_model_upd_any)
  moreover have "find_version d3 = find_version d2" using d3 by (auto simp: mark_active_Inr)
  ultimately have "\<exists>s. get_version_snapshot d3 5 1 = Some s \<and> snap_profile s = HYSTERIA2 \<and> snap_share_host s = None \<and> snap_port s = 8443
    \<and> snap_public_key s = ''4:vpn.example'' \<and> snap_cert_fingerprint s = ''fp4:vpn.example''
    \<and> decrypt_config_data_fields demo_cipher (snap_config_data s) (sensitive_fields HYSTERIA2) = Inr demo_task_config"
    using x plain by (auto simp: get_version_snapshot_def host_or_none_def)
  moreover have "attempt_task demo_ctx demo_task 5 HYSTERIA2 1 ''home'' demo_pending_db demo_host = (h', Inr d3)"
    using reads(7) b p d3 by (simp add: attempt_task_def bindH_lift bindH_def liftH_def)
  ultimately show ?thesis by blast
qed


lemma demo_task_stores: "\<exists>h' d' s. run_config_task demo_ctx demo_task demo_payload demo_pending_db demo_host = (h', d', Inr ())
    \<and> get_version_snapshot d' 5 1 = Some s \<and> snap_profile s = HYSTERIA2 \<and> snap_share_host s = None \<and> snap_port s = 8443
    \<and> snap_public_key s = ''4:vpn.example'' \<and> snap_cert_fingerprint s = ''fp4:vpn.example''
    \<and> decrypt_config_data_fields demo_cipher (snap_config_data s) (sensitive_fields HYSTERIA2) = Inr demo_task_config"
proof -
  obtain h' d' s where a: "attempt_task demo_ctx demo_task 5 HYSTERIA2 1 ''home'' demo_pending_db demo_host = (h', Inr d')"
    and s: "get_version_snapshot d' 5 1 = Some s \<and> snap_profile s = HYSTERIA2 \<and> snap_share_host s = None \<and> snap_port s = 8443
    \<and> snap_public_key s = ''4:vpn.example'' \<and> snap_cert_fingerprint s = ''fp4:vpn.example''
    \<and> decrypt_config_data_fields demo_cipher (snap_config_data s) (sensitive_fields HYSTERIA2) = Inr demo_task_config"
    using demo_attempt by blast
  have "run_config_task demo_ctx demo_task demo_payload demo_pending_db demo_host = (h', d', Inr ())"
    using a by (simp add: run_config_task_def demo_parsed)
  with s show ?thesis by blast
qed

lemma demo_task_runs: "\<exists>h' d'. run_config_task demo_ctx demo_task demo_payload demo_pending_db demo_host = (h', d', Inr ())"
  using demo_task_stores by blast

lemma demo_cipher_valid: "cipher_ok (wc_cipher demo_ctx)"
  by (simp add: demo_ctx_def demo_cipher_ok)

theorem stored_is_running_witness:
  "\<exists>h' d' x config. run_config_task demo_ctx demo_task demo_payload demo_pending_db demo_host = (h', d', Inr ())
    \<and> active_at d' 5 1 \<and> find_version d' 5 1 = Some x
    \<and> decrypt_config_data_fields demo_cipher (v_config_data x) [''auth.password'', ''obfs.salamander.password''] = Inr config
    \<and> map_of (h_files h') (demo_live_dir @ ''/config.yaml'') = Some (File 384 (config_body demo_os HYSTERIA2 config))"
proof -
  obtain h' d' where run: "run_config_task demo_ctx demo_task demo_payload demo_pending_db demo_host = (h', d', Inr ())"
    using demo_task_runs by blast
  have new: "\<not> has_version demo_pending_db 5 1" by code_simp
  have ps: "profile_settings_of (wc_settings demo_ctx) HYSTERIA2 = Inr demo_tls_profile"
    by (simp add: demo_ctx_sel demo_unit_profile)
  have apart: "unit_path_of 5 (systemd (wc_settings demo_ctx)) \<noteq> stored_path (wc_settings demo_ctx) demo_tls_profile 5
    \<and> Some (unit_path_of 5 (systemd (wc_settings demo_ctx))) \<noteq> run_path (wc_settings demo_ctx) demo_tls_profile HYSTERIA2 5"
    by code_simp
  have path: "run_path (wc_settings demo_ctx) demo_tls_profile HYSTERIA2 5 = Some (demo_live_dir @ ''/config.yaml'')" by code_simp
  show ?thesis
    using stored_is_running [OF demo_cipher_valid run demo_parsed new ps apart] run path by (auto simp: demo_ctx_sel)
qed

text \<open>A task whose profile has no settings fails before it builds anything.\<close>

definition demo_bad_ctx :: worker_ctx where
  "demo_bad_ctx = demo_ctx\<lparr>wc_settings := demo_unit_settings\<lparr>profiles := []\<rparr>\<rparr>"

lemma demo_bad_run: "run_config_task demo_bad_ctx demo_task demo_payload demo_pending_db demo_host
    = (demo_host, upd_config 5 (\<lambda>r. r\<lparr>row_status := FAILED, row_error_message := Some '''', row_updated_at := 103\<rparr>) demo_pending_db,
       raise KeyError '''')"
proof -
  have "get_model demo_pending_db 5 False = Some demo_pending"
    by (simp add: demo_pending_db_def get_model_def find_row_def demo_pending_def)
  moreover have "\<not> has_version demo_pending_db 5 1" by code_simp
  ultimately show ?thesis
    by (simp add: run_config_task_def demo_parsed attempt_task_def mark_processing_def mark_failed_def bindH_def liftH_def
        build_and_persist_version_def profile_settings_of_def demo_bad_ctx_def demo_task_def Let_def)
qed

theorem failed_task_witness:
  "\<exists>d'. run_config_task demo_bad_ctx demo_task demo_payload demo_pending_db demo_host = (demo_host, d', raise KeyError '''')
    \<and> versions d' = [] \<and> config_current d' 5 = None"
proof -
  have "config_current demo_pending_db 5 = None" by code_simp
  then show ?thesis
    using demo_bad_run failed_task [OF demo_bad_run demo_parsed, where c = 5] by (auto simp: demo_pending_db_def empty_db_def)
qed

theorem redelivered_task_witness:
  "\<exists>h' d' d''. run_config_task demo_ctx demo_task demo_payload demo_pending_db demo_host = (h', d', Inr ())
    \<and> run_config_task demo_ctx demo_task demo_payload d' h' = (h', d'', Inr ()) \<and> versions d'' = versions d'"
proof -
  obtain h' d' where run: "run_config_task demo_ctx demo_task demo_payload demo_pending_db demo_host = (h', d', Inr ())"
    using demo_task_runs by blast
  show ?thesis using run redelivered_task [OF run demo_parsed, of demo_task] by auto
qed

theorem task_answer_witness:
  "\<exists>h' d' res. process_task demo_ctx demo_task (\<lambda>c. Inr ()) (Inr ()) ''w1'' ''t1'' ''config.initialize'' demo_payload demo_pending_db demo_host
     = (h', d', [Ack ''t1'' ''w1''], res) \<and> active_at d' 5 1"
proof -
  obtain h' d' where run: "run_config_task demo_ctx demo_task demo_payload demo_pending_db demo_host = (h', d', Inr ())"
    using demo_task_runs by blast
  then have p: "process_task demo_ctx demo_task (\<lambda>c. Inr ()) (Inr ()) ''w1'' ''t1'' ''config.initialize'' demo_payload demo_pending_db demo_host
     = (h', d', [Ack ''t1'' ''w1''], Inr ())"
    by (simp add: process_task_def task_handlers_def Let_def)
  from task_answer [OF p demo_parsed] p show ?thesis by auto
qed

end
