(* ===== verification/Broker.thy ===== *)
theory Broker
  imports Host Http
begin

text \<open>
  The broker's HTTP client (\<open>panel/infrastructure/broker/http_client.py\<close>). The broker and the
  network are a parameter: what a call is answered, given the calls made before. The answer is an
  exception of the HTTP library or a status with the JSON document of the body (an exception when the
  body is not JSON).
\<close>

section \<open>Calls\<close>

datatype http_call =
    Post string json
  | Get string "(string \<times> string) list"

type_synonym http_server = "http_call list \<Rightarrow> http_call \<Rightarrow> exn + int \<times> (exn + json)"

text \<open>\<open>response.raise_for_status()\<close> of httpx lets the 2xx statuses through.\<close>

definition raise_for_status :: "int \<Rightarrow> exn + unit" where
  "raise_for_status code = (if 200 \<le> code \<and> code \<le> 299 then Inr () else raise HTTPError '''')"

text \<open>One call: it is made, then the answer is looked at.\<close>

definition http_send :: "http_server \<Rightarrow> http_call \<Rightarrow> (http_call list, int \<times> (exn + json)) act" where
  "http_send server call sent = (sent @ [call], server sent call)"

definition checked_json :: "http_server \<Rightarrow> http_call \<Rightarrow> (http_call list, json) act" where
  "checked_json server call =
     bindH (http_send server call) (\<lambda>(code, body). bindH (liftH (raise_for_status code)) (\<lambda>_. liftH body))"

definition checked_call :: "http_server \<Rightarrow> http_call \<Rightarrow> (http_call list, unit) act" where
  "checked_call server call = bindH (http_send server call) (\<lambda>(code, body). liftH (raise_for_status code))"

section \<open>The client\<close>

record task_status =
  ts_task_id :: json
  ts_status :: json
  ts_retries :: json
  ts_max_retries :: json

record pulled_task =
  pt_task_id :: json
  pt_task_type :: json
  pt_payload :: json
  pt_lock_ttl :: json

definition task_body :: "string \<Rightarrow> json \<Rightarrow> int \<Rightarrow> int option \<Rightarrow> json" where
  "task_body task_type payload delay_seconds max_retries =
     JDict ([(''task_type'', JStr task_type), (''payload'', payload), (''delay_seconds'', JInt delay_seconds)]
       @ (case max_retries of None \<Rightarrow> [] | Some m \<Rightarrow> [(''max_retries'', JInt m)]))"

definition publish_task :: "http_server \<Rightarrow> string \<Rightarrow> json \<Rightarrow> int \<Rightarrow> int option \<Rightarrow> (http_call list, json) act" where
  "publish_task server task_type payload delay_seconds max_retries =
     bindH (checked_json server (Post ''/api/v1/tasks'' (task_body task_type payload delay_seconds max_retries)))
       (\<lambda>data. liftH (jitem data ''task_id''))"

definition get_task_status :: "http_server \<Rightarrow> string \<Rightarrow> (http_call list, task_status) act" where
  "get_task_status server task_id =
     bindH (checked_json server (Get (''/api/v1/tasks/'' @ task_id @ ''/status'') [])) (\<lambda>data.
     bindH (liftH (jitem data ''id'')) (\<lambda>i.
     bindH (liftH (jitem data ''status'')) (\<lambda>s.
     bindH (liftH (jitem data ''retries'')) (\<lambda>r.
     bindH (liftH (jitem data ''max_retries'')) (\<lambda>m.
     returnH \<lparr>ts_task_id = i, ts_status = s, ts_retries = r, ts_max_retries = m\<rparr>)))))"

definition pull_task :: "http_server \<Rightarrow> string \<Rightarrow> string list \<Rightarrow> int option \<Rightarrow> (http_call list, pulled_task option) act" where
  "pull_task server worker_id task_types timeout =
     bindH (http_send server (Get ''/api/v1/tasks/pull''
         ((''worker_id'', worker_id) # map (\<lambda>t. (''task_types'', t)) task_types
          @ (case timeout of None \<Rightarrow> [] | Some n \<Rightarrow> [(''timeout'', show_int n)])))) (\<lambda>(code, body).
     if code = 204 then returnH None
     else bindH (liftH (raise_for_status code)) (\<lambda>_.
       bindH (liftH body) (\<lambda>data.
       bindH (liftH (jitem data ''task_id'')) (\<lambda>i.
       bindH (liftH (jitem data ''task_type'')) (\<lambda>t.
       bindH (liftH (jitem data ''payload'')) (\<lambda>p.
       bindH (liftH (jitem data ''lock_ttl_seconds'')) (\<lambda>l.
       returnH (Some \<lparr>pt_task_id = i, pt_task_type = t, pt_payload = p, pt_lock_ttl = l\<rparr>))))))))"

definition heartbeat :: "http_server \<Rightarrow> string \<Rightarrow> string \<Rightarrow> (http_call list, unit) act" where
  "heartbeat server task_id worker_id =
     checked_call server (Post (''/api/v1/tasks/'' @ task_id @ ''/heartbeat'') (JDict [(''worker_id'', JStr worker_id)]))"

definition ack :: "http_server \<Rightarrow> string \<Rightarrow> string \<Rightarrow> (http_call list, unit) act" where
  "ack server task_id worker_id =
     checked_call server (Post (''/api/v1/tasks/'' @ task_id @ ''/ack'') (JDict [(''worker_id'', JStr worker_id)]))"

definition nack :: "http_server \<Rightarrow> string \<Rightarrow> string \<Rightarrow> string \<Rightarrow> (http_call list, unit) act" where
  "nack server task_id worker_id reason =
     checked_call server (Post (''/api/v1/tasks/'' @ task_id @ ''/nack'')
       (JDict [(''worker_id'', JStr worker_id), (''reason'', JStr reason)]))"

section \<open>Lemmas\<close>

text \<open>Each operation makes exactly one call, whatever the answer.\<close>

lemma http_send_sent: "fst (http_send server call sent) = sent @ [call]"
  by (simp add: http_send_def)

lemma fst_bind_pure: "(\<And>x s. fst (f x s) = s) \<Longrightarrow> fst (bindH m f s) = fst (m s)"
  by (auto simp: bindH_def split: prod.splits sum.splits)

lemma fst_pure [simp]: "fst (returnH x s) = s" "fst (liftH r s) = s" "fst (raiseH e s) = s"
  by (simp_all add: returnH_def liftH_def raiseH_def)

lemma checked_sent: "fst (checked_json server call sent) = sent @ [call]" "fst (checked_call server call sent) = sent @ [call]"
  unfolding checked_json_def checked_call_def
  by (subst fst_bind_pure; auto simp: http_send_sent fst_bind_pure)+

lemma publish_task_sent: "fst (publish_task server t payload delay m sent) = sent @ [Post ''/api/v1/tasks'' (task_body t payload delay m)]"
  unfolding publish_task_def by (subst fst_bind_pure) (simp_all add: checked_sent)

lemma answers_sent: "fst (ack server t w sent) = sent @ [Post (''/api/v1/tasks/'' @ t @ ''/ack'') (JDict [(''worker_id'', JStr w)])]"
  "fst (nack server t w r sent) = sent @ [Post (''/api/v1/tasks/'' @ t @ ''/nack'') (JDict [(''worker_id'', JStr w), (''reason'', JStr r)])]"
  by (simp_all add: ack_def nack_def checked_sent)

end
