(* ===== verification/Config_Usecases.thy ===== *)
theory Config_Usecases
  imports Worker Broker Audit_Log "HOL-Library.Multiset"
begin

text \<open>
  The use cases on configurations, in \<open>panel/application\<close>: \<open>create_config.py\<close>,
  \<open>regenerate_config.py\<close>, \<open>regenerate_all_configs.py\<close>, \<open>configs.py\<close> and
  \<open>update_config_data.py\<close>. A use case works on the session of its request, the calls made to
  the broker and the machine; it commits where the code commits, and a request that ends without a
  commit loses what its session has changed since. Ids, times and nonces are drawn.
\<close>

section \<open>The state of a request\<close>

record app =
  a_session :: session
  a_sent :: "http_call list"
  a_host :: host

record app_env =
  ae_settings :: panel_settings
  ae_cipher :: cipher
  ae_os :: os_env
  ae_http :: http_server
  ae_yaml_unicode :: "json \<Rightarrow> string"

record use_draws =
  ud_id :: uuid
  ud_audit :: uuid
  ud_now :: "nat \<Rightarrow> int"
  ud_nonce :: nat

definition query :: "(db \<Rightarrow> exn + 'a) \<Rightarrow> (app, 'a) act" where
  "query f s = (s, f (cur (a_session s)))"

definition change :: "(db \<Rightarrow> exn + db \<times> 'a) \<Rightarrow> (app, 'a) act" where
  "change f s = (case f (cur (a_session s)) of
     Inl e \<Rightarrow> (s, Inl e)
   | Inr (d, x) \<Rightarrow> (s\<lparr>a_session := (a_session s)\<lparr>cur := d\<rparr>\<rparr>, Inr x))"

definition update_db :: "(db \<Rightarrow> exn + db) \<Rightarrow> (app, unit) act" where
  "update_db f = change (\<lambda>d. bindR (f d) (\<lambda>d'. Inr (d', ())))"

definition commitA :: "(app, unit) act" where
  "commitA s = (s\<lparr>a_session := commit (a_session s)\<rparr>, Inr ())"

definition on_broker :: "(http_call list, 'a) act \<Rightarrow> (app, 'a) act" where
  "on_broker m s = (case m (a_sent s) of (sent, r) \<Rightarrow> (s\<lparr>a_sent := sent\<rparr>, r))"

definition on_host :: "'a action \<Rightarrow> (app, 'a) act" where
  "on_host m s = (case m (a_host s) of (h, r) \<Rightarrow> (s\<lparr>a_host := h\<rparr>, r))"

text \<open>The value of a text column must be a string; the database driver refuses anything else.\<close>

definition text_value :: "json \<Rightarrow> exn + string" where
  "text_value v = (case v of JStr t \<Rightarrow> Inr t | _ \<Rightarrow> raise TypeError '''')"

definition publish :: "app_env \<Rightarrow> string \<Rightarrow> json \<Rightarrow> (app, string) act" where
  "publish env task_type payload =
     bindH (on_broker (publish_task (ae_http env) task_type payload 0 None)) (\<lambda>i. liftH (text_value i))"

definition task_payload :: "uuid \<Rightarrow> vpn_protocol_type \<Rightarrow> config_profile \<Rightarrow> string \<Rightarrow> uuid \<Rightarrow> int \<Rightarrow> json" where
  "task_payload config_id protocol p name requested_by target_version =
     JDict [(''config_id'', JStr (uuid_str config_id)), (''protocol'', JStr (protocol_value protocol)),
       (''profile'', JStr (profile_value p)), (''name'', JStr name), (''requested_by'', JStr (uuid_str requested_by)),
       (''target_version'', JInt target_version)]"

definition audit :: "app_env \<Rightarrow> use_draws \<Rightarrow> nat \<Rightarrow> string \<Rightarrow> json \<Rightarrow> uuid \<Rightarrow> (app, unit) act" where
  "audit env dr n event payload u =
     update_db (\<lambda>d. Inr (audit_log (ae_settings env) (ud_audit dr) (ud_now dr n) event payload (Some u) d))"

section \<open>Creating a configuration\<close>

datatype policy_arg = No_Policy | Whole_Policy regenerate_policy | Policy_Overrides "(string \<times> bool) list"

definition merged_policy :: "regenerate_policy \<Rightarrow> policy_arg \<Rightarrow> regenerate_policy" where
  "merged_policy base arg = (case arg of
     No_Policy \<Rightarrow> base | Whole_Policy p \<Rightarrow> policy_copy base (to_stored p) | Policy_Overrides upd \<Rightarrow> policy_copy base upd)"

definition create_config ::
  "app_env \<Rightarrow> use_draws \<Rightarrow> string \<Rightarrow> vpn_protocol_type \<Rightarrow> config_profile \<Rightarrow> user \<Rightarrow> policy_arg \<Rightarrow> string option \<Rightarrow> (app, uuid \<times> string) act" where
  "create_config env dr name protocol p u policy_in share_public_host =
     (case map_of (profiles (ae_settings env)) (profile_value p) of
        None \<Rightarrow> raiseH (Exn ValueError (''Unknown profile: '' @ profile_value p))
      | Some ps \<Rightarrow>
          bindH (liftH (normalize_share_public_host share_public_host)) (\<lambda>host.
          let policy = merged_policy (for_profile p (Some ps)) policy_in in
          bindH (change (\<lambda>d. create_pending d (ud_id dr) (ud_now dr 0) name protocol p (user_id u) (Some policy) host)) (\<lambda>config.
          thenH commitA
          (bindH (publish env ''config.initialize'' (task_payload (cfg_id config) protocol p name (user_id u) 1)) (\<lambda>task_id.
           thenH (update_db (\<lambda>d. set_last_task_id d (cfg_id config) task_id (ud_now dr 1)))
           (thenH (audit env dr 2 ''config.created''
               (JDict [(''config_id'', JStr (uuid_str (cfg_id config))), (''protocol'', JStr (protocol_value protocol)),
                       (''profile'', JStr (profile_value p)), (''name'', JStr name),
                       (''share_public_host'', opt_json host), (''task_id'', JStr task_id)]) (user_id u))
           (thenH commitA (returnH (cfg_id config, task_id)))))))))"

section \<open>Regenerating\<close>

definition busy :: "config_status \<Rightarrow> bool" where
  "busy st = (st = PENDING \<or> st = PROCESSING)"

definition regenerate_config :: "app_env \<Rightarrow> use_draws \<Rightarrow> uuid \<Rightarrow> user \<Rightarrow> (app, uuid \<times> string) act" where
  "regenerate_config env dr config_id u =
     bindH (query (\<lambda>d. get_by_id d config_id True)) (\<lambda>found.
     case found of
       None \<Rightarrow> raiseH (Exn ConfigNotFound '''')
     | Some config \<Rightarrow>
         if cfg_current_version config = None then raiseH (Exn ConfigNotRegeneratable ''Config has no version to regenerate'')
         else if busy (cfg_status config) then raiseH (Exn ConfigNotRegeneratable ''Config is busy'')
         else
           thenH (catchH (update_db (\<lambda>d. prepare_regenerate d config_id (user_id u) (ud_now dr 0))) [ValueError]
             (\<lambda>e. raiseH (Exn ConfigNotRegeneratable (exn_msg e))))
           (bindH (query (\<lambda>d. get_regenerate_context d config_id)) (\<lambda>(protocol, p, name, target_version).
            thenH commitA
            (bindH (publish env ''config.regenerate'' (task_payload config_id protocol p name (user_id u) target_version)) (\<lambda>task_id.
             thenH (update_db (\<lambda>d. set_last_task_id d config_id task_id (ud_now dr 1)))
             (thenH (audit env dr 2 ''config.regenerate.requested''
                 (JDict [(''config_id'', JStr (uuid_str config_id)), (''target_version'', JInt target_version),
                         (''task_id'', JStr task_id)]) (user_id u))
             (thenH commitA (returnH (config_id, task_id)))))))))"

record regenerate_all_result =
  ra_queued :: "(uuid \<times> string) list"
  ra_skipped :: "(uuid \<times> string) list"

text \<open>The configurations of one page, in order; only \<open>ConfigNotRegeneratable\<close> lets the loop go on.\<close>

fun regenerate_page ::
  "app_env \<Rightarrow> (uuid \<Rightarrow> use_draws) \<Rightarrow> user \<Rightarrow> vpn_config list \<Rightarrow> regenerate_all_result \<Rightarrow> (app, regenerate_all_result) act" where
  "regenerate_page env dr u [] acc = returnH acc"
| "regenerate_page env dr u (config # items) acc =
     bindH (catchH (bindH (regenerate_config env (dr (cfg_id config)) (cfg_id config) u)
              (\<lambda>result. returnH (acc\<lparr>ra_queued := ra_queued acc @ [result]\<rparr>)))
            [ConfigNotRegeneratable]
            (\<lambda>e. returnH (acc\<lparr>ra_skipped := ra_skipped acc @ [(cfg_id config, exn_msg e)]\<rparr>)))
       (regenerate_page env dr u items)"


section \<open>Requests and the list of configurations\<close>

text \<open>What the pages of the list depend on.\<close>

definition listed :: "db \<Rightarrow> (uuid \<times> bool \<times> vpn_protocol_type \<times> int) list" where
  "listed d = map (\<lambda>r. (row_id r, row_is_active r, row_protocol r, row_created_at r)) (configs d)"

definition keeps_listing :: "app \<Rightarrow> app \<Rightarrow> bool" where
  "keeps_listing s s' \<longleftrightarrow> listed (cur (a_session s')) = listed (cur (a_session s))"

interpretation listing: act_frame keeps_listing
  by unfold_locales (auto simp: keeps_listing_def)

lemma listing_steps:
  "follows keeps_listing (query f)" "follows keeps_listing commitA" "follows keeps_listing (on_broker m)" "follows keeps_listing (on_host n)"
  by (auto simp: follows_def query_def commitA_def commit_def on_broker_def on_host_def keeps_listing_def split: prod.splits)

lemma listing_update: "(\<And>d d'. f d = Inr d' \<Longrightarrow> listed d' = listed d) \<Longrightarrow> follows keeps_listing (update_db f)"
  by (auto simp: follows_def update_db_def change_def keeps_listing_def bindR_eq_Inr split: sum.splits)

lemma listed_upd_config:
  "(\<And>r. row_id (f r) = row_id r \<and> row_is_active (f r) = row_is_active r \<and> row_protocol (f r) = row_protocol r \<and> row_created_at (f r) = row_created_at r)
   \<Longrightarrow> listed (upd_config c f d) = listed d"
  by (simp add: listed_def upd_config_def upd_rows_def)

lemma listed_audit [simp]: "listed (audit_log st i t e p u d) = listed d"
  by (simp add: listed_def)

lemma set_last_task_id_Inr: "set_last_task_id d c t now = Inr d' \<Longrightarrow>
    d' = upd_config c (\<lambda>r. r\<lparr>row_last_task_id := Some t, row_updated_at := now\<rparr>) d"
  by (auto simp: set_last_task_id_def config_not_found_def split: option.splits)

lemma prepare_regenerate_Inr: "prepare_regenerate d c u now = Inr d' \<Longrightarrow>
    d' = upd_config c (\<lambda>r. r\<lparr>row_status := PENDING, row_error_message := None, row_updated_by := u, row_updated_at := now\<rparr>) d"
  by (auto simp: prepare_regenerate_def config_not_found_def Let_def bindR_eq_Inr split: option.splits if_splits)

lemma listing_publish: "follows keeps_listing (publish env t p)"
  unfolding publish_def by (intro listing.bind listing_steps listing.pure)

lemma listing_audit: "follows keeps_listing (audit env dr n e p u)"
  unfolding audit_def by (rule listing_update) auto

lemma listing_regenerate: "follows keeps_listing (regenerate_config env dr c u)"
proof -
  have t: "follows keeps_listing (update_db (\<lambda>d. set_last_task_id d c t now))" for t now
    by (rule listing_update) (auto dest!: set_last_task_id_Inr simp: listed_upd_config)
  have p: "follows keeps_listing (update_db (\<lambda>d. prepare_regenerate d c v now))" for v now
    by (rule listing_update) (auto dest!: prepare_regenerate_Inr simp: listed_upd_config)
  have found: "follows keeps_listing (case found of None \<Rightarrow> m | Some x \<Rightarrow> n x)"
    if "follows keeps_listing m" "\<And>x. follows keeps_listing (n x)" for found m n
    using that by (cases found) auto
  have pair: "follows keeps_listing (case x of (a, b, e, f) \<Rightarrow> m a b e f)" if "\<And>a b e f. follows keeps_listing (m a b e f)" for x m
    using that by (cases x) auto
  show ?thesis
    unfolding regenerate_config_def
    by (intro listing.bind listing_steps listing.pure listing.ite listing.catch found pair p t listing_publish listing_audit)
qed

lemma listing_page: "follows keeps_listing (regenerate_page env dr u items acc)"
proof (induction env dr u items acc rule: regenerate_page.induct)
  case (2 env dr u config items acc)
  then show ?case
    unfolding regenerate_page.simps by (intro listing.bind listing.catch listing.pure listing_regenerate) auto
qed (simp add: listing.pure)

section \<open>All configurations\<close>

definition active_ids :: "db \<Rightarrow> uuid list" where
  "active_ids d = map row_id (sort_key (\<lambda>r. - row_created_at r) (active_rows d None))"

lemma map_sort_key: "map f (sort_key (\<lambda>x. g (f x)) xs) = sort_key g (map f xs)"
proof (induction xs)
  case (Cons x xs)
  have "map f (insort_key (\<lambda>x. g (f x)) x ys) = insort_key g (f x) (map f ys)" for ys
    by (induction ys) auto
  with Cons show ?case by simp
qed simp

lemma active_ids_listed: "active_ids d = map fst (sort_key (\<lambda>(i, a, p, t). - t) (filter (\<lambda>(i, a, p, t). a) (listed d)))"
proof -
  let ?f = "\<lambda>r. (row_id r, row_is_active r, row_protocol r, row_created_at r)" and ?g = "\<lambda>(i, a, p, t). - t :: int"
  have "filter (\<lambda>(i, a, p, t). a) (listed d) = map ?f (active_rows d None)"
    by (simp add: listed_def active_rows_def filter_map comp_def)
  moreover have "map fst (sort_key ?g (map ?f (active_rows d None))) = map row_id (sort_key (\<lambda>r. - row_created_at r) (active_rows d None))"
    by (simp add: map_sort_key [of ?f ?g, symmetric] comp_def)
  ultimately show ?thesis by (simp only: active_ids_def)
qed

lemma map_result_ids: "map_result (\<lambda>r. config_to_entity r None) rows = Inr items \<Longrightarrow> map cfg_id items = map row_id rows"
proof (induction rows arbitrary: items)
  case (Cons r rows)
  then show ?case by (auto simp: bindR_eq_Inr config_to_entity_def)
qed simp

lemma list_active_page: "list_active d None n offset = Inr batch \<Longrightarrow>
   map cfg_id (list_items batch) = take n (drop offset (active_ids d)) \<and> list_total batch = length (active_ids d)"
  by (auto simp: list_active_def Let_def bindR_eq_Inr active_ids_def take_map drop_map dest!: map_result_ids)


text \<open>One turn of the loop: a page is read, its configurations are tried, and either the list is done or the next offset is known.\<close>

definition regenerate_turn ::
  "app_env \<Rightarrow> (uuid \<Rightarrow> use_draws) \<Rightarrow> user \<Rightarrow> nat \<Rightarrow> regenerate_all_result \<Rightarrow> (app, regenerate_all_result \<times> nat option) act" where
  "regenerate_turn env dr u offset acc =
     bindH (query (\<lambda>d. list_active d None 100 offset)) (\<lambda>batch.
     bindH (regenerate_page env dr u (list_items batch) acc) (\<lambda>acc'.
     returnH (acc', if offset + length (list_items batch) \<ge> list_total batch then None
       else Some (offset + length (list_items batch)))))"

lemma turn_result:
  assumes "regenerate_turn env dr u offset acc s = (s', Inr (acc', next_offset))"
  shows "\<exists>batch. list_active (cur (a_session s)) None 100 offset = Inr batch
    \<and> regenerate_page env dr u (list_items batch) acc s = (s', Inr acc')
    \<and> next_offset = (if offset + length (list_items batch) \<ge> list_total batch then None
       else Some (offset + length (list_items batch)))"
  using assms by (auto simp: regenerate_turn_def bindH_run query_def)

lemma turn_listing: "follows keeps_listing (regenerate_turn env dr u offset acc)"
  unfolding regenerate_turn_def by (intro listing.bind listing_steps listing.pure listing_page)

lemma turn_progress:
  assumes "regenerate_turn env dr u offset acc s = (s', Inr (acc', Some offset'))"
  shows "length (active_ids (cur (a_session s'))) - offset' < length (active_ids (cur (a_session s))) - offset"
proof -
  obtain batch where b: "list_active (cur (a_session s)) None 100 offset = Inr batch"
    "\<not> offset + length (list_items batch) \<ge> list_total batch" "offset' = offset + length (list_items batch)"
    using turn_result [OF assms] by (auto split: if_splits)
  have ids: "active_ids (cur (a_session s')) = active_ids (cur (a_session s))"
    using listing.follows_stepD [OF turn_listing assms] by (simp add: active_ids_listed keeps_listing_def)
  have "length (list_items batch) = min 100 (length (active_ids (cur (a_session s))) - offset)"
    using list_active_page [OF b(1)] by (metis length_drop length_map length_take min.commute)
  then show ?thesis using b list_active_page [OF b(1)] ids by auto
qed

function regenerate_loop ::
  "app_env \<Rightarrow> (uuid \<Rightarrow> use_draws) \<Rightarrow> user \<Rightarrow> nat \<Rightarrow> regenerate_all_result \<Rightarrow> (app, regenerate_all_result) act" where
  "regenerate_loop env dr u offset acc s = (case regenerate_turn env dr u offset acc s of
     (s', Inl e) \<Rightarrow> (s', Inl e)
   | (s', Inr (acc', None)) \<Rightarrow> (s', Inr acc')
   | (s', Inr (acc', Some offset')) \<Rightarrow> regenerate_loop env dr u offset' acc' s')"
  by auto
termination
  by (relation "measure (\<lambda>(env, dr, u, offset, acc, s). length (active_ids (cur (a_session s))) - offset)")
    (auto dest!: turn_progress [OF sym])

declare regenerate_loop.simps [simp del]

definition regenerate_all_configs :: "app_env \<Rightarrow> (uuid \<Rightarrow> use_draws) \<Rightarrow> use_draws \<Rightarrow> user \<Rightarrow> (app, regenerate_all_result) act" where
  "regenerate_all_configs env dr dr0 u =
     bindH (regenerate_loop env dr u 0 \<lparr>ra_queued = [], ra_skipped = []\<rparr>) (\<lambda>res.
     thenH (audit env dr0 0 ''config.regenerate_all.requested''
         (JDict [(''queued_count'', JInt (int (length (ra_queued res)))), (''skipped_count'', JInt (int (length (ra_skipped res))))])
         (user_id u))
     (thenH commitA (returnH res)))"

text \<open>The configurations a result speaks of, in no order.\<close>

definition result_ids :: "regenerate_all_result \<Rightarrow> uuid multiset" where
  "result_ids res = mset (map fst (ra_queued res)) + mset (map fst (ra_skipped res))"

lemma regenerate_config_id: "regenerate_config env dr c u s = (s', Inr (c', t)) \<Longrightarrow> c' = c"
  unfolding regenerate_config_def
  by (auto simp: bindH_run raiseH_def split: option.splits if_splits)

lemma regenerate_page_ids:
  "regenerate_page env dr u items acc s = (s', Inr acc') \<Longrightarrow> result_ids acc' = result_ids acc + mset (map cfg_id items)"
proof (induction env dr u items acc arbitrary: s rule: regenerate_page.induct)
  case (2 env dr u config items acc)
  let ?one = "bindH (regenerate_config env (dr (cfg_id config)) (cfg_id config) u)
      (\<lambda>result. returnH (acc\<lparr>ra_queued := ra_queued acc @ [result]\<rparr>))"
  obtain s1 acc1 where c: "catchH ?one [ConfigNotRegeneratable]
      (\<lambda>e. returnH (acc\<lparr>ra_skipped := ra_skipped acc @ [(cfg_id config, exn_msg e)]\<rparr>)) s = (s1, Inr acc1)"
    and r: "regenerate_page env dr u items acc1 s1 = (s', Inr acc')"
    using 2(2) by (auto simp: bindH_run)
  have "result_ids acc1 = result_ids acc + {#cfg_id config#}"
  proof (cases "snd (?one s)")
    case (Inl e)
    then have "acc1 = acc\<lparr>ra_skipped := ra_skipped acc @ [(cfg_id config, exn_msg e)]\<rparr>"
      using c by (cases "?one s") (auto simp: catchH_def split: if_splits)
    then show ?thesis by (simp add: result_ids_def)
  next
    case (Inr a)
    then have "?one s = (s1, Inr acc1)" using c by (cases "?one s") (auto simp: catchH_def)
    then obtain t where "acc1 = acc\<lparr>ra_queued := ra_queued acc @ [(cfg_id config, t)]\<rparr>"
      by (auto simp: bindH_run dest: regenerate_config_id)
    then show ?thesis by (simp add: result_ids_def)
  qed
  then show ?case using 2(1) [OF r] by simp
qed simp

lemma regenerate_loop_ids:
  "regenerate_loop env dr u offset acc s = (s', Inr res) \<Longrightarrow>
   result_ids res = result_ids acc + mset (drop offset (active_ids (cur (a_session s))))"
proof (induction env dr u offset acc s rule: regenerate_loop.induct)
  case (1 env dr u offset acc s)
  obtain s1 r where t: "regenerate_turn env dr u offset acc s = (s1, r)" by (cases "regenerate_turn env dr u offset acc s")
  then obtain acc1 nx where r: "r = Inr (acc1, nx)"
    using 1(2) by (cases r) (subst (asm) regenerate_loop.simps, simp, force)
  obtain batch where b: "list_active (cur (a_session s)) None 100 offset = Inr batch"
    "regenerate_page env dr u (list_items batch) acc s = (s1, Inr acc1)"
    "nx = (if offset + length (list_items batch) \<ge> list_total batch then None else Some (offset + length (list_items batch)))"
    using turn_result [OF t [unfolded r]] by (elim exE conjE) (rule that)
  let ?ids = "active_ids (cur (a_session s))"
  have page: "map cfg_id (list_items batch) = take 100 (drop offset ?ids)" "list_total batch = length ?ids"
    using list_active_page [OF b(1)] by auto
  have tried: "result_ids acc1 = result_ids acc + mset (take 100 (drop offset ?ids))"
    using regenerate_page_ids [OF b(2)] page(1) by simp
  have len: "length (list_items batch) = min 100 (length ?ids - offset)"
    using page(1) by (metis length_drop length_map length_take min.commute)
  show ?case
  proof (cases nx)
    case None
    then have "length ?ids - offset \<le> 100" using b(3) page(2) len by (auto split: if_splits)
    moreover have "res = acc1" using 1(2) t r None by (subst (asm) regenerate_loop.simps) simp
    ultimately show ?thesis using tried by simp
  next
    case (Some offset')
    then have o: "offset' = offset + 100" using b(3) page(2) len by (auto split: if_splits)
    have "regenerate_loop env dr u offset' acc1 s1 = (s', Inr res)"
      using 1(2) t r Some by (subst (asm) regenerate_loop.simps) simp
    then have "result_ids res = result_ids acc1 + mset (drop offset' (active_ids (cur (a_session s1))))"
      using 1(1) [OF t [symmetric] r refl Some] by blast
    moreover have "active_ids (cur (a_session s1)) = ?ids"
      using listing.follows_stepD [OF turn_listing t] by (simp add: active_ids_listed keeps_listing_def)
    moreover have "mset (take 100 (drop offset ?ids)) + mset (drop offset' ?ids) = mset (drop offset ?ids)"
      by (simp only: o mset_append [symmetric] add.commute [of offset 100] drop_drop [symmetric] append_take_drop_id)
    ultimately show ?thesis using tried by (simp add: add.assoc)
  qed
qed


text \<open>
  C34. Regenerating everything leaves no configuration out and touches none twice, however many
  pages the list has: when it returns, the configurations queued and skipped are together exactly the
  configurations that were active when it began.
\<close>

theorem regenerate_all_complete:
  assumes "regenerate_all_configs env dr dr0 u s = (s', Inr res)" and "distinct (map row_id (configs (cur (a_session s))))"
  shows "result_ids res = mset (active_ids (cur (a_session s)))
    \<and> distinct (map fst (ra_queued res) @ map fst (ra_skipped res))
    \<and> set (map fst (ra_queued res) @ map fst (ra_skipped res)) = {row_id r | r. r \<in> set (configs (cur (a_session s))) \<and> row_is_active r}"
proof -
  let ?d = "cur (a_session s)"
  obtain s1 where "regenerate_loop env dr u 0 \<lparr>ra_queued = [], ra_skipped = []\<rparr> s = (s1, Inr res)"
    using assms(1) by (auto simp: regenerate_all_configs_def bindH_run)
  from regenerate_loop_ids [OF this] have ids: "result_ids res = mset (active_ids ?d)"
    by (simp add: result_ids_def)
  have "distinct (active_ids ?d)"
    using assms(2) by (auto simp: active_ids_def active_rows_def distinct_map intro: inj_on_subset)
  moreover have m: "mset (map fst (ra_queued res) @ map fst (ra_skipped res)) = mset (active_ids ?d)"
    using ids by (simp add: result_ids_def)
  ultimately have "distinct (map fst (ra_queued res) @ map fst (ra_skipped res))"
    using mset_eq_imp_distinct_iff [OF m] by blast
  moreover have "set (map fst (ra_queued res) @ map fst (ra_skipped res)) = set (active_ids ?d)" by (rule mset_eq_setD [OF m])
  moreover have "set (active_ids ?d) = {row_id r | r. r \<in> set (configs ?d) \<and> row_is_active r}"
    by (auto simp: active_ids_def active_rows_def)
  ultimately show ?thesis using ids by simp
qed


section \<open>Listing, reading, deleting, changing the policy\<close>

definition list_configs :: "vpn_protocol_type option \<Rightarrow> nat \<Rightarrow> nat \<Rightarrow> (app, config_list_result) act" where
  "list_configs protocol limit offset = query (\<lambda>d. list_active d protocol limit offset)"

definition get_config :: "uuid \<Rightarrow> (app, vpn_config) act" where
  "get_config config_id = bindH (query (\<lambda>d. get_by_id d config_id True)) (\<lambda>found.
     case found of None \<Rightarrow> raiseH (Exn ConfigNotFound '''') | Some config \<Rightarrow> returnH config)"

definition delete_config :: "app_env \<Rightarrow> use_draws \<Rightarrow> uuid \<Rightarrow> user \<Rightarrow> (app, unit) act" where
  "delete_config env dr config_id u =
     (let st = ae_settings env in
      bindH (get_config config_id) (\<lambda>config.
      thenH (if per_config (systemd st) then
          bindH (liftH (profile_settings_of st (cfg_profile config))) (\<lambda>ps.
            on_host (remove_config_unit (ae_os env) (cfg_profile config) config_id (config_filename ps) (systemd st)))
        else returnH ())
      (bindH (change (\<lambda>d. Inr (soft_delete d config_id (user_id u) (ud_now dr 0)))) (\<lambda>deleted.
       if \<not> deleted then raiseH (Exn ConfigNotFound '''')
       else audit env dr 1 ''config.deleted'' (JDict [(''config_id'', JStr (uuid_str config_id))]) (user_id u)))))"

definition update_policy :: "app_env \<Rightarrow> use_draws \<Rightarrow> uuid \<Rightarrow> user \<Rightarrow> (string \<times> bool) list \<Rightarrow> (app, vpn_config) act" where
  "update_policy env dr config_id u overrides =
     bindH (get_config config_id) (\<lambda>config.
     bindH (liftH (from_stored (map_option (\<lambda>p. bools_json (to_stored p)) (cfg_regenerate_policy config)) (cfg_profile config)
         (map_of (profiles (ae_settings env)) (profile_value (cfg_profile config))))) (\<lambda>base.
     let policy = policy_copy base overrides in
     bindH (change (\<lambda>d. update_regenerate_policy d config_id policy (user_id u) (ud_now dr 0))) (\<lambda>updated.
     thenH (audit env dr 1 ''config.regenerate_policy_updated''
         (JDict [(''config_id'', JStr (uuid_str config_id)), (''regenerate_policy'', bools_json (to_stored policy))]) (user_id u))
     (returnH updated))))"

section \<open>The text of a configuration\<close>

definition format_for_profile :: "config_profile \<Rightarrow> string" where
  "format_for_profile p = (if p = HYSTERIA2 then ''yaml'' else ''json'')"

definition serialize_config_data :: "app_env \<Rightarrow> json \<Rightarrow> string \<Rightarrow> string" where
  "serialize_config_data env config_data fmt =
     (if fmt = ''yaml'' then ae_yaml_unicode env config_data else json_show 0 config_data)"

definition parse_config_content :: "app_env \<Rightarrow> string \<Rightarrow> string \<Rightarrow> exn + json" where
  "parse_config_content env content fmt =
     (let text = strip content; b = os_build (ae_os env) in
      if text = [] then raise InvalidConfigData ''Empty document''
      else (case (if fmt = ''yaml'' then env_yaml_load b text else env_json_loads b text) of
          Inl e \<Rightarrow> raise InvalidConfigData (''Syntax error: '' @ exn_msg e)
        | Inr data \<Rightarrow>
            if \<not> is_jdict data \<or> \<not> truthy data then raise InvalidConfigData ''Root must be a non-empty object''
            else Inr data))"

record config_data_result =
  cd_config_id :: uuid
  cd_version :: int
  cd_profile :: string
  cd_format :: string
  cd_content :: string
  cd_config_data :: json

definition get_config_data :: "app_env \<Rightarrow> uuid \<Rightarrow> (app, config_data_result) act" where
  "get_config_data env config_id =
     bindH (query (\<lambda>d. get_by_id d config_id True)) (\<lambda>found.
     case Option.bind found cfg_current_version of
       None \<Rightarrow> raiseH (Exn ConfigNotFound '''')
     | Some version \<Rightarrow>
         bindH (query (\<lambda>d. Inr (get_version_snapshot d config_id version))) (\<lambda>snap.
         case snap of
           None \<Rightarrow> raiseH (Exn ConfigDataUnavailable ''Current version not found'')
         | Some snapshot \<Rightarrow>
             bindH (liftH (decrypt_config_data_fields (ae_cipher env) (snap_config_data snapshot)
                 (sensitive_fields (snap_profile snapshot)))) (\<lambda>plain.
             let fmt = format_for_profile (snap_profile snapshot) in
             returnH \<lparr>cd_config_id = config_id, cd_version = snap_version snapshot, cd_profile = profile_value (snap_profile snapshot),
               cd_format = fmt, cd_content = serialize_config_data env plain fmt, cd_config_data = plain\<rparr>)))"

text \<open>What the request gives: a text, or else an object that is not empty.\<close>

definition parsed_payload :: "app_env \<Rightarrow> string option \<Rightarrow> json option \<Rightarrow> string \<Rightarrow> exn + json" where
  "parsed_payload env content config_data fmt = (case content of
     Some text \<Rightarrow> parse_config_content env text fmt
   | None \<Rightarrow> (case config_data of
       Some data \<Rightarrow> if is_jdict data \<and> truthy data then Inr data else raise InvalidConfigData ''Provide content or config_data object''
     | None \<Rightarrow> raise InvalidConfigData ''Provide content or config_data object''))"

definition edited_build :: "json \<Rightarrow> int \<Rightarrow> version_snapshot \<Rightarrow> build_result" where
  "edited_build parsed port snapshot = \<lparr>br_config = parsed, br_port = port, br_private_key = '''',
     br_public_key = snap_public_key snapshot, br_fingerprint = snap_cert_fingerprint snapshot, br_client_id = None, br_extra_files = []\<rparr>"

definition save_config_data ::
  "app_env \<Rightarrow> use_draws \<Rightarrow> uuid \<Rightarrow> user \<Rightarrow> json option \<Rightarrow> string option \<Rightarrow> string option \<Rightarrow> version_snapshot \<Rightarrow> (app, config_data_result) act" where
  "save_config_data env dr config_id u config_data content format_in snapshot =
     (let st = ae_settings env; p = snap_profile snapshot in
      case map_of (profiles st) (profile_value p) of
        None \<Rightarrow> raiseH (Exn InvalidConfigData (''Unknown profile: '' @ profile_value p))
      | Some ps \<Rightarrow>
          let fmt = the_or (format_for_profile p) (some_text format_in) in
          bindH (liftH (parsed_payload env content config_data fmt)) (\<lambda>parsed.
          let port = (case listening_port p parsed (inbound_tag ps) of Inl e \<Rightarrow> snap_port snapshot | Inr q \<Rightarrow> q) in
          bindH (liftH (encrypt_config_data_fields (ae_cipher env) (ud_nonce dr) parsed (sensitive_fields p))) (\<lambda>stored.
          thenH (update_db (\<lambda>d. update_version_config_data d config_id (snap_version snapshot) stored port (user_id u) (ud_now dr 0)))
          (thenH (on_host (write_files (ae_os env) st p config_id (edited_build parsed port snapshot) (snap_name snapshot)))
          (thenH (audit env dr 1 ''config.config_data_updated''
              (JDict [(''config_id'', JStr (uuid_str config_id)), (''version'', JInt (snap_version snapshot)),
                      (''port'', JInt port), (''format'', JStr fmt)]) (user_id u))
          (returnH \<lparr>cd_config_id = config_id, cd_version = snap_version snapshot, cd_profile = profile_value p, cd_format = fmt,
             cd_content = serialize_config_data env parsed fmt, cd_config_data = parsed\<rparr>))))))"

definition update_config_data ::
  "app_env \<Rightarrow> use_draws \<Rightarrow> uuid \<Rightarrow> user \<Rightarrow> json option \<Rightarrow> string option \<Rightarrow> string option \<Rightarrow> (app, config_data_result) act" where
  "update_config_data env dr config_id u config_data content format_in =
     bindH (query (\<lambda>d. get_by_id d config_id True)) (\<lambda>found.
     case found of
       None \<Rightarrow> raiseH (Exn ConfigNotFound '''')
     | Some config \<Rightarrow> (case cfg_current_version config of
         None \<Rightarrow> raiseH (Exn ConfigNotFound '''')
       | Some version \<Rightarrow>
           if busy (cfg_status config)
           then raiseH (Exn InvalidConfigData ''Config is busy; wait until status is active/failed'')
           else bindH (query (\<lambda>d. Inr (get_version_snapshot d config_id version))) (\<lambda>snap.
             case snap of
               None \<Rightarrow> raiseH (Exn ConfigDataUnavailable ''Current version not found'')
             | Some snapshot \<Rightarrow> save_config_data env dr config_id u config_data content format_in snapshot)))"


section \<open>What a use case has done when it returns\<close>

lemma query_run: "query f s = (s', Inr x) \<longleftrightarrow> s' = s \<and> f (cur (a_session s)) = Inr x"
  by (auto simp: query_def)

lemma update_db_run: "update_db f s = (s', Inr u) \<longleftrightarrow> (\<exists>d. f (cur (a_session s)) = Inr d \<and> s' = s\<lparr>a_session := (a_session s)\<lparr>cur := d\<rparr>\<rparr>)"
  by (auto simp: update_db_def change_def bindR_eq_Inr split: sum.splits)

lemma change_run: "change f s = (s', Inr x) \<longleftrightarrow> (\<exists>d. f (cur (a_session s)) = Inr (d, x) \<and> s' = s\<lparr>a_session := (a_session s)\<lparr>cur := d\<rparr>\<rparr>)"
  by (auto simp: change_def split: sum.splits)

lemma commitA_run: "commitA s = (s', Inr u) \<longleftrightarrow> s' = s\<lparr>a_session := commit (a_session s)\<rparr>"
  by (auto simp: commitA_def)

lemma raiseH_run [simp]: "raiseH e s = (s', Inr x) \<longleftrightarrow> False"
  by (simp add: raiseH_def)

lemma on_host_run: "on_host m s = (s', Inr x) \<longleftrightarrow> (\<exists>h. m (a_host s) = (h, Inr x) \<and> s' = s\<lparr>a_host := h\<rparr>)"
  by (auto simp: on_host_def split: prod.splits)

lemmas app_runs = bindH_run query_run update_db_run change_run commitA_run on_host_run

lemma publish_run:
  "publish env t payload s = (s', Inr i) \<Longrightarrow> s' = s\<lparr>a_sent := a_sent s @ [Post ''/api/v1/tasks'' (task_body t payload 0 None)]\<rparr>"
  using publish_task_sent [of "ae_http env" t payload 0 None "a_sent s"]
  by (auto simp: publish_def bindH_run on_broker_def split: prod.splits)

text \<open>A task published by the panel is read back by the worker as what it asks for.\<close>

lemma payload_round_trip: "parse_payload (task_payload cid protocol p name u v) = Inr (cid, p, v, name)"
  by (simp add: parse_payload_def task_payload_def)

lemma create_pending_row:
  assumes "create_pending d i now n pr p u pol h = Inr (d', e)"
  shows "cfg_id e = i \<and> get_model d i False = None \<and> (\<exists>r. get_model d' i False = Some r \<and> row_is_active r \<and> row_status r = PENDING
    \<and> row_current_version r = None \<and> row_last_task_id r = None \<and> row_profile r = p \<and> row_name r = n \<and> row_id r = i) \<and> versions d' = versions d \<and> shares d' = shares d"
proof -
  obtain r where r: "d' = d\<lparr>configs := configs d @ [r]\<rparr>" "row_id r = i" "\<not> config_exists d i" "row_is_active r"
    "row_status r = PENDING" "row_current_version r = None" "row_last_task_id r = None" "row_profile r = p" "row_name r = n" "config_to_entity r None = Inr e"
    using assms by (auto simp: create_pending_def Let_def bindR_eq_Inr insert_config_def split: if_splits)
  then have "get_model d i False = None" by (simp add: config_exists_iff)
  then have "get_model d' i False = Some r"
    using r by (simp add: get_model_def find_row_append find_row_single)
  then show ?thesis using r \<open>get_model d i False = None\<close> by (auto simp: config_to_entity_def bindR_eq_Inr)
qed

lemma get_model_flag: "get_model d c False = Some r \<Longrightarrow> row_is_active r \<Longrightarrow> distinct (map row_id (configs d)) \<Longrightarrow> get_model d c True = Some r"
proof -
  assume r: "get_model d c False = Some r" "row_is_active r" and dist: "distinct (map row_id (configs d))"
  have m: "row_id r = c" "r \<in> set (configs d)" using get_model_id [OF r(1)] by auto
  obtain q where q: "get_model d c True = Some q"
    using m r(2) by (cases "get_model d c True") (auto simp: get_model_def find_row_None)
  then have "row_id q = c" "q \<in> set (configs d)" using get_model_id by auto
  with m dist q show ?thesis by (auto simp: distinct_map inj_on_def)
qed

definition queued_create :: "app_env \<Rightarrow> uuid \<Rightarrow> vpn_protocol_type \<Rightarrow> config_profile \<Rightarrow> string \<Rightarrow> uuid \<Rightarrow> http_call" where
  "queued_create env cid protocol p name u =
     Post ''/api/v1/tasks'' (task_body ''config.initialize'' (task_payload cid protocol p name u 1) 0 None)"

lemma create_config_run:
  assumes "create_config env dr name protocol p u pol host s = (s', Inr (cid, t))"
  shows "cid = ud_id dr \<and> com (a_session s') = cur (a_session s')
    \<and> a_sent s' = a_sent s @ [queued_create env cid protocol p name (user_id u)] \<and> a_host s' = a_host s
    \<and> get_model (cur (a_session s)) cid False = None
    \<and> versions (com (a_session s')) = versions (cur (a_session s)) \<and> shares (com (a_session s')) = shares (cur (a_session s))
    \<and> (\<exists>r. get_model (com (a_session s')) cid False = Some r \<and> row_status r = PENDING \<and> row_current_version r = None
         \<and> row_last_task_id r = Some t \<and> row_profile r = p \<and> row_name r = name)"
proof -
  obtain ps where ps: "map_of (profiles (ae_settings env)) (profile_value p) = Some ps"
    using assms by (auto simp: create_config_def split: option.splits)
  obtain d1 config d2 h2 where c: "create_pending (cur (a_session s)) (ud_id dr) (ud_now dr 0) name protocol p (user_id u)
      (Some (merged_policy (for_profile p (Some ps)) pol)) h2 = Inr (d1, config)"
    and t: "set_last_task_id d1 (cfg_id config) t (ud_now dr 1) = Inr d2"
    and s': "cid = cfg_id config" "com (a_session s') = cur (a_session s')" "a_host s' = a_host s"
      "a_sent s' = a_sent s @ [Post ''/api/v1/tasks'' (task_body ''config.initialize'' (task_payload (cfg_id config) protocol p name (user_id u) 1) 0 None)]"
      "configs (cur (a_session s')) = configs d2" "versions (cur (a_session s')) = versions d2" "shares (cur (a_session s')) = shares d2"
    using assms ps unfolding create_config_def
    by (auto simp: app_runs Let_def audit_def commit_def dest!: publish_run)
  obtain r where r: "cfg_id config = ud_id dr" "get_model (cur (a_session s)) (ud_id dr) False = None" "get_model d1 (ud_id dr) False = Some r"
    "row_status r = PENDING" "row_current_version r = None" "row_profile r = p" "row_name r = name" "row_id r = ud_id dr"
    "versions d1 = versions (cur (a_session s))" "shares d1 = shares (cur (a_session s))"
    using create_pending_row [OF c] by blast
  have d2: "d2 = upd_config (ud_id dr) (\<lambda>r. r\<lparr>row_last_task_id := Some t, row_updated_at := ud_now dr 1\<rparr>) d1"
    using set_last_task_id_Inr [OF t] r(1) by simp
  have "get_model (com (a_session s')) (ud_id dr) False = Some (r\<lparr>row_last_task_id := Some t, row_updated_at := ud_now dr 1\<rparr>)"
  proof -
    have "get_model (com (a_session s')) (ud_id dr) False = get_model d2 (ud_id dr) False"
      using s'(2,5) by (simp add: get_model_def)
    also have "\<dots> = Some (r\<lparr>row_last_task_id := Some t, row_updated_at := ud_now dr 1\<rparr>)"
      using r(3,8) unfolding d2 by (simp add: get_model_upd_any)
    finally show ?thesis .
  qed
  then show ?thesis using s' r d2 by (simp add: queued_create_def)
qed


text \<open>
  C33. A created configuration does not stay pending: the task the panel publishes last is the one
  the worker reads as a request for version 1 of this configuration, and once the worker has handled
  it, the configuration is committed active at version 1, and the task acknowledged, or failed, and
  the task refused.
\<close>

theorem created_config_settles:
  assumes create: "create_config env dr name protocol p u pol host s = (s', Inr (cid, t))"
    and sent: "last (a_sent s') = Post ''/api/v1/tasks'' (task_body task_type payload 0 None)"
    and work: "process_task ctx td broker heartbeats w tid task_type payload (com (a_session s')) h = (h', d', calls, res)"
  shows "\<exists>r. get_model d' cid False = Some r
    \<and> (calls = [Ack tid w] \<and> has_version d' cid 1 \<and> row_status r = ACTIVE \<and> row_current_version r = Some 1
       \<or> (\<exists>reason. calls = [Nack tid w reason]) \<and> row_status r = FAILED \<and> row_current_version r = None)"
proof -
  note c = create_config_run [OF create]
  have b: "task_type = ''config.initialize''" "payload = task_payload cid protocol p name (user_id u) 1"
    using sent c by (auto simp: queued_create_def task_body_def)
  have args: "parse_payload payload = Inr (cid, p, 1, name)" unfolding b(2) by (rule payload_round_trip)
  obtain r where r: "get_model (com (a_session s')) cid False = Some r" "row_current_version r = None" using c by blast
  obtain rr where run: "run_config_task ctx td payload (com (a_session s')) h = (h', d', rr)"
    and calls: "calls = [case rr of Inr _ \<Rightarrow> Ack tid w | Inl e \<Rightarrow> Nack tid w (exn_msg e)]"
    using work b(1) by (auto simp: process_task_def task_handlers_def Let_def split: prod.splits)
  show ?thesis
  proof (cases rr)
    case (Inr x)
    then have "active_at d' cid 1"
      using attempt_task_active_at [OF run_config_task_Inr [OF _ args]] run by auto
    then show ?thesis using Inr calls by (auto simp: active_at_def)
  next
    case (Inl e)
    have "mark_failed (com (a_session s')) cid (exn_msg e) (td_now td 3) = Inr d'"
      using run_config_task_Inl [OF run [unfolded Inl] args] r(1) by auto
    then have d': "d' = upd_config cid (\<lambda>r. r\<lparr>row_status := FAILED, row_error_message := Some (take 2000 (exn_msg e)), row_updated_at := td_now td 3\<rparr>)
        (com (a_session s'))" by (simp add: mark_failed_Inr)
    have "row_id r = cid" using get_model_id [OF r(1)] by simp
    then show ?thesis using r Inl calls unfolding d' by (simp add: get_model_upd_any)
  qed
qed

text \<open>But if the broker cannot be reached, the configuration has been committed and no task exists.\<close>

lemma unpublished_stays_pending:
  assumes down: "ae_http env = (\<lambda>sent call. raise HTTPError '''')"
    and ps: "map_of (profiles (ae_settings env)) (profile_value p) = Some ps"
    and new: "create_pending (cur (a_session s)) (ud_id dr) (ud_now dr 0) name protocol p (user_id u)
      (Some (merged_policy (for_profile p (Some ps)) pol)) None = Inr (d1, config)"
  shows "\<exists>s'. create_config env dr name protocol p u pol None s = (s', raise HTTPError '''')
    \<and> (\<exists>r. get_model (com (a_session s')) (ud_id dr) False = Some r \<and> row_status r = PENDING \<and> row_last_task_id r = None)"
proof -
  have "publish env t payload s1 = (s1\<lparr>a_sent := a_sent s1 @ [Post ''/api/v1/tasks'' (task_body t payload 0 None)]\<rparr>, raise HTTPError '''')" for t payload s1
    by (simp add: publish_def bindH_def on_broker_def publish_task_def checked_json_def http_send_def down)
  then show ?thesis
    using create_pending_row [OF new] ps new
    by (auto simp: create_config_def bindH_def liftH_def Let_def change_def commitA_def commit_def normalize_share_public_host_def)
qed


section \<open>Editing a configuration\<close>

lemma update_config_data_run:
  assumes "update_config_data env dr cid u data content fmt s = (s', Inr res)"
  obtains config v snapshot where "get_by_id (cur (a_session s)) cid True = Inr (Some config)" "cfg_current_version config = Some v"
    "\<not> busy (cfg_status config)" "get_version_snapshot (cur (a_session s)) cid v = Some snapshot"
    "save_config_data env dr cid u data content fmt snapshot s = (s', Inr res)"
proof -
  obtain found where f: "get_by_id (cur (a_session s)) cid True = Inr found"
    using assms by (auto simp: update_config_data_def app_runs)
  with assms obtain config where c: "found = Some config"
    by (cases found) (auto simp: update_config_data_def app_runs)
  with assms f obtain v where v: "cfg_current_version config = Some v"
    by (cases "cfg_current_version config") (auto simp: update_config_data_def app_runs)
  with assms f c have idle: "\<not> busy (cfg_status config)"
    by (auto simp: update_config_data_def app_runs)
  with assms f c v obtain snapshot where "get_version_snapshot (cur (a_session s)) cid v = Some snapshot"
    by (cases "get_version_snapshot (cur (a_session s)) cid v") (auto simp: update_config_data_def app_runs)
  with assms f c v idle that show ?thesis
    by (auto simp: update_config_data_def app_runs)
qed

lemma save_config_data_run:
  assumes "save_config_data env dr cid u data content fmt snapshot s = (s', Inr res)"
  obtains ps stored port d' config where "map_of (profiles (ae_settings env)) (profile_value (snap_profile snapshot)) = Some ps"
    "encrypt_config_data_fields (ae_cipher env) (ud_nonce dr) (cd_config_data res) (sensitive_fields (snap_profile snapshot)) = Inr stored"
    "update_version_config_data (cur (a_session s)) cid (snap_version snapshot) stored port (user_id u) (ud_now dr 0) = Inr d'"
    "write_files (ae_os env) (ae_settings env) (snap_profile snapshot) cid (edited_build (cd_config_data res) port snapshot) (snap_name snapshot) (a_host s)
       = (a_host s', Inr config)"
    "configs (cur (a_session s')) = configs d'" "versions (cur (a_session s')) = versions d'"
    "cd_version res = snap_version snapshot" "a_sent s' = a_sent s" "com (a_session s') = com (a_session s)"
  using assms unfolding save_config_data_def
  by (auto simp: app_runs Let_def audit_def split: option.split_asm)

lemma find_version_key: "find_version d c v = Some x \<Longrightarrow> v_config_id x = c \<and> v_version x = v"
  using find_row_Some [of "\<lambda>x. v_config_id x = c \<and> v_version x = v" "versions d" x] by (simp add: find_version_def)

lemma find_version_upd_rows:
  "find_version (d\<lparr>versions := upd_rows (\<lambda>x. v_config_id x = c \<and> v_version x = v) g (versions d)\<rparr>) c v
     = map_option g (find_version d c v)"
  if "\<And>x. v_config_id (g x) = v_config_id x \<and> v_version (g x) = v_version x"
proof -
  have "find_row (\<lambda>x. v_config_id x = c \<and> v_version x = v) (map (\<lambda>x. if v_config_id x = c \<and> v_version x = v then g x else x) (versions d))
      = map_option (\<lambda>x. if v_config_id x = c \<and> v_version x = v then g x else x) (find_row (\<lambda>x. v_config_id x = c \<and> v_version x = v) (versions d))"
    by (rule find_row_map) (simp add: that)
  then show ?thesis
    by (cases "find_row (\<lambda>x. v_config_id x = c \<and> v_version x = v) (versions d)") (auto simp: find_version_def upd_rows_def dest: find_row_Some)
qed

lemma no_certificates: "br_extra_files res = [] \<Longrightarrow> write_files env st p cid res nm h = (h', Inr config) \<Longrightarrow> config = br_config res"
  unfolding write_files_def write_certificates_def Let_def by (auto simp: bindH_run)

text \<open>
  C35. An edit is what is read back and what runs: when saving an edited configuration returns, the
  configuration read from the session is the object that was saved, under the same version, and the
  file the daemon reads has its text.
\<close>

theorem edited_config_reads_back:
  assumes ok: "cipher_ok (ae_cipher env)" and keys: "distinct (map row_id (configs (cur (a_session s))))"
    and run: "update_config_data env dr cid u data content fmt s = (s', Inr res)"
    and ps: "profile_settings_of (ae_settings env) p = Inr ps" and prof: "cd_profile res = profile_value p"
    and apart: "per_config (systemd (ae_settings env)) \<Longrightarrow> unit_path_of cid (systemd (ae_settings env)) \<noteq> stored_path (ae_settings env) ps cid
      \<and> Some (unit_path_of cid (systemd (ae_settings env))) \<noteq> run_path (ae_settings env) ps p cid"
  shows "\<exists>res'. get_config_data env cid s' = (s', Inr res') \<and> cd_config_data res' = cd_config_data res \<and> cd_version res' = cd_version res
    \<and> (\<forall>a. run_path (ae_settings env) ps p cid = Some a \<longrightarrow>
        map_of (h_files (a_host s')) a = Some (File 384 (config_body (ae_os env) p (cd_config_data res))))"
proof -
  let ?d = "cur (a_session s)" and ?e = "cur (a_session s')"
  obtain config v snap where g: "get_by_id ?d cid True = Inr (Some config)" "cfg_current_version config = Some v"
    "get_version_snapshot ?d cid v = Some snap" and save: "save_config_data env dr cid u data content fmt snap s = (s', Inr res)"
    by (rule update_config_data_run [OF run])
  obtain stored port d' wcfg where
    e: "encrypt_config_data_fields (ae_cipher env) (ud_nonce dr) (cd_config_data res) (sensitive_fields (snap_profile snap)) = Inr stored"
    and up: "update_version_config_data ?d cid (snap_version snap) stored port (user_id u) (ud_now dr 0) = Inr d'"
    and w: "write_files (ae_os env) (ae_settings env) (snap_profile snap) cid (edited_build (cd_config_data res) port snap) (snap_name snap) (a_host s)
       = (a_host s', Inr wcfg)"
    and tabs: "configs ?e = configs d'" "versions ?e = versions d'" and ver: "cd_version res = snap_version snap"
    by (rule save_config_data_run [OF save])
  have p: "p = snap_profile snap"
  proof -
    have "cd_profile res = profile_value (snap_profile snap)"
      using save unfolding save_config_data_def by (auto simp: app_runs Let_def split: option.splits)
    then show ?thesis using prof by simp
  qed
  let ?f = "\<lambda>r. r\<lparr>row_updated_by := user_id u, row_updated_at := ud_now dr 0\<rparr>" and ?g = "\<lambda>x. x\<lparr>v_config_data := stored, v_port := port\<rparr>"
  obtain r where r: "get_model ?d cid True = Some r" "get_model ?d cid False = Some r" "row_current_version r = Some v"
    "config_to_entity r (load_current_version ?d r) = Inr config"
    using g(1,2) get_model_active [OF _ keys]
    by (auto simp: get_by_id_def bindR_eq_Inr config_to_entity_def split: option.splits)
  obtain x where x: "find_version ?d cid v = Some x" "snap_version snap = v" "snap_profile snap = row_profile r"
    using g(3) r(2) find_version_key by (auto simp: get_version_snapshot_def split: option.split_asm)
  have d': "d' = upd_config cid ?f (?d\<lparr>versions := upd_rows (\<lambda>x. v_config_id x = cid \<and> v_version x = v) ?g (versions ?d)\<rparr>)"
    using up r(1) x by (simp add: update_version_config_data_def)
  have m: "get_model ?e cid b = map_option (\<lambda>r. if row_id r = cid then ?f r else r) (get_model ?d cid b)" for b
  proof -
    have "get_model ?e cid b = get_model (upd_config cid ?f ?d) cid b"
      using tabs(1) by (simp add: get_model_def d' upd_config_def)
    also have "\<dots> = map_option (\<lambda>r. if row_id r = cid then ?f r else r) (get_model ?d cid b)"
      by (rule get_model_upd) (simp add: keeps_identity_def)
    finally show ?thesis .
  qed
  have id: "row_id r = cid" using get_model_id [OF r(1)] by simp
  have fv: "find_version ?e cid v = Some (?g x)"
    using find_version_upd_rows [where g = ?g and d = ?d and c = cid and v = v] x(1) tabs(2) by (simp add: find_version_def d')
  have entity: "\<exists>c'. get_by_id ?e cid True = Inr (Some c') \<and> cfg_current_version c' = Some v"
    using r m [of True] id by (auto simp: get_by_id_def bindR_eq_Inr config_to_entity_def policy_from_model_def)
  have snap': "\<exists>sn. get_version_snapshot ?e cid v = Some sn \<and> snap_config_data sn = stored \<and> snap_profile sn = p \<and> snap_version sn = v"
    using r m [of False] id fv x p find_version_key [OF x(1)] by (simp add: get_version_snapshot_def)
  have dec: "decrypt_config_data_fields (ae_cipher env) stored (sensitive_fields p) = Inr (cd_config_data res)"
    using fields.dec_enc_all [OF ok, of "ud_nonce dr" "cd_config_data res" "sensitive_fields p"] e p by simp
  have "wcfg = cd_config_data res"
    using no_certificates [OF _ w] by (simp add: edited_build_def)
  then have disk: "\<forall>a. run_path (ae_settings env) ps p cid = Some a \<longrightarrow>
        map_of (h_files (a_host s')) a = Some (File 384 (config_body (ae_os env) p (cd_config_data res)))"
    using deployment [OF w [folded p] ps apart] by blast
  show ?thesis
    using entity snap' dec disk ver x(2)
    by (auto simp: get_config_data_def bindH_run query_run liftH_run Let_def bindH_def query_def liftH_def returnH_def)
qed



section \<open>Witnesses\<close>

definition demo_admin :: user where
  "demo_admin = \<lparr>user_id = 1, username = ''admin'', password_hash = '''', user_created_at = 0\<rparr>"

text \<open>A broker that answers every call with a task id.\<close>

definition demo_app_env :: app_env where
  "demo_app_env = \<lparr>ae_settings = demo_unit_settings, ae_cipher = demo_cipher, ae_os = demo_os,
     ae_http = (\<lambda>sent call. Inr (200, Inr (JDict [(''task_id'', JStr ''t1'')]))), ae_yaml_unicode = (\<lambda>j. '''')\<rparr>"

definition demo_use :: "uuid \<Rightarrow> use_draws" where
  "demo_use i = \<lparr>ud_id = i, ud_audit = 77, ud_now = (\<lambda>n. 200 + int n), ud_nonce = 0\<rparr>"

definition app_of :: "db \<Rightarrow> host \<Rightarrow> app" where
  "app_of d h = \<lparr>a_session = open_session d, a_sent = [], a_host = h\<rparr>"

definition demo_start :: db where
  "demo_start = empty_db\<lparr>users := [demo_admin]\<rparr>"

lemma demo_publish: "publish demo_app_env task_type payload s
    = (s\<lparr>a_sent := a_sent s @ [Post ''/api/v1/tasks'' (task_body task_type payload 0 None)]\<rparr>, Inr ''t1'')"
  by (simp add: publish_def on_broker_def publish_task_def checked_json_def http_send_def raise_for_status_def demo_app_env_def
      text_value_def bindH_def liftH_def)

lemma demo_create: "snd (create_config demo_app_env (demo_use 5) ''home'' HYSTERIA2_PROTOCOL HYSTERIA2 demo_admin No_Policy None (app_of demo_start h))
    = Inr (5, ''t1'')"
proof -
  let ?policy = "merged_policy (for_profile HYSTERIA2 (Some demo_tls_profile)) No_Policy"
  let ?pending = "create_pending demo_start 5 200 ''home'' HYSTERIA2_PROTOCOL HYSTERIA2 1 (Some ?policy) None"
  have "bindR ?pending (\<lambda>(d1, c). bindR (set_last_task_id d1 5 ''t1'' 201) (\<lambda>d2. Inr (cfg_id c))) = Inr 5" by code_simp
  then obtain d1 c d2 where p: "?pending = Inr (d1, c)" "set_last_task_id d1 5 ''t1'' 201 = Inr d2" "cfg_id c = 5"
    by (auto simp: bindR_eq_Inr)
  have ps: "map_of (profiles (ae_settings demo_app_env)) (profile_value HYSTERIA2) = Some demo_tls_profile"
    by (simp add: demo_app_env_def demo_unit_settings_def)
  have n: "normalize_share_public_host None = Inr None" by code_simp
  have u: "user_id demo_admin = 1" "ud_id (demo_use 5) = 5" "ud_now (demo_use 5) 0 = 200" "ud_now (demo_use 5) 1 = 201"
    by (simp_all add: demo_admin_def demo_use_def)
  show ?thesis
    unfolding create_config_def ps option.case n bindH_lift Let_def u
    by (simp add: app_of_def open_session_def change_def update_db_def commitA_def commit_def audit_def demo_publish p bindH_def liftH_def returnH_def)
qed

theorem created_config_settles_witness:
  "\<exists>s' h' d' calls res r. create_config demo_app_env (demo_use 5) ''home'' HYSTERIA2_PROTOCOL HYSTERIA2 demo_admin No_Policy None (app_of demo_start demo_host)
      = (s', Inr (5, ''t1''))
    \<and> process_task demo_ctx demo_task (\<lambda>c. Inr ()) (Inr ()) ''w1'' ''t1'' ''config.initialize''
         (task_payload 5 HYSTERIA2_PROTOCOL HYSTERIA2 ''home'' 1 1) (com (a_session s')) demo_host = (h', d', calls, res)
    \<and> get_model d' 5 False = Some r \<and> (row_status r = ACTIVE \<or> row_status r = FAILED)"
proof -
  let ?c = "create_config demo_app_env (demo_use 5) ''home'' HYSTERIA2_PROTOCOL HYSTERIA2 demo_admin No_Policy None (app_of demo_start demo_host)"
  obtain s' where c: "?c = (s', Inr (5, ''t1''))" using demo_create [of demo_host] by (cases ?c) auto
  have "task_payload 5 HYSTERIA2_PROTOCOL HYSTERIA2 ''home'' (user_id demo_admin) 1 = task_payload 5 HYSTERIA2_PROTOCOL HYSTERIA2 ''home'' 1 1"
    by (simp add: demo_admin_def)
  then have "last (a_sent s') = Post ''/api/v1/tasks'' (task_body ''config.initialize'' (task_payload 5 HYSTERIA2_PROTOCOL HYSTERIA2 ''home'' 1 1) 0 None)"
    using create_config_run [OF c] by (simp add: queued_create_def)
  moreover obtain h' d' calls res where "process_task demo_ctx demo_task (\<lambda>c. Inr ()) (Inr ()) ''w1'' ''t1'' ''config.initialize''
         (task_payload 5 HYSTERIA2_PROTOCOL HYSTERIA2 ''home'' 1 1) (com (a_session s')) demo_host = (h', d', calls, res)"
    using prod_cases4 by blast
  ultimately show ?thesis using c created_config_settles [OF c] by fast
qed

text \<open>Two configurations: one that can be regenerated, one that waits for its first version.\<close>

definition demo_version :: version_row where
  "demo_version = \<lparr>v_id = 50, v_config_id = 5, v_version = 1, v_port = 8443, v_private_key = ''k'', v_public_key = ''p'',
     v_cert_fingerprint = ''fp'', v_config_data = demo_hysteria, v_created_at = 95\<rparr>"

definition demo_two :: db where
  "demo_two = demo_start\<lparr>configs := [demo_pending\<lparr>row_status := ACTIVE, row_current_version := Some 1\<rparr>,
      demo_pending\<lparr>row_id := 6, row_name := ''new''\<rparr>], versions := [demo_version]\<rparr>"

theorem regenerate_all_complete_witness:
  "\<exists>s'. regenerate_all_configs demo_app_env demo_use (demo_use 8) demo_admin (app_of demo_two demo_host)
      = (s', Inr \<lparr>ra_queued = [(5, ''t1'')], ra_skipped = [(6, ''Config has no version to regenerate'')]\<rparr>)
    \<and> mset (active_ids demo_two) = {#5, 6#}"
proof -
  let ?r = "regenerate_all_configs demo_app_env demo_use (demo_use 8) demo_admin (app_of demo_two demo_host)"
  let ?res = "\<lparr>ra_queued = [(5, ''t1'')], ra_skipped = [(6, ''Config has no version to regenerate'')]\<rparr>"
  have "snd ?r = Inr ?res" by code_simp
  then obtain s' where r: "?r = (s', Inr ?res)" by (cases ?r) auto
  have "distinct (map row_id (configs (cur (a_session (app_of demo_two demo_host)))))" by code_simp
  then have "mset (active_ids (cur (a_session (app_of demo_two demo_host)))) = {#5, 6#}"
    using regenerate_all_complete [OF r] by (simp add: result_ids_def add_mset_commute)
  then show ?thesis using r by (simp add: app_of_def open_session_def)
qed

lemma demo_edit: "\<exists>s' res. update_config_data demo_app_env (demo_use 5) 5 demo_admin (Some demo_deployed) None None (app_of demo_two demo_host) = (s', Inr res)
    \<and> cd_config_data res = demo_deployed \<and> cd_profile res = ''hysteria2''"
proof -
  have g: "bindR (get_by_id demo_two 5 True) (\<lambda>f. Inr (Option.bind f cfg_current_version, map_option (\<lambda>c. busy (cfg_status c)) f))
      = Inr (Some 1, Some False)" by code_simp
  then obtain config where c: "get_by_id demo_two 5 True = Inr (Some config)" "cfg_current_version config = Some 1" "\<not> busy (cfg_status config)"
    by (auto simp: bindR_eq_Inr split: bind_splits)
  have s: "map_option (\<lambda>s. (snap_profile s, snap_version s)) (get_version_snapshot demo_two 5 1) = Some (HYSTERIA2, 1)" by code_simp
  then obtain snap where sn: "get_version_snapshot demo_two 5 1 = Some snap" "snap_profile snap = HYSTERIA2" "snap_version snap = 1" by auto
  obtain stored where e: "encrypt_config_data_fields demo_cipher 0 demo_deployed (sensitive_fields HYSTERIA2) = Inr stored"
    using fields.enc_all_total by blast
  have u: "update_version_config_data demo_two 5 1 stored port 1 200 \<noteq> Inl e" for port e
    by (simp add: update_version_config_data_def demo_two_def demo_start_def get_model_def find_row_def find_version_def demo_pending_def
        empty_db_def demo_version_def)
  have w: "snd (write_files demo_os demo_unit_settings HYSTERIA2 5 (edited_build demo_deployed port snap) nm h) = Inr demo_deployed" for port nm h
    by (rule demo_write_files) (simp add: edited_build_def write_certificates_def returnH_def)
  have ps: "map_of (profiles demo_unit_settings) (profile_value HYSTERIA2) = Some demo_tls_profile"
    by (simp add: demo_unit_settings_def)
  have d: "is_jdict demo_deployed \<and> truthy demo_deployed" by code_simp
  have sel: "ae_settings demo_app_env = demo_unit_settings" "ae_os demo_app_env = demo_os" "ae_cipher demo_app_env = demo_cipher"
     "ud_now (demo_use 5) 0 = 200" "user_id demo_admin = 1" "ud_nonce (demo_use 5) = 0"
    by (simp_all add: demo_app_env_def demo_use_def demo_admin_def)
  have up: "\<exists>d'. update_version_config_data demo_two 5 1 stored port 1 200 = Inr d'" for port
    using u [of port] by (cases "update_version_config_data demo_two 5 1 stored port 1 200") auto
  have saved: "\<exists>r. snd (save_config_data demo_app_env (demo_use 5) 5 demo_admin (Some demo_deployed) None None snap (app_of demo_two demo_host)) = Inr r
      \<and> cd_config_data r = demo_deployed \<and> cd_profile r = ''hysteria2''"
  proof -
    let ?port = "case listening_port HYSTERIA2 demo_deployed (inbound_tag demo_tls_profile) of Inl e \<Rightarrow> snap_port snap | Inr q \<Rightarrow> q"
    obtain d' where d': "update_version_config_data demo_two 5 1 stored ?port 1 200 = Inr d'" using up by blast
    show ?thesis
      unfolding save_config_data_def Let_def sel sn ps option.case parsed_payload_def if_P [OF d] bindH_lift e
      apply (rule exI)
      apply (rule conjI)
       apply (rule bindH_next [where x = "()"])
        apply (simp add: update_db_def change_def app_of_def open_session_def d')
       apply (rule bindH_next [where x = demo_deployed])
        apply (simp add: on_host_def w case_prod_beta)
       apply (rule bindH_next [where x = "()"])
        apply (simp add: audit_def update_db_def change_def)
       apply (simp add: returnH_def)
      apply simp
      done
  qed
  have "update_config_data demo_app_env (demo_use 5) 5 demo_admin (Some demo_deployed) None None (app_of demo_two demo_host)
      = save_config_data demo_app_env (demo_use 5) 5 demo_admin (Some demo_deployed) None None snap (app_of demo_two demo_host)"
    by (simp add: update_config_data_def query_def bindH_def app_of_def open_session_def c sn)
  then show ?thesis
    using saved by (cases "save_config_data demo_app_env (demo_use 5) 5 demo_admin (Some demo_deployed) None None snap (app_of demo_two demo_host)") auto
qed

theorem edited_config_reads_back_witness:
  "\<exists>s' res. update_config_data demo_app_env (demo_use 5) 5 demo_admin (Some demo_deployed) None None (app_of demo_two demo_host) = (s', Inr res)
    \<and> cd_config_data res = demo_deployed
    \<and> map_of (h_files (a_host s')) (demo_live_dir @ ''/config.yaml'') = Some (File 384 (config_body demo_os HYSTERIA2 demo_deployed))"
proof -
  let ?s = "app_of demo_two demo_host"
  let ?u = "update_config_data demo_app_env (demo_use 5) 5 demo_admin (Some demo_deployed) None None ?s"
  obtain s' res where u: "?u = (s', Inr res)" and data: "cd_config_data res = demo_deployed" "cd_profile res = ''hysteria2''"
    using demo_edit by blast
  have apart: "unit_path_of 5 (systemd demo_unit_settings) \<noteq> stored_path demo_unit_settings demo_tls_profile 5
    \<and> Some (unit_path_of 5 (systemd demo_unit_settings)) \<noteq> run_path demo_unit_settings demo_tls_profile HYSTERIA2 5"
    by code_simp
  have path: "run_path demo_unit_settings demo_tls_profile HYSTERIA2 5 = Some (demo_live_dir @ ''/config.yaml'')" by code_simp
  have env: "ae_settings demo_app_env = demo_unit_settings" "ae_os demo_app_env = demo_os" "ae_cipher demo_app_env = demo_cipher"
    by (simp_all add: demo_app_env_def)
  have keys: "distinct (map row_id (configs (cur (a_session ?s))))" by code_simp
  show ?thesis
    using edited_config_reads_back [of demo_app_env, OF _ keys u, unfolded env, OF demo_cipher_ok demo_unit_profile _ apart] u data path
    by auto
qed

end
