(* ===== verification/Config_Status.thy ===== *)
theory Config_Status
  imports Probe Config_Usecases
begin

text \<open>
  What the panel reports about running configurations: \<open>probe_config_availability\<close> of
  \<open>service_runtime.py\<close> and the use cases \<open>get_config_status.py\<close>,
  \<open>get_config_runtime.py\<close> and \<open>get_config_logs.py\<close> of \<open>panel/application\<close>. They
  read the database and change nothing but the machine and the cache of probe results. The code probes
  the configurations of a list in parallel threads; here they are probed in order. At the end, what a
  reachable version means for the users of its share link.
\<close>

section \<open>Availability\<close>

record watcher =
  wt_cache :: probe_cache
  wt_host :: host
  wt_sent :: "http_call list"

definition on_wt_host :: "'a action \<Rightarrow> (watcher, 'a) run" where
  "on_wt_host m w = (case m (wt_host w) of (h, r) \<Rightarrow> Some (w\<lparr>wt_host := h\<rparr>, r))"

definition on_wt_broker :: "(http_call list, 'a) act \<Rightarrow> (watcher, 'a) run" where
  "on_wt_broker m w = (case m (wt_sent w) of (sent, r) \<Rightarrow> Some (w\<lparr>wt_sent := sent\<rparr>, r))"

definition connectivity_of :: "net_env \<Rightarrow> version_snapshot \<Rightarrow> panel_settings \<Rightarrow> (watcher, connectivity) run" where
  "connectivity_of net snapshot st w = (case probe_config_connectivity net snapshot st (wt_cache w) (wt_host w) of
     None \<Rightarrow> None
   | Some (cache, h, c) \<Rightarrow> Some (w\<lparr>wt_cache := cache, wt_host := h\<rparr>, Inr c))"

definition merge_connectivity :: "runtime_probe \<Rightarrow> connectivity \<Rightarrow> runtime_probe" where
  "merge_connectivity rt c = (case cn_reachable c of
     None \<Rightarrow> rt
   | Some True \<Rightarrow> rt\<lparr>rp_online := Some True, rp_detail := cn_detail c\<rparr>
   | Some False \<Rightarrow> rt\<lparr>rp_online := Some False,
       rp_detail := Some (the_or ''connectivity probe failed'' (some_text (cn_detail c)))\<rparr>)"

definition probe_config_availability ::
  "net_env \<Rightarrow> uuid \<Rightarrow> config_profile \<Rightarrow> int option \<Rightarrow> panel_settings \<Rightarrow> version_snapshot option \<Rightarrow> (watcher, runtime_probe) run" where
  "probe_config_availability net config_id p port st snapshot =
     bindP (on_wt_host (probe_config_runtime net config_id p port st)) (\<lambda>rt.
     if rp_online rt \<noteq> Some True then returnP rt
     else case snapshot of
         None \<Rightarrow> returnP rt
       | Some s \<Rightarrow> bindP (connectivity_of net s st) (\<lambda>c. returnP (merge_connectivity rt c)))"

record runtime_status =
  rs_config_id :: uuid
  rs_probe :: runtime_probe

definition probe_snapshot :: "net_env \<Rightarrow> panel_settings \<Rightarrow> version_snapshot \<Rightarrow> (watcher, runtime_status) run" where
  "probe_snapshot net st snapshot =
     bindP (probe_config_availability net (snap_config_id snapshot) (snap_profile snapshot) (Some (snap_port snapshot)) st (Some snapshot))
       (\<lambda>probe. returnP \<lparr>rs_config_id = snap_config_id snapshot, rs_probe = probe\<rparr>)"

section \<open>The use cases\<close>

fun probe_snapshots :: "net_env \<Rightarrow> panel_settings \<Rightarrow> version_snapshot list \<Rightarrow> (watcher, runtime_status list) run" where
  "probe_snapshots net st [] = returnP []"
| "probe_snapshots net st (s # snapshots) =
     bindP (probe_snapshot net st s) (\<lambda>p. bindP (probe_snapshots net st snapshots) (\<lambda>ps. returnP (p # ps)))"

definition get_configs_runtime :: "net_env \<Rightarrow> panel_settings \<Rightarrow> db \<Rightarrow> vpn_protocol_type option \<Rightarrow> (watcher, runtime_status list) run" where
  "get_configs_runtime net st d protocol =
     probe_snapshots net st (filter (\<lambda>s. protocol = None \<or> protocol = Some (snap_protocol s)) (list_current_version_snapshots d))"

definition get_config_runtime :: "net_env \<Rightarrow> panel_settings \<Rightarrow> db \<Rightarrow> uuid \<Rightarrow> (watcher, runtime_status option) run" where
  "get_config_runtime net st d config_id =
     bindP (act (liftH (get_by_id d config_id True))) (\<lambda>found.
     case Option.bind (Option.bind found cfg_current_version) (get_version_snapshot d config_id) of
       None \<Rightarrow> returnP None
     | Some snapshot \<Rightarrow> bindP (probe_snapshot net st snapshot) (\<lambda>p. returnP (Some p)))"

record config_task_status =
  ct_config_id :: uuid
  ct_status :: config_status
  ct_task_id :: "string option"
  ct_task :: "task_status option"
  ct_error_message :: "string option"
  ct_runtime :: "runtime_probe option"

text \<open>\<open>_runtime_fields\<close>: nothing unless the configuration is active with a stored current version.\<close>

definition runtime_fields :: "net_env \<Rightarrow> panel_settings \<Rightarrow> db \<Rightarrow> vpn_config \<Rightarrow> (watcher, runtime_probe option) run" where
  "runtime_fields net st d config =
     (if cfg_status config \<noteq> ACTIVE then returnP None
      else case Option.bind (cfg_current_version config) (get_version_snapshot d (cfg_id config)) of
          None \<Rightarrow> returnP None
        | Some s \<Rightarrow> bindP (probe_config_availability net (snap_config_id s) (snap_profile s) (Some (snap_port s)) st (Some s))
            (\<lambda>probe. returnP (Some probe)))"

definition get_config_status :: "net_env \<Rightarrow> http_server \<Rightarrow> panel_settings \<Rightarrow> db \<Rightarrow> uuid \<Rightarrow> (watcher, config_task_status) run" where
  "get_config_status net server st d config_id =
     bindP (act (liftH (get_by_id d config_id True))) (\<lambda>found.
     case found of
       None \<Rightarrow> act (raiseH (Exn ConfigNotFound ''''))
     | Some config \<Rightarrow>
         bindP (runtime_fields net st d config) (\<lambda>runtime.
         let answer = (\<lambda>task_id task. \<lparr>ct_config_id = cfg_id config, ct_status = cfg_status config, ct_task_id = task_id,
               ct_task = task, ct_error_message = cfg_error_message config, ct_runtime = runtime\<rparr>) in
         (case some_text (cfg_last_task_id config) of
            None \<Rightarrow> returnP (answer None None)
          | Some task_id \<Rightarrow> bindP (on_wt_broker (get_task_status server task_id)) (\<lambda>task. returnP (answer (Some task_id) (Some task))))))"

record config_logs_result =
  cl_config_id :: uuid
  cl_service_name :: "string option"
  cl_lines :: int
  cl_content :: string
  cl_available :: bool

definition get_config_logs :: "os_env \<Rightarrow> panel_settings \<Rightarrow> db \<Rightarrow> uuid \<Rightarrow> int option \<Rightarrow> config_logs_result action" where
  "get_config_logs os st d config_id lines_in =
     bindH (liftH (get_by_id d config_id True)) (\<lambda>found.
     case found of
       None \<Rightarrow> raiseH (Exn ConfigNotFound '''')
     | Some config \<Rightarrow>
         let line_count = clamp_log_lines lines_in in
         (case service_name_for_config config_id (cfg_profile config) st of
            None \<Rightarrow> returnH \<lparr>cl_config_id = config_id, cl_service_name = None, cl_lines = line_count,
              cl_content = ''Service name is not configured for this profile'', cl_available = False\<rparr>
          | Some service \<Rightarrow>
              bindH (fetch_unit_journal os service (Some line_count) (Some (systemd st))) (\<lambda>(content, ok).
              returnH \<lparr>cl_config_id = config_id, cl_service_name = Some service, cl_lines = line_count,
                cl_content = content, cl_available = ok\<rparr>)))"

section \<open>What a report means\<close>

lemma bindP_run: "bindP m f s = Some (s', Inr y) \<longleftrightarrow> (\<exists>s1 x. m s = Some (s1, Inr x) \<and> f x s1 = Some (s', Inr y))"
  by (auto simp: bindP_def split: option.splits sum.splits)

lemma returnP_run [simp]: "returnP x s = Some (s', Inr y) \<longleftrightarrow> s' = s \<and> y = x"
  by (auto simp: act_def returnH_def)

lemma get_by_id_id: "get_by_id d cid b = Inr (Some config) \<Longrightarrow> cfg_id config = cid"
  by (auto simp: get_by_id_def bindR_eq_Inr config_to_entity_def dest: get_model_id split: option.splits)

lemma availability_online:
  assumes run: "probe_config_availability net cid p (Some port) st (Some s) w = Some (w', Inr r)" and online: "rp_online r = Some True"
  shows "\<exists>service h1 c. service_name_for_config cid p st = Some service
    \<and> systemd_running (ne_os net) service (wt_host w) = (h1, Inr True)
    \<and> (p = HYSTERIA2 \<or> ne_connects net h1 port)
    \<and> probe_config_connectivity net s st (wt_cache w) h1 = Some (wt_cache w', wt_host w', c) \<and> cn_reachable c \<noteq> Some False"
proof -
  obtain h2 rt where rt: "probe_config_runtime net cid p (Some port) st (wt_host w) = (h2, Inr rt)"
    and rest: "(if rp_online rt \<noteq> Some True then returnP rt
       else case Some s of None \<Rightarrow> returnP rt
         | Some s \<Rightarrow> bindP (connectivity_of net s st) (\<lambda>c. returnP (merge_connectivity rt c))) (w\<lparr>wt_host := h2\<rparr>) = Some (w', Inr r)"
    using run by (auto simp: probe_config_availability_def bindP_run on_wt_host_def split: prod.splits)
  have on: "rp_online rt = Some True" using rest online by (auto split: if_splits)
  then obtain c where c: "probe_config_connectivity net s st (wt_cache w) h2 = Some (wt_cache w', wt_host w', c)" "r = merge_connectivity rt c"
    using rest by (auto simp: bindP_run connectivity_of_def split: option.splits)
  have "cn_reachable c \<noteq> Some False" using c(2) online by (auto simp: merge_connectivity_def)
  moreover obtain service h1 where up: "service_name_for_config cid p st = Some service"
    "systemd_running (ne_os net) service (wt_host w) = (h1, Inr True)" "p = HYSTERIA2 \<or> ne_connects net h1 port"
    using runtime_online [OF rt] on by (auto split: option.splits prod.splits sum.splits)
  moreover have "h2 = h1" using runtime_host [OF rt up(1)] up(2) by simp
  ultimately show ?thesis using c(1) by blast
qed

text \<open>
  C38. A configuration is reported online only when all that the panel can see of it is up: it is active
  with a current version; systemd had its service running; its port accepted a connection, for the three
  profiles served over TCP (no port is asked for Hysteria2, which is served over UDP); and the probe of that
  version did not fail, made on the machine as systemd's answer left it, or remembered in the cache. Where
  probes are switched off, or no probe can be made, the service and the port decide.
\<close>

theorem status_online_sound:
  assumes run: "get_config_status net server st d cid w = Some (w', Inr res)"
    and online: "map_option rp_online (ct_runtime res) = Some (Some True)"
  shows "\<exists>config v s service h1 c. get_by_id d cid True = Inr (Some config) \<and> cfg_status config = ACTIVE
    \<and> cfg_current_version config = Some v \<and> get_version_snapshot d cid v = Some s
    \<and> service_name_for_config cid (snap_profile s) st = Some service
    \<and> systemd_running (ne_os net) service (wt_host w) = (h1, Inr True)
    \<and> (snap_profile s = HYSTERIA2 \<or> ne_connects net h1 (snap_port s))
    \<and> probe_config_connectivity net s st (wt_cache w) h1 = Some (wt_cache w', wt_host w', c) \<and> cn_reachable c \<noteq> Some False"
proof -
  obtain config where config: "get_by_id d cid True = Inr (Some config)"
    using run by (auto simp: get_config_status_def bindP_run act_def raiseH_def split: option.splits)
  have id: "cfg_id config = cid" by (rule get_by_id_id [OF config])
  obtain w1 rt where fields: "runtime_fields net st d config w = Some (w1, Inr rt)" and rt: "ct_runtime res = rt"
    using run config by (auto simp: get_config_status_def bindP_run act_def Let_def split: option.splits)
  have kept: "wt_cache w' = wt_cache w1" "wt_host w' = wt_host w1"
    using run config fields by (auto simp: get_config_status_def bindP_run act_def Let_def on_wt_broker_def split: option.splits prod.splits)
  from fields rt obtain v s r where s: "cfg_status config = ACTIVE" "cfg_current_version config = Some v" "get_version_snapshot d cid v = Some s"
    and r: "probe_config_availability net (snap_config_id s) (snap_profile s) (Some (snap_port s)) st (Some s) w = Some (w1, Inr r)"
    and on: "rp_online r = Some True"
    using online id by (auto simp: runtime_fields_def bindP_run split: if_splits option.splits bind_splits)
  have "snap_config_id s = cid" using s(3) by (auto simp: get_version_snapshot_def split: option.splits)
  then show ?thesis using availability_online [OF r on] config s kept by simp
qed

section \<open>What a probe stands for\<close>

lemma stored_snapshot:
  assumes ok: "cipher_ok (wc_cipher ctx)" and task: "run_config_task ctx dr payload d0 h0 = (h1, d1, Inr ())"
    and args: "parse_payload payload = Inr (cid, HYSTERIA2, v, name)" and new: "\<not> has_version d0 cid v"
    and kept: "find_version d cid v = find_version d1 cid v" and snap: "get_version_snapshot d cid v = Some s"
  shows "\<exists>config. decrypt_config_data_fields (wc_cipher ctx) (snap_config_data s) (sensitive_fields HYSTERIA2) = Inr config
    \<and> hysteria_listen_port config = Inr (snap_port s)"
proof -
  have att: "attempt_task ctx dr cid HYSTERIA2 v name d0 h0 = (h1, Inr d1)" by (rule run_config_task_Inr [OF task args])
  then obtain d2 g d3 where m: "mark_active d3 cid v (td_now dr 2) = Inr d1"
    and b: "build_and_persist_version ctx dr cid HYSTERIA2 v name d2 g = (h1, Inr d3)"
    using new by (auto simp: attempt_task_def bindH_run)
  obtain x config where x: "insert_version_row d2 x = Inr d3" "v_config_id x = cid" "v_version x = v"
    "decrypt_config_data_fields (wc_cipher ctx) (v_config_data x) (sensitive_fields HYSTERIA2) = Inr config"
    "hysteria_listen_port config = Inr (v_port x)"
    using stored_port [OF ok b] by blast
  have "find_version d cid v = Some x"
    using find_version_insert [OF x(1)] x(2,3) m kept by (auto simp: mark_active_Inr)
  then have "snap_config_data s = v_config_data x" "snap_port s = v_port x"
    using snap by (auto simp: get_version_snapshot_def split: option.splits)
  then show ?thesis using x(4,5) by auto
qed

text \<open>
  C39. A probe that finds a Hysteria2 version reachable stands for its users: the client that loaded the page
  was started on a configuration for the host and the port of the share link given out for the version,
  with the password, server name, obfuscation and certificate pin of that link. The one other host it may
  have dialled is the loopback address, on the same port, and only where neither the configuration nor its
  profile has a public name and the profile has no public port. The version is one the worker stored and nobody
  edited since.
\<close>

theorem probe_is_share_link:
  assumes ok: "cipher_ok (ne_cipher env)" and cipher: "wc_cipher ctx = ne_cipher env"
    and task: "run_config_task ctx dr payload d0 h0 = (h1, d1, Inr ())"
    and args: "parse_payload payload = Inr (cid, HYSTERIA2, v, name)" and new: "\<not> has_version d0 cid v"
    and kept: "find_version d cid v = find_version d1 cid v"
    and snap: "get_version_snapshot d cid v = Some s" and prof: "snap_profile s = HYSTERIA2"
    and named: "snap_share_host s = None \<or> stripped (snap_share_host s) \<noteq> []"
    and ps: "profile_settings_of st HYSTERIA2 = Inr ps" and port: "share_public_port ps \<noteq> Some 0"
    and public: "share_public_port ps = None \<or> effective_share_host st ps (snap_share_host s) \<notin> set loopback_names"
    and link: "uris_for_snapshot (ne_cipher env) st n s True = Inr uris"
    and probe: "probe_via_hysteria env s st h = Some (h', Inr r)" and found: "cn_reachable r = Some True"
  shows "\<exists>host socks_port c path g g' res password sni sni' obfs tls.
      let shared = effective_share_host st ps (snap_share_host s); q = probe_dial_port s host st; pin = pin_hex (snap_cert_fingerprint s) in
    (host = shared \<or> host = ''127.0.0.1'' \<and> share_public_port ps = None \<and> snap_share_host s = None \<and> stripped (profile_share_host ps) = [])
    \<and> map_of (h_files g) path = Some (File 384 (os_yaml_dump (ne_os env) c))
    \<and> run_client_probe env [hysteria_binary (systemd st), ''client'', ''-c'', path] path socks_port host
        (connectivity_probe_timeout_us st) (connectivity_probe_url st) g = Some (g', Inr res)
    \<and> cn_reachable res = Some True \<and> cn_detail r = Some (''via '' @ host @ '':'' @ show_int q)
    \<and> uris = [share_uri ''hysteria2'' (quote '''' password) shared q
      ([''sni='' @ quote '''' sni]
       @ (case obfs of None \<Rightarrow> [] | Some p \<Rightarrow> [''obfs=salamander'', ''obfs-password='' @ quote '''' p])
       @ (if pin \<noteq> [] then [''pinSHA256='' @ pin] else []) @ [''insecure=0'']) (share_label HYSTERIA2)]
    \<and> jitem c ''server'' = Inr (JStr (host @ '':'' @ show_int q)) \<and> jitem c ''auth'' = Inr (JStr password)
    \<and> jget c ''obfs'' JNull = Inr (case obfs of None \<Rightarrow> JNull
        | Some p \<Rightarrow> JDict [(''type'', JStr ''salamander''), (''salamander'', JDict [(''password'', JStr p)])])
    \<and> jitem c ''tls'' = Inr tls \<and> jitem tls ''sni'' = Inr (JStr sni') \<and> (host = shared \<longrightarrow> sni' = sni)
    \<and> jitem tls ''insecure'' = Inr (JBool False)
    \<and> jget tls ''pinSHA256'' JNull = Inr (if pin \<noteq> [] then JStr pin else JNull)"
proof -
  let ?shared = "effective_share_host st ps (snap_share_host s)"
  have find: "map_of (profiles st) (profile_value (snap_profile s)) = Some ps"
    using ps prof by (auto simp: profile_settings_of_def split: option.splits)
  have none: "truthy_port (share_public_port ps) \<longleftrightarrow> share_public_port ps \<noteq> None"
    using port by (cases "share_public_port ps") (auto simp: truthy_port_def)
  obtain config where config: "decrypt_config_data_fields (ne_cipher env) (snap_config_data s) (sensitive_fields HYSTERIA2) = Inr config"
    "hysteria_listen_port config = Inr (snap_port s)"
    using stored_snapshot [OF _ task args new kept snap] ok cipher by auto
  obtain host socks_port ca c path g g' res where dialled: "host \<in> set (probe_targets s st)"
    "build_hysteria_client_config env s host socks_port st (Some ca) = Inr c"
    "map_of (h_files g) path = Some (File 384 (os_yaml_dump (ne_os env) c))"
    "run_client_probe env [hysteria_binary (systemd st), ''client'', ''-c'', path] path socks_port host
       (connectivity_probe_timeout_us st) (connectivity_probe_url st) g = Some (g', Inr res)"
    "cn_reachable res = Some True" "cn_detail r = Some (''via '' @ host @ '':'' @ show_int (probe_dial_port s host st))"
    by (rule hysteria_probe_found [OF probe found])
  have host: "host = ?shared
      \<or> host = ''127.0.0.1'' \<and> share_public_port ps = None \<and> snap_share_host s = None \<and> stripped (profile_share_host ps) = []"
    using probe_target_link [OF find named dialled(1)] none by auto
  have same: "strip ?shared = ?shared" by (simp only: effective_share_host_def strip_first_nonblank)
  have q: "(if truthy_port (share_public_port ps) then Inr (the (share_public_port ps)) else hysteria_listen_port config)
      = Inr (probe_dial_port s host st)"
    using host public config(2) same by (auto simp: none probe_dial_port_def find split: option.splits)
  show ?thesis
    using client_is_link [OF link dialled(2) ps prof config(1) q] host dialled(3-6) unfolding Let_def by blast
qed

text \<open>The configuration of the concrete probe, with no task recorded.\<close>

definition demo_active_db :: db where
  "demo_active_db = demo_start\<lparr>configs := [demo_pending\<lparr>row_status := ACTIVE, row_current_version := Some 1\<rparr>],
     versions := [demo_version\<lparr>v_public_key := ''PEM'', v_cert_fingerprint := ''A1:B2'', v_config_data := demo_stored\<rparr>]\<rparr>"

theorem status_online_sound_witness:
  "\<exists>w' res. get_config_status demo_net (ae_http demo_app_env) demo_unit_settings demo_active_db 5
      \<lparr>wt_cache = [], wt_host = demo_probing, wt_sent = []\<rparr> = Some (w', Inr res)
    \<and> map_option rp_online (ct_runtime res) = Some (Some True) \<and> ct_status res = ACTIVE
    \<and> (\<exists>s. get_version_snapshot demo_active_db 5 1 = Some s)"
proof -
  let ?w = "\<lparr>wt_cache = [], wt_host = demo_probing, wt_sent = []\<rparr>"
  have g: "bindR (get_by_id demo_active_db 5 True) (\<lambda>f. Inr (map_option (\<lambda>c. (cfg_id c, cfg_status c, cfg_current_version c, cfg_last_task_id c)) f))
      = Inr (Some (5, ACTIVE, Some 1, None))" by code_simp
  then obtain config where c: "get_by_id demo_active_db 5 True = Inr (Some config)" "cfg_id config = 5" "cfg_status config = ACTIVE"
    "cfg_current_version config = Some 1" "cfg_last_task_id config = None" by (auto simp: bindR_eq_Inr)
  have snap: "get_version_snapshot demo_active_db 5 1 = Some demo_snap"
    by (simp add: get_version_snapshot_def demo_active_db_def demo_start_def get_model_def find_row_def demo_pending_def find_version_def
        demo_version_def empty_db_def demo_snap_def host_or_none_def)
  obtain h1 where r: "systemd_running demo_os ''vpn-00000000-0000-0000-0000-000000000005'' demo_probing = (h1, Inr True)"
    using demo_running [of "''vpn-00000000-0000-0000-0000-000000000005''" demo_probing]
    by (cases "systemd_running demo_os ''vpn-00000000-0000-0000-0000-000000000005'' demo_probing") auto
  have "is_file (disk demo_os h1) ''/usr/local/bin/hysteria'' = Inr True"
    using demo_binary files.follows_stepD [OF files.probes(3) r] by (simp add: disk_def demo_os_def)
  then obtain cache' h' where probe: "probe_config_connectivity demo_net demo_snap demo_unit_settings [] h1
      = Some (cache', h', \<lparr>cn_reachable = Some True, cn_detail = Some ''via vpn.example:8443''\<rparr>)"
    using demo_found by blast
  have name: "service_name_for_config 5 HYSTERIA2 demo_unit_settings = Some ''vpn-00000000-0000-0000-0000-000000000005''" by code_simp
  have sel: "snap_config_id demo_snap = 5" "snap_profile demo_snap = HYSTERIA2" "snap_port demo_snap = 8443" "ne_os demo_net = demo_os"
    by (simp_all add: demo_snap_def demo_net_def)
  have "probe_config_runtime demo_net 5 HYSTERIA2 (Some 8443) demo_unit_settings demo_probing
      = (h1, Inr \<lparr>rp_online = Some True, rp_systemd_active = Some True, rp_port_listening = None, rp_detail = None\<rparr>)"
    by (simp add: probe_config_runtime_def name sel bindH_def catchH_def returnH_def r runtime_verdict_def)
  then have "\<exists>w' res. get_config_status demo_net (ae_http demo_app_env) demo_unit_settings demo_active_db 5 ?w = Some (w', Inr res)
      \<and> map_option rp_online (ct_runtime res) = Some (Some True) \<and> ct_status res = ACTIVE"
    by (simp add: get_config_status_def bindP_def act_def liftH_def c runtime_fields_def snap sel probe_config_availability_def
        on_wt_host_def connectivity_of_def probe returnH_def merge_connectivity_def some_text_def)
  then obtain w' res where run: "get_config_status demo_net (ae_http demo_app_env) demo_unit_settings demo_active_db 5 ?w = Some (w', Inr res)"
    "map_option rp_online (ct_runtime res) = Some (Some True)" "ct_status res = ACTIVE" by blast
  show ?thesis using run status_online_sound [OF run(1,2)] c by auto
qed

text \<open>The task of the concrete run stores a version, whose probe loads the page.\<close>

theorem probe_is_share_link_witness:
  "\<exists>d s h' r host c uris. get_version_snapshot d 5 1 = Some s \<and> probe_via_hysteria demo_net s demo_unit_settings demo_probing = Some (h', Inr r)
    \<and> cn_reachable r = Some True \<and> uris_for_snapshot demo_cipher demo_unit_settings 0 s True = Inr uris
    \<and> host \<in> {''vpn.example'', ''127.0.0.1''} \<and> jitem c ''server'' = Inr (JStr (host @ '':8443''))"
proof -
  obtain h1 d s where task: "run_config_task demo_ctx demo_task demo_payload demo_pending_db demo_host = (h1, d, Inr ())"
    and snap: "get_version_snapshot d 5 1 = Some s" and f: "snap_profile s = HYSTERIA2" "snap_share_host s = None" "snap_port s = 8443"
    "snap_public_key s = ''4:vpn.example''" "snap_cert_fingerprint s = ''fp4:vpn.example''"
    "decrypt_config_data_fields demo_cipher (snap_config_data s) (sensitive_fields HYSTERIA2) = Inr demo_task_config"
    using demo_task_stores by blast
  have cipher: "ne_cipher demo_net = demo_cipher" "wc_cipher demo_ctx = ne_cipher demo_net" by (simp_all add: demo_net_def demo_ctx_sel)
  have ok: "cipher_ok (ne_cipher demo_net)" by (simp add: cipher demo_cipher_ok)
  have new: "\<not> has_version demo_pending_db 5 1" by code_simp
  have tag: "share_public_port demo_tls_profile = None" and shared: "effective_share_host demo_unit_settings demo_tls_profile None = ''vpn.example''"
    and pem: "strip ''4:vpn.example'' = ''4:vpn.example''" and loop: "''vpn.example'' \<notin> set loopback_names"
    and port: "show_int 8443 = ''8443''" "strip ''vpn.example'' = ''vpn.example''" "strip ''127.0.0.1'' \<in> set loopback_names"
    by code_simp+
  have parts: "jitem demo_task_config ''auth'' = Inr (JDict [(''password'', JStr ''AQID'')])"
    "hysteria_sni demo_task_config ''vpn.example'' = Inr (JStr ''vpn.example'')"
    "hysteria_obfs demo_task_config = Inr [(''obfs'', JDict [(''type'', JStr ''salamander''), (''salamander'', JDict [(''password'', JStr ''BAUG'')])])]"
    by code_simp+
  have "\<exists>c. build_hysteria_client_config demo_net s ''vpn.example'' 40000 demo_unit_settings (Some ca) = Inr c" for ca
    by (simp add: build_hysteria_client_config_def plaintext_config_data_def f(1) cipher(1) f(6) parts Let_def
        del: sensitive_fields.simps decrypt_config_data_fields.simps)
  then obtain h' r where probe: "probe_via_hysteria demo_net s demo_unit_settings demo_probing = Some (h', Inr r)" and found: "cn_reachable r = Some True"
    using demo_via_found [OF demo_binary f(1,2)] pem f(4) by fastforce
  have "\<not> isl (build_share_uris 0 HYSTERIA2 demo_task_config ''vpn.example'' ''4:vpn.example'' ''fp4:vpn.example'' (inbound_tag demo_tls_profile) True None)" by code_simp
  then obtain uris where link: "uris_for_snapshot (ne_cipher demo_net) demo_unit_settings 0 s True = Inr uris"
    using f by (cases "build_share_uris 0 HYSTERIA2 demo_task_config ''vpn.example'' ''4:vpn.example'' ''fp4:vpn.example'' (inbound_tag demo_tls_profile) True None")
      (auto simp: uris_for_snapshot_def build_client_uris_def cipher(1) demo_unit_profile shared tag
        simp del: sensitive_fields.simps decrypt_config_data_fields.simps)
  have n: "probe_dial_port s host demo_unit_settings = 8443" for host
  proof -
    have "map_of (profiles demo_unit_settings) ''hysteria2'' = Some demo_tls_profile"
      using demo_unit_profile by (auto simp: profile_settings_of_def split: option.splits)
    then show ?thesis by (simp add: probe_dial_port_def f tag)
  qed
  have "\<exists>host c. host \<in> {''vpn.example'', ''127.0.0.1''} \<and> jitem c ''server'' = Inr (JStr (host @ '':8443''))"
    using probe_is_share_link [OF ok cipher(2) task demo_parsed new refl snap f(1) _ demo_unit_profile _ _ link probe found] f(2) tag
    unfolding Let_def n port(1) f(2) shared by auto
  then show ?thesis using snap probe found link [unfolded cipher(1)] by blast
qed

end
