(* ===== verification/Config_Api.thy ===== *)
theory Config_Api
  imports Config_Status
begin

text \<open>
  The endpoints of \<open>panel/api/routers/configs.py\<close> with the request and response schemas of
  \<open>panel/api/schemas/configs.py\<close>. An endpoint answers with a value or with the status and
  detail of an \<open>HTTPException\<close>; the session of the request is closed after it, which drops
  what has not been committed. The user is the one \<open>get_current_user\<close> has found; the
  endpoint that creates a share link is in theory Share_Links.
\<close>

section \<open>Requests\<close>

record create_config_request =
  cr_name :: string
  cr_protocol :: vpn_protocol_type
  cr_profile :: "config_profile option"
  cr_policy :: "(string \<times> bool) list option"
  cr_share_host :: "string option"

text \<open>The constraints of the schema, then \<open>default_profile\<close>.\<close>

definition create_request_valid :: "create_config_request \<Rightarrow> bool" where
  "create_request_valid rq = (1 \<le> length (cr_name rq) \<and> length (cr_name rq) \<le> 128
     \<and> (case cr_share_host rq of None \<Rightarrow> True | Some h \<Rightarrow> length h \<le> 253))"

definition request_profile :: "create_config_request \<Rightarrow> config_profile" where
  "request_profile rq = (case cr_profile rq of Some p \<Rightarrow> p | None \<Rightarrow> default_for_protocol (protocol_value (cr_protocol rq)))"

record config_data_request =
  dr_content :: "string option"
  dr_format :: "string option"
  dr_config_data :: "json option"

definition data_request_valid :: "config_data_request \<Rightarrow> bool" where
  "data_request_valid rq = ((dr_content rq \<noteq> None \<or> dr_config_data rq \<noteq> None)
     \<and> (case dr_format rq of None \<Rightarrow> True | Some f \<Rightarrow> f \<in> {''json'', ''yaml''})
     \<and> (case dr_config_data rq of None \<Rightarrow> True | Some d \<Rightarrow> is_jdict d))"

section \<open>Responses\<close>

record config_list_item =
  li_id :: string
  li_name :: string
  li_protocol :: vpn_protocol_type
  li_status :: config_status
  li_current_version :: "int option"
  li_is_active :: bool
  li_created_at :: int
  li_updated_at :: int

record config_list_response =
  lr_items :: "config_list_item list"
  lr_total :: nat
  lr_limit :: int
  lr_offset :: int

record version_response =
  vr_id :: string
  vr_version :: int
  vr_port :: int
  vr_public_key :: string
  vr_cert_fingerprint :: string
  vr_created_at :: int

record config_detail =
  dt_id :: string
  dt_name :: string
  dt_protocol :: vpn_protocol_type
  dt_profile :: config_profile
  dt_status :: config_status
  dt_current_version :: "int option"
  dt_last_task_id :: "string option"
  dt_error_message :: "string option"
  dt_is_active :: bool
  dt_created_by :: string
  dt_updated_by :: string
  dt_created_at :: int
  dt_updated_at :: int
  dt_version_detail :: "version_response option"
  dt_regenerate_policy :: "(string \<times> bool) list option"
  dt_share_public_host :: "string option"

definition version_to_response :: "vpn_config_version \<Rightarrow> version_response" where
  "version_to_response v = \<lparr>vr_id = uuid_str (ver_id v), vr_version = ver_version v, vr_port = ver_port v,
     vr_public_key = ver_public_key v, vr_cert_fingerprint = ver_cert_fingerprint v, vr_created_at = ver_created_at v\<rparr>"

definition config_to_list_item :: "vpn_config \<Rightarrow> config_list_item" where
  "config_to_list_item c = \<lparr>li_id = uuid_str (cfg_id c), li_name = cfg_name c, li_protocol = cfg_protocol c,
     li_status = cfg_status c, li_current_version = cfg_current_version c, li_is_active = cfg_is_active c,
     li_created_at = cfg_created_at c, li_updated_at = cfg_updated_at c\<rparr>"

definition config_to_detail :: "vpn_config \<Rightarrow> config_detail" where
  "config_to_detail c = \<lparr>dt_id = uuid_str (cfg_id c), dt_name = cfg_name c, dt_protocol = cfg_protocol c,
     dt_profile = cfg_profile c, dt_status = cfg_status c, dt_current_version = cfg_current_version c,
     dt_last_task_id = cfg_last_task_id c, dt_error_message = cfg_error_message c, dt_is_active = cfg_is_active c,
     dt_created_by = uuid_str (cfg_created_by c), dt_updated_by = uuid_str (cfg_updated_by c),
     dt_created_at = cfg_created_at c, dt_updated_at = cfg_updated_at c,
     dt_version_detail = map_option version_to_response (cfg_current_version_detail c),
     dt_regenerate_policy = map_option to_stored (cfg_regenerate_policy c), dt_share_public_host = cfg_share_public_host c\<rparr>"

section \<open>From outcomes to replies\<close>

text \<open>\<open>except K as exc: raise HTTPException(code, detail)\<close>; the detail is \<open>str(exc)\<close> or fixed.\<close>

datatype clause = Answer "exn_kind list" nat "string option"

fun answer_exn :: "clause list \<Rightarrow> exn \<Rightarrow> 'a reply" where
  "answer_exn [] e = internal_error"
| "answer_exn (Answer ks code detail # clauses) e =
     (if caught_by ks e then Failed code (the_or (exn_msg e) detail) else answer_exn clauses e)"

definition answer :: "clause list \<Rightarrow> exn + 'a \<Rightarrow> 'a reply" where
  "answer clauses r = (case r of Inl e \<Rightarrow> answer_exn clauses e | Inr x \<Rightarrow> Reply x)"

definition unprocessable :: "'a reply" where
  "unprocessable = Failed 422 ''''"

text \<open>The session of a request is closed when it ends.\<close>

definition close_session :: "app \<Rightarrow> app" where
  "close_session s = s\<lparr>a_session := open_session (com (a_session s))\<rparr>"

definition endpoint :: "clause list \<Rightarrow> (app, 'a) act \<Rightarrow> app \<Rightarrow> app \<times> 'a reply" where
  "endpoint clauses m s = (case m s of (s', r) \<Rightarrow> (close_session s', answer clauses r))"

definition not_found :: clause where
  "not_found = Answer [ConfigNotFound] 404 (Some ''Config not found'')"

section \<open>The endpoints\<close>

definition list_configs_endpoint :: "vpn_protocol_type option \<Rightarrow> int \<Rightarrow> int \<Rightarrow> app \<Rightarrow> app \<times> config_list_response reply" where
  "list_configs_endpoint protocol limit offset s =
     (if \<not> (1 \<le> limit \<and> limit \<le> 200 \<and> 0 \<le> offset) then (s, unprocessable)
      else endpoint [] (bindH (list_configs protocol (nat limit) (nat offset)) (\<lambda>res.
        returnH \<lparr>lr_items = map config_to_list_item (list_items res), lr_total = list_total res,
          lr_limit = limit, lr_offset = offset\<rparr>)) s)"

definition create_config_endpoint ::
  "app_env \<Rightarrow> use_draws \<Rightarrow> user \<Rightarrow> create_config_request \<Rightarrow> app \<Rightarrow> app \<times> (string \<times> string) reply" where
  "create_config_endpoint env dr u rq s =
     (if \<not> create_request_valid rq then (s, unprocessable)
      else endpoint [Answer [InvalidSharePublicHost] 422 None, Answer [ValueError] 422 None]
        (bindH (create_config env dr (cr_name rq) (cr_protocol rq) (request_profile rq) u
            (case cr_policy rq of None \<Rightarrow> No_Policy | Some p \<Rightarrow> Policy_Overrides p) (cr_share_host rq))
          (\<lambda>(config_id, task_id). returnH (task_id, uuid_str config_id))) s)"

definition regenerate_all_endpoint ::
  "app_env \<Rightarrow> (uuid \<Rightarrow> use_draws) \<Rightarrow> use_draws \<Rightarrow> user \<Rightarrow> app \<Rightarrow> app \<times> ((string \<times> string) list \<times> (string \<times> string) list) reply" where
  "regenerate_all_endpoint env dr dr0 u =
     endpoint [] (bindH (regenerate_all_configs env dr dr0 u) (\<lambda>res.
       returnH (map (\<lambda>(i, t). (uuid_str i, t)) (ra_queued res), map (\<lambda>(i, r). (uuid_str i, r)) (ra_skipped res))))"

definition regenerate_config_endpoint :: "app_env \<Rightarrow> use_draws \<Rightarrow> user \<Rightarrow> uuid \<Rightarrow> app \<Rightarrow> app \<times> (string \<times> string) reply" where
  "regenerate_config_endpoint env dr u config_id =
     endpoint [not_found, Answer [ConfigNotRegeneratable] 409 None]
       (bindH (regenerate_config env dr config_id u) (\<lambda>(i, task_id). returnH (task_id, uuid_str i)))"

definition get_config_data_endpoint :: "app_env \<Rightarrow> uuid \<Rightarrow> app \<Rightarrow> app \<times> config_data_result reply" where
  "get_config_data_endpoint env config_id =
     endpoint [not_found, Answer [ConfigDataUnavailable] 404 None] (get_config_data env config_id)"

definition update_config_data_endpoint ::
  "app_env \<Rightarrow> use_draws \<Rightarrow> user \<Rightarrow> uuid \<Rightarrow> config_data_request \<Rightarrow> app \<Rightarrow> app \<times> config_data_result reply" where
  "update_config_data_endpoint env dr u config_id rq s =
     (if \<not> data_request_valid rq then (s, unprocessable)
      else endpoint [not_found, Answer [ConfigDataUnavailable] 404 None, Answer [InvalidConfigData] 422 None]
        (bindH (update_config_data env dr config_id u (dr_config_data rq) (dr_content rq) (dr_format rq)) (\<lambda>res.
         thenH commitA (returnH res))) s)"

text \<open>A configuration without a stored policy shows the default of its profile.\<close>

definition detail_with_policy :: "panel_settings \<Rightarrow> vpn_config \<Rightarrow> config_detail" where
  "detail_with_policy st config =
     (let detail = config_to_detail config in
      if dt_regenerate_policy detail = None
      then detail\<lparr>dt_regenerate_policy := Some (to_stored (for_profile (cfg_profile config)
          (map_of (profiles st) (profile_value (cfg_profile config)))))\<rparr>
      else detail)"

definition get_config_endpoint :: "app_env \<Rightarrow> uuid \<Rightarrow> app \<Rightarrow> app \<times> config_detail reply" where
  "get_config_endpoint env config_id =
     endpoint [not_found] (bindH (get_config config_id) (\<lambda>config. returnH (detail_with_policy (ae_settings env) config)))"

definition update_policy_endpoint ::
  "app_env \<Rightarrow> use_draws \<Rightarrow> user \<Rightarrow> uuid \<Rightarrow> (string \<times> bool) list \<Rightarrow> app \<Rightarrow> app \<times> config_detail reply" where
  "update_policy_endpoint env dr u config_id overrides =
     endpoint [not_found]
       (bindH (update_policy env dr config_id u overrides) (\<lambda>config. thenH commitA (returnH (config_to_detail config))))"

definition delete_config_endpoint :: "app_env \<Rightarrow> use_draws \<Rightarrow> user \<Rightarrow> uuid \<Rightarrow> app \<Rightarrow> app \<times> unit reply" where
  "delete_config_endpoint env dr u config_id =
     endpoint [not_found] (thenH (delete_config env dr config_id u) commitA)"

text \<open>The reports; a probe that does not come back leaves the request without an answer.\<close>

definition runtime_endpoint ::
  "net_env \<Rightarrow> panel_settings \<Rightarrow> db \<Rightarrow> vpn_protocol_type option \<Rightarrow> watcher \<Rightarrow> (watcher \<times> runtime_status list reply) option" where
  "runtime_endpoint net st d protocol w =
     map_option (\<lambda>(w', r). (w', answer [] r)) (get_configs_runtime net st d protocol w)"

definition config_status_endpoint ::
  "net_env \<Rightarrow> http_server \<Rightarrow> panel_settings \<Rightarrow> db \<Rightarrow> uuid \<Rightarrow> watcher \<Rightarrow> (watcher \<times> config_task_status reply) option" where
  "config_status_endpoint net server st d config_id w =
     map_option (\<lambda>(w', r). (w', answer [not_found] r)) (get_config_status net server st d config_id w)"

definition config_logs_endpoint ::
  "os_env \<Rightarrow> panel_settings \<Rightarrow> db \<Rightarrow> uuid \<Rightarrow> int \<Rightarrow> host \<Rightarrow> host \<times> config_logs_result reply" where
  "config_logs_endpoint os st d config_id lines_in h =
     (if \<not> (1 \<le> lines_in \<and> lines_in \<le> 500) then (h, unprocessable)
      else case get_config_logs os st d config_id (Some lines_in) h of (h', r) \<Rightarrow> (h', answer [not_found] r))"


section \<open>One request after another\<close>

datatype config_request =
    ListConfigs "vpn_protocol_type option" int int
  | CreateConfig use_draws create_config_request
  | RegenerateAll "uuid \<Rightarrow> use_draws" use_draws
  | Regenerate use_draws uuid
  | ReadData uuid
  | EditData use_draws uuid config_data_request
  | ShowConfig uuid
  | PatchPolicy use_draws uuid "(string \<times> bool) list"
  | DeleteConfig use_draws uuid

fun status_of :: "'a reply \<Rightarrow> (nat \<times> string) option" where
  "status_of (Failed code detail) = Some (code, detail)"
| "status_of (Reply x) = None"

fun run_config_request :: "app_env \<Rightarrow> user \<Rightarrow> config_request \<Rightarrow> app \<Rightarrow> app \<times> (nat \<times> string) option" where
  "run_config_request env u (ListConfigs p limit offset) s = map_prod id status_of (list_configs_endpoint p limit offset s)"
| "run_config_request env u (CreateConfig dr rq) s = map_prod id status_of (create_config_endpoint env dr u rq s)"
| "run_config_request env u (RegenerateAll dr dr0) s = map_prod id status_of (regenerate_all_endpoint env dr dr0 u s)"
| "run_config_request env u (Regenerate dr i) s = map_prod id status_of (regenerate_config_endpoint env dr u i s)"
| "run_config_request env u (ReadData i) s = map_prod id status_of (get_config_data_endpoint env i s)"
| "run_config_request env u (EditData dr i rq) s = map_prod id status_of (update_config_data_endpoint env dr u i rq s)"
| "run_config_request env u (ShowConfig i) s = map_prod id status_of (get_config_endpoint env i s)"
| "run_config_request env u (PatchPolicy dr i upd) s = map_prod id status_of (update_policy_endpoint env dr u i upd s)"
| "run_config_request env u (DeleteConfig dr i) s = map_prod id status_of (delete_config_endpoint env dr u i s)"

section \<open>Refusals\<close>

text \<open>Nothing committed and nothing sent.\<close>

definition quiet_step :: "app \<Rightarrow> app \<Rightarrow> bool" where
  "quiet_step s s' \<longleftrightarrow> com (a_session s') = com (a_session s) \<and> a_sent s' = a_sent s"

interpretation quiet: act_frame quiet_step
  by unfold_locales (auto simp: quiet_step_def)

lemma quiet_steps:
  "follows quiet_step (query f)" "follows quiet_step (change g)" "follows quiet_step (update_db k)" "follows quiet_step (on_host m)"
  "follows quiet_step (audit env dr n e p u)"
  by (auto simp: follows_def query_def change_def update_db_def audit_def on_host_def quiet_step_def split: prod.splits sum.splits)

text \<open>An outcome that the endpoint turns into an answer comes with nothing committed or sent.\<close>

definition refuses :: "exn_kind list \<Rightarrow> (app, 'a) act \<Rightarrow> bool" where
  "refuses ks m \<longleftrightarrow> (\<forall>s s' e. m s = (s', Inl e) \<longrightarrow> caught_by ks e \<longrightarrow> quiet_step s s')"

definition raises_other :: "exn_kind list \<Rightarrow> ('s, 'a) act \<Rightarrow> bool" where
  "raises_other ks m \<longleftrightarrow> (\<forall>s s' e. m s = (s', Inl e) \<longrightarrow> \<not> caught_by ks e)"

lemma refuses_quiet: "follows quiet_step m \<Longrightarrow> refuses ks m"
  by (auto simp: refuses_def dest: quiet.follows_stepD)

lemma refuses_other: "raises_other ks m \<Longrightarrow> refuses ks m"
  by (auto simp: refuses_def raises_other_def)

lemma refuses_bind:
  assumes "follows quiet_step m" "\<And>x. refuses ks (f x)"
  shows "refuses ks (bindH m f)"
  unfolding refuses_def
proof (intro allI impI)
  fix s s' e assume run: "bindH m f s = (s', Inl e)" "caught_by ks e"
  obtain s1 r where m: "m s = (s1, r)" by (cases "m s")
  have q: "quiet_step s s1" by (rule quiet.follows_stepD [OF assms(1) m])
  show "quiet_step s s'"
  proof (cases r)
    case (Inr x)
    then have "quiet_step s1 s'" using run m assms(2) by (auto simp: bindH_def refuses_def)
    with q show ?thesis by (rule quiet.seq)
  qed (use run m q in \<open>simp add: bindH_def\<close>)
qed

lemma refuses_then: "refuses ks m \<Longrightarrow> (\<And>x. raises_other ks (f x)) \<Longrightarrow> refuses ks (bindH m f)"
  unfolding refuses_def raises_other_def bindH_def by (fastforce split: prod.splits sum.splits)

lemma raises_other_bind: "raises_other ks m \<Longrightarrow> (\<And>x. raises_other ks (f x)) \<Longrightarrow> raises_other ks (bindH m f)"
  unfolding raises_other_def bindH_def by (fastforce split: prod.splits sum.splits)

lemma raises_other_pure: "raises_other ks (returnH x)" "raises_other ks commitA"
  by (auto simp: raises_other_def returnH_def commitA_def)

text \<open>A broker that answers, when it answers, with JSON.\<close>

definition json_broker :: "http_server \<Rightarrow> bool" where
  "json_broker server \<longleftrightarrow> (\<forall>sent call. case server sent call of
     Inl e \<Rightarrow> exn_kind e = HTTPError | Inr (code, body) \<Rightarrow> \<not> isl body)"

definition client_errors :: "exn_kind list \<Rightarrow> bool" where
  "client_errors ks \<longleftrightarrow> set ks \<inter> {HTTPError, KeyError, TypeError, IndexError} = {}"

lemma raises_other_publish:
  assumes json: "json_broker (ae_http env)" and ks: "client_errors ks"
  shows "raises_other ks (publish env t p)"
  unfolding raises_other_def
proof (intro allI impI)
  fix s s' e assume run: "publish env t p s = (s', Inl e)"
  let ?call = "Post ''/api/v1/tasks'' (task_body t p 0 None)"
  have j: "case ae_http env (a_sent s) ?call of Inl e \<Rightarrow> exn_kind e = HTTPError | Inr (code, body) \<Rightarrow> \<not> isl body"
    using json by (auto simp: json_broker_def)
  have "exn_kind e \<in> {HTTPError, KeyError, TypeError}"
  proof (cases "ae_http env (a_sent s) ?call")
    case (Inl x)
    then show ?thesis using run j
      by (auto simp: publish_def on_broker_def publish_task_def checked_json_def http_send_def bindH_def liftH_def)
  next
    case (Inr cb)
    obtain code body where cb: "cb = (code, Inr body)" using j Inr by (cases cb; cases "snd cb") auto
    show ?thesis
    proof (cases "200 \<le> code \<and> code \<le> 299")
      case True
      have "bindR (jitem body ''task_id'') text_value = Inl e"
        using run Inr cb True
        by (auto simp: publish_def on_broker_def publish_task_def checked_json_def http_send_def bindH_def liftH_def raise_for_status_def
            split: sum.splits)
      then show ?thesis
        by (cases body) (auto simp: bindR_eq_Inl text_value_def split: option.splits json.splits)
    next
      case False
      then show ?thesis using run Inr cb
        by (auto simp: publish_def on_broker_def publish_task_def checked_json_def http_send_def bindH_def liftH_def raise_for_status_def)
    qed
  qed
  then show "\<not> caught_by ks e"
    using ks by (auto simp: caught_by_def exn_subclass_def exn_base_def client_errors_def list_ex_iff)
qed

lemma raises_other_audit: "raises_other ks (audit env dr n ev p u)"
  by (auto simp: raises_other_def audit_def update_db_def change_def)

lemma raises_other_task_id: "ValueError \<notin> set ks \<Longrightarrow> raises_other ks (update_db (\<lambda>d. set_last_task_id d i t now))"
  by (auto simp: raises_other_def update_db_def change_def set_last_task_id_def config_not_found_def bindR_eq_Inl caught_by_def
      exn_subclass_def exn_base_def list_ex_iff split: sum.splits option.splits)

lemma case_follows: "(\<And>x. follows R (f x)) \<Longrightarrow> follows R g \<Longrightarrow> follows R (case_option g f x)"
  by (cases x) auto

lemma case_refuses: "(\<And>x. refuses ks (f x)) \<Longrightarrow> refuses ks g \<Longrightarrow> refuses ks (case_option g f x)"
  by (cases x) auto

lemma ite_refuses: "refuses ks m \<Longrightarrow> refuses ks m' \<Longrightarrow> refuses ks (if c then m else m')"
  by simp

text \<open>Regenerating refuses before it commits; what fails after it is no refusal.\<close>

lemma refuses_regenerate:
  assumes "json_broker (ae_http env)" "client_errors ks" "ValueError \<notin> set ks"
  shows "refuses ks (regenerate_config env dr i u)"
proof -
  have pair: "refuses ks (case x of (a, b, c, d) \<Rightarrow> m a b c d)" if "\<And>a b c d. refuses ks (m a b c d)" for x m
    using that by (cases x) auto
  have tail: "raises_other ks (thenH commitA
      (bindH (publish env t p) (\<lambda>task_id. thenH (update_db (\<lambda>d. set_last_task_id d i task_id now))
         (thenH (audit env dr 2 ev (pl task_id) u') (thenH commitA (returnH (i, task_id)))))))" for t p now ev pl u'
    by (intro raises_other_bind raises_other_pure raises_other_publish raises_other_audit raises_other_task_id assms)
  show ?thesis
    unfolding regenerate_config_def
    by (intro refuses_bind case_refuses ite_refuses refuses_quiet [OF quiet.pure(2)] pair refuses_other [OF tail]
        quiet_steps quiet.catch quiet.pure)
qed

text \<open>The other use cases commit only at the end, or not at all.\<close>

lemma quiet_uses:
  "follows quiet_step (list_configs p l off)" "follows quiet_step (get_config i)" "follows quiet_step (get_config_data env i)"
  "follows quiet_step (delete_config env dr i u)" "follows quiet_step (update_policy env dr i u upd)"
  "follows quiet_step (update_config_data env dr i u data content fmt)"
proof -
  have g: "follows quiet_step (get_config i)"
    unfolding get_config_def by (intro quiet.bind quiet_steps case_follows quiet.pure)
  have save: "follows quiet_step (save_config_data env dr i u data content fmt snap)" for snap
    unfolding save_config_data_def Let_def by (intro case_follows quiet.bind quiet_steps quiet.pure)
  show "follows quiet_step (get_config i)" by (rule g)
  show "follows quiet_step (list_configs p l off)" unfolding list_configs_def by (rule quiet_steps)
  show "follows quiet_step (get_config_data env i)"
    unfolding get_config_data_def Let_def by (intro case_follows quiet.bind quiet_steps quiet.pure)
  show "follows quiet_step (delete_config env dr i u)"
    unfolding delete_config_def Let_def by (intro quiet.bind quiet.ite quiet_steps quiet.pure g)
  show "follows quiet_step (update_policy env dr i u upd)"
    unfolding update_policy_def Let_def by (intro quiet.bind quiet_steps quiet.pure g)
  show "follows quiet_step (update_config_data env dr i u data content fmt)"
    unfolding update_config_data_def by (intro case_follows quiet.bind quiet.ite quiet_steps quiet.pure save)
qed

text \<open>Creating: after the commit the configuration is there, so only the broker can fail.\<close>

lemma refuses_create:
  assumes "json_broker (ae_http env)" "client_errors ks"
  shows "refuses ks (create_config env dr name protocol p u pol host)"
  unfolding refuses_def
proof (intro allI impI)
  fix s s' e assume run: "create_config env dr name protocol p u pol host s = (s', Inl e)" and caught: "caught_by ks e"
  show "quiet_step s s'"
  proof (cases "map_of (profiles (ae_settings env)) (profile_value p)")
    case None
    then show ?thesis using run by (simp add: create_config_def raiseH_def quiet_step_def)
  next
    case (Some ps)
    let ?policy = "Some (merged_policy (for_profile p (Some ps)) pol)"
    let ?new = "\<lambda>h. create_pending (cur (a_session s)) (ud_id dr) (ud_now dr 0) name protocol p (user_id u) ?policy h"
    show ?thesis
    proof (cases "bindR (normalize_share_public_host host) ?new")
      case (Inl x)
      then show ?thesis using run Some
        by (auto simp: create_config_def bindH_def liftH_def Let_def change_def quiet_step_def split: sum.splits)
    next
      case (Inr new)
      obtain d1 config where new: "new = (d1, config)" by (cases new)
      obtain h where h: "normalize_share_public_host host = Inr h" "?new h = Inr (d1, config)"
        using Inr new by (auto simp: bindR_eq_Inr)
      obtain r where "cfg_id config = ud_id dr" "get_model (cur (a_session s)) (ud_id dr) False = None"
        "get_model d1 (ud_id dr) False = Some r" "row_is_active r" using create_pending_row [OF h(2)] by blast
      then have there: "get_model d1 (cfg_id config) True \<noteq> None"
        by (auto simp: get_model_def find_row_None dest: find_row_Some)
      let ?s1 = "s\<lparr>a_session := (a_session s)\<lparr>cur := d1\<rparr>\<rparr>"
      let ?payload = "task_payload (cfg_id config) protocol p name (user_id u) 1"
      let ?done = "\<lambda>task_id. thenH (update_db (\<lambda>d. set_last_task_id d (cfg_id config) task_id (ud_now dr 1)))
           (thenH (audit env dr 2 ''config.created''
               (JDict [(''config_id'', JStr (uuid_str (cfg_id config))), (''protocol'', JStr (protocol_value protocol)),
                       (''profile'', JStr (profile_value p)), (''name'', JStr name),
                       (''share_public_host'', opt_json h), (''task_id'', JStr task_id)]) (user_id u))
           (thenH commitA (returnH (cfg_id config, task_id))))"
      have rest: "bindH (publish env ''config.initialize'' ?payload) ?done (?s1\<lparr>a_session := commit (a_session ?s1)\<rparr>) = (s', Inl e)"
      proof -
        have steps: "liftH (normalize_share_public_host host) s = (s, Inr h)" "change (\<lambda>d. create_pending d (ud_id dr) (ud_now dr 0) name
            protocol p (user_id u) ?policy h) s = (?s1, Inr config)" "commitA ?s1 = (?s1\<lparr>a_session := commit (a_session ?s1)\<rparr>, Inr ())"
          using h by (simp_all add: liftH_def change_def commitA_def)
        show ?thesis
          using run unfolding create_config_def Some option.case Let_def by (simp only: bindH_def [where h = s] bindH_def [where h = ?s1] steps prod.case sum.case)
      qed
      have fine: "raises_other ks (publish env ''config.initialize'' ?payload)" by (rule raises_other_publish [OF assms])
      obtain s2 out where pub: "publish env ''config.initialize'' ?payload (?s1\<lparr>a_session := commit (a_session ?s1)\<rparr>) = (s2, out)"
        by (cases "publish env ''config.initialize'' ?payload (?s1\<lparr>a_session := commit (a_session ?s1)\<rparr>)")
      have False
      proof (cases out)
        case (Inl x)
        then show False using rest pub fine caught by (auto simp: bindH_def raises_other_def)
      next
        case (Inr t)
        have s2: "cur (a_session s2) = d1" using publish_run [OF pub [unfolded Inr]] by (simp add: commit_def)
        obtain d2 where "set_last_task_id d1 (cfg_id config) t (ud_now dr 1) = Inr d2"
          using there by (auto simp: set_last_task_id_def)
        then show False
          using rest pub Inr s2 by (simp add: bindH_def update_db_def change_def audit_def commitA_def returnH_def)
      qed
      then show ?thesis ..
    qed
  qed
qed

lemma refuses_finish: "refuses ks m \<Longrightarrow> refuses ks (bindH m (\<lambda>x. returnH (f x)))"
    "refuses ks m' \<Longrightarrow> refuses ks (bindH m' (\<lambda>x. thenH commitA (returnH (g x))))"
    "refuses ks m'' \<Longrightarrow> refuses ks (thenH m'' commitA)"
    "refuses ks n \<Longrightarrow> refuses ks (bindH n (\<lambda>(a, b). returnH (k a b)))"
  by (auto intro!: refuses_then raises_other_bind raises_other_pure split: prod.splits)

fun clause_kinds :: "clause list \<Rightarrow> exn_kind list" where
  "clause_kinds [] = []"
| "clause_kinds (Answer ks code detail # clauses) = ks @ clause_kinds clauses"

lemma answer_exn_caught: "answer_exn clauses e = Failed code detail \<Longrightarrow> code \<noteq> 500 \<Longrightarrow> caught_by (clause_kinds clauses) e"
  by (induction clauses e rule: answer_exn.induct) (auto simp: internal_error_def caught_by_def split: if_splits)

lemma endpoint_refused:
  fixes m :: "(app, 'a) act"
  assumes "refuses (clause_kinds clauses) m" "map_prod id status_of (endpoint clauses m s) = (s', Some (code, detail))" "code \<noteq> 500"
  shows "quiet_step s s'"
proof -
  obtain s1 r where m: "m s = (s1, r)" by (cases "m s")
  have s': "s' = close_session s1" and a: "status_of (answer clauses r) = Some (code, detail)"
    using assms(2) m by (auto simp: endpoint_def)
  obtain e where e: "r = Inl e" "answer_exn clauses e = (Failed code detail :: 'a reply)"
    using a by (cases r; cases "answer clauses r") (auto simp: answer_def)
  have "quiet_step s s1"
    using assms(1) m e answer_exn_caught [OF e(2) assms(3)] by (auto simp: refuses_def)
  then show ?thesis by (simp add: s' quiet_step_def close_session_def open_session_def)
qed

lemma quiet_same: "quiet_step s s"
  by (simp add: quiet_step_def)

text \<open>
  C36. A request that is refused has done nothing: when a request on configurations is answered with
  an error other than a server error, the committed database is what it was and no call has been made
  to the broker. The broker must answer, when it answers, with JSON.
\<close>

theorem refused_request_changes_nothing:
  assumes json: "json_broker (ae_http env)"
    and run: "run_config_request env u rq s = (s', Some (code, detail))" and code: "code \<noteq> 500"
  shows "com (a_session s') = com (a_session s) \<and> a_sent s' = a_sent s"
proof -
  have client: "client_errors [ConfigNotFound, ConfigNotRegeneratable]" "client_errors [InvalidSharePublicHost, ValueError]"
    by (auto simp: client_errors_def)
  have "quiet_step s s'"
  proof (cases rq)
    case (CreateConfig dr r)
    then show ?thesis
      using run by (auto simp: create_config_endpoint_def unprocessable_def quiet_same split: if_splits
          elim!: endpoint_refused [OF _ _ code, rotated] intro!: refuses_finish refuses_create [OF json] client)
  next
    case (Regenerate dr i)
    then show ?thesis
      using run by (auto simp: regenerate_config_endpoint_def not_found_def
          elim!: endpoint_refused [OF _ _ code, rotated] intro!: refuses_finish refuses_regenerate [OF json] client)
  next
    case (RegenerateAll dr dr0)
    then show ?thesis
      using run code by (auto simp: regenerate_all_endpoint_def endpoint_def answer_def internal_error_def split: prod.splits sum.splits)
  next
    case (ListConfigs p l off)
    then show ?thesis
      using run by (auto simp: list_configs_endpoint_def unprocessable_def quiet_same split: if_splits
          elim!: endpoint_refused [OF _ _ code, rotated] intro!: refuses_quiet quiet.bind quiet_uses quiet.pure)
  next
    case (EditData dr i r)
    then show ?thesis
      using run by (auto simp: update_config_data_endpoint_def unprocessable_def quiet_same split: if_splits
          elim!: endpoint_refused [OF _ _ code, rotated] intro!: refuses_finish(2) refuses_quiet [OF quiet_uses(6)])
  qed (use run in \<open>auto simp: get_config_data_endpoint_def get_config_endpoint_def update_policy_endpoint_def delete_config_endpoint_def
      elim!: endpoint_refused [OF _ _ code, rotated] intro!: refuses_finish(1) [OF refuses_quiet [OF quiet_uses(2)]] refuses_finish(2) [OF refuses_quiet [OF quiet_uses(5)]]
        refuses_finish(3) [OF refuses_quiet [OF quiet_uses(4)]] refuses_quiet [OF quiet_uses(3)]\<close>)
  then show ?thesis by (simp add: quiet_step_def)
qed


text \<open>Regenerating a configuration that waits for its first version is refused with 409.\<close>

theorem refused_request_changes_nothing_witness:
  "\<exists>s'. run_config_request demo_app_env demo_admin (Regenerate (demo_use 6) 6) (app_of demo_two demo_host)
      = (s', Some (409, ''Config has no version to regenerate'')) \<and> com (a_session s') = demo_two \<and> a_sent s' = []"
proof -
  let ?s = "app_of demo_two demo_host"
  have "bindR (get_by_id demo_two 6 True) (\<lambda>f. Inr (map_option cfg_current_version f)) = Inr (Some None)" by code_simp
  then obtain config where "get_by_id demo_two 6 True = Inr (Some config)" "cfg_current_version config = None"
    by (auto simp: bindR_eq_Inr)
  then have "snd (run_config_request demo_app_env demo_admin (Regenerate (demo_use 6) 6) ?s) = Some (409, ''Config has no version to regenerate'')"
    by (simp add: regenerate_config_endpoint_def endpoint_def regenerate_config_def query_def bindH_def app_of_def open_session_def
        raiseH_def answer_def not_found_def caught_by_def exn_subclass_def exn_base_def)
  then obtain s' where r: "run_config_request demo_app_env demo_admin (Regenerate (demo_use 6) 6) ?s = (s', Some (409, ''Config has no version to regenerate''))"
    by (metis prod.collapse)
  have "json_broker (ae_http demo_app_env)" by (simp add: json_broker_def demo_app_env_def)
  from refused_request_changes_nothing [OF this r] r show ?thesis by (auto simp: app_of_def open_session_def)
qed

text \<open>
  A broker that answers a creation with something that is not JSON makes the endpoint answer 422
  although the configuration is committed.
\<close>

lemma refused_but_created:
  assumes bad: "ae_http env = (\<lambda>sent call. Inr (200, raise ValueError msg))" and valid: "create_request_valid rq"
    and ps: "map_of (profiles (ae_settings env)) (profile_value (request_profile rq)) = Some ps"
    and host: "cr_share_host rq = None" and pol: "cr_policy rq = None"
    and new: "create_pending (cur (a_session s)) (ud_id dr) (ud_now dr 0) (cr_name rq) (cr_protocol rq) (request_profile rq) (user_id u)
      (Some (for_profile (request_profile rq) (Some ps))) None = Inr (d1, config)"
  shows "\<exists>s'. create_config_endpoint env dr u rq s = (s', Failed 422 msg) \<and> com (a_session s') = d1"
proof -
  have "publish env t payload s1 = (s1\<lparr>a_sent := a_sent s1 @ [Post ''/api/v1/tasks'' (task_body t payload 0 None)]\<rparr>, raise ValueError msg)" for t payload s1
    by (simp add: publish_def bindH_def on_broker_def publish_task_def checked_json_def http_send_def bad liftH_def raise_for_status_def)
  then show ?thesis
    using valid ps host pol new
    by (simp add: create_config_endpoint_def endpoint_def create_config_def bindH_def liftH_def Let_def change_def commitA_def commit_def
        normalize_share_public_host_def merged_policy_def close_session_def open_session_def answer_def caught_by_def exn_subclass_def exn_base_def)
qed

end
