(* ===== verification/Growth.thy ===== *)
theory Growth
  imports Auth Config_Api
begin

text \<open>
  What every operation on the database keeps: the well-formedness of all its tables, and that no
  row of a user, a configuration, a version, a share link or an audit record ever goes away. One
  lemma per operation of the repositories, for the invariants of the whole system.
\<close>

section \<open>Well-formed databases and their growth\<close>

definition settled_rows :: "db \<Rightarrow> bool" where
  "settled_rows d \<longleftrightarrow> (\<forall>r\<in>set (configs d). row_status r \<noteq> PROCESSING)"

definition wf_db :: "db \<Rightarrow> bool" where
  "wf_db d \<longleftrightarrow> store_ok d \<and> shares_ok d \<and> users_ok d \<and> audit_clean d \<and> settled_rows d"

definition longer :: "'a list \<Rightarrow> 'a list \<Rightarrow> bool" where
  "longer xs ys \<longleftrightarrow> (\<exists>zs. ys = xs @ zs)"

definition grows :: "db \<Rightarrow> db \<Rightarrow> bool" where
  "grows d d' \<longleftrightarrow> (\<forall>c. config_exists d c \<longrightarrow> config_exists d' c) \<and> (\<forall>c v. has_version d c v \<longrightarrow> has_version d' c v)
     \<and> longer (users d) (users d') \<and> longer (audit_logs d) (audit_logs d') \<and> shares_extend (shares d) (shares d')"

text \<open>An operation that keeps a well-formed database well formed and takes nothing away.\<close>

definition sound_step :: "db \<Rightarrow> db \<Rightarrow> bool" where
  "sound_step d d' \<longleftrightarrow> (wf_db d \<longrightarrow> wf_db d') \<and> grows d d'"

lemma longer_simps [simp]: "longer xs xs" "longer xs (xs @ ys)"
  by (simp_all add: longer_def)

lemma longer_trans: "longer xs ys \<Longrightarrow> longer ys zs \<Longrightarrow> longer xs zs"
  by (auto simp: longer_def)

lemma grows_refl [simp]: "grows d d"
  by (simp add: grows_def)

lemma grows_trans: "grows d1 d2 \<Longrightarrow> grows d2 d3 \<Longrightarrow> grows d1 d3"
  unfolding grows_def by (meson longer_trans shares_extend_trans)

lemma sound_refl [simp]: "sound_step d d"
  by (simp add: sound_step_def)

lemma sound_trans: "sound_step d1 d2 \<Longrightarrow> sound_step d2 d3 \<Longrightarrow> sound_step d1 d3"
  unfolding sound_step_def using grows_trans by blast

lemma wf_empty: "wf_db empty_db"
proof -
  have "shares_ok empty_db" "users_ok empty_db" "audit_clean empty_db" "settled_rows empty_db"
    by (simp_all add: empty_db_def shares_ok_def users_ok_def audit_clean_def settled_rows_def)
  then show ?thesis by (simp add: wf_db_def store_ok_empty)
qed

lemma user_exists_longer: "longer (users d) (users d') \<Longrightarrow> user_exists d u \<Longrightarrow> user_exists d' u"
  by (auto simp: longer_def user_exists_def)

text \<open>Operations on configurations and versions.\<close>

lemma sound_store:
  assumes "store_ok d \<Longrightarrow> store_ok d'" "settled_rows d \<Longrightarrow> settled_rows d'"
    "\<And>c. config_exists d c \<Longrightarrow> config_exists d' c" "\<And>c v. has_version d c v \<Longrightarrow> has_version d' c v"
    and same: "users d' = users d" "shares d' = shares d" "audit_logs d' = audit_logs d"
  shows "sound_step d d'"
proof -
  have "shares_ok d \<Longrightarrow> shares_ok d'"
    using assms by (intro shares_ok_kept [of d d']) (simp_all add: list_all2_refl user_exists_def)
  moreover have "users_ok d' = users_ok d" "audit_clean d' = audit_clean d"
    by (simp_all add: users_ok_def audit_clean_def same)
  ultimately show ?thesis
    using assms(1-4) by (auto simp: sound_step_def wf_db_def grows_def same)
qed

lemma settled_upd: "(\<And>r. row_status r \<noteq> PROCESSING \<Longrightarrow> row_status (f r) \<noteq> PROCESSING) \<Longrightarrow> settled_rows d \<Longrightarrow> settled_rows (upd_config c f d)"
  by (auto simp: settled_rows_def dest!: upd_config_rows split: if_splits)

lemma sound_upd:
  assumes "store_ok d \<Longrightarrow> store_ok (upd_config c f d)" "\<And>r. row_id (f r) = row_id r"
    "\<And>r. row_status r \<noteq> PROCESSING \<Longrightarrow> row_status (f r) \<noteq> PROCESSING"
  shows "sound_step d (upd_config c f d)"
  using assms by (intro sound_store) (auto intro: settled_upd simp: config_exists_upd)

lemma upd_config_audits [simp]: "audit_logs (upd_config c f d) = audit_logs d" "rate_entries (upd_config c f d) = rate_entries d"
  by (simp_all add: upd_config_def)

lemma sound_create_pending: "create_pending d i now n pr p u pol h = Inr (d', e) \<Longrightarrow> sound_step d d' \<and> config_exists d' i"
proof -
  assume run: "create_pending d i now n pr p u pol h = Inr (d', e)"
  then obtain r where r: "d' = d\<lparr>configs := configs d @ [r]\<rparr>" "row_status r = PENDING" "row_id r = i"
    by (auto simp: create_pending_def Let_def bindR_eq_Inr insert_config_def split: if_splits)
  have "sound_step d d'"
    by (rule sound_store)
      (use store_ok_create_pending [OF _ run] in \<open>auto simp: r settled_rows_def config_exists_def has_version_def\<close>)
  then show ?thesis by (simp add: r config_exists_def)
qed

lemma sound_rows:
  "set_last_task_id d c t now = Inr d' \<Longrightarrow> sound_step d d'"
  "prepare_regenerate d c u now = Inr d' \<Longrightarrow> sound_step d d'"
  "update_regenerate_policy d c p u now = Inr (d', e) \<Longrightarrow> sound_step d d'"
  "mark_failed d c m now = Inr d' \<Longrightarrow> sound_step d d'"
  "sound_step d (fst (soft_delete d c u now))"
proof -
  show "set_last_task_id d c t now = Inr d' \<Longrightarrow> sound_step d d'"
    using store_ok_set_last_task_id [of d c t now d'] by (auto dest!: set_last_task_id_Inr intro!: sound_upd)
  show "prepare_regenerate d c u now = Inr d' \<Longrightarrow> sound_step d d'"
    using store_ok_prepare_regenerate [of d c u now d'] by (auto dest!: prepare_regenerate_Inr intro!: sound_upd)
  show "mark_failed d c m now = Inr d' \<Longrightarrow> sound_step d d'"
    using store_ok_mark_failed [of d c m now d'] by (auto simp: mark_failed_Inr intro!: sound_upd)
  show "update_regenerate_policy d c p u now = Inr (d', e) \<Longrightarrow> sound_step d d'"
    using store_ok_update_policy [of d c p u now d' e]
    by (auto simp: update_regenerate_policy_def config_not_found_def Let_def bindR_eq_Inr intro!: sound_upd split: option.splits)
  show "sound_step d (fst (soft_delete d c u now))"
    using store_ok_soft_delete [of d c u now] by (auto simp: soft_delete_def intro!: sound_upd split: option.splits)
qed

lemma sound_update_version:
  assumes "update_version_config_data d c v cd port u now = Inr d'"
  shows "sound_step d d'"
proof -
  let ?g = "\<lambda>x. x\<lparr>v_config_data := cd, v_port := port\<rparr>" and ?f = "\<lambda>r. r\<lparr>row_updated_by := u, row_updated_at := now\<rparr>"
  have d': "d' = upd_config c ?f (d\<lparr>versions := upd_rows (\<lambda>x. v_config_id x = c \<and> v_version x = v) ?g (versions d)\<rparr>)"
    using assms by (auto simp: update_version_config_data_def config_not_found_def split: option.splits)
  have key: "has_version e a b \<longleftrightarrow> (a, b) \<in> set (map (\<lambda>x. (v_config_id x, v_version x)) (versions e))" for e a b
    by (auto simp: has_version_iff)
  have keys: "map (\<lambda>x. (v_config_id x, v_version x)) (versions d') = map (\<lambda>x. (v_config_id x, v_version x)) (versions d)"
    by (simp add: d' upd_rows_def)
  have "has_version d' a b = has_version d a b" for a b
    by (simp only: key keys)
  moreover have "config_exists d' c' = config_exists d c'" for c'
    by (simp add: d' config_exists_upd) (simp add: config_exists_def)
  moreover have "settled_rows d \<Longrightarrow> settled_rows d'"
    by (auto simp: d' settled_rows_def upd_config_def upd_rows_def)
  ultimately show ?thesis
    using store_ok_update_version [OF _ assms] by (intro sound_store) (simp_all add: d')
qed

section \<open>The audit log\<close>

lemma sound_audit: "sound_step d (audit_log st i t e p u d)"
proof -
  have "shares_ok d \<Longrightarrow> shares_ok (audit_log st i t e p u d)" by (rule shares_ok_cong [of d]) simp_all
  moreover have "users_ok (audit_log st i t e p u d) = users_ok d" "settled_rows (audit_log st i t e p u d) = settled_rows d"
    by (simp_all add: users_ok_def settled_rows_def)
  moreover have "longer (audit_logs d) (audit_logs (audit_log st i t e p u d))"
    by (simp add: audit_log_def audit_insert_def)
  ultimately show ?thesis
    using audit_log_clean [of d]
    by (auto simp: sound_step_def wf_db_def grows_def config_exists_def has_version_def)
qed

lemma sound_failed_login: "sound_step d (audit_failed_login st i t n ip d)"
  by (simp add: audit_failed_login_def sound_audit)

section \<open>Share requests\<close>

definition same_audits :: "db \<Rightarrow> db \<Rightarrow> bool" where
  "same_audits d d' \<longleftrightarrow> longer (audit_logs d) (audit_logs d') \<and> (audit_clean d \<longrightarrow> audit_clean d')"

lemma audits_same [simp]: "audit_logs d' = audit_logs d \<Longrightarrow> same_audits d d'"
  by (simp add: same_audits_def audit_clean_def)

lemma audits_logged: "audit_logs d1 = audit_logs d \<Longrightarrow> same_audits d (audit_log st i t e p u d1)"
  using audit_log_clean [of d1 st i t e p u]
  by (auto simp: same_audits_def audit_clean_def) (simp add: audit_log_def audit_insert_def)

lemma revoke_where_audits [simp]: "audit_logs (fst (revoke_where P now d)) = audit_logs d"
  by (simp add: revoke_where_def split: option.splits)

lemma share_audits:
  "create_share_link st dr c u rq b d = Inr (d', res) \<Longrightarrow> same_audits d d'"
  "create_all_share_links st dr u rq b d = Inr (d', res) \<Longrightarrow> same_audits d d'"
  "revoke_share_link st a now t u d = Inr d' \<Longrightarrow> same_audits d d'"
  "revoke_share_link_by_id st a now i u d = Inr d' \<Longrightarrow> same_audits d d'"
  "same_audits d (fst (resolve_share ci st rs t ip now d))"
proof -
  show "create_share_link st dr c u rq b d = Inr (d', res) \<Longrightarrow> same_audits d d'"
    by (erule create_share_link_Inr) (auto dest!: share_create_Inr intro!: audits_logged)
  show "create_all_share_links st dr u rq b d = Inr (d', res) \<Longrightarrow> same_audits d d'"
    by (erule create_all_links_Inr) (auto dest!: share_create_Inr intro!: audits_logged)
  show "revoke_share_link st a now t u d = Inr d' \<Longrightarrow> same_audits d d'"
    by (auto simp: revoke_share_link_def revoke_by_token_hash_def Let_def case_prod_beta intro!: audits_logged split: if_splits)
  show "revoke_share_link_by_id st a now i u d = Inr d' \<Longrightarrow> same_audits d d'"
    by (auto simp: revoke_share_link_by_id_def revoke_by_id_def Let_def case_prod_beta intro!: audits_logged split: if_splits)
  show "same_audits d (fst (resolve_share ci st rs t ip now d))"
    by (auto simp: resolve_share_def Let_def case_prod_beta record_access_def split: sum.splits option.splits)
qed

lemma share_event_audits: "same_audits d (run_share_event c st e d)"
proof (cases e)
  case (LinkCreate dr i u rq b)
  then show ?thesis using share_audits(1)
    by (cases "create_share_link st dr i u rq (rstrip_char CHR ''/'' b) d") (auto simp: create_share_link_endpoint_def)
next
  case (LinkCreateAll dr u rq b)
  then show ?thesis using share_audits(2)
    by (cases "create_all_share_links st dr u rq (rstrip_char CHR ''/'' b) d") (auto simp: create_all_share_links_endpoint_def)
next
  case (LinkRevoke a now t u)
  then show ?thesis using share_audits(3)
    by (cases "revoke_share_link st a now t u d") (auto simp: revoke_share_endpoint_def)
next
  case (LinkRevokeId a now i u)
  then show ?thesis using share_audits(4)
    by (cases "revoke_share_link_by_id st a now i u d") (auto simp: revoke_share_by_id_endpoint_def)
next
  case (LinkResolve rs t req now)
  obtain d1 r where run: "resolve_share c st rs t (get_client_ip req) now d = (d1, r)" by fastforce
  then have "same_audits d d1" using share_audits(5) [of d c st rs t "get_client_ip req" now] by simp
  then show ?thesis using LinkResolve run by (cases r) (simp_all add: resolve_share_endpoint_def)
qed

lemma sound_share_event: assumes "wf_db d" shows "sound_step d (run_share_event c st e d)"
proof -
  let ?d = "run_share_event c st e d"
  have s: "share_step d ?d" by (rule run_share_event_step)
  have t: "configs ?d = configs d" "versions ?d = versions d" "users ?d = users d" "shares_extend (shares d) (shares ?d)"
    using s by (simp_all add: share_step_def)
  have wf: "store_ok d" "shares_ok d" "users_ok d" "audit_clean d" "settled_rows d" using assms by (simp_all add: wf_db_def)
  have a: "same_audits d ?d" by (rule share_event_audits)
  have "wf_db ?d"
    unfolding wf_db_def
    using wf a shares_ok_event [OF wf(2,1)] store_ok_cong [OF t(1,2)] by (simp add: users_ok_def settled_rows_def t same_audits_def)
  moreover have "grows d ?d"
    using a by (simp add: grows_def t config_exists_def has_version_def same_audits_def)
  ultimately show ?thesis by (simp add: sound_step_def)
qed

section \<open>Users, sign-ins and tasks\<close>

lemma users_added:
  assumes "users d' = users d @ [u]" "users_ok d \<longrightarrow> users_ok d'" "configs d' = configs d" "versions d' = versions d"
    "shares d' = shares d" "audit_logs d' = audit_logs d"
  shows "sound_step d d'"
proof -
  have "store_ok d' = store_ok d" using assms by (intro store_ok_cong)
  moreover have "shares_ok d \<Longrightarrow> shares_ok d'"
    using assms by (intro shares_ok_kept [of d d'])
      (auto simp: list_all2_refl config_exists_def has_version_def user_exists_def)
  ultimately show ?thesis
    using assms by (auto simp: sound_step_def wf_db_def grows_def config_exists_def has_version_def audit_clean_def settled_rows_def)
qed

lemma sound_create_admin:
  assumes "create_admin lib salt i now name password d = Inr d'"
  shows "sound_step d d'"
proof -
  obtain h u where "create_user d i now name h = Inr (d', u)"
    using assms by (auto simp: create_admin_def bindR_eq_Inr split: if_splits sum.splits)
  then have new: "\<not> list_ex (\<lambda>u. user_id u = i \<or> username u = name) (users d)"
    and d': "d' = d\<lparr>users := users d @ [\<lparr>user_id = i, username = name, password_hash = h, user_created_at = now\<rparr>]\<rparr>"
    by (auto simp: create_user_def Let_def split: if_splits)
  show ?thesis
    using new unfolding d' by (intro users_added) (auto simp: users_ok_def list_ex_iff)
qed

lemma sound_rate: "sound_step d (fst (check_and_increment s i l w t d))"
proof -
  let ?d = "fst (check_and_increment s i l w t d)"
  have "store_ok ?d = store_ok d" by (rule store_ok_cong) simp_all
  moreover have "shares_ok d \<Longrightarrow> shares_ok ?d" by (rule shares_ok_cong [of d]) simp_all
  ultimately show ?thesis
    by (auto simp: sound_step_def wf_db_def grows_def users_ok_def audit_clean_def settled_rows_def config_exists_def has_version_def)
qed

lemma sound_login: "sound_step d (fst (login lib st sec a now name password ip d))"
proof -
  obtain d1 allowed where c: "check_and_increment ''login'' (''ip:'' @ ip) (limit_or (max_attempts (rate_limit_login st)) 5)
      (window_seconds (rate_limit_login st)) now d = (d1, allowed)"
    by fastforce
  have "sound_step d d1" using sound_rate c by (metis fst_conv)
  then have "sound_step d (audit_failed_login st a now name ip d1)" using sound_failed_login sound_trans by blast
  with \<open>sound_step d d1\<close> show ?thesis
    unfolding login_def Let_def c by (auto split: sum.split option.split)
qed

lemma sound_login_endpoint: "sound_step d (fst (login_endpoint lib st sec a now rq req d))"
proof -
  let ?l = "login lib st sec a now (lg_username rq) (lg_password rq) (get_client_ip req) d"
  obtain d1 r where "?l = (d1, r)" by fastforce
  then show ?thesis
    using sound_login [of d lib st sec a now "lg_username rq" "lg_password rq" "get_client_ip req"]
    by (cases r) (simp_all add: login_endpoint_def)
qed

text \<open>A task that asks for the first version or for one after a stored version.\<close>

definition target_ok :: "db \<Rightarrow> uuid \<Rightarrow> int \<Rightarrow> bool" where
  "target_ok d c v \<longleftrightarrow> config_exists d c \<and> (v = 1 \<or> (1 < v \<and> has_version d c (v - 1)))"

lemma target_grows: "target_ok d c v \<Longrightarrow> grows d d' \<Longrightarrow> target_ok d' c v"
  by (auto simp: target_ok_def grows_def)

lemma attempt_task_tables:
  assumes "attempt_task ctx dr cid p v name d h = (h', Inr d')"
  shows "users d' = users d \<and> shares d' = shares d \<and> audit_logs d' = audit_logs d
    \<and> (\<forall>c. config_exists d c \<longrightarrow> config_exists d' c) \<and> (\<forall>c w. has_version d c w \<longrightarrow> has_version d' c w)
    \<and> (settled_rows d \<longrightarrow> settled_rows d')"
proof -
  let ?on = "\<lambda>t r. r\<lparr>row_status := ACTIVE, row_current_version := Some v, row_error_message := None, row_updated_at := t\<rparr>"
    and ?busy = "\<lambda>t r. r\<lparr>row_status := PROCESSING, row_error_message := None, row_updated_at := t\<rparr>"
  have active: "settled_rows (upd_config cid (?on t) e)"
    if "\<And>r. r \<in> set (configs e) \<Longrightarrow> row_id r \<noteq> cid \<Longrightarrow> row_status r \<noteq> PROCESSING" for t e
    using that by (auto simp: settled_rows_def dest!: upd_config_rows split: if_splits)
  show ?thesis
  proof (cases "has_version d cid v")
    case True
    then have "d' = upd_config cid (?on (td_now dr 0)) d"
      using assms by (auto simp: attempt_task_def mark_active_Inr)
    then show ?thesis using active [of d "td_now dr 0"] by (auto simp: config_exists_upd settled_rows_def)
  next
    case False
    then obtain d1 h1 d2 where d1: "mark_processing d cid (td_now dr 0) = Inr d1" and m: "mark_active d2 cid v (td_now dr 2) = Inr d'"
      and b: "build_and_persist_version ctx dr cid p v name d1 h1 = (h', Inr d2)"
      using assms by (auto simp: attempt_task_def bindH_run)
    obtain ps result port config g where s: "stored_version ctx dr cid p v result port config d1 = Inr d2"
      by (rule build_and_persist_run [OF b])
    obtain x where d2: "d2 = d1\<lparr>versions := versions d1 @ [x]\<rparr>"
      using stored_version_row [OF s] by (auto simp: insert_version_row_Inr)
    have d1: "d1 = upd_config cid (?busy (td_now dr 0)) d" and d': "d' = upd_config cid (?on (td_now dr 2)) d2"
      using d1 m by (simp_all add: mark_processing_Inr mark_active_Inr)
    have "config_exists d2 c = config_exists d1 c" "config_exists d1 c = config_exists d c" for c
      by (simp add: d2 config_exists_def) (simp add: d1 config_exists_upd)
    then have exists: "config_exists d' c = config_exists d c" for c
      by (simp add: d' config_exists_upd)
    have "settled_rows d \<Longrightarrow> settled_rows d'"
      unfolding d' by (rule active) (auto simp: d2 d1 settled_rows_def dest!: upd_config_rows split: if_splits)
    then show ?thesis by (auto simp: exists) (auto simp: d' d2 d1 has_version_iff)
  qed
qed

lemma sound_task:
  assumes wf: "wf_db d" and run: "run_config_task ctx dr payload d h = (h', d', res)"
    and target: "\<And>cid p v name. parse_payload payload = Inr (cid, p, v, name) \<Longrightarrow> target_ok d cid v"
  shows "sound_step d d'"
proof (cases "parse_payload payload")
  case (Inl e)
  then show ?thesis using run by (simp add: run_config_task_def)
next
  case (Inr args)
  obtain cid p v name where args: "parse_payload payload = Inr (cid, p, v, name)" using Inr by (cases args) auto
  show ?thesis
  proof (cases res)
    case (Inl e)
    then show ?thesis using run_config_task_Inl [OF run [unfolded Inl] args] sound_rows(4) by auto
  next
    case (Inr x)
    have "store_ok d'"
      by (rule run_config_task_store_ok [OF _ run]) (use wf target in \<open>auto simp: wf_db_def target_ok_def\<close>)
    moreover have "attempt_task ctx dr cid p v name d h = (h', Inr d')"
      using run_config_task_Inr [OF _ args] run Inr by simp
    note tables = attempt_task_tables [OF this]
    ultimately show ?thesis using tables by (intro sound_store) auto
  qed
qed

end
