(* ===== verification/Templates.thy ===== *)
theory Templates
  imports Config_Api
begin

text \<open>
  The template editor: \<open>application/templates.py\<close> and the endpoints of
  \<open>api/routers/templates.py\<close> with \<open>api/schemas/templates.py\<close>, and the resolution
  of paths by the standard library that it relies on. The directory the process runs in is a parameter.
\<close>

section \<open>Resolving paths\<close>

text \<open>
  \<open>Path.resolve()\<close> on the machine's links: the components of a path that is not absolute come
  after those of the current directory. As many links are followed as the fuel says; the operating
  system gives up after 40.
\<close>

definition path_parts :: "string \<Rightarrow> string list" where
  "path_parts p = filter (\<lambda>c. c \<noteq> [] \<and> c \<noteq> ''.'') (split_on CHR ''/'' p)"

definition path_text :: "string list \<Rightarrow> string" where
  "path_text parts = (if parts = [] then ''/'' else concat (map (\<lambda>c. CHR ''/'' # c) parts))"

definition is_absolute :: "string \<Rightarrow> bool" where
  "is_absolute p = startswith p ''/''"

definition link_at :: "(string \<times> entry) list \<Rightarrow> string \<Rightarrow> string option" where
  "link_at files p = (case map_of files p of Some (Link t) \<Rightarrow> Some t | _ \<Rightarrow> None)"

fun resolve_parts :: "(string \<times> entry) list \<Rightarrow> nat \<Rightarrow> string list \<Rightarrow> string list \<Rightarrow> exn + string list" where
  "resolve_parts files n seen [] = Inr seen"
| "resolve_parts files n seen (c # cs) =
     (if c = ''..'' then resolve_parts files n (butlast seen) cs
      else (case link_at files (path_text (seen @ [c])) of
          None \<Rightarrow> resolve_parts files n (seen @ [c]) cs
        | Some target \<Rightarrow>
            (case n of
               0 \<Rightarrow> raise RuntimeError ''Symlink loop''
             | Suc m \<Rightarrow> resolve_parts files m (if is_absolute target then [] else seen) (path_parts target @ cs))))"

definition resolve_path :: "host \<Rightarrow> string \<Rightarrow> string \<Rightarrow> exn + string" where
  "resolve_path h cwd p =
     map_sum id path_text (resolve_parts (h_files h) 40 [] (path_parts (path_join cwd p)))"

text \<open>\<open>p.relative_to(root)\<close> of resolved paths: the components of the root come first.\<close>

definition below :: "string \<Rightarrow> string \<Rightarrow> bool" where
  "below root p \<longleftrightarrow> take (length (path_parts root)) (path_parts p) = path_parts root"

text \<open>\<open>p.is_file()\<close> follows links.\<close>

definition file_at :: "os_env \<Rightarrow> host \<Rightarrow> string \<Rightarrow> string \<Rightarrow> exn + bool" where
  "file_at env h cwd p = (case resolve_path h cwd p of
     Inl e \<Rightarrow> Inr False
   | Inr q \<Rightarrow> is_file (disk env h) q)"

section \<open>Templates\<close>

record template_info =
  ti_profile :: string
  ti_template_file :: string
  ti_path :: string
  ti_format :: string
  ti_exists :: bool

record template_content =
  tc_profile :: string
  tc_template_file :: string
  tc_path :: string
  tc_format :: string
  tc_content :: string

definition format_for_path :: "string \<Rightarrow> string \<Rightarrow> string" where
  "format_for_path profile_key path =
     (if profile_key = profile_value HYSTERIA2 then ''yaml''
      else if lower (path_suffix path) \<in> {''.yaml'', ''.yml''} then ''yaml'' else ''json'')"

definition resolve_profile_template_path :: "os_env \<Rightarrow> panel_settings \<Rightarrow> string \<Rightarrow> string \<Rightarrow> host \<Rightarrow> exn + string" where
  "resolve_profile_template_path env st cwd profile_key h =
     (case map_of (profiles st) profile_key of
        None \<Rightarrow> raise TemplateNotFound (''Unknown profile: '' @ profile_key)
      | Some ps \<Rightarrow>
          let path = template_file ps in
          bindR (file_at env h cwd path) (\<lambda>here.
          bindR (resolve_path h cwd (if here then path else path_join (paths_templates st) path)) (\<lambda>resolved.
          bindR (resolve_path h cwd (paths_templates st)) (\<lambda>templates_root.
          if below templates_root resolved then Inr resolved
          else if \<not> is_absolute path then raise TemplateAccessDenied (''Template path escapes templates root: '' @ resolved)
          else bindR (is_file (disk env h) resolved) (\<lambda>there.
            if \<not> there then raise TemplateAccessDenied (''Template path escapes templates root: '' @ resolved)
            else Inr resolved)))))"

definition template_item :: "os_env \<Rightarrow> panel_settings \<Rightarrow> string \<Rightarrow> host \<Rightarrow> string \<times> vpn_profile_settings \<Rightarrow> exn + template_info" where
  "template_item env st cwd h kp = (case kp of (profile_key, ps) \<Rightarrow>
     let info = (\<lambda>path there. \<lparr>ti_profile = profile_key, ti_template_file = template_file ps, ti_path = path,
           ti_format = format_for_path profile_key path, ti_exists = there\<rparr>) in
     (case resolve_profile_template_path env st cwd profile_key h of
        Inl e \<Rightarrow>
          if caught_by [TemplateNotFound, TemplateAccessDenied] e
          then bindR (resolve_path h cwd (path_join (paths_templates st) (template_file ps))) (\<lambda>path. Inr (info path False))
          else Inl e
      | Inr path \<Rightarrow> bindR (is_file (disk env h) path) (\<lambda>there. Inr (info path there))))"

text \<open>The settings hold one entry per profile, so sorting by key orders the templates.\<close>

definition list_templates :: "os_env \<Rightarrow> panel_settings \<Rightarrow> string \<Rightarrow> host \<Rightarrow> exn + template_info list" where
  "list_templates env st cwd h = map_result (template_item env st cwd h) (sort_key fst (profiles st))"

text \<open>Reading a file as text turns every line end into a line feed.\<close>

fun universal_newlines :: "string \<Rightarrow> string" where
  "universal_newlines [] = []"
| "universal_newlines [c] = [if c = CHR 0x0D then CHR 0x0A else c]"
| "universal_newlines (c # d # s) =
     (if c = CHR 0x0D then CHR 0x0A # universal_newlines (if d = CHR 0x0A then s else d # s)
      else c # universal_newlines (d # s))"

definition get_template :: "app_env \<Rightarrow> string \<Rightarrow> string \<Rightarrow> (app, template_content) act" where
  "get_template env cwd profile_key =
     (let st = ae_settings env; os = ae_os env in
      on_host (\<lambda>h. (h,
        bindR (resolve_profile_template_path os st cwd profile_key h) (\<lambda>path.
        bindR (is_file (disk os h) path) (\<lambda>there.
        if \<not> there then raise TemplateNotFound (''Template file not found: '' @ path)
        else bindR (read_text (disk os h) path) (\<lambda>content.
          Inr \<lparr>tc_profile = profile_key, tc_template_file = template_file (the_or empty_profile (map_of (profiles st) profile_key)),
            tc_path = path, tc_format = format_for_path profile_key path, tc_content = universal_newlines content\<rparr>))))))"

definition ended_line :: "string \<Rightarrow> string" where
  "ended_line content = (if endswith content newline then content else content @ newline)"

definition update_template :: "app_env \<Rightarrow> use_draws \<Rightarrow> string \<Rightarrow> string \<Rightarrow> user \<Rightarrow> string \<Rightarrow> (app, template_content) act" where
  "update_template env dr cwd profile_key u content =
     (let st = ae_settings env; os = ae_os env in
      bindH (on_host (\<lambda>h. (h, resolve_profile_template_path os st cwd profile_key h))) (\<lambda>path.
      let fmt = format_for_path profile_key path; text = ended_line content in
      bindH (liftH (parse_config_content env content fmt)) (\<lambda>_.
      thenH (on_host (atomic_write os path text 416))
      (thenH (audit env dr 0 ''template.updated''
          (JDict [(''profile'', JStr profile_key), (''path'', JStr path), (''format'', JStr fmt)]) (user_id u))
      (returnH \<lparr>tc_profile = profile_key, tc_template_file = template_file (the_or empty_profile (map_of (profiles st) profile_key)),
        tc_path = path, tc_format = fmt, tc_content = text\<rparr>)))))"

section \<open>The endpoints\<close>

definition template_clauses :: "clause list" where
  "template_clauses = [Answer [TemplateNotFound] 404 None, Answer [TemplateAccessDenied] 403 None, Answer [InvalidConfigData] 422 None]"

definition list_templates_endpoint :: "app_env \<Rightarrow> string \<Rightarrow> app \<Rightarrow> app \<times> template_info list reply" where
  "list_templates_endpoint env cwd = endpoint [] (on_host (\<lambda>h. (h, list_templates (ae_os env) (ae_settings env) cwd h)))"

definition get_template_endpoint :: "app_env \<Rightarrow> string \<Rightarrow> string \<Rightarrow> app \<Rightarrow> app \<times> template_content reply" where
  "get_template_endpoint env cwd profile_key = endpoint template_clauses (get_template env cwd profile_key)"

definition update_template_endpoint ::
  "app_env \<Rightarrow> use_draws \<Rightarrow> string \<Rightarrow> user \<Rightarrow> string \<Rightarrow> string \<Rightarrow> app \<Rightarrow> app \<times> template_content reply" where
  "update_template_endpoint env dr cwd u profile_key content s =
     (if content = [] then (s, unprocessable)
      else endpoint template_clauses
        (bindH (update_template env dr cwd profile_key u content) (\<lambda>res. thenH commitA (returnH res))) s)"

section \<open>Resolved paths\<close>

lemma resolve_parts_links: "link_at files' = link_at files \<Longrightarrow> resolve_parts files' n seen cs = resolve_parts files n seen cs"
proof (induction files n seen cs rule: resolve_parts.induct)
  case (2 files n seen c cs)
  then show ?case by (cases "link_at files (path_text (seen @ [c]))"; cases n) simp_all
qed simp

text \<open>A resolved path has no link on it.\<close>

definition no_link_on :: "(string \<times> entry) list \<Rightarrow> string list \<Rightarrow> bool" where
  "no_link_on files parts \<longleftrightarrow> (\<forall>k<length parts. link_at files (path_text (take (Suc k) parts)) = None)"

lemma no_link_snoc: "no_link_on files (parts @ [c]) \<longleftrightarrow> no_link_on files parts \<and> link_at files (path_text (parts @ [c])) = None"
  by (auto simp: no_link_on_def less_Suc_eq)

lemma no_link_butlast: "no_link_on files parts \<Longrightarrow> no_link_on files (butlast parts)"
  by (cases parts rule: rev_cases) (simp_all add: no_link_snoc)

lemma resolve_parts_no_link: "resolve_parts files n seen cs = Inr parts \<Longrightarrow> no_link_on files seen \<Longrightarrow> no_link_on files parts"
proof (induction files n seen cs rule: resolve_parts.induct)
  case (2 files n seen c cs)
  have start: "no_link_on files []" by (simp add: no_link_on_def)
  show ?case
    using 2 start no_link_butlast [of files seen]
    by (auto simp: no_link_snoc split: if_splits option.splits nat.splits)
qed simp

lemma resolved_not_link:
  assumes "resolve_path h cwd p = Inr q" and "q \<noteq> ''/''"
  shows "link_at (h_files h) q = None"
proof -
  obtain parts where parts: "resolve_parts (h_files h) 40 [] (path_parts (path_join cwd p)) = Inr parts" "q = path_text parts"
    using assms(1) by (cases "resolve_parts (h_files h) 40 [] (path_parts (path_join cwd p))") (auto simp: resolve_path_def)
  have "no_link_on (h_files h) parts" by (rule resolve_parts_no_link [OF parts(1)]) (simp add: no_link_on_def)
  moreover have "parts \<noteq> []" using assms(2) parts(2) by (auto simp: path_text_def)
  ultimately show ?thesis
    by (cases parts rule: rev_cases) (auto simp: no_link_snoc parts(2))
qed

text \<open>Writing a regular file where there is no link changes no resolution.\<close>

lemma resolve_path_write:
  assumes "link_at (h_files h) q = None"
  shows "resolve_path (h\<lparr>h_files := dict_set q (File m c) (h_files h)\<rparr>) cwd p = resolve_path h cwd p"
proof -
  have "link_at (dict_set q (File m c) (h_files h)) = link_at (h_files h)"
    using assms by (auto simp: link_at_def fun_eq_iff split: option.splits entry.splits)
  from resolve_parts_links [OF this] show ?thesis by (simp add: resolve_path_def)
qed

section \<open>Editing a template\<close>

text \<open>Every path can be read and is what it was resolved to.\<close>

lemma disk_write:
  assumes "\<And>h p. os_read env h p = Inr ()" and "link_at (h_files h) q = None"
  shows "is_file (disk env (h\<lparr>h_files := dict_set q (File m c) (h_files h)\<rparr>)) q = Inr True"
    and "read_text (disk env (h\<lparr>h_files := dict_set q (File m c) (h_files h)\<rparr>)) q = Inr c"
  by (simp_all add: disk_def assms(1) file_content_def)

lemma update_template_run:
  assumes "update_template env dr cwd key u content s = (s', Inr res)"
  obtains data where "resolve_profile_template_path (ae_os env) (ae_settings env) cwd key (a_host s) = Inr (tc_path res)"
    "parse_config_content env content (format_for_path key (tc_path res)) = Inr data"
    "os_write (ae_os env) (a_host s) (tc_path res) = Inr ()"
    "a_host s' = (a_host s)\<lparr>h_files := dict_set (tc_path res) (File 416 (ended_line content)) (h_files (a_host s))\<rparr>"
    "tc_content res = ended_line content" "com (a_session s') = com (a_session s)"
    "res = \<lparr>tc_profile = key, tc_template_file = template_file (the_or empty_profile (map_of (profiles (ae_settings env)) key)),
        tc_path = tc_path res, tc_format = format_for_path key (tc_path res), tc_content = ended_line content\<rparr>"
proof -
  obtain h1 where w: "atomic_write (ae_os env) (tc_path res) (ended_line content) 416 (a_host s) = (h1, Inr ())" "a_host s' = h1"
    and r: "resolve_profile_template_path (ae_os env) (ae_settings env) cwd key (a_host s) = Inr (tc_path res)"
    and p: "\<exists>data. parse_config_content env content (format_for_path key (tc_path res)) = Inr data"
    and rest: "com (a_session s') = com (a_session s)"
      "res = \<lparr>tc_profile = key, tc_template_file = template_file (the_or empty_profile (map_of (profiles (ae_settings env)) key)),
        tc_path = tc_path res, tc_format = format_for_path key (tc_path res), tc_content = ended_line content\<rparr>"
    using assms unfolding update_template_def Let_def
    by (auto simp: app_runs audit_def)
  have "os_write (ae_os env) (a_host s) (tc_path res) = Inr ()"
    "h1 = (a_host s)\<lparr>h_files := dict_set (tc_path res) (File 416 (ended_line content)) (h_files (a_host s))\<rparr>"
    using w(1) by (auto simp: atomic_write_def split: sum.splits)
  moreover have "tc_content res = ended_line content" by (subst rest(2)) simp
  ultimately show ?thesis using that r p rest w(2) by blast
qed

lemma template_path_cases:
  assumes "resolve_profile_template_path env st cwd key h = Inr q"
  obtains ps here root where "map_of (profiles st) key = Some ps" "file_at env h cwd (template_file ps) = Inr here"
    "resolve_path h cwd (if here then template_file ps else path_join (paths_templates st) (template_file ps)) = Inr q"
    "resolve_path h cwd (paths_templates st) = Inr root"
    "below root q \<or> is_absolute (template_file ps) \<and> is_file (disk env h) q = Inr True"
  using assms unfolding resolve_profile_template_path_def Let_def
  by (auto simp: bindR_eq_Inr split: option.splits if_splits)

lemma disk_resolved:
  assumes readable: "\<And>h p. os_read env h p = Inr ()" and q: "link_at (h_files h) q = None" and p: "link_at (h_files h) p = None"
  shows "is_file (disk env (h\<lparr>h_files := dict_set q (File m c) (h_files h)\<rparr>)) p = map_sum id (\<lambda>b. b \<or> p = q) (is_file (disk env h) p)"
  using p by (auto simp: disk_def readable file_content_def link_at_def split: option.splits entry.splits)

text \<open>The path of a template stays what it is when the template is written.\<close>

lemma template_path_write:
  assumes readable: "\<And>h p. os_read env h p = Inr ()" and root: "link_at (h_files h) ''/'' = None"
    and path: "resolve_profile_template_path env st cwd key h = Inr q"
  shows "resolve_profile_template_path env st cwd key (h\<lparr>h_files := dict_set q (File m c) (h_files h)\<rparr>) = Inr q"
    and "link_at (h_files h) q = None"
proof -
  obtain ps here root where r: "map_of (profiles st) key = Some ps" "file_at env h cwd (template_file ps) = Inr here"
    "resolve_path h cwd (if here then template_file ps else path_join (paths_templates st) (template_file ps)) = Inr q"
    "resolve_path h cwd (paths_templates st) = Inr root"
    "below root q \<or> is_absolute (template_file ps) \<and> is_file (disk env h) q = Inr True"
    by (rule template_path_cases [OF path])
  show q: "link_at (h_files h) q = None" using resolved_not_link [OF r(3)] root by (cases "q = ''/''") auto
  let ?h = "h\<lparr>h_files := dict_set q (File m c) (h_files h)\<rparr>"
  have same: "resolve_path ?h cwd p = resolve_path h cwd p" for p by (rule resolve_path_write [OF q])
  have here': "\<exists>b. file_at env ?h cwd (template_file ps) = Inr b
    \<and> resolve_path ?h cwd (if b then template_file ps else path_join (paths_templates st) (template_file ps)) = Inr q"
  proof (cases "resolve_path h cwd (template_file ps)")
    case (Inl e)
    then show ?thesis using r(2,3) same by (auto simp: file_at_def)
  next
    case (Inr p)
    have p: "link_at (h_files h) p = None" using resolved_not_link [OF Inr] root by (cases "p = ''/''") auto
    have "file_at env ?h cwd (template_file ps) = Inr (here \<or> p = q)"
      using r(2) Inr same disk_resolved [OF readable q p] by (simp add: file_at_def)
    then show ?thesis using r(3) Inr same by (cases "p = q") auto
  qed
  have "is_file (disk env ?h) q = Inr True" using disk_write [OF readable q] by simp
  then show "resolve_profile_template_path env st cwd key ?h = Inr q"
    using r(1,4,5) here' same by (auto simp: resolve_profile_template_path_def)
qed

text \<open>
  C15. Editing a template through the panel touches one file and nothing else: the file the settings
  name for the profile, which lies below the directory of the templates or is an existing file the
  settings name by an absolute path. The text saved is a document with a non-empty object at its root,
  and it is what the editor shows next, up to line ends.
\<close>

theorem template_edit:
  assumes readable: "\<And>h p. os_read (ae_os env) h p = Inr ()" and root: "link_at (h_files (a_host s)) ''/'' = None"
    and run: "update_template_endpoint env dr cwd u key content s = (s', Reply res)"
  shows "h_files (a_host s') = dict_set (tc_path res) (File 416 (ended_line content)) (h_files (a_host s))
    \<and> (\<exists>ps dir. map_of (profiles (ae_settings env)) key = Some ps \<and> resolve_path (a_host s) cwd (paths_templates (ae_settings env)) = Inr dir
        \<and> (below dir (tc_path res) \<or> is_absolute (template_file ps) \<and> is_file (disk (ae_os env) (a_host s)) (tc_path res) = Inr True))
    \<and> (\<exists>data. parse_config_content env content (tc_format res) = Inr data \<and> is_jdict data \<and> truthy data)
    \<and> snd (get_template_endpoint env cwd key s') = Reply (res\<lparr>tc_content := universal_newlines (ended_line content)\<rparr>)"
proof -
  obtain s1 where "update_template env dr cwd key u content s = (s1, Inr res)" "a_host s' = a_host s1"
    using run by (auto simp: update_template_endpoint_def unprocessable_def endpoint_def answer_def bindH_run commitA_def template_clauses_def
        close_session_def internal_error_def split: if_splits prod.splits sum.splits)
  then obtain data where path: "resolve_profile_template_path (ae_os env) (ae_settings env) cwd key (a_host s) = Inr (tc_path res)"
    and data: "parse_config_content env content (format_for_path key (tc_path res)) = Inr data"
    and host: "a_host s' = (a_host s)\<lparr>h_files := dict_set (tc_path res) (File 416 (ended_line content)) (h_files (a_host s))\<rparr>"
    and res: "res = \<lparr>tc_profile = key, tc_template_file = template_file (the_or empty_profile (map_of (profiles (ae_settings env)) key)),
        tc_path = tc_path res, tc_format = format_for_path key (tc_path res), tc_content = ended_line content\<rparr>"
    by (elim update_template_run) auto
  have fmt: "tc_format res = format_for_path key (tc_path res)" by (subst res) simp
  have object: "is_jdict data \<and> truthy data"
    using data by (auto simp: parse_config_content_def Let_def split: if_splits sum.splits)
  have again: "resolve_profile_template_path (ae_os env) (ae_settings env) cwd key (a_host s') = Inr (tc_path res)"
    and plain: "link_at (h_files (a_host s)) (tc_path res) = None"
    using template_path_write [OF readable root path] by (simp_all add: host)
  have "is_file (disk (ae_os env) (a_host s')) (tc_path res) = Inr True"
    "read_text (disk (ae_os env) (a_host s')) (tc_path res) = Inr (ended_line content)"
    using disk_write [OF readable plain] by (simp_all add: host)
  then have "snd (get_template_endpoint env cwd key s') = Reply (res\<lparr>tc_content := universal_newlines (ended_line content)\<rparr>)"
    using again by (subst res) (simp add: get_template_endpoint_def get_template_def Let_def endpoint_def on_host_def answer_def)
  moreover obtain ps dir where "map_of (profiles (ae_settings env)) key = Some ps" "resolve_path (a_host s) cwd (paths_templates (ae_settings env)) = Inr dir"
    "below dir (tc_path res) \<or> is_absolute (template_file ps) \<and> is_file (disk (ae_os env) (a_host s)) (tc_path res) = Inr True"
    by (rule template_path_cases [OF path]) blast
  ultimately show ?thesis using host data fmt object by auto
qed

text \<open>
  The next build reads what was saved, provided that the loader, which goes by the letters of the
  suffix alone, reads the same language, and that the parser makes the same of the whole text as of the
  text without the blanks around it, which is what the editor has checked.
\<close>

lemma edited_template_loads:
  assumes readable: "\<And>h p. os_read (ae_os env) h p = Inr ()" and root: "link_at (h_files (a_host s)) ''/'' = None"
    and run: "update_template env dr cwd key u content s = (s', Inr res)"
    and lang: "path_suffix (tc_path res) \<in> {''.yaml'', ''.yml''} \<longleftrightarrow> tc_format res = ''yaml''"
    and blanks: "env_yaml_load (os_build (ae_os env)) (ended_line content) = env_yaml_load (os_build (ae_os env)) (strip content)"
      "env_json_loads (os_build (ae_os env)) (ended_line content) = env_json_loads (os_build (ae_os env)) (strip content)"
  shows "\<exists>data. parse_config_content env content (tc_format res) = Inr data
    \<and> load_template (build_env_at (ae_os env) (a_host s')) (tc_path res) = Inr data"
proof -
  obtain data where path: "resolve_profile_template_path (ae_os env) (ae_settings env) cwd key (a_host s) = Inr (tc_path res)"
    and data: "parse_config_content env content (format_for_path key (tc_path res)) = Inr data"
    and host: "a_host s' = (a_host s)\<lparr>h_files := dict_set (tc_path res) (File 416 (ended_line content)) (h_files (a_host s))\<rparr>"
    and res: "res = \<lparr>tc_profile = key, tc_template_file = template_file (the_or empty_profile (map_of (profiles (ae_settings env)) key)),
        tc_path = tc_path res, tc_format = format_for_path key (tc_path res), tc_content = ended_line content\<rparr>"
    by (rule update_template_run [OF run])
  have fmt: "tc_format res = format_for_path key (tc_path res)" by (subst res) simp
  have "link_at (h_files (a_host s)) (tc_path res) = None"
    using template_path_write [OF readable root path] by simp
  then have "read_text (disk (ae_os env) (a_host s')) (tc_path res) = Inr (ended_line content)"
    using disk_write [OF readable] by (simp add: host)
  then show ?thesis
    using data lang blanks
    by (auto simp: load_template_def build_env_at_def parse_config_content_def Let_def fmt split: if_splits sum.splits)
qed

text \<open>Otherwise the editor saves what no build can read: a file whose suffix is in capital letters is edited as YAML and loaded as JSON.\<close>

lemma edited_as_yaml_loaded_as_json:
  "format_for_path ''xray-grpc'' ''/configs/grpc.YAML'' = ''yaml'' \<and> path_suffix ''/configs/grpc.YAML'' \<notin> {''.yaml'', ''.yml''}
   \<and> format_for_path ''hysteria2'' ''/configs/server.json'' = ''yaml'' \<and> path_suffix ''/configs/server.json'' \<notin> {''.yaml'', ''.yml''}"
  by code_simp

definition demo_new_template :: string where
  "demo_new_template = ''listen: 443''"

theorem template_edit_witness:
  "\<exists>s' res. update_template_endpoint demo_app_env (demo_use 5) ''/opt/panel'' demo_admin ''hysteria2'' demo_new_template (app_of demo_start demo_host)
      = (s', Reply res)
    \<and> tc_path res = ''/opt/panel/configs/t.yaml''
    \<and> snd (get_template_endpoint demo_app_env ''/opt/panel'' ''hysteria2'' s') = Reply (res\<lparr>tc_content := demo_new_template @ newline\<rparr>)"
proof -
  let ?r = "update_template_endpoint demo_app_env (demo_use 5) ''/opt/panel'' demo_admin ''hysteria2'' demo_new_template (app_of demo_start demo_host)"
  let ?res = "\<lparr>tc_profile = ''hysteria2'', tc_template_file = ''t.yaml'', tc_path = ''/opt/panel/configs/t.yaml'', tc_format = ''yaml'',
    tc_content = demo_new_template @ newline\<rparr>"
  have "snd ?r = Reply ?res" by code_simp
  then obtain s' where run: "?r = (s', Reply ?res)" by (metis prod.collapse)
  have readable: "os_read (ae_os demo_app_env) h p = Inr ()" for h p
    by (simp add: demo_app_env_def demo_os_def)
  have root: "link_at (h_files (a_host (app_of demo_start demo_host))) ''/'' = None" by code_simp
  have "universal_newlines (ended_line demo_new_template) = demo_new_template @ newline" by code_simp
  with template_edit [OF readable root run] run show ?thesis by auto
qed

end
