(* ===== verification/System.thy ===== *)
theory System
  imports Growth Templates
begin

text \<open>
  The whole system: the panel's requests, signing in, administrators added on the command line, the
  worker handling what the broker delivers, and a machine on which anything may happen in between.
  The reports that only read (lists of links, logs, the state of all services) are part of that.
  Requests and tasks follow each other; the broker may deliver a published task late, more than once
  or never. The invariants of every reachable state, what no step ever takes away, and that a
  configuration whose task is delivered settles.
\<close>

section \<open>Actions that keep an invariant\<close>

definition keeps_inv :: "('s \<Rightarrow> bool) \<Rightarrow> ('s \<Rightarrow> 's \<Rightarrow> bool) \<Rightarrow> ('s \<Rightarrow> bool) \<Rightarrow> ('s, 'a) act \<Rightarrow> bool" where
  "keeps_inv I G Q m \<longleftrightarrow> (\<forall>s. I s \<longrightarrow> Q s \<longrightarrow> I (fst (m s)) \<and> G s (fst (m s)))"

abbreviation anything :: "'s \<Rightarrow> bool" where
  "anything \<equiv> \<lambda>_. True"

locale act_invariant =
  fixes I :: "'s \<Rightarrow> bool" and G :: "'s \<Rightarrow> 's \<Rightarrow> bool"
  assumes stay: "G s s"
    and onward: "G s1 s2 \<Longrightarrow> G s2 s3 \<Longrightarrow> G s1 s3"
begin

lemma bind_after:
  assumes m: "keeps_inv I G Q m" and post: "\<And>s s' x. I s \<Longrightarrow> Q s \<Longrightarrow> m s = (s', Inr x) \<Longrightarrow> Q' x s'"
    and f: "\<And>x. keeps_inv I G (Q' x) (f x)"
  shows "keeps_inv I G Q (bindH m f)"
  unfolding keeps_inv_def
proof (intro allI impI)
  fix s assume s: "I s" "Q s"
  obtain s1 r where run: "m s = (s1, r)" by (cases "m s")
  with m s have one: "I s1" "G s s1" by (auto simp: keeps_inv_def)
  show "I (fst (bindH m f s)) \<and> G s (fst (bindH m f s))"
  proof (cases r)
    case (Inl e)
    then show ?thesis using run one by (simp add: bindH_def)
  next
    case (Inr x)
    then have "Q' x s1" using post s run by blast
    then have "I (fst (f x s1)) \<and> G s1 (fst (f x s1))" using f one by (auto simp: keeps_inv_def)
    then show ?thesis using run Inr one onward by (auto simp: bindH_def)
  qed
qed

lemma bind: "keeps_inv I G Q m \<Longrightarrow> (\<And>x. keeps_inv I G anything (f x)) \<Longrightarrow> keeps_inv I G Q (bindH m f)"
  by (rule bind_after) auto

lemma weaken: "keeps_inv I G anything m \<Longrightarrow> keeps_inv I G Q m"
  by (simp add: keeps_inv_def)

lemma pure: "keeps_inv I G Q (returnH x)" "keeps_inv I G Q (raiseH e)" "keeps_inv I G Q (liftH r)"
  by (simp_all add: keeps_inv_def returnH_def raiseH_def liftH_def stay)

lemma catch: "keeps_inv I G Q m \<Longrightarrow> (\<And>e. keeps_inv I G anything (f e)) \<Longrightarrow> keeps_inv I G Q (catchH m ks f)"
  unfolding keeps_inv_def catchH_def
  by (auto split: prod.splits sum.splits) (metis fst_conv onward)+

lemma ite: "keeps_inv I G Q m \<Longrightarrow> keeps_inv I G Q m' \<Longrightarrow> keeps_inv I G Q (if c then m else m')"
  by simp

lemma option: "(\<And>x. keeps_inv I G Q (f x)) \<Longrightarrow> keeps_inv I G Q g \<Longrightarrow> keeps_inv I G Q (case_option g f x)"
  by (cases x) auto

lemma runD: "keeps_inv I G anything m \<Longrightarrow> I s \<Longrightarrow> I (fst (m s)) \<and> G s (fst (m s))"
  by (simp add: keeps_inv_def)

end

section \<open>The panel\<close>

text \<open>
  What the panel sends the broker: questions, and tasks that the worker can read, for a version that may
  come next.
\<close>

definition task_call :: "string \<Rightarrow> json \<Rightarrow> http_call" where
  "task_call task_type payload = Post ''/api/v1/tasks'' (task_body task_type payload 0 None)"

fun question :: "http_call \<Rightarrow> bool" where
  "question (Get path params) = True"
| "question (Post path body) = False"

definition tasks_ok :: "db \<Rightarrow> http_call list \<Rightarrow> bool" where
  "tasks_ok d sent \<longleftrightarrow> (\<forall>call\<in>set sent. question call \<or> (\<exists>t c protocol p name u v.
     call = task_call t (task_payload c protocol p name u v) \<and> t \<in> set task_handlers \<and> target_ok d c v))"

definition app_ok :: "app \<Rightarrow> bool" where
  "app_ok s \<longleftrightarrow> wf_db (cur (a_session s)) \<and> wf_db (com (a_session s)) \<and> grows (com (a_session s)) (cur (a_session s))
     \<and> tasks_ok (com (a_session s)) (a_sent s)"

definition app_grows :: "app \<Rightarrow> app \<Rightarrow> bool" where
  "app_grows s s' \<longleftrightarrow> grows (com (a_session s)) (com (a_session s')) \<and> longer (a_sent s) (a_sent s')"

lemma task_call_inj: "task_call t p = task_call t' p' \<longleftrightarrow> t = t' \<and> p = p'"
  by (auto simp: task_call_def task_body_def)

lemma tasks_ok_grows: "tasks_ok d sent \<Longrightarrow> grows d d' \<Longrightarrow> tasks_ok d' sent"
  unfolding tasks_ok_def using target_grows by meson

lemma tasks_ok_more: "tasks_ok d sent \<Longrightarrow> t \<in> set task_handlers \<Longrightarrow> target_ok d c v \<Longrightarrow>
  tasks_ok d (sent @ [task_call t (task_payload c protocol p name u v)])"
  by (simp add: tasks_ok_def) blast

lemma tasks_ok_asked: "tasks_ok d sent \<Longrightarrow> list_all question asked \<Longrightarrow> tasks_ok d (sent @ asked)"
  by (auto simp: tasks_ok_def list_all_iff)

interpretation panel: act_invariant app_ok app_grows
  by unfold_locales (auto simp: app_grows_def intro: grows_trans longer_trans)

text \<open>The single actions.\<close>

lemma panel_simple:
  "keeps_inv app_ok app_grows Q (query f)" "keeps_inv app_ok app_grows Q commitA" "keeps_inv app_ok app_grows Q (on_host m)"
  by (auto simp: keeps_inv_def query_def commitA_def commit_def on_host_def app_ok_def app_grows_def intro: tasks_ok_grows
      split: prod.splits)

lemma panel_change:
  assumes "\<And>d d' x. f d = Inr (d', x) \<Longrightarrow> sound_step d d'"
  shows "keeps_inv app_ok app_grows Q (change f)"
  unfolding keeps_inv_def
proof (intro allI impI)
  fix s assume s: "app_ok s"
  show "app_ok (fst (change f s)) \<and> app_grows s (fst (change f s))"
  proof (cases "f (cur (a_session s))")
    case (Inl e)
    then show ?thesis using s by (simp add: change_def app_grows_def)
  next
    case (Inr dx)
    obtain d' x where dx: "dx = (d', x)" by (cases dx)
    then have "sound_step (cur (a_session s)) d'" using assms Inr by blast
    then show ?thesis using s Inr dx grows_trans
      by (auto simp: change_def app_grows_def app_ok_def sound_step_def)
  qed
qed

lemma panel_update: "(\<And>d d'. f d = Inr d' \<Longrightarrow> sound_step d d') \<Longrightarrow> keeps_inv app_ok app_grows Q (update_db f)"
  unfolding update_db_def by (rule panel_change) (auto simp: bindR_eq_Inr)

lemma panel_audit: "keeps_inv app_ok app_grows Q (audit env dr n ev p u)"
  unfolding audit_def by (rule panel_update) (auto intro: sound_audit)

lemma panel_publish:
  assumes "t \<in> set task_handlers"
  shows "keeps_inv app_ok app_grows (\<lambda>s. target_ok (com (a_session s)) c v) (publish env t (task_payload c protocol p name u v))"
proof -
  have sent: "fst (publish env t pl s) = s\<lparr>a_sent := a_sent s @ [task_call t pl]\<rparr>" for pl s
    using publish_task_sent [of "ae_http env" t pl 0 None "a_sent s"]
    by (auto simp: publish_def bindH_def liftH_def on_broker_def task_call_def split: prod.splits sum.splits)
  show ?thesis
    using assms by (auto simp: keeps_inv_def sent app_ok_def app_grows_def intro: tasks_ok_more)
qed

text \<open>The use cases.\<close>

lemma panel_create: "keeps_inv app_ok app_grows anything (create_config env dr name protocol p u pol host)"
proof (cases "map_of (profiles (ae_settings env)) (profile_value p)")
  case None
  then show ?thesis by (simp add: create_config_def panel.pure)
next
  case (Some ps)
  let ?there = "\<lambda>c s. config_exists (cur (a_session s)) c" and ?committed = "\<lambda>c s. target_ok (com (a_session s)) c 1"
  have finish: "keeps_inv app_ok app_grows anything (thenH (update_db (\<lambda>d. set_last_task_id d c t now)) (thenH (audit env dr n ev pl v)
      (thenH commitA (returnH x))))" for c t now n ev pl v x
    by (intro panel.bind panel_update panel_audit panel_simple panel.pure) (rule sound_rows)
  have publish: "keeps_inv app_ok app_grows (?there c) (thenH commitA (bindH (publish env ''config.initialize''
      (task_payload c protocol p name v 1)) k))" if "\<And>t. keeps_inv app_ok app_grows anything (k t)" for c v k
  proof (rule panel.bind_after [where Q' = "\<lambda>_. ?committed c"])
    show "keeps_inv app_ok app_grows (?there c) commitA" by (rule panel_simple)
    show "?committed c s'" if "?there c s" "commitA s = (s', Inr x)" for s s' and x :: unit
      using that by (auto simp: commitA_def commit_def target_ok_def)
    show "keeps_inv app_ok app_grows (?committed c) (bindH (publish env ''config.initialize'' (task_payload c protocol p name v 1)) k)"
      by (intro panel.bind panel_publish that) (simp add: task_handlers_def)
  qed
  have new: "keeps_inv app_ok app_grows anything (bindH (change (\<lambda>d. create_pending d i now n pr q v pol' h)) k)"
    if "\<And>config. keeps_inv app_ok app_grows (?there (cfg_id config)) (k config)" for i now n pr q v pol' h k
  proof (rule panel.bind_after [where Q' = "\<lambda>config. ?there (cfg_id config)"])
    show "keeps_inv app_ok app_grows anything (change (\<lambda>d. create_pending d i now n pr q v pol' h))"
      by (rule panel_change) (use sound_create_pending in blast)
    show "?there (cfg_id config) s'" if "change (\<lambda>d. create_pending d i now n pr q v pol' h) s = (s', Inr config)" for s s' config
      using that create_pending_row sound_create_pending by (fastforce simp: change_def split: sum.splits prod.splits)
  qed (rule that)
  show ?thesis
    unfolding create_config_def Some option.case Let_def
    by (rule panel.bind, rule panel.pure, rule new, rule publish, rule finish)
qed

lemma panel_regenerate: "keeps_inv app_ok app_grows anything (regenerate_config env dr c u)"
proof -
  let ?next = "\<lambda>x s. target_ok (cur (a_session s)) c (snd (snd (snd x)))"
    and ?committed = "\<lambda>v s. target_ok (com (a_session s)) c v"
  have finish: "keeps_inv app_ok app_grows anything (thenH (update_db (\<lambda>d. set_last_task_id d c t now)) (thenH (audit env dr n ev pl v)
      (thenH commitA (returnH x))))" for c t now n ev pl v x
    by (intro panel.bind panel_update panel_audit panel_simple panel.pure) (rule sound_rows)
  have publish: "keeps_inv app_ok app_grows (\<lambda>s. target_ok (cur (a_session s)) c v) (thenH commitA (bindH (publish env ''config.regenerate''
      (task_payload c protocol p name w v)) k))" if "\<And>t. keeps_inv app_ok app_grows anything (k t)" for v protocol p name w k
  proof (rule panel.bind_after [where Q' = "\<lambda>_. ?committed v"])
    show "keeps_inv app_ok app_grows (\<lambda>s. target_ok (cur (a_session s)) c v) commitA" by (rule panel_simple)
    show "?committed v s'" if "target_ok (cur (a_session s)) c v" "commitA s = (s', Inr x)" for s s' and x :: unit
      using that by (auto simp: commitA_def commit_def)
    show "keeps_inv app_ok app_grows (?committed v) (bindH (publish env ''config.regenerate'' (task_payload c protocol p name w v)) k)"
      by (intro panel.bind panel_publish that) (simp add: task_handlers_def)
  qed
  have target: "target_ok d c v" if wf: "wf_db d" and ctx: "get_regenerate_context d c = Inr (protocol, p, name, v)" for d protocol p name v
  proof -
    obtain r w where r: "get_model d c True = Some r" "row_current_version r = Some w" "v = w + 1"
      using ctx by (auto simp: get_regenerate_context_def config_not_found_def split: option.splits)
    have ok: "store_ok d" using wf by (simp add: wf_db_def)
    have m: "get_model d c False = Some r" using r(1) store_okD(1) [OF ok] by (rule get_model_active)
    then have "has_version d c w" using r(2) by (intro store_okD(2) [OF ok]) (simp add: config_current_def)
    then show ?thesis using m r(3) store_okD(3) [OF ok, of c w] by (auto simp: target_ok_def config_exists_iff)
  qed
  have reading: "keeps_inv app_ok app_grows anything (bindH (query (\<lambda>d. get_regenerate_context d c)) k)"
    if "\<And>x. keeps_inv app_ok app_grows (?next x) (k x)" for k
  proof (rule panel.bind_after [where Q' = ?next])
    show "?next x s'" if "app_ok s" "query (\<lambda>d. get_regenerate_context d c) s = (s', Inr x)" for s s' x
      using that target by (cases x) (auto simp: query_def app_ok_def)
  qed (rule panel_simple, rule that)
  have all: "keeps_inv app_ok app_grows (?next x) (case x of (protocol, p, name, v) \<Rightarrow> m protocol p name v)"
    if "\<And>protocol p name v. keeps_inv app_ok app_grows (\<lambda>s. target_ok (cur (a_session s)) c v) (m protocol p name v)" for x m
    using that by (cases x) simp
  have prepare: "keeps_inv app_ok app_grows anything (update_db (\<lambda>d. prepare_regenerate d c v now))" for v now
    by (rule panel_update) (rule sound_rows)
  show ?thesis
    unfolding regenerate_config_def
    by (intro panel.bind panel.option panel.ite panel.pure panel_simple panel.catch prepare reading all publish finish)
qed

lemma panel_page: "keeps_inv app_ok app_grows anything (regenerate_page env dr u items acc)"
proof (induction env dr u items acc rule: regenerate_page.induct)
  case (2 env dr u config items acc)
  then show ?case
    unfolding regenerate_page.simps by (intro panel.bind panel.catch panel.pure panel_regenerate) auto
qed (simp add: panel.pure)

lemma panel_loop:
  "app_ok s \<Longrightarrow> app_ok (fst (regenerate_loop env dr u offset acc s)) \<and> app_grows s (fst (regenerate_loop env dr u offset acc s))"
proof (induction env dr u offset acc s rule: regenerate_loop.induct)
  case (1 env dr u offset acc s)
  obtain s1 r where t: "regenerate_turn env dr u offset acc s = (s1, r)" by (cases "regenerate_turn env dr u offset acc s")
  have "keeps_inv app_ok app_grows anything (regenerate_turn env dr u offset acc)"
    unfolding regenerate_turn_def by (intro panel.bind panel_simple panel_page panel.pure)
  from panel.runD [OF this 1(2)] have one: "app_ok s1" "app_grows s s1" using t by auto
  show ?case
  proof (cases "\<exists>acc' offset'. r = Inr (acc', Some offset')")
    case True
    then obtain acc' offset' where r: "r = Inr (acc', Some offset')" by blast
    have "app_ok (fst (regenerate_loop env dr u offset' acc' s1)) \<and> app_grows s1 (fst (regenerate_loop env dr u offset' acc' s1))"
      using 1(1) [OF t [symmetric] r refl refl] one(1) by blast
    then show ?thesis using t r one(2) panel.onward by (simp add: regenerate_loop.simps [of env dr u offset acc s])
  next
    case False
    then have "fst (regenerate_loop env dr u offset acc s) = s1"
      using t by (subst regenerate_loop.simps) (auto split: sum.split option.split)
    then show ?thesis using one by simp
  qed
qed

lemma panel_uses:
  "keeps_inv app_ok app_grows anything (list_configs p l off)" "keeps_inv app_ok app_grows anything (get_config i)"
  "keeps_inv app_ok app_grows anything (get_config_data env i)" "keeps_inv app_ok app_grows anything (delete_config env dr i u)"
  "keeps_inv app_ok app_grows anything (update_policy env dr i u upd)"
  "keeps_inv app_ok app_grows anything (update_config_data env dr i u data content fmt)"
  "keeps_inv app_ok app_grows anything (regenerate_all_configs env mk dr0 u)"
proof -
  have g: "keeps_inv app_ok app_grows anything (get_config i)"
    unfolding get_config_def by (intro panel.bind panel_simple panel.option panel.pure)
  have save: "keeps_inv app_ok app_grows anything (save_config_data env dr i u data content fmt snap)" for snap
    unfolding save_config_data_def Let_def
    by (intro panel.option panel.bind panel_simple panel.pure panel_update panel_audit) (rule sound_update_version)
  have delete: "keeps_inv app_ok app_grows anything (change (\<lambda>d. Inr (soft_delete d i v now)))" for v now
    by (rule panel_change) (metis sound_rows(5) fst_conv sum.inject(2))
  have policy: "keeps_inv app_ok app_grows anything (change (\<lambda>d. update_regenerate_policy d i q v now))" for q v now
    by (rule panel_change) (rule sound_rows)
  have loop: "keeps_inv app_ok app_grows anything (regenerate_loop env mk u 0 acc)" for acc
    using panel_loop by (simp add: keeps_inv_def)
  show "keeps_inv app_ok app_grows anything (get_config i)" by (rule g)
  show "keeps_inv app_ok app_grows anything (list_configs p l off)" unfolding list_configs_def by (rule panel_simple)
  show "keeps_inv app_ok app_grows anything (get_config_data env i)"
    unfolding get_config_data_def Let_def by (intro panel.option panel.bind panel_simple panel.pure)
  show "keeps_inv app_ok app_grows anything (delete_config env dr i u)"
    unfolding delete_config_def Let_def by (intro panel.bind panel.ite panel_simple panel.pure g delete panel_audit)
  show "keeps_inv app_ok app_grows anything (update_policy env dr i u upd)"
    unfolding update_policy_def Let_def by (intro panel.bind panel.pure g policy panel_audit)
  show "keeps_inv app_ok app_grows anything (update_config_data env dr i u data content fmt)"
    unfolding update_config_data_def by (intro panel.option panel.bind panel.ite panel_simple panel.pure save)
  show "keeps_inv app_ok app_grows anything (regenerate_all_configs env mk dr0 u)"
    unfolding regenerate_all_configs_def by (intro panel.bind loop panel_audit panel_simple panel.pure)
qed

section \<open>Requests\<close>

text \<open>Between requests a session holds nothing that is not committed.\<close>

definition at_rest :: "app \<Rightarrow> bool" where
  "at_rest s \<longleftrightarrow> cur (a_session s) = com (a_session s)"

lemma endpoint_keeps:
  assumes "keeps_inv app_ok app_grows anything m" "app_ok s"
  shows "app_ok (fst (endpoint clauses m s)) \<and> app_grows s (fst (endpoint clauses m s)) \<and> at_rest (fst (endpoint clauses m s))"
  using panel.runD [OF assms]
  by (auto simp: endpoint_def close_session_def open_session_def app_ok_def app_grows_def at_rest_def split: prod.splits)

lemma config_request_keeps:
  assumes "app_ok s" "at_rest s"
  shows "app_ok (fst (run_config_request env u rq s)) \<and> app_grows s (fst (run_config_request env u rq s))
    \<and> at_rest (fst (run_config_request env u rq s))"
proof -
  note keep = endpoint_keeps [OF _ assms(1)]
  note uses = panel.bind panel.pure panel_uses panel_create panel_regenerate panel_simple
  have pair: "keeps_inv app_ok app_grows Q (case x of (a, b) \<Rightarrow> m a b)" if "\<And>a b. keeps_inv app_ok app_grows Q (m a b)" for x Q
    and m :: "'x \<Rightarrow> 'y \<Rightarrow> (app, 'z) act"
    using that by (cases x) simp
  have refused: "app_ok s \<and> app_grows s s \<and> at_rest s" using assms panel.stay by blast
  show ?thesis
  proof (cases rq)
    case (ListConfigs p l off)
    have "keeps_inv app_ok app_grows anything (bindH (list_configs p (nat l) (nat off)) (\<lambda>res. returnH (f res)))" for f :: "_ \<Rightarrow> config_list_response"
      by (intro uses)
    from keep [OF this] refused show ?thesis by (simp add: ListConfigs list_configs_endpoint_def)
  next
    case (CreateConfig dr r)
    have "keeps_inv app_ok app_grows anything (bindH (create_config env dr (cr_name r) (cr_protocol r) (request_profile r) u pol (cr_share_host r))
       (\<lambda>(config_id, task_id). returnH (task_id, uuid_str config_id)))" for pol
      by (intro uses pair)
    from keep [OF this] refused show ?thesis by (simp add: CreateConfig create_config_endpoint_def)
  next
    case (RegenerateAll mk dr0)
    show ?thesis
      by (simp add: RegenerateAll regenerate_all_endpoint_def) (intro keep uses)
  next
    case (Regenerate dr i)
    show ?thesis
      by (simp add: Regenerate regenerate_config_endpoint_def) (intro keep uses pair)
  next
    case (ReadData i)
    show ?thesis by (simp add: ReadData get_config_data_endpoint_def) (intro keep uses)
  next
    case (EditData dr i r)
    have "keeps_inv app_ok app_grows anything (bindH (update_config_data env dr i u a b c) (\<lambda>res. thenH commitA (returnH res)))" for a b c
      by (intro uses)
    from keep [OF this] refused show ?thesis by (simp add: EditData update_config_data_endpoint_def)
  next
    case (ShowConfig i)
    show ?thesis by (simp add: ShowConfig get_config_endpoint_def) (intro keep uses)
  next
    case (PatchPolicy dr i upd)
    show ?thesis by (simp add: PatchPolicy update_policy_endpoint_def) (intro keep uses)
  next
    case (DeleteConfig dr i)
    show ?thesis by (simp add: DeleteConfig delete_config_endpoint_def) (intro keep uses)
  qed
qed

text \<open>Saving a template changes a file and adds to the audit log.\<close>

lemma template_request_keeps:
  assumes "app_ok s" "at_rest s"
  shows "app_ok (fst (update_template_endpoint env dr cwd u key content s)) \<and> app_grows s (fst (update_template_endpoint env dr cwd u key content s))
    \<and> at_rest (fst (update_template_endpoint env dr cwd u key content s))"
proof -
  have "keeps_inv app_ok app_grows anything (bindH (update_template env dr cwd key u content) (\<lambda>res. thenH commitA (returnH res)))"
    unfolding update_template_def Let_def by (intro panel.bind panel.pure panel_simple panel_audit)
  from endpoint_keeps [OF this assms(1)] assms panel.stay show ?thesis by (simp add: update_template_endpoint_def)
qed

text \<open>Asking for the status of a configuration asks the broker and sends it nothing to do.\<close>

definition only_asks :: "watcher \<Rightarrow> watcher \<Rightarrow> bool" where
  "only_asks w w' \<longleftrightarrow> (\<exists>asked. wt_sent w' = wt_sent w @ asked \<and> list_all question asked)"

interpretation asks: act_frame only_asks
proof
  show "only_asks w w" for w by (simp add: only_asks_def)
  show "only_asks w1 w3" if "only_asks w1 w2" "only_asks w2 w3" for w1 w2 w3
    using that by (fastforce simp: only_asks_def)
qed

text \<open>A probe and a report on the services do not even ask.\<close>

abbreviation keeps_silent :: "watcher \<Rightarrow> watcher \<Rightarrow> bool" where
  "keeps_silent w w' \<equiv> wt_sent w' = wt_sent w"

interpretation silent: act_frame keeps_silent
  by unfold_locales simp_all

lemma silent_probe: "run_follows keeps_silent (probe_config_availability net c p port st snap)"
proof -
  have host: "run_follows keeps_silent (on_wt_host m)" for m :: "'a action"
    by (rule run_followsI) (auto simp: on_wt_host_def split: prod.splits)
  have conn: "run_follows keeps_silent (connectivity_of net s st)" for s
    by (rule run_followsI) (auto simp: connectivity_of_def split: option.splits)
  show ?thesis
    unfolding probe_config_availability_def
    by (cases snap) (auto intro!: silent.run_bind silent.run_act silent.pure host conn silent.run_ite)
qed

lemma silent_runtime: "run_follows keeps_silent (get_configs_runtime net st d p)"
proof -
  have "run_follows keeps_silent (probe_snapshots net st snaps)" for snaps
    by (induction snaps) (auto simp: probe_snapshot_def intro!: silent.run_bind silent.run_act silent.pure silent_probe)
  then show ?thesis by (simp add: get_configs_runtime_def)
qed

lemma asks_probe: "run_follows only_asks (probe_config_availability net c p port st snap)"
  using silent_probe by (force simp: run_follows_def only_asks_def)

lemma asks_task: "run_follows only_asks (on_wt_broker (get_task_status server t))"
proof (rule run_followsI)
  fix w w' r assume run: "on_wt_broker (get_task_status server t) w = Some (w', r)"
  have "\<exists>asked. fst (get_task_status server t sent) = sent @ asked \<and> list_all question asked" for sent
    by (auto simp: get_task_status_def checked_json_def http_send_def bindH_def liftH_def returnH_def split: sum.split prod.split)
  then show "only_asks w w'" using run unfolding only_asks_def
    by (auto simp: on_wt_broker_def split: prod.splits) (metis fst_conv)
qed

lemma asks_status: "run_follows only_asks (get_config_status net server st d c)"
proof -
  have fields: "run_follows only_asks (runtime_fields net st d config)" for config
    unfolding runtime_fields_def
    by (auto intro!: asks.run_bind asks.run_act asks.pure asks_probe asks.run_ite split: option.split)
  show ?thesis
    unfolding get_config_status_def Let_def
    by (auto intro!: asks.run_bind asks.run_act asks.pure asks_task fields split: option.split)
qed

lemma status_request_asks:
  assumes "config_status_endpoint net server st d c w = Some (w', r)"
  obtains asked where "wt_sent w' = wt_sent w @ asked" "list_all question asked"
  using assms run_followsD [OF asks_status] unfolding config_status_endpoint_def only_asks_def by fastforce

section \<open>The steps of the system\<close>

text \<open>The panel and its worker read the same settings; the libraries behind signing in are the panel's.\<close>

record system_env =
  se_app :: app_env
  se_auth :: auth_lib
  se_security :: security_settings

definition worker_of :: "app_env \<Rightarrow> worker_ctx" where
  "worker_of env = \<lparr>wc_settings = ae_settings env, wc_cipher = ae_cipher env, wc_os = ae_os env\<rparr>"

text \<open>Who makes a share request; resolving a link needs no user.\<close>

fun share_user :: "share_event \<Rightarrow> user option" where
  "share_user (LinkCreate dr c u rq b) = Some u"
| "share_user (LinkCreateAll dr u rq b) = Some u"
| "share_user (LinkRevoke a now t u) = Some u"
| "share_user (LinkRevokeId a now i u) = Some u"
| "share_user (LinkResolve rs t req now) = None"

datatype system_event =
    Administrator string
  | SignIn login_event
  | ConfigRequest user config_request "(nat \<times> string) option"
  | ShareRequest share_event
  | TemplateEdit user
  | StatusRequest user
  | Delivery string json
  | Machine

definition with_db :: "db \<Rightarrow> app \<Rightarrow> app" where
  "with_db d s = s\<lparr>a_session := open_session d\<rparr>"

abbreviation database :: "app \<Rightarrow> db" where
  "database s \<equiv> com (a_session s)"

definition signed_in :: "system_env \<Rightarrow> app \<Rightarrow> user \<Rightarrow> bool" where
  "signed_in env s u \<longleftrightarrow> (\<exists>now credentials. get_current_user (se_auth env) (se_security env) now credentials (database s) = Reply u)"

inductive system_step :: "system_env \<Rightarrow> app \<Rightarrow> system_event \<Rightarrow> app \<Rightarrow> bool" for env where
  administrator: "create_admin (se_auth env) salt new_id now name password (database s) = Inr d \<Longrightarrow>
    system_step env s (Administrator name) (with_db d s)"
| sign_in: "login_endpoint (se_auth env) (ae_settings (se_app env)) (se_security env) a now rq req (database s) = (d, r) \<Longrightarrow>
    system_step env s (SignIn (a, now, rq, req)) (with_db d s)"
| config_request: "signed_in env s u \<Longrightarrow> run_config_request (se_app env) u rq s = (s', status) \<Longrightarrow>
    system_step env s (ConfigRequest u rq status) s'"
| share_request: "(\<forall>u. share_user e = Some u \<longrightarrow> signed_in env s u) \<Longrightarrow>
    system_step env s (ShareRequest e) (with_db (run_share_event (ae_cipher (se_app env)) (ae_settings (se_app env)) e (database s)) s)"
| template_edit: "signed_in env s u \<Longrightarrow> update_template_endpoint (se_app env) dr cwd u key content s = (s', r) \<Longrightarrow>
    system_step env s (TemplateEdit u) s'"
| status_request: "signed_in env s u \<Longrightarrow>
    config_status_endpoint net (ae_http (se_app env)) (ae_settings (se_app env)) (database s) c
      \<lparr>wt_cache = cache, wt_host = a_host s, wt_sent = a_sent s\<rparr> = Some (w, r) \<Longrightarrow>
    system_step env s (StatusRequest u) (s\<lparr>a_host := wt_host w, a_sent := wt_sent w\<rparr>)"
| delivery: "task_call t payload \<in> set (a_sent s) \<Longrightarrow>
    process_task (worker_of (se_app env)) dr broker heartbeats worker_id task_id t payload (database s) (a_host s) = (h, d, calls, r) \<Longrightarrow>
    system_step env s (Delivery t payload) ((with_db d s)\<lparr>a_host := h\<rparr>)"
| machine: "system_step env s Machine (s\<lparr>a_host := h\<rparr>)"

inductive_cases config_requestE: "system_step env s (ConfigRequest u rq status) s'"
inductive_cases deliveryE: "system_step env s (Delivery t payload) s'"

text \<open>The system starts on an empty database, on any machine.\<close>

inductive system_reachable :: "system_env \<Rightarrow> app \<Rightarrow> bool" for env where
  start: "system_reachable env (app_of empty_db h)"
| step: "system_reachable env s \<Longrightarrow> system_step env s e s' \<Longrightarrow> system_reachable env s'"

inductive system_later :: "system_env \<Rightarrow> app \<Rightarrow> app \<Rightarrow> bool" for env where
  here: "system_later env s s"
| further: "system_later env s s1 \<Longrightarrow> system_step env s1 e s' \<Longrightarrow> system_later env s s'"

section \<open>What holds in every reachable state\<close>

definition system_ok :: "app \<Rightarrow> bool" where
  "system_ok s \<longleftrightarrow> app_ok s \<and> at_rest s"

lemma with_db_ok: "system_ok s \<Longrightarrow> sound_step (database s) d \<Longrightarrow> system_ok (with_db d s) \<and> app_grows s (with_db d s)"
  by (auto simp: system_ok_def app_ok_def at_rest_def with_db_def open_session_def sound_step_def app_grows_def intro: tasks_ok_grows)

lemma task_target:
  assumes "tasks_ok d sent" "task_call t payload \<in> set sent"
  obtains c protocol p name u v where "payload = task_payload c protocol p name u v" "t \<in> set task_handlers" "target_ok d c v"
    "parse_payload payload = Inr (c, p, v, name)"
proof -
  have "\<not> question (task_call t payload)" by (simp add: task_call_def)
  with assms(1,2) obtain c protocol p name u v where "task_call t payload = task_call t (task_payload c protocol p name u v)"
    "t \<in> set task_handlers" "target_ok d c v"
    unfolding tasks_ok_def by (fastforce simp: task_call_inj)
  with that show ?thesis using payload_round_trip by (simp add: task_call_inj)
qed

lemma process_task_run:
  "process_task ctx dr broker heartbeats w i t payload d h = (h', d', calls, r) \<Longrightarrow> t \<in> set task_handlers \<Longrightarrow>
   \<exists>res. run_config_task ctx dr payload d h = (h', d', res)"
  by (auto simp: process_task_def Let_def split: prod.splits)

lemma system_step_ok: "system_step env s e s' \<Longrightarrow> system_ok s \<Longrightarrow> system_ok s' \<and> app_grows s s'"
proof (induction rule: system_step.induct)
  case (administrator salt new_id now name password s d)
  then show ?case using sound_create_admin by (intro with_db_ok)
next
  case (sign_in a now rq req s d r)
  then have "sound_step (database s) d"
    using sound_login_endpoint [of "database s" "se_auth env" "ae_settings (se_app env)" "se_security env" a now rq req] by simp
  then show ?case using sign_in by (intro with_db_ok)
next
  case (config_request s u rq s' status)
  then show ?case using config_request_keeps [of s "se_app env" u rq] by (simp add: system_ok_def)
next
  case (share_request ev s)
  then show ?case by (intro with_db_ok sound_share_event) (simp_all add: system_ok_def app_ok_def)
next
  case (template_edit s u dr cwd key content s' r)
  then show ?case using template_request_keeps [of s "se_app env" dr cwd u key content] by (simp add: system_ok_def)
next
  case (status_request s u net c cache w r)
  obtain asked where "wt_sent w = a_sent s @ asked" "list_all question asked"
    by (rule status_request_asks [OF status_request(2)]) simp
  then show ?case using status_request(3) tasks_ok_asked
    by (auto simp: system_ok_def app_ok_def at_rest_def app_grows_def)
next
  case (delivery t payload s dr broker heartbeats worker_id task_id h d calls r)
  have wf: "wf_db (database s)" "tasks_ok (database s) (a_sent s)" using delivery by (simp_all add: system_ok_def app_ok_def)
  obtain c protocol p name u v where args: "t \<in> set task_handlers" "target_ok (database s) c v" "parse_payload payload = Inr (c, p, v, name)"
    by (rule task_target [OF wf(2) delivery(1)])
  obtain res where run: "run_config_task (worker_of (se_app env)) dr payload (database s) (a_host s) = (h, d, res)"
    using process_task_run [OF delivery(2) args(1)] by blast
  have "sound_step (database s) d" using wf(1) run args by (rule_tac sound_task) auto
  from with_db_ok [OF delivery(3) this] show ?case
    by (simp add: system_ok_def app_ok_def at_rest_def app_grows_def)
next
  case (machine s h)
  then show ?case by (simp add: system_ok_def app_ok_def at_rest_def app_grows_def)
qed

lemma reachable_ok: "system_reachable env s \<Longrightarrow> system_ok s"
proof (induction rule: system_reachable.induct)
  case (start h)
  then show ?case by (simp add: system_ok_def app_ok_def at_rest_def app_of_def open_session_def wf_empty tasks_ok_def)
next
  case (step s e s')
  then show ?case using system_step_ok by blast
qed

lemma later_ok: "system_later env s s' \<Longrightarrow> system_ok s \<Longrightarrow> system_ok s' \<and> app_grows s s'"
proof (induction rule: system_later.induct)
  case (further s s1 e s')
  then show ?case using system_step_ok panel.onward by blast
qed (simp add: panel.stay)

text \<open>
  C1. Whatever requests are made by whoever is signed in, whatever share links are resolved, whatever
  templates are edited, whatever the broker delivers, however often, and whatever happens to the machine: in every state the system
  reaches, the versions of each configuration are numbered from 1 without gaps and its current version
  is one of them, share links name versions that exist, user names and ids are unique, no secret is in
  the audit log, no committed configuration is in the middle of a build, and every task sent to the
  broker asks for the first version of a configuration or for the one after a stored version.
\<close>

theorem system_invariant:
  assumes "system_reachable env s"
  shows "store_ok (database s) \<and> shares_ok (database s) \<and> users_ok (database s) \<and> audit_clean (database s)
    \<and> settled_rows (database s) \<and> tasks_ok (database s) (a_sent s) \<and> at_rest s"
  using reachable_ok [OF assms] by (simp add: system_ok_def app_ok_def wf_db_def)

text \<open>
  C11. Nothing is forgotten: from any reachable state on, the audit log only grows at its end, no user,
  configuration, version or share link ever goes away, a link keeps its token, configuration, version,
  trust, deadline and creator, and one that has been revoked stays dead for everyone, whatever else happens.
\<close>

theorem nothing_forgotten:
  assumes "system_reachable env s" "system_later env s s'"
  shows "longer (audit_logs (database s)) (audit_logs (database s')) \<and> longer (users (database s)) (users (database s'))
    \<and> (\<forall>c. config_exists (database s) c \<longrightarrow> config_exists (database s') c)
    \<and> (\<forall>c v. has_version (database s) c v \<longrightarrow> has_version (database s') c v)
    \<and> (\<forall>r\<in>set (shares (database s)). \<exists>r'\<in>set (shares (database s')). share_kept r r')
    \<and> (\<forall>token r. get_by_token_hash (database s) (hash_share_token token) = Some r \<and> s_revoked_at r \<noteq> None
        \<longrightarrow> (\<forall>now. live_share token now (database s') = None))"
proof -
  have g: "grows (database s) (database s')"
    using later_ok [OF assms(2) reachable_ok [OF assms(1)]] by (simp add: app_grows_def)
  have "live_share token now (database s') = None"
    if found: "get_by_token_hash (database s) (hash_share_token token) = Some r" and revoked: "s_revoked_at r \<noteq> None" for token r now
  proof -
    have extended: "shares_extend (shares (database s)) (shares (database s'))" using g by (simp add: grows_def)
    obtain r' where r': "get_by_token_hash (database s') (hash_share_token token) = Some r'" "share_kept r r'"
      using extend_find_hash [OF extended found] by blast
    then have "s_revoked_at r' \<noteq> None" using revoked by (auto simp: share_kept_def)
    then show ?thesis using r'(1) live_share_revoked by blast
  qed
  moreover have "\<exists>r'\<in>set (shares (database s')). share_kept r r'" if "r \<in> set (shares (database s))" for r
    using g that by (intro extend_row) (simp_all add: grows_def)
  ultimately show ?thesis using g by (auto simp: grows_def)
qed

section \<open>Every accepted task settles its configuration\<close>

text \<open>An endless run of the system, and a broker that delivers what it has accepted.\<close>

definition execution :: "system_env \<Rightarrow> (nat \<Rightarrow> app) \<Rightarrow> (nat \<Rightarrow> system_event) \<Rightarrow> bool" where
  "execution env states events \<longleftrightarrow> system_reachable env (states 0) \<and> (\<forall>i. system_step env (states i) (events i) (states (Suc i)))"

text \<open>The answer to the \<open>k\<close>th call.\<close>

definition accepted :: "http_server \<Rightarrow> http_call list \<Rightarrow> nat \<Rightarrow> bool" where
  "accepted server sent k \<longleftrightarrow> k < length sent \<and> (case server (take k sent) (sent ! k) of
     Inl e \<Rightarrow> False | Inr (code, body) \<Rightarrow> 200 \<le> code \<and> code \<le> 299)"

definition delivers_all :: "system_env \<Rightarrow> (nat \<Rightarrow> app) \<Rightarrow> (nat \<Rightarrow> system_event) \<Rightarrow> bool" where
  "delivers_all env states events \<longleftrightarrow>
     (\<forall>i k t payload. accepted (ae_http (se_app env)) (a_sent (states i)) k \<longrightarrow> a_sent (states i) ! k = task_call t payload
       \<longrightarrow> (\<exists>j. k < length (a_sent (states j)) \<and> events j = Delivery t payload))"

lemma execution_ok: "execution env states events \<Longrightarrow> system_reachable env (states i)"
  by (induction i) (auto simp: execution_def intro: system_reachable.step)

lemma execution_grows:
  assumes "execution env states events" "i \<le> j"
  shows "app_grows (states i) (states j)"
  using assms(2)
proof (induction rule: dec_induct)
  case (step n)
  have "app_grows (states n) (states (Suc n))"
    using assms(1) system_step_ok reachable_ok [OF execution_ok [OF assms(1)]] unfolding execution_def by blast
  with step panel.onward show ?case by blast
qed (rule panel.stay)

lemma longer_length: "longer xs ys \<Longrightarrow> length xs \<le> length ys"
  by (auto simp: longer_def)

text \<open>The worker leaves the configuration of a task active or failed.\<close>

lemma task_settles:
  assumes run: "run_config_task ctx dr payload d h = (h', d', res)" and args: "parse_payload payload = Inr (c, p, v, name)"
    and there: "config_exists d c"
  shows "\<exists>r. get_model d' c False = Some r \<and> row_status r \<in> {ACTIVE, FAILED}"
proof (cases res)
  case (Inr x)
  then have "active_at d' c v"
    using attempt_task_active_at [OF run_config_task_Inr [OF _ args]] run by auto
  then show ?thesis by (auto simp: active_at_def)
next
  case (Inl e)
  obtain r where r: "get_model d c False = Some r" using there by (auto simp: config_exists_iff)
  then have "d' = upd_config c (\<lambda>r. r\<lparr>row_status := FAILED, row_error_message := Some (take 2000 (exn_msg e)), row_updated_at := td_now dr 3\<rparr>) d"
    using run_config_task_Inl [OF run [unfolded Inl] args] by (auto simp: mark_failed_Inr)
  then show ?thesis using r get_model_id [OF r] by (simp add: get_model_upd_any)
qed

text \<open>A publication that succeeds is one the broker accepted.\<close>

lemma publish_accepted:
  assumes "publish env t payload s = (s', Inr i)"
  shows "a_sent s' = a_sent s @ [task_call t payload] \<and> accepted (ae_http env) (a_sent s') (length (a_sent s))"
proof -
  have s': "a_sent s' = a_sent s @ [task_call t payload]" using publish_run [OF assms] by (simp add: task_call_def)
  have "case ae_http env (a_sent s) (task_call t payload) of Inl e \<Rightarrow> False | Inr (code, body) \<Rightarrow> 200 \<le> code \<and> code \<le> 299"
    using assms
    by (auto simp: publish_def bindH_run on_broker_def publish_task_def checked_json_def http_send_def raise_for_status_def task_call_def
        split: prod.splits sum.splits if_splits)
  then show ?thesis by (simp add: s' accepted_def)
qed

definition published :: "app_env \<Rightarrow> app \<Rightarrow> app \<Rightarrow> uuid \<Rightarrow> bool" where
  "published env s s' c \<longleftrightarrow> (\<exists>t protocol p name u v. t \<in> set task_handlers
     \<and> a_sent s' = a_sent s @ [task_call t (task_payload c protocol p name u v)]
     \<and> accepted (ae_http env) (a_sent s') (length (a_sent s)))"

lemma create_published:
  assumes "create_config env dr name protocol p u pol host s = (s', Inr (c, t))"
  shows "published env s s' (ud_id dr)"
proof -
  obtain ps where ps: "map_of (profiles (ae_settings env)) (profile_value p) = Some ps"
    using assms by (auto simp: create_config_def split: option.splits)
  have "a_sent s' = a_sent s @ [task_call ''config.initialize'' (task_payload c protocol p name (user_id u) 1)]
      \<and> accepted (ae_http env) (a_sent s') (length (a_sent s))"
    using assms ps unfolding create_config_def by (auto simp: app_runs Let_def audit_def commit_def dest!: publish_accepted)
  moreover have "c = ud_id dr" using create_config_run [OF assms] by blast
  ultimately show ?thesis unfolding published_def by (fastforce simp: task_handlers_def)
qed

lemma catch_run: "catchH m ks (\<lambda>e. raiseH (f e)) s = (s', Inr x) \<longleftrightarrow> m s = (s', Inr x)"
  by (auto simp: catchH_def raiseH_def split: prod.splits sum.splits)

lemma regenerate_published:
  assumes "regenerate_config env dr c u s = (s', Inr (c', t))"
  shows "published env s s' c"
proof -
  obtain found where f: "get_by_id (cur (a_session s)) c True = Inr found"
    using assms by (auto simp: regenerate_config_def app_runs)
  with assms obtain config where config: "found = Some config"
    by (cases found) (auto simp: regenerate_config_def app_runs)
  with assms f have idle: "cfg_current_version config \<noteq> None" "\<not> busy (cfg_status config)"
    by (auto simp: regenerate_config_def app_runs split: if_split_asm)
  have "\<exists>protocol p name v. a_sent s' = a_sent s @ [task_call ''config.regenerate'' (task_payload c protocol p name (user_id u) v)]
      \<and> accepted (ae_http env) (a_sent s') (length (a_sent s))"
    using assms f config idle unfolding regenerate_config_def
    by (auto simp: app_runs catch_run audit_def commit_def dest!: publish_accepted) blast
  then show ?thesis unfolding published_def by (fastforce simp: task_handlers_def)
qed

fun asks_for :: "config_request \<Rightarrow> uuid option" where
  "asks_for (CreateConfig dr rq) = Some (ud_id dr)"
| "asks_for (Regenerate dr c) = Some c"
| "asks_for _ = None"

lemma endpoint_answered: "map_prod id status_of (endpoint clauses m s) = (s', None) \<Longrightarrow> \<exists>s1 x. m s = (s1, Inr x) \<and> s' = close_session s1"
proof -
  assume run: "map_prod id status_of (endpoint clauses m s) = (s', None)"
  have failed: "status_of (answer_exn clauses e :: 'a reply) \<noteq> None" for e
    by (induction clauses e rule: answer_exn.induct) (auto simp: internal_error_def)
  obtain s1 r where m: "m s = (s1, r)" by (cases "m s")
  with run failed show ?thesis by (cases r) (auto simp: endpoint_def answer_def)
qed

lemma request_published:
  assumes run: "run_config_request env u rq s = (s', None)" and c: "asks_for rq = Some c"
  shows "published env s s' c"
proof (cases rq)
  case (CreateConfig dr r)
  then have valid: "create_request_valid r" using run by (auto simp: create_config_endpoint_def unprocessable_def split: if_splits)
  let ?m = "bindH (create_config env dr (cr_name r) (cr_protocol r) (request_profile r) u
      (case cr_policy r of None \<Rightarrow> No_Policy | Some p \<Rightarrow> Policy_Overrides p) (cr_share_host r))
      (\<lambda>(config_id, task_id). returnH (task_id, uuid_str config_id))"
  have "map_prod id status_of (endpoint [Answer [InvalidSharePublicHost] 422 None, Answer [ValueError] 422 None] ?m s) = (s', None)"
    using run CreateConfig valid by (simp add: create_config_endpoint_def)
  from endpoint_answered [OF this] obtain s1 x where "?m s = (s1, Inr x)" "s' = close_session s1" by blast
  then have "published env s s1 (ud_id dr)" by (auto simp: bindH_run dest: create_published)
  then show ?thesis using \<open>s' = close_session s1\<close> CreateConfig c by (simp add: published_def close_session_def)
next
  case (Regenerate dr i)
  let ?m = "bindH (regenerate_config env dr i u) (\<lambda>(i, task_id). returnH (task_id, uuid_str i))"
  have "map_prod id status_of (endpoint [not_found, Answer [ConfigNotRegeneratable] 409 None] ?m s) = (s', None)"
    using run Regenerate by (simp add: regenerate_config_endpoint_def)
  from endpoint_answered [OF this] obtain s1 x where "?m s = (s1, Inr x)" "s' = close_session s1" by blast
  then have "published env s s1 i" by (auto simp: bindH_run dest: regenerate_published)
  then show ?thesis using \<open>s' = close_session s1\<close> Regenerate c by (simp add: published_def close_session_def)
qed (use c in auto)

text \<open>
  C2. Every accepted request settles: in any endless run of the system in which the broker delivers each
  task it has accepted at least once, at any time after, a configuration that a successful request
  creates or regenerates is later active or failed, whatever else is requested, delivered or happens
  to the machine meanwhile.
\<close>

theorem accepted_request_settles:
  assumes run: "execution env states events" and fair: "delivers_all env states events"
    and request: "events i = ConfigRequest u rq None" and c: "asks_for rq = Some c"
  shows "\<exists>j>i. \<exists>r. get_model (database (states j)) c False = Some r \<and> row_status r \<in> {ACTIVE, FAILED}"
proof -
  have steps: "system_step env (states n) (events n) (states (Suc n))" for n using run by (simp add: execution_def)
  have "run_config_request (se_app env) u rq (states i) = (states (Suc i), None)"
    using steps [of i] unfolding request by (rule config_requestE)
  then obtain t protocol p name w v where sent: "a_sent (states (Suc i)) = a_sent (states i) @ [task_call t (task_payload c protocol p name w v)]"
    and acc: "accepted (ae_http (se_app env)) (a_sent (states (Suc i))) (length (a_sent (states i)))" and t: "t \<in> set task_handlers"
    using request_published c unfolding published_def by blast
  let ?p = "task_payload c protocol p name w v"
  obtain j where j: "length (a_sent (states i)) < length (a_sent (states j))" "events j = Delivery t ?p"
    using fair acc sent unfolding delivers_all_def by (metis nth_append_length)
  have later: "i < j"
  proof (rule ccontr)
    assume "\<not> i < j"
    then have "app_grows (states j) (states i)" by (intro execution_grows [OF run]) simp
    then show False using j(1) by (auto simp: app_grows_def dest: longer_length)
  qed
  have tasks: "tasks_ok (database (states (Suc i))) (a_sent (states (Suc i)))"
    using reachable_ok [OF execution_ok [OF run, of "Suc i"]] by (simp add: system_ok_def app_ok_def)
  have member: "task_call t ?p \<in> set (a_sent (states (Suc i)))" by (simp add: sent)
  obtain c' protocol' p' name' u' v' where target: "?p = task_payload c' protocol' p' name' u' v'" "target_ok (database (states (Suc i))) c' v'"
    by (rule task_target [OF tasks member])
  then have "c' = c" by (metis Pair_inject payload_round_trip sum.inject(2))
  then have "config_exists (database (states j)) c"
    using target(2) execution_grows [OF run, of "Suc i" j] later by (auto simp: target_ok_def app_grows_def grows_def)
  moreover obtain dr broker heartbeats worker task h d calls r where
    task: "process_task (worker_of (se_app env)) dr broker heartbeats worker task t ?p (database (states j)) (a_host (states j)) = (h, d, calls, r)"
    and s': "states (Suc j) = (with_db d (states j))\<lparr>a_host := h\<rparr>"
    using steps [of j] unfolding j(2) by (rule deliveryE)
  obtain res where "run_config_task (worker_of (se_app env)) dr ?p (database (states j)) (a_host (states j)) = (h, d, res)"
    using process_task_run [OF task t] by blast
  ultimately have "\<exists>r. get_model d c False = Some r \<and> row_status r \<in> {ACTIVE, FAILED}"
    using task_settles payload_round_trip by blast
  then have "\<exists>r. get_model (database (states (Suc j))) c False = Some r \<and> row_status r \<in> {ACTIVE, FAILED}"
    by (simp add: s' with_db_def open_session_def)
  with later show ?thesis by (intro exI [of _ "Suc j"]) simp
qed

section \<open>A concrete run\<close>

text \<open>An administrator is added, signs in with a token and creates a configuration; its task is delivered.\<close>

definition demo_system :: system_env where
  "demo_system = \<lparr>se_app = demo_app_env, se_auth = (demo_auth (demo_payload_of 100 1))\<lparr>bcrypt_hash := (\<lambda>salt password. Inr '''')\<rparr>,
     se_security = demo_security\<rparr>"

definition demo_create_request :: create_config_request where
  "demo_create_request = \<lparr>cr_name = ''home'', cr_protocol = HYSTERIA2_PROTOCOL, cr_profile = Some HYSTERIA2, cr_policy = None,
     cr_share_host = None\<rparr>"

abbreviation demo_request :: config_request where
  "demo_request \<equiv> CreateConfig (demo_use 5) demo_create_request"

definition demo_created :: app where
  "demo_created = fst (run_config_request demo_app_env demo_admin demo_request (app_of demo_start demo_host))"

lemma demo_system_app: "se_app demo_system = demo_app_env"
  by (simp add: demo_system_def)

lemma demo_added: "system_step demo_system (app_of empty_db demo_host) (Administrator ''admin'') (app_of demo_start demo_host)"
proof -
  have "create_admin (se_auth demo_system) 0 1 0 ''admin'' ''pw'' empty_db = Inr demo_start"
    by (simp add: create_admin_def demo_system_def create_user_def get_by_username_def find_row_def demo_start_def demo_admin_def empty_db_def Let_def)
  then have "create_admin (se_auth demo_system) 0 1 0 ''admin'' ''pw'' (database (app_of empty_db demo_host)) = Inr demo_start"
    by (simp add: app_of_def open_session_def)
  from system_step.administrator [OF this] show ?thesis by (simp add: with_db_def app_of_def)
qed

lemma demo_signed_in: "signed_in demo_system (app_of demo_start demo_host) demo_admin"
proof -
  have "get_current_user (se_auth demo_system) (se_security demo_system) 200 (Some ''HS256.s3'') demo_start = Reply demo_admin"
    by code_simp
  then show ?thesis unfolding signed_in_def by (intro exI) (simp add: app_of_def open_session_def)
qed

lemma demo_requested: "system_step demo_system (app_of demo_start demo_host) (ConfigRequest demo_admin demo_request None) demo_created"
proof -
  have valid: "create_request_valid demo_create_request" "request_profile demo_create_request = HYSTERIA2"
    by code_simp+
  have "snd (run_config_request demo_app_env demo_admin demo_request (app_of demo_start demo_host)) = None"
    using demo_create [of demo_host] valid
    by (cases "create_config demo_app_env (demo_use 5) ''home'' HYSTERIA2_PROTOCOL HYSTERIA2 demo_admin No_Policy None (app_of demo_start demo_host)")
      (simp add: create_config_endpoint_def endpoint_def bindH_def returnH_def answer_def demo_create_request_def)
  then have "run_config_request (se_app demo_system) demo_admin demo_request (app_of demo_start demo_host) = (demo_created, None)"
    by (simp add: demo_created_def demo_system_app prod_eq_iff)
  then show ?thesis using demo_signed_in by (rule_tac system_step.config_request)
qed

lemma demo_reachable: "system_reachable demo_system (app_of demo_start demo_host)" "system_reachable demo_system demo_created"
  using system_reachable.start demo_added demo_requested by (blast intro: system_reachable.step)+

lemma demo_published: "published demo_app_env (app_of demo_start demo_host) demo_created 5"
proof -
  have "run_config_request demo_app_env demo_admin demo_request (app_of demo_start demo_host) = (demo_created, None)"
    using demo_requested by (auto elim: config_requestE simp: demo_system_app)
  moreover have "asks_for demo_request = Some 5" by (simp add: demo_use_def)
  ultimately show ?thesis by (rule request_published)
qed

theorem system_invariant_witness:
  "length (a_sent demo_created) = 1 \<and> tasks_ok (database demo_created) (a_sent demo_created) \<and> store_ok (database demo_created)"
  using system_invariant [OF demo_reachable(2)] demo_published by (auto simp: published_def app_of_def)

theorem nothing_forgotten_witness:
  "a_sent demo_created \<noteq> [] \<and> longer [demo_admin] (users (database demo_created))"
proof -
  have "system_later demo_system (app_of demo_start demo_host) demo_created"
    using demo_requested system_later.here by (blast intro: system_later.further)
  from nothing_forgotten [OF demo_reachable(1) this] show ?thesis
    using demo_published by (auto simp: published_def app_of_def open_session_def demo_start_def)
qed

text \<open>The run goes on with the delivery of the task, and then only the machine changes.\<close>

definition demo_delivered :: "string \<Rightarrow> json \<Rightarrow> app" where
  "demo_delivered t payload = (case process_task (worker_of demo_app_env) demo_task (\<lambda>c. Inr ()) (Inr ()) ''w1'' ''t1'' t payload
       (database demo_created) (a_host demo_created) of
     (h, d, calls, r) \<Rightarrow> (with_db d demo_created)\<lparr>a_host := h\<rparr>)"

definition demo_states :: "string \<Rightarrow> json \<Rightarrow> nat \<Rightarrow> app" where
  "demo_states t payload n = (if n = 0 then app_of demo_start demo_host else if n = 1 then demo_created else demo_delivered t payload)"

definition demo_events :: "string \<Rightarrow> json \<Rightarrow> nat \<Rightarrow> system_event" where
  "demo_events t payload n = (if n = 0 then ConfigRequest demo_admin demo_request None else if n = 1 then Delivery t payload else Machine)"

theorem accepted_request_settles_witness:
  "\<exists>s r. system_reachable demo_system s \<and> get_model (database s) 5 False = Some r \<and> row_status r \<in> {ACTIVE, FAILED}"
proof -
  obtain t protocol p name w v where pub: "a_sent demo_created = [task_call t (task_payload 5 protocol p name w v)]"
    "accepted (ae_http demo_app_env) (a_sent demo_created) 0"
    using demo_published by (auto simp: published_def app_of_def)
  let ?p = "task_payload 5 protocol p name w v"
  let ?s = "demo_states t ?p" and ?e = "demo_events t ?p"
  obtain h d calls r where task: "process_task (worker_of demo_app_env) demo_task (\<lambda>c. Inr ()) (Inr ()) ''w1'' ''t1'' t ?p
       (database demo_created) (a_host demo_created) = (h, d, calls, r)" using prod_cases4 by blast
  then have delivered: "demo_delivered t ?p = (with_db d demo_created)\<lparr>a_host := h\<rparr>" by (simp add: demo_delivered_def)
  have idle: "system_step demo_system s Machine s" for s
    using system_step.machine [of demo_system s "a_host s"] by simp
  have deliver: "system_step demo_system demo_created (Delivery t ?p) (demo_delivered t ?p)"
    unfolding delivered by (rule system_step.delivery) (use pub task in \<open>simp_all add: demo_system_app\<close>)
  have run: "execution demo_system ?s ?e"
    unfolding execution_def
    using demo_reachable demo_requested deliver idle by (auto simp: demo_states_def demo_events_def)
  have sent: "a_sent (?s n) = (if n = 0 then [] else [task_call t ?p])" for n
    by (simp add: demo_states_def pub delivered with_db_def app_of_def)
  have fair: "delivers_all demo_system ?s ?e"
    unfolding delivers_all_def
    by (auto simp: sent accepted_def task_call_inj demo_events_def intro!: exI [of _ 1] split: if_splits)
  have "?e 0 = ConfigRequest demo_admin demo_request None" "asks_for demo_request = Some 5"
    by (simp_all add: demo_events_def demo_use_def)
  from accepted_request_settles [OF run fair this] execution_ok [OF run] show ?thesis by blast
qed

end
