(* ===== verification/Routes.thy ===== *)
theory Routes
  imports Auth Host
begin

text \<open>
  The application as \<open>create_app\<close> of \<open>api/main.py\<close> and \<open>setup_web_ui\<close> of
  \<open>api/web.py\<close> put it together: the routes of all routers in the order they are added, which of
  them depend on \<open>get_current_user\<close>, and the route that answers a request; with the labels
  that \<open>observability/metrics.py\<close> counts requests under.
\<close>

section \<open>Matching paths\<close>

text \<open>
  A path as the framework compiles it to a regular expression: text, a parameter of at least one
  character other than a slash, or a rest of any length. The final \<open>$\<close> also matches before a
  line break that ends the path, and a rest has no line break.
\<close>

datatype piece = Text string | Segment string | Rest string

fun path_matches :: "piece list \<Rightarrow> string \<Rightarrow> bool" where
  "path_matches [] s = (s = [] \<or> s = newline)"
| "path_matches (Text t # ps) s = (startswith s t \<and> path_matches ps (drop (length t) s))"
| "path_matches (Segment name # ps) s =
     list_ex (\<lambda>n. path_matches ps (drop n s)) [1..<Suc (length (takeWhile (\<lambda>c. c \<noteq> CHR ''/'') s))]"
| "path_matches (Rest name # ps) s =
     list_ex (\<lambda>n. path_matches ps (drop n s)) [0..<Suc (length (takeWhile (\<lambda>c. c \<noteq> CHR 0x0A) s))]"

text \<open>A mounted application takes every method.\<close>

record route =
  rt_method :: "string option"
  rt_path :: "piece list"
  rt_guarded :: bool
  rt_name :: string

definition route_to :: "bool \<Rightarrow> string \<Rightarrow> piece list \<Rightarrow> string \<Rightarrow> route" where
  "route_to guarded http_method path name = \<lparr>rt_method = Some http_method, rt_path = path, rt_guarded = guarded, rt_name = name\<rparr>"

abbreviation guarded_route :: "string \<Rightarrow> piece list \<Rightarrow> string \<Rightarrow> route" where
  "guarded_route \<equiv> route_to True"

abbreviation open_route :: "string \<Rightarrow> piece list \<Rightarrow> string \<Rightarrow> route" where
  "open_route \<equiv> route_to False"

definition takes :: "route \<Rightarrow> string \<Rightarrow> string \<Rightarrow> bool" where
  "takes r http_method path \<longleftrightarrow> path_matches (rt_path r) path \<and> (case rt_method r of None \<Rightarrow> True | Some m \<Rightarrow> m = http_method)"

section \<open>The routers\<close>

definition health_router :: "route list" where
  "health_router = [open_route ''GET'' [Text ''/health''] ''health'']"

definition metrics_router :: "route list" where
  "metrics_router = [open_route ''GET'' [Text ''/metrics''] ''metrics'']"

definition auth_router :: "route list" where
  "auth_router = [open_route ''POST'' [Text ''/auth/login''] ''login'']"

definition configs_router :: "route list" where
  "configs_router = (let item = [Text ''/api/v1/configs/'', Segment ''config_id''] in
     [guarded_route ''GET'' [Text ''/api/v1/configs''] ''list_configs'',
      guarded_route ''GET'' [Text ''/api/v1/configs/runtime''] ''get_configs_runtime'',
      guarded_route ''POST'' [Text ''/api/v1/configs''] ''create_config'',
      guarded_route ''POST'' [Text ''/api/v1/configs/regenerate-all''] ''regenerate_all_configs'',
      guarded_route ''POST'' (item @ [Text ''/regenerate'']) ''regenerate_config'',
      guarded_route ''POST'' (item @ [Text ''/share'']) ''create_share_link'',
      guarded_route ''GET'' (item @ [Text ''/status'']) ''get_config_status'',
      guarded_route ''GET'' (item @ [Text ''/logs'']) ''get_config_logs'',
      guarded_route ''GET'' (item @ [Text ''/config-data'']) ''get_config_data'',
      guarded_route ''PUT'' (item @ [Text ''/config-data'']) ''update_config_data'',
      guarded_route ''GET'' item ''get_config'',
      guarded_route ''PATCH'' (item @ [Text ''/regenerate-policy'']) ''update_regenerate_policy'',
      guarded_route ''DELETE'' item ''delete_config''])"

definition templates_router :: "route list" where
  "templates_router =
     [guarded_route ''GET'' [Text ''/api/v1/templates''] ''list_templates'',
      guarded_route ''GET'' [Text ''/api/v1/templates/'', Segment ''profile''] ''get_template'',
      guarded_route ''PUT'' [Text ''/api/v1/templates/'', Segment ''profile''] ''update_template'']"

definition system_router :: "route list" where
  "system_router = [guarded_route ''GET'' [Text ''/api/v1/system/resources''] ''system_resources'']"

definition share_public_router :: "route list" where
  "share_public_router = [open_route ''GET'' [Text ''/share/'', Rest ''token''] ''resolve_share'']"

definition share_admin_router :: "route list" where
  "share_admin_router =
     [guarded_route ''GET'' [Text ''/api/v1/share/links''] ''list_active_share_links'',
      guarded_route ''DELETE'' [Text ''/api/v1/share/links/'', Segment ''link_id''] ''revoke_share_link_by_id'',
      guarded_route ''POST'' [Text ''/api/v1/share/all''] ''create_all_share_links'',
      guarded_route ''DELETE'' [Text ''/api/v1/share/'', Rest ''token''] ''revoke_share'']"

text \<open>The documentation of the interface, unless the panel runs at its most secure.\<close>

definition docs_routes :: "route list" where
  "docs_routes =
     [guarded_route ''GET'' [Text ''/docs''] ''swagger_ui'', guarded_route ''GET'' [Text ''/redoc''] ''redoc_ui'',
      guarded_route ''GET'' [Text ''/openapi.json''] ''openapi'']"

definition web_prefix :: "string \<Rightarrow> string" where
  "web_prefix mount_path = (let p = rstrip_char CHR ''/'' mount_path in if p \<noteq> [] then p else ''/admin'')"

definition setup_web_ui :: "bool \<Rightarrow> string \<Rightarrow> route list" where
  "setup_web_ui enabled mount_path =
     (if \<not> enabled then []
      else let prefix = web_prefix mount_path in
        [\<lparr>rt_method = None, rt_path = [Text (prefix @ ''/static''), Text ''/'', Rest ''path''], rt_guarded = False, rt_name = ''web-static''\<rparr>,
         open_route ''GET'' [Text ''/favicon.ico''] ''favicon'',
         open_route ''GET'' [Text (prefix @ ''/''), Rest ''full_path''] ''admin_ui'',
         open_route ''GET'' [Text prefix] ''admin_ui''])"

record app_options =
  opt_metrics :: bool
  opt_max_secure :: bool
  opt_web :: bool
  opt_mount_path :: string

definition create_app :: "app_options \<Rightarrow> route list" where
  "create_app opts =
     health_router @ (if opt_metrics opts then metrics_router else []) @ auth_router @ configs_router @ templates_router
     @ system_router @ share_public_router @ share_admin_router
     @ (if opt_max_secure opts then [] else docs_routes) @ setup_web_ui (opt_web opts) (opt_mount_path opts)"

text \<open>
  The first route that takes the request; a path that only other methods take is answered with 405, and
  one that a route takes with or without a final slash is redirected there.
\<close>

definition other_slash :: "string \<Rightarrow> string" where
  "other_slash path = (if endswith path ''/'' then rstrip_char CHR ''/'' path else path @ ''/'')"

definition route_for :: "route list \<Rightarrow> string \<Rightarrow> string \<Rightarrow> route reply" where
  "route_for routes http_method path = (case find (\<lambda>r. takes r http_method path) routes of
     Some r \<Rightarrow> Reply r
   | None \<Rightarrow> if list_ex (\<lambda>r. path_matches (rt_path r) path) routes then Failed 405 ''Method Not Allowed''
       else if path \<noteq> ''/'' \<and> list_ex (\<lambda>r. path_matches (rt_path r) (other_slash path)) routes then Failed 307 (other_slash path)
       else Failed 404 ''Not Found'')"

text \<open>The dependencies of a route are solved before its endpoint runs: the endpoint, and for whom.\<close>

definition admit ::
  "app_options \<Rightarrow> auth_lib \<Rightarrow> security_settings \<Rightarrow> int \<Rightarrow> string option \<Rightarrow> db \<Rightarrow> string \<Rightarrow> string \<Rightarrow> (string \<times> user option) reply" where
  "admit opts lib sec now credentials d http_method path =
     (case route_for (create_app opts) http_method path of
        Failed code detail \<Rightarrow> Failed code detail
      | Reply r \<Rightarrow>
          if rt_guarded r then (case get_current_user lib sec now credentials d of
            Failed code detail \<Rightarrow> Failed code detail | Reply u \<Rightarrow> Reply (rt_name r, Some u))
          else Reply (rt_name r, None))"

section \<open>Who is let in\<close>

lemma route_for_taken: "route_for routes m path = Reply r \<Longrightarrow> r \<in> set routes \<and> path_matches (rt_path r) path"
  by (auto simp: route_for_def takes_def find_Some_iff split: option.splits if_splits)

text \<open>Only these answer without a token, and the pages of the web interface.\<close>

lemma open_routes:
  "r \<in> set (create_app opts) \<Longrightarrow> \<not> rt_guarded r \<Longrightarrow>
   rt_path r \<in> {[Text ''/health''], [Text ''/metrics''], [Text ''/auth/login''], [Text ''/share/'', Rest ''token''], [Text ''/favicon.ico'']}
   \<or> (\<exists>t ps. rt_path r = Text (web_prefix (opt_mount_path opts) @ t) # ps)"
  unfolding create_app_def health_router_def metrics_router_def auth_router_def configs_router_def templates_router_def
    system_router_def share_public_router_def share_admin_router_def docs_routes_def setup_web_ui_def route_to_def Let_def
  by (auto split: if_splits)

lemma startswith_shorter: "startswith path (p @ t) \<Longrightarrow> startswith path p"
  by (auto simp: startswith_iff)

text \<open>
  C13. No endpoint of the interface runs for someone who is not signed in: with the web pages mounted
  elsewhere, a request under \<open>/api/\<close>, of any method and to any path, reaches an endpoint only when its
  token is accepted, and then on behalf of the token's user; so do the pages that document the interface.
\<close>

theorem api_needs_token:
  assumes run: "admit opts lib sec now credentials d http_method path = Reply (name, u)"
    and api: "startswith path ''/api/'' \<or> startswith path ''/docs'' \<or> startswith path ''/redoc'' \<or> startswith path ''/openapi.json''"
    and web: "\<not> startswith path (web_prefix (opt_mount_path opts))"
  shows "\<exists>user. u = Some user \<and> get_current_user lib sec now credentials d = Reply user"
proof -
  obtain r where r: "route_for (create_app opts) http_method path = Reply r"
    using run by (auto simp: admit_def split: reply.splits)
  then have here: "r \<in> set (create_app opts)" "path_matches (rt_path r) path" using route_for_taken by auto
  have "rt_guarded r"
  proof (rule ccontr)
    assume "\<not> rt_guarded r"
    from open_routes [OF here(1) this] show False
    proof
      assume "rt_path r \<in> {[Text ''/health''], [Text ''/metrics''], [Text ''/auth/login''], [Text ''/share/'', Rest ''token''], [Text ''/favicon.ico'']}"
      with here(2) api show False by (auto simp: startswith_iff)
    next
      assume "\<exists>t ps. rt_path r = Text (web_prefix (opt_mount_path opts) @ t) # ps"
      with here(2) have "startswith path (web_prefix (opt_mount_path opts))" by (auto intro: startswith_shorter)
      with web show False ..
    qed
  qed
  then show ?thesis using run r by (auto simp: admit_def split: reply.splits)
qed

definition demo_options :: app_options where
  "demo_options = \<lparr>opt_metrics = True, opt_max_secure = False, opt_web = True, opt_mount_path = ''/admin''\<rparr>"

theorem api_needs_token_witness:
  "\<exists>user. get_current_user (demo_auth (demo_payload_of 100 1)) demo_security 3000 (Some ''HS256.s3'') demo_users_db = Reply user
   \<and> admit demo_options (demo_auth (demo_payload_of 100 1)) demo_security 3000 (Some ''HS256.s3'') demo_users_db ''DELETE'' ''/api/v1/configs/5''
      = Reply (''delete_config'', Some user)"
proof -
  have run: "admit demo_options (demo_auth (demo_payload_of 100 1)) demo_security 3000 (Some ''HS256.s3'') demo_users_db ''DELETE'' ''/api/v1/configs/5''
      = Reply (''delete_config'', Some demo_user)"
    by code_simp
  have api: "startswith ''/api/v1/configs/5'' ''/api/'' \<or> startswith ''/api/v1/configs/5'' ''/docs''
      \<or> startswith ''/api/v1/configs/5'' ''/redoc'' \<or> startswith ''/api/v1/configs/5'' ''/openapi.json''" by code_simp
  have web: "\<not> startswith ''/api/v1/configs/5'' (web_prefix (opt_mount_path demo_options))" by code_simp
  show ?thesis using api_needs_token [OF run api web] run by auto
qed

section \<open>The labels of the metrics\<close>

text \<open>\<open>UUID_PATTERN\<close> at the beginning of a text.\<close>

definition hex_char :: "char \<Rightarrow> bool" where
  "hex_char c = (c \<in> set ''0123456789abcdefABCDEF'')"

definition uuid_prefix :: "string \<Rightarrow> bool" where
  "uuid_prefix s = (36 \<le> length s \<and> list_all (\<lambda>i. if i \<in> {8, 13, 18, 23} then s ! i = CHR ''-'' else hex_char (s ! i)) [0..<36])"

text \<open>\<open>UUID_PATTERN.sub\<close>.\<close>

function sub_uuids :: "string \<Rightarrow> string" where
  "sub_uuids s = (if s = [] then [] else if uuid_prefix s then ''{id}'' @ sub_uuids (drop 36 s) else hd s # sub_uuids (tl s))"
  by auto
termination by (relation "measure length") auto

declare sub_uuids.simps [simp del]

definition normalize_path :: "string \<Rightarrow> string" where
  "normalize_path path =
     (if startswith path ''/share/'' then ''/share/{token}''
      else if startswith path ''/api/v1/share/links'' then ''/api/v1/share/links''
      else if startswith path ''/api/v1/share/'' then ''/api/v1/share/{token}''
      else sub_uuids path)"

lemma uuid_prefix_take: "take 36 s = take 36 t \<Longrightarrow> uuid_prefix s \<longleftrightarrow> uuid_prefix t"
proof -
  assume eq: "take 36 s = take 36 t"
  have "s ! i = t ! i" if "i < 36" for i using eq that by (metis nth_take)
  moreover have "36 \<le> length s \<longleftrightarrow> 36 \<le> length t"
    using arg_cong [OF eq, of length] by (auto simp: min_def split: if_splits)
  ultimately show ?thesis by (simp add: uuid_prefix_def list_all_iff)
qed

lemma uuid_prefix_chars: "uuid_prefix s \<Longrightarrow> c \<in> set (take 36 s) \<Longrightarrow> hex_char c \<or> c = CHR ''-''"
  by (fastforce simp: uuid_prefix_def list_all_iff in_set_conv_nth split: if_splits)

lemma sub_uuids_take: "CHR ''{'' \<notin> set (take n (sub_uuids s)) \<Longrightarrow> take n (sub_uuids s) = take n s"
proof (induction s arbitrary: n rule: sub_uuids.induct)
  case (1 s)
  show ?case
  proof (cases n)
    case (Suc m)
    show ?thesis
    proof (cases "s = [] \<or> uuid_prefix s")
      case True
      then show ?thesis using 1(3) Suc by (subst sub_uuids.simps) (auto simp: sub_uuids.simps [of s] split: if_splits)
    next
      case False
      then have s: "sub_uuids s = hd s # sub_uuids (tl s)" by (simp add: sub_uuids.simps [of s])
      with False 1 Suc have "take m (sub_uuids (tl s)) = take m (tl s)" by simp
      then show ?thesis using s False Suc by (cases s) auto
    qed
  qed simp
qed

lemma no_uuid_left: "\<not> uuid_prefix (drop i (sub_uuids s))"
proof (induction s arbitrary: i rule: sub_uuids.induct)
  case (1 s)
  consider "s = []" | "s \<noteq> []" "uuid_prefix s" | "s \<noteq> []" "\<not> uuid_prefix s" by blast
  then show ?case
  proof cases
    case 1
    then have "sub_uuids s = []" by (subst sub_uuids.simps) simp
    then show ?thesis by (simp add: uuid_prefix_def)
  next
    case 2
    then have s: "sub_uuids s = ''{id}'' @ sub_uuids (drop 36 s)" by (simp add: sub_uuids.simps [of s])
    show ?thesis
    proof (cases "i < 4")
      case True
      then have "CHR ''}'' \<in> set (take 36 (drop i (sub_uuids s)))"
        unfolding s by (auto simp: less_Suc_eq numeral_eq_Suc)
      then show ?thesis using uuid_prefix_chars by (fastforce simp: hex_char_def)
    next
      case False
      then obtain k where k: "i = k + 4" by (metis add.commute le_Suc_ex not_less)
      then have "drop i (sub_uuids s) = drop k (sub_uuids (drop 36 s))"
        by (simp add: s numeral_eq_Suc)
      then show ?thesis using "1.IH"(1) [OF 2] by simp
    qed
  next
    case 3
    then have s: "sub_uuids s = hd s # sub_uuids (tl s)" by (simp add: sub_uuids.simps [of s])
    show ?thesis
    proof (cases i)
      case 0
      have False if u: "uuid_prefix (sub_uuids s)"
      proof -
        have "CHR ''{'' \<notin> set (take 36 (sub_uuids s))"
          using uuid_prefix_chars [OF u] by (fastforce simp: hex_char_def)
        then have "take 36 (sub_uuids s) = take 36 s" by (rule sub_uuids_take)
        then show False using u 3 uuid_prefix_take by blast
      qed
      then show ?thesis using 0 by auto
    next
      case (Suc j)
      then show ?thesis using s "1.IH"(2) [OF 3] by simp
    qed
  qed
qed

lemma startswith_self: "startswith (p @ t) p"
  by (simp add: startswith_iff)

text \<open>The path of a route as it was written; a mounted application has the path it is mounted at.\<close>

fun written :: "piece \<Rightarrow> string" where
  "written (Text t) = t"
| "written (Segment name) = ''{'' @ name @ ''}''"
| "written (Rest name) = ''{'' @ name @ '':path}''"

definition route_path :: "route \<Rightarrow> string" where
  "route_path r = (if rt_method r = None then written (hd (rt_path r)) else concat (map written (rt_path r)))"

definition resolve_route_path :: "route list \<Rightarrow> string \<Rightarrow> string \<Rightarrow> string" where
  "resolve_route_path routes http_method path = (case find (\<lambda>r. takes r http_method path) routes of
     Some r \<Rightarrow> normalize_path (route_path r)
   | None \<Rightarrow> normalize_path path)"

section \<open>The middlewares\<close>

text \<open>
  What a middleware hands on to is an action that returns the status and the headers of the response. The
  durations are left out: the state holds the labels each request was counted under, in order.
\<close>

record response =
  rs_status :: int
  rs_headers :: "(string \<times> string) list"

type_synonym counted = "(string \<times> string \<times> string) list"

definition prometheus_dispatch ::
  "bool \<Rightarrow> route list \<Rightarrow> string \<Rightarrow> string \<Rightarrow> ('s, response) act \<Rightarrow> (counted \<times> 's, response) act" where
  "prometheus_dispatch enabled routes http_method path call_next = (\<lambda>(counts, s). case call_next s of (s', result) \<Rightarrow>
     if \<not> enabled \<or> path = ''/metrics'' then ((counts, s'), result)
     else let label = resolve_route_path routes http_method path in
       (case result of
          Inl e \<Rightarrow> ((counts, s'), Inl e)
        | Inr response \<Rightarrow> ((counts @ [(http_method, label, show_int (rs_status response))], s'), Inr response)))"

text \<open>The counting is added last, so it is the outer one. Either is left out when the settings switch it off.\<close>

definition serve :: "app_options \<Rightarrow> bool \<Rightarrow> string \<Rightarrow> string \<Rightarrow> ('s, response) act \<Rightarrow> (counted \<times> 's, response) act" where
  "serve opts headers http_method path handler =
     prometheus_dispatch (opt_metrics opts) (create_app opts) http_method path
       (bindH handler (\<lambda>response. returnH (response\<lparr>rs_headers := security_headers_dispatch headers (rs_headers response)\<rparr>)))"

text \<open>No response leaves without the four headers, none that an endpoint has set is changed, and the status is the endpoint's.\<close>

lemma served:
  assumes "serve opts True http_method path handler (counts, s) = ((counts', s'), Inr response)"
  obtains r extra where "handler s = (s', Inr r)" "rs_status response = rs_status r" "rs_headers response = rs_headers r @ extra"
    "\<forall>(n, v)\<in>set security_headers. has_header n (rs_headers response)"
proof -
  obtain r where r: "handler s = (s', Inr r)"
    and response: "response = r\<lparr>rs_headers := add_headers security_headers (rs_headers r)\<rparr>"
    using assms by (auto simp: serve_def prometheus_dispatch_def bindH_def returnH_def security_headers_dispatch_def
        split: prod.splits sum.splits if_splits)
  obtain extra where extra: "add_headers security_headers (rs_headers r) = rs_headers r @ extra" using add_headers_keeps by blast
  have "\<forall>(n, v)\<in>set security_headers. has_header n (rs_headers response)"
    by (auto simp: response add_headers_has) (force simp: has_header_def list_ex_iff)
  with extra show thesis by (intro that [OF r]) (simp_all add: response)
qed

section \<open>What is counted\<close>

lemma web_prefix_ends: "web_prefix m \<noteq> [] \<and> last (web_prefix m) \<noteq> CHR ''/''"
proof -
  have "last (rstrip_char c x) \<noteq> c" if "rstrip_char c x \<noteq> []" for c x
    using that hd_dropWhile [of "\<lambda>x. x = c" "rev x"] by (auto simp: rstrip_char_def last_rev)
  then show ?thesis by (auto simp: web_prefix_def Let_def)
qed

lemma api_labels:
  assumes "r \<in> set (health_router @ metrics_router @ auth_router @ configs_router @ templates_router
     @ system_router @ share_public_router @ share_admin_router @ docs_routes)"
    and "path_matches (rt_path r) (''/share/'' @ token)"
  shows "startswith (route_path r) ''/share/''"
  using assms
  unfolding health_router_def metrics_router_def auth_router_def configs_router_def templates_router_def
    system_router_def share_public_router_def share_admin_router_def docs_routes_def route_to_def Let_def
  by (auto simp: startswith_def route_path_def)

lemma under_share:
  assumes "startswith (''/share/'' @ token) x"
  shows "startswith x ''/share/'' \<or> x \<in> {[], ''/'', ''/s'', ''/sh'', ''/sha'', ''/shar'', ''/share''}"
proof -
  obtain t where t: "''/share/'' @ token = x @ t" using assms by (auto simp: startswith_iff)
  show ?thesis
  proof (cases "length x < 7")
    case True
    have "take (length x) (''/share/'' @ token) = x" by (simp only: t) simp
    then have "x = take (length x) ''/share/''" using True by (simp only: take_append) simp
    moreover from True have "length x = 0 \<or> length x = 1 \<or> length x = 2 \<or> length x = 3 \<or> length x = 4 \<or> length x = 5 \<or> length x = 6"
      by arith
    ultimately show ?thesis by (elim disjE) (simp_all add: numeral_eq_Suc)
  next
    case False
    then show ?thesis using arg_cong [OF t, of "take 7"] by (simp add: startswith_def)
  qed
qed

lemma web_labels:
  assumes "r \<in> set (setup_web_ui enabled m)" and "path_matches (rt_path r) (''/share/'' @ token)"
  shows "startswith (route_path r) ''/share/''"
proof -
  let ?p = "web_prefix m"
  let ?starts = "{[], ''/'', ''/s'', ''/sh'', ''/sha'', ''/shar'', ''/share''}"
  have p: "?p \<noteq> []" "last ?p \<noteq> CHR ''/''" using web_prefix_ends by auto
  consider "rt_path r = [Text (?p @ ''/static''), Text ''/'', Rest ''path'']" "rt_method r = None"
    | "rt_path r = [Text ''/favicon.ico'']" | "rt_path r = [Text (?p @ ''/''), Rest ''full_path'']" "rt_method r \<noteq> None"
    | "rt_path r = [Text ?p]" "rt_method r \<noteq> None"
    using assms(1) by (auto simp: setup_web_ui_def Let_def route_to_def split: if_splits)
  then show ?thesis
  proof cases
    case 1
    have "startswith (''/share/'' @ token) (?p @ ''/static'')" using assms(2) by (simp only: 1 path_matches.simps)
    from under_share [OF this] have "startswith (?p @ ''/static'') ''/share/'' \<or> ?p @ ''/static'' \<in> ?starts" .
    then show ?thesis
      using p(1) arg_cong [of "?p @ ''/static''" _ length] 1 by (auto simp: route_path_def)
  next
    case 2
    with assms(2) show ?thesis by (simp add: startswith_def)
  next
    case 3
    have "startswith (''/share/'' @ token) (?p @ ''/'')" using assms(2) by (simp only: 3 path_matches.simps)
    from under_share [OF this] have "startswith (?p @ ''/'') ''/share/'' \<or> ?p @ ''/'' \<in> ?starts" .
    then show ?thesis using p(1) 3 by (auto simp: route_path_def startswith_iff append_eq_Cons_conv)
  next
    case 4
    have m: "startswith (''/share/'' @ token) ?p" "drop (length ?p) (''/share/'' @ token) \<in> {[], newline}"
      using assms(2) by (simp_all only: 4 path_matches.simps) blast
    from under_share [OF m(1)] show ?thesis using m(2) 4 p(1) by (auto simp: route_path_def)
  qed
qed

lemma first_taken: "find (\<lambda>r. takes r m path) routes = Some r \<Longrightarrow> r \<in> set routes \<and> path_matches (rt_path r) path"
  by (auto simp: find_Some_iff takes_def)

lemma share_label:
  assumes "r \<in> set (create_app opts)" and "path_matches (rt_path r) (''/share/'' @ token)"
  shows "normalize_path (route_path r) = ''/share/{token}''"
proof -
  have "startswith (route_path r) ''/share/''"
    using assms(1) api_labels [OF _ assms(2)] web_labels [OF _ assms(2)]
    by (auto simp: create_app_def split: if_splits)
  then show ?thesis by (simp add: normalize_path_def)
qed

lemma no_id_in_label: "\<not> uuid_prefix (drop i (normalize_path path))"
proof -
  have short: "\<not> uuid_prefix (drop i ''/share/{token}'')" "\<not> uuid_prefix (drop i ''/api/v1/share/links'')"
    "\<not> uuid_prefix (drop i ''/api/v1/share/{token}'')"
    by (simp_all add: uuid_prefix_def)
  show ?thesis unfolding normalize_path_def using short no_uuid_left by (simp split: if_split)
qed

text \<open>
  C16. What is counted tells nothing about whom: no label holds an id, every request for a shared link is
  counted under one label, and the label of a request to revoke a link is one of a fixed set that the
  routes alone determine.
\<close>

theorem metric_labels_anonymous:
  "\<not> uuid_prefix (drop i (resolve_route_path routes http_method path))
   \<and> resolve_route_path (create_app opts) http_method (''/share/'' @ token) = ''/share/{token}''
   \<and> resolve_route_path routes http_method (''/api/v1/share/'' @ token)
       \<in> {''/api/v1/share/links'', ''/api/v1/share/{token}''} \<union> set (map (\<lambda>r. normalize_path (route_path r)) routes)"
proof (intro conjI)
  show "\<not> uuid_prefix (drop i (resolve_route_path routes http_method path))"
    by (auto simp: resolve_route_path_def no_id_in_label split: option.splits)
  have "normalize_path (''/share/'' @ token) = ''/share/{token}''"
    unfolding normalize_path_def by (simp only: startswith_self if_True)
  then show "resolve_route_path (create_app opts) http_method (''/share/'' @ token) = ''/share/{token}''"
    by (auto simp del: append.simps simp: resolve_route_path_def split: option.splits dest!: first_taken intro: share_label)
  have "normalize_path (''/api/v1/share/'' @ token) \<in> {''/api/v1/share/links'', ''/api/v1/share/{token}''}"
    by (simp add: normalize_path_def startswith_def)
  then show "resolve_route_path routes http_method (''/api/v1/share/'' @ token)
      \<in> {''/api/v1/share/links'', ''/api/v1/share/{token}''} \<union> set (map (\<lambda>r. normalize_path (route_path r)) routes)"
    using first_taken by (fastforce simp del: append.simps simp: resolve_route_path_def split: option.splits)
qed

text \<open>
  Of a path that no route takes, only the ids are hidden: whoever asks for paths that do not exist adds a
  label for each.
\<close>

lemma unknown_paths_are_labels:
  "resolve_route_path (create_app \<lparr>opt_metrics = True, opt_max_secure = True, opt_web = False, opt_mount_path = ''/admin''\<rparr>) ''GET'' ''/wp-login.php''
     = ''/wp-login.php''"
  by code_simp

end
