(* ===== verification/Responses.thy ===== *)
theory Responses
  imports Settings
begin

text \<open>
  The documents the panel answers with: the response models of \<open>panel/api/schemas\<close>, filled the
  way the endpoints of \<open>panel/api/routers\<close> fill them. A model is written as the document the
  framework makes of it, its fields in the order of their declaration. How an instant is written is the
  framework's and a parameter; an identifier of type UUID is written as \<open>str\<close> does.
\<close>

section \<open>Values that may be missing\<close>

definition json_opt :: "('a \<Rightarrow> json) \<Rightarrow> 'a option \<Rightarrow> json" where
  "json_opt f x = (case x of None \<Rightarrow> JNull | Some y \<Rightarrow> f y)"

lemma json_opt_simps [simp]: "json_opt f None = JNull" "json_opt f (Some x) = f x"
  by (simp_all add: json_opt_def)

definition json_flags :: "(string \<times> bool) list \<Rightarrow> json" where
  "json_flags flags = JDict (map (\<lambda>(k, b). (k, JBool b)) flags)"

abbreviation json_id :: "uuid \<Rightarrow> json" where
  "json_id i \<equiv> JStr (uuid_str i)"

section \<open>Health and signing in\<close>

definition health_response :: json where
  "health_response = JDict [(''status'', JStr ''ok'')]"

definition login_response :: "string \<Rightarrow> json" where
  "login_response token = JDict [(''access_token'', JStr token), (''token_type'', JStr ''bearer'')]"

section \<open>Configurations\<close>

definition config_version_response :: "(int \<Rightarrow> string) \<Rightarrow> version_response \<Rightarrow> json" where
  "config_version_response stamp v = JDict
     [(''id'', JStr (vr_id v)), (''version'', JInt (vr_version v)), (''port'', JInt (vr_port v)),
      (''public_key'', JStr (vr_public_key v)), (''cert_fingerprint'', JStr (vr_cert_fingerprint v)),
      (''created_at'', JStr (stamp (vr_created_at v)))]"

definition config_list_item_response :: "(int \<Rightarrow> string) \<Rightarrow> config_list_item \<Rightarrow> json" where
  "config_list_item_response stamp i = JDict
     [(''id'', JStr (config_list_item.li_id i)), (''name'', JStr (li_name i)), (''protocol'', JStr (protocol_value (li_protocol i))),
      (''status'', JStr (status_value (li_status i))), (''current_version'', json_opt JInt (li_current_version i)),
      (''is_active'', JBool (li_is_active i)), (''created_at'', JStr (stamp (config_list_item.li_created_at i))),
      (''updated_at'', JStr (stamp (li_updated_at i)))]"

definition config_list_json :: "(int \<Rightarrow> string) \<Rightarrow> config_list_response \<Rightarrow> json" where
  "config_list_json stamp r = JDict
     [(''items'', JList (map (config_list_item_response stamp) (lr_items r))), (''total'', JInt (int (lr_total r))),
      (''limit'', JInt (lr_limit r)), (''offset'', JInt (lr_offset r))]"

definition config_detail_response :: "(int \<Rightarrow> string) \<Rightarrow> config_detail \<Rightarrow> json" where
  "config_detail_response stamp d = JDict
     [(''id'', JStr (dt_id d)), (''name'', JStr (dt_name d)), (''protocol'', JStr (protocol_value (dt_protocol d))),
      (''profile'', JStr (profile_value (dt_profile d))), (''status'', JStr (status_value (dt_status d))),
      (''current_version'', json_opt JInt (dt_current_version d)), (''last_task_id'', json_opt JStr (dt_last_task_id d)),
      (''error_message'', json_opt JStr (dt_error_message d)), (''is_active'', JBool (dt_is_active d)),
      (''created_by'', JStr (dt_created_by d)), (''updated_by'', JStr (dt_updated_by d)),
      (''created_at'', JStr (stamp (dt_created_at d))), (''updated_at'', JStr (stamp (dt_updated_at d))),
      (''current_version_detail'', json_opt (config_version_response stamp) (dt_version_detail d)),
      (''regenerate_policy'', json_opt json_flags (dt_regenerate_policy d)),
      (''share_public_host'', json_opt JStr (dt_share_public_host d))]"

text \<open>The answer to a creation and to a regeneration.\<close>

definition create_config_response :: "string \<times> string \<Rightarrow> json" where
  "create_config_response r = (case r of (task_id, config_id) \<Rightarrow>
     JDict [(''task_id'', JStr task_id), (''config_id'', JStr config_id)])"

definition regenerate_config_response :: "string \<times> string \<Rightarrow> json" where
  "regenerate_config_response r = (case r of (task_id, config_id) \<Rightarrow>
     JDict [(''task_id'', JStr task_id), (''config_id'', JStr config_id)])"

definition regenerate_all_response :: "(string \<times> string) list \<times> (string \<times> string) list \<Rightarrow> json" where
  "regenerate_all_response r = (case r of (queued, skipped) \<Rightarrow> JDict
     [(''queued'', JList (map (\<lambda>(i, t). JDict [(''config_id'', JStr i), (''task_id'', JStr t)]) queued)),
      (''skipped'', JList (map (\<lambda>(i, r). JDict [(''config_id'', JStr i), (''reason'', JStr r)]) skipped))])"

definition config_data_response :: "config_data_result \<Rightarrow> json" where
  "config_data_response r = JDict
     [(''config_id'', json_id (cd_config_id r)), (''version'', JInt (cd_version r)), (''profile'', JStr (cd_profile r)),
      (''format'', JStr (cd_format r)), (''content'', JStr (cd_content r)), (''config_data'', cd_config_data r)]"

text \<open>
  What the broker says of a task is read as the model's fields are declared: a status that is no text, or
  counts that are no numbers, make the model refuse its fields.
\<close>

definition config_status_response :: "coercion \<Rightarrow> config_task_status \<Rightarrow> exn + json" where
  "config_status_response co r =
     bindR (nullable (co_str co) (json_opt ts_status (ct_task r))) (\<lambda>task_status.
     bindR (nullable (co_int co) (json_opt ts_retries (ct_task r))) (\<lambda>retries.
     bindR (nullable (co_int co) (json_opt ts_max_retries (ct_task r))) (\<lambda>max_retries.
     Inr (JDict
       [(''config_id'', json_id (ct_config_id r)), (''status'', JStr (status_value (ct_status r))),
        (''task_id'', json_opt JStr (ct_task_id r)), (''task_status'', json_opt JStr task_status),
        (''retries'', json_opt JInt retries), (''max_retries'', json_opt JInt max_retries),
        (''error_message'', json_opt JStr (ct_error_message r)),
        (''runtime_online'', json_opt JBool (Option.bind (ct_runtime r) rp_online)),
        (''runtime_systemd_active'', json_opt JBool (Option.bind (ct_runtime r) rp_systemd_active)),
        (''runtime_port_listening'', json_opt JBool (Option.bind (ct_runtime r) rp_port_listening)),
        (''runtime_detail'', json_opt JStr (Option.bind (ct_runtime r) rp_detail))]))))"

definition config_logs_response :: "config_logs_result \<Rightarrow> json" where
  "config_logs_response r = JDict
     [(''config_id'', json_id (cl_config_id r)), (''service_name'', json_opt JStr (cl_service_name r)),
      (''lines'', JInt (cl_lines r)), (''content'', JStr (cl_content r)), (''available'', JBool (cl_available r))]"

definition config_runtime_item_response :: "runtime_status \<Rightarrow> json" where
  "config_runtime_item_response r = JDict
     [(''config_id'', json_id (rs_config_id r)), (''online'', json_opt JBool (rp_online (rs_probe r))),
      (''systemd_active'', json_opt JBool (rp_systemd_active (rs_probe r))),
      (''port_listening'', json_opt JBool (rp_port_listening (rs_probe r))),
      (''detail'', json_opt JStr (rp_detail (rs_probe r)))]"

definition config_runtime_list_response :: "runtime_status list \<Rightarrow> json" where
  "config_runtime_list_response items = JDict [(''items'', JList (map config_runtime_item_response items))]"

section \<open>Share links\<close>

text \<open>A link to one configuration leaves the count at its default; a link to all says so and counts them.\<close>

definition create_share_link_response :: "(int \<Rightarrow> string) \<Rightarrow> share_link_result \<Rightarrow> json" where
  "create_share_link_response stamp r = JDict
     [(''token'', JStr (sl_token r)), (''url'', JStr (sl_url r)), (''secure'', JBool (sl_secure r)), (''all_configs'', JBool False),
      (''config_count'', JNull), (''is_permanent'', JBool (sl_is_permanent r)),
      (''expires_at'', json_opt (\<lambda>t. JStr (stamp t)) (sl_expires_at r))]"

definition create_all_share_links_response :: "(int \<Rightarrow> string) \<Rightarrow> share_link_result \<Rightarrow> json" where
  "create_all_share_links_response stamp r = JDict
     [(''token'', JStr (sl_token r)), (''url'', JStr (sl_url r)), (''secure'', JBool (sl_secure r)), (''all_configs'', JBool True),
      (''config_count'', json_opt (\<lambda>n. JInt (int n)) (sl_config_count r)), (''is_permanent'', JBool (sl_is_permanent r)),
      (''expires_at'', json_opt (\<lambda>t. JStr (stamp t)) (sl_expires_at r))]"

definition share_link_list_item :: "(int \<Rightarrow> string) \<Rightarrow> share_link_item \<Rightarrow> json" where
  "share_link_list_item stamp i = JDict
     [(''id'', json_id (share_link_item.li_id i)), (''all_configs'', JBool (li_all_configs i)),
      (''config_id'', json_opt json_id (li_config_id i)), (''config_name'', json_opt JStr (li_config_name i)),
      (''secure'', JBool (li_secure i)), (''is_permanent'', JBool (li_is_permanent i)), (''created_by'', JStr (li_created_by i)),
      (''created_at'', JStr (stamp (share_link_item.li_created_at i))),
      (''expires_at'', json_opt (\<lambda>t. JStr (stamp t)) (li_expires_at i)), (''access_count'', JInt (li_access_count i)),
      (''last_accessed_at'', json_opt (\<lambda>t. JStr (stamp t)) (li_last_accessed_at i))]"

definition share_link_list_response :: "(int \<Rightarrow> string) \<Rightarrow> share_link_item list \<times> nat \<Rightarrow> json" where
  "share_link_list_response stamp r = (case r of (items, n) \<Rightarrow>
     JDict [(''items'', JList (map (share_link_list_item stamp) items)), (''total'', JInt (int n))])"

section \<open>Templates\<close>

definition template_list_item_response :: "template_info \<Rightarrow> json" where
  "template_list_item_response i = JDict
     [(''profile'', JStr (ti_profile i)), (''template_file'', JStr (ti_template_file i)), (''path'', JStr (ti_path i)),
      (''format'', JStr (ti_format i)), (''exists'', JBool (ti_exists i))]"

definition template_list_response :: "template_info list \<Rightarrow> json" where
  "template_list_response items = JDict [(''items'', JList (map template_list_item_response items))]"

definition template_content_response :: "template_content \<Rightarrow> json" where
  "template_content_response r = JDict
     [(''profile'', JStr (tc_profile r)), (''template_file'', JStr (tc_template_file r)), (''path'', JStr (tc_path r)),
      (''format'', JStr (tc_format r)), (''content'', JStr (tc_content r))]"

end
