(* ===== verification/Gateway.thy ===== *)
theory Gateway
  imports System Responses
begin

text \<open>
  From a request on the wire to its answer: the route that takes it, the user its token stands for, the
  parameters of path and query and the document of the body read into what the endpoint is called with
  (the signatures in \<open>panel/api/routers\<close>, the request models in \<open>panel/api/schemas\<close>), the
  endpoint, and the document it answers with. Every request is shown to be a step of the system of
  theory \<open>System\<close>, taken on behalf of the bearer of its token, or to change nothing.
\<close>

section \<open>What a client sends\<close>

datatype web_body = No_Body | Not_Json | Body json

record web_request =
  wr_method :: string
  wr_path :: string
  wr_query :: "(string \<times> string) list"
  wr_credentials :: "string option"
  wr_body :: web_body
  wr_from :: http_request
  wr_base_url :: string

text \<open>The ids, times, nonces and picks that are drawn while a request is served.\<close>

record web_draws =
  wd_now :: int
  wd_audit :: uuid
  wd_use :: use_draws
  wd_each :: "uuid \<Rightarrow> use_draws"
  wd_share :: share_draws
  wd_pick :: "nat \<Rightarrow> nat"

text \<open>
  The panel as it is set up. What pydantic makes of a scalar, an identifier or an instant belongs to that
  library; the pages that hold no data of the panel (metrics, the interface and its documentation, the
  readings of the machine's resources) answer by themselves.
\<close>

record web_env =
  we_system :: system_env
  we_options :: app_options
  we_coercion :: coercion
  we_uuid :: "json \<Rightarrow> exn + uuid"
  we_datetime :: "json \<Rightarrow> exn + datetime"
  we_stamp :: "int \<Rightarrow> string"
  we_net :: net_env
  we_cwd :: string
  we_page :: "string \<Rightarrow> string \<Rightarrow> json reply"

text \<open>The values of the parameters of a path; a regular expression takes as much as it can.\<close>

fun first_some :: "('a \<Rightarrow> 'b option) \<Rightarrow> 'a list \<Rightarrow> 'b option" where
  "first_some f [] = None"
| "first_some f (x # xs) = (case f x of None \<Rightarrow> first_some f xs | Some y \<Rightarrow> Some y)"

fun path_params :: "piece list \<Rightarrow> string \<Rightarrow> string list option" where
  "path_params [] s = (if s = [] \<or> s = newline then Some [] else None)"
| "path_params (Text t # ps) s = (if startswith s t then path_params ps (drop (length t) s) else None)"
| "path_params (Segment name # ps) s =
     first_some (\<lambda>n. map_option ((#) (take n s)) (path_params ps (drop n s)))
       (rev [1..<Suc (length (takeWhile (\<lambda>c. c \<noteq> CHR ''/'') s))])"
| "path_params (Rest name # ps) s =
     first_some (\<lambda>n. map_option ((#) (take n s)) (path_params ps (drop n s)))
       (rev [0..<Suc (length (takeWhile (\<lambda>c. c \<noteq> CHR 0x0A) s))])"

lemma first_some_None: "first_some f xs = None \<longleftrightarrow> (\<forall>x\<in>set xs. f x = None)"
  by (induction xs) (auto split: option.splits)

text \<open>A path has parameters exactly when it matches.\<close>

lemma path_params_matches: "path_params ps s \<noteq> None \<longleftrightarrow> path_matches ps s"
proof (induction ps s rule: path_matches.induct)
  case (3 name ps s)
  have "path_params (Segment name # ps) s = None
      \<longleftrightarrow> (\<forall>n\<in>set [1..<Suc (length (takeWhile (\<lambda>c. c \<noteq> CHR ''/'') s))]. path_params ps (drop n s) = None)"
    by (simp add: first_some_None del: upt_Suc)
  then show ?case using 3 by (auto simp: list_ex_iff simp del: upt_Suc path_params.simps)
next
  case (4 name ps s)
  have "path_params (Rest name # ps) s = None
      \<longleftrightarrow> (\<forall>n\<in>set [0..<Suc (length (takeWhile (\<lambda>c. c \<noteq> CHR 0x0A) s))]. path_params ps (drop n s) = None)"
    by (simp add: first_some_None del: upt_Suc)
  then show ?case using 4 by (auto simp: list_ex_iff simp del: upt_Suc path_params.simps)
qed simp_all

section \<open>Reading the parameters and the body\<close>

text \<open>Of a query parameter that is given more than once the last counts.\<close>

definition query_value :: "web_request \<Rightarrow> string \<Rightarrow> 'a reader \<Rightarrow> 'a \<Rightarrow> exn + 'a" where
  "query_value rq k r x = (case map_of (rev (wr_query rq)) k of None \<Rightarrow> Inr x | Some v \<Rightarrow> r (JStr v))"

definition body_as :: "web_request \<Rightarrow> 'a reader \<Rightarrow> exn + 'a" where
  "body_as rq r = (case wr_body rq of Body v \<Rightarrow> r v | _ \<Rightarrow> invalid)"

definition read_protocol :: "vpn_protocol_type reader" where
  "read_protocol v = (if v = JStr ''xray'' then Inr XRAY else if v = JStr ''hysteria2'' then Inr HYSTERIA2_PROTOCOL else invalid)"

definition read_profile_value :: "config_profile reader" where
  "read_profile_value v = (case v of JStr s \<Rightarrow> parse_profile s | _ \<Rightarrow> invalid)"

definition read_object :: "json reader" where
  "read_object v = (if is_jdict v then Inr v else invalid)"

definition read_login_request :: "coercion \<Rightarrow> login_request reader" where
  "read_login_request co = model (\<lambda>d.
     bindR (required d ''username'' (co_str co)) (\<lambda>username.
     bindR (required d ''password'' (co_str co)) (\<lambda>password.
     Inr \<lparr>lg_username = username, lg_password = password\<rparr>)))"

definition read_create_config_request :: "coercion \<Rightarrow> create_config_request reader" where
  "read_create_config_request co = model (\<lambda>d.
     bindR (required d ''name'' (co_str co)) (\<lambda>name.
     bindR (required d ''protocol'' read_protocol) (\<lambda>protocol.
     bindR (defaulting d ''profile'' (nullable read_profile_value) None) (\<lambda>p.
     bindR (defaulting d ''regenerate_policy'' (nullable (dict_of (co_bool co))) None) (\<lambda>policy.
     bindR (defaulting d ''share_public_host'' (nullable (co_str co)) None) (\<lambda>share_host.
     Inr \<lparr>cr_name = name, cr_protocol = protocol, cr_profile = p, cr_policy = policy, cr_share_host = share_host\<rparr>))))))"

definition read_policy_request :: "coercion \<Rightarrow> (string \<times> bool) list reader" where
  "read_policy_request co = model (\<lambda>d. required d ''regenerate_policy'' (dict_of (co_bool co)))"

definition read_config_data_request :: "coercion \<Rightarrow> config_data_request reader" where
  "read_config_data_request co = model (\<lambda>d.
     bindR (defaulting d ''content'' (nullable (co_str co)) None) (\<lambda>content.
     bindR (defaulting d ''format'' (nullable (co_str co)) None) (\<lambda>fmt.
     bindR (defaulting d ''config_data'' (nullable read_object) None) (\<lambda>data.
     Inr \<lparr>dr_content = content, dr_format = fmt, dr_config_data = data\<rparr>))))"

definition read_share_request :: "coercion \<Rightarrow> (json \<Rightarrow> exn + datetime) \<Rightarrow> share_request reader" where
  "read_share_request co dt = model (\<lambda>d.
     bindR (defaulting d ''is_permanent'' (co_bool co) True) (\<lambda>permanent.
     bindR (defaulting d ''expires_at'' (nullable dt) None) (\<lambda>expires.
     bindR (defaulting d ''ttl_seconds'' (nullable (ranged 1 None (co_int co))) None) (\<lambda>ttl.
     bindR (defaulting d ''secure'' (co_bool co) True) (\<lambda>secure.
     Inr \<lparr>rq_secure = secure, rq_is_permanent = permanent, rq_expires_at = expires, rq_ttl_seconds = ttl\<rparr>)))))"

definition read_template_request :: "coercion \<Rightarrow> string reader" where
  "read_template_request co = model (\<lambda>d. required d ''content'' (co_str co))"

section \<open>The calls\<close>

text \<open>What an endpoint is called with: by anyone, and by the user a token stands for.\<close>

datatype open_call =
    Health
  | Page string
  | SignInWith login_request
  | OpenLink string

datatype user_call =
    Document string
  | Configs config_request
  | RuntimeReport "vpn_protocol_type option"
  | StatusReport uuid
  | LogsReport uuid int
  | ShareConfig uuid share_request
  | ShareAll share_request
  | ListLinks "uuid option"
  | RevokeToken string
  | RevokeLink uuid
  | ListTemplates
  | ShowTemplate string
  | SaveTemplate string string

definition read_open_call :: "web_env \<Rightarrow> web_request \<Rightarrow> string \<Rightarrow> string list \<Rightarrow> exn + open_call" where
  "read_open_call env rq name params =
     (if name = ''login'' then bindR (body_as rq (read_login_request (we_coercion env))) (\<lambda>lg. Inr (SignInWith lg))
      else if name = ''resolve_share'' then Inr (OpenLink (hd params))
      else if name = ''health'' then Inr Health
      else Inr (Page name))"

definition read_user_call :: "web_env \<Rightarrow> web_draws \<Rightarrow> web_request \<Rightarrow> string \<Rightarrow> string list \<Rightarrow> exn + user_call" where
  "read_user_call env dr rq name params =
     (let co = we_coercion env; item = we_uuid env (JStr (hd params)); any_protocol = query_value rq ''protocol'' (\<lambda>v. bindR (read_protocol v) (\<lambda>p. Inr (Some p))) None in
      if name = ''list_configs'' then
        bindR any_protocol (\<lambda>p.
        bindR (query_value rq ''limit'' (co_int co) 50) (\<lambda>limit.
        bindR (query_value rq ''offset'' (co_int co) 0) (\<lambda>offset. Inr (Configs (ListConfigs p limit offset)))))
      else if name = ''get_configs_runtime'' then bindR any_protocol (\<lambda>p. Inr (RuntimeReport p))
      else if name = ''create_config'' then
        bindR (body_as rq (read_create_config_request co)) (\<lambda>r. Inr (Configs (CreateConfig (wd_use dr) r)))
      else if name = ''regenerate_all_configs'' then Inr (Configs (RegenerateAll (wd_each dr) (wd_use dr)))
      else if name = ''regenerate_config'' then bindR item (\<lambda>i. Inr (Configs (Regenerate (wd_use dr) i)))
      else if name = ''create_share_link'' then
        bindR item (\<lambda>i. bindR (body_as rq (read_share_request co (we_datetime env))) (\<lambda>r. Inr (ShareConfig i r)))
      else if name = ''get_config_status'' then bindR item (\<lambda>i. Inr (StatusReport i))
      else if name = ''get_config_logs'' then
        bindR item (\<lambda>i. bindR (query_value rq ''lines'' (co_int co) 100) (\<lambda>n. Inr (LogsReport i n)))
      else if name = ''get_config_data'' then bindR item (\<lambda>i. Inr (Configs (ReadData i)))
      else if name = ''update_config_data'' then
        bindR item (\<lambda>i. bindR (body_as rq (read_config_data_request co)) (\<lambda>r. Inr (Configs (EditData (wd_use dr) i r))))
      else if name = ''get_config'' then bindR item (\<lambda>i. Inr (Configs (ShowConfig i)))
      else if name = ''update_regenerate_policy'' then
        bindR item (\<lambda>i. bindR (body_as rq (read_policy_request co)) (\<lambda>p. Inr (Configs (PatchPolicy (wd_use dr) i p))))
      else if name = ''delete_config'' then bindR item (\<lambda>i. Inr (Configs (DeleteConfig (wd_use dr) i)))
      else if name = ''list_templates'' then Inr ListTemplates
      else if name = ''get_template'' then Inr (ShowTemplate (hd params))
      else if name = ''update_template'' then
        bindR (body_as rq (read_template_request co)) (\<lambda>content. Inr (SaveTemplate (hd params) content))
      else if name = ''list_active_share_links'' then
        bindR (query_value rq ''config_id'' (\<lambda>v. bindR (we_uuid env v) (\<lambda>i. Inr (Some i))) None) (\<lambda>i. Inr (ListLinks i))
      else if name = ''revoke_share_link_by_id'' then bindR item (\<lambda>i. Inr (RevokeLink i))
      else if name = ''create_all_share_links'' then
        bindR (body_as rq (read_share_request co (we_datetime env))) (\<lambda>r. Inr (ShareAll r))
      else if name = ''revoke_share'' then Inr (RevokeToken (hd params))
      else Inr (Document name))"

text \<open>The endpoints with a body; the framework parses it before anything else.\<close>

definition reads_body :: "string \<Rightarrow> bool" where
  "reads_body name = (name \<in> {''login'', ''create_config'', ''create_share_link'', ''update_config_data'', ''update_regenerate_policy'',
     ''update_template'', ''create_all_share_links''})"

section \<open>Running a call\<close>

record gateway =
  gw_app :: app
  gw_cache :: probe_cache

fun run_config_call :: "(int \<Rightarrow> string) \<Rightarrow> app_env \<Rightarrow> user \<Rightarrow> config_request \<Rightarrow> app \<Rightarrow> app \<times> json reply" where
  "run_config_call stamp env u (ListConfigs p limit offset) s = map_prod id (map_reply (config_list_json stamp)) (list_configs_endpoint p limit offset s)"
| "run_config_call stamp env u (CreateConfig dr rq) s = map_prod id (map_reply create_config_response) (create_config_endpoint env dr u rq s)"
| "run_config_call stamp env u (RegenerateAll dr dr0) s = map_prod id (map_reply regenerate_all_response) (regenerate_all_endpoint env dr dr0 u s)"
| "run_config_call stamp env u (Regenerate dr i) s = map_prod id (map_reply regenerate_config_response) (regenerate_config_endpoint env dr u i s)"
| "run_config_call stamp env u (ReadData i) s = map_prod id (map_reply config_data_response) (get_config_data_endpoint env i s)"
| "run_config_call stamp env u (EditData dr i rq) s = map_prod id (map_reply config_data_response) (update_config_data_endpoint env dr u i rq s)"
| "run_config_call stamp env u (ShowConfig i) s = map_prod id (map_reply (config_detail_response stamp)) (get_config_endpoint env i s)"
| "run_config_call stamp env u (PatchPolicy dr i upd) s = map_prod id (map_reply (config_detail_response stamp)) (update_policy_endpoint env dr u i upd s)"
| "run_config_call stamp env u (DeleteConfig dr i) s = map_prod id (map_reply (\<lambda>_. JNull)) (delete_config_endpoint env dr u i s)"

definition watcher_of :: "gateway \<Rightarrow> watcher" where
  "watcher_of s = \<lparr>wt_cache = gw_cache s, wt_host = a_host (gw_app s), wt_sent = a_sent (gw_app s)\<rparr>"

definition with_watcher :: "watcher \<Rightarrow> gateway \<Rightarrow> gateway" where
  "with_watcher w s = s\<lparr>gw_app := (gw_app s)\<lparr>a_host := wt_host w, a_sent := wt_sent w\<rparr>, gw_cache := wt_cache w\<rparr>"

text \<open>An endpoint that works on the database alone.\<close>

definition on_db :: "('a \<Rightarrow> json) \<Rightarrow> (db \<Rightarrow> db \<times> 'a reply) \<Rightarrow> gateway \<Rightarrow> (gateway \<times> json reply) option" where
  "on_db f m s = (case m (database (gw_app s)) of (d, r) \<Rightarrow> Some (s\<lparr>gw_app := with_db d (gw_app s)\<rparr>, map_reply f r))"

definition on_app :: "('a \<Rightarrow> json) \<Rightarrow> (app \<Rightarrow> app \<times> 'a reply) \<Rightarrow> gateway \<Rightarrow> (gateway \<times> json reply) option" where
  "on_app f m s = (case m (gw_app s) of (a, r) \<Rightarrow> Some (s\<lparr>gw_app := a\<rparr>, map_reply f r))"

definition on_watcher :: "('a reply \<Rightarrow> json reply) \<Rightarrow> (watcher \<Rightarrow> (watcher \<times> 'a reply) option) \<Rightarrow> gateway \<Rightarrow> (gateway \<times> json reply) option" where
  "on_watcher f m s = (case m (watcher_of s) of None \<Rightarrow> None | Some (w, r) \<Rightarrow> Some (with_watcher w s, f r))"

text \<open>A response model that refuses its fields raises in the endpoint.\<close>

fun checked_reply :: "('a \<Rightarrow> exn + json) \<Rightarrow> 'a reply \<Rightarrow> json reply" where
  "checked_reply f (Failed code detail) = Failed code detail"
| "checked_reply f (Reply x) = (case f x of Inl e \<Rightarrow> internal_error | Inr j \<Rightarrow> Reply j)"

fun run_open_call :: "web_env \<Rightarrow> web_draws \<Rightarrow> web_request \<Rightarrow> open_call \<Rightarrow> gateway \<Rightarrow> (gateway \<times> json reply) option" where
  "run_open_call env dr rq Health s = Some (s, Reply health_response)"
| "run_open_call env dr rq (Page name) s = Some (s, we_page env name (wr_path rq))"
| "run_open_call env dr rq (SignInWith lg) s =
     on_db login_response (login_endpoint (se_auth (we_system env)) (ae_settings (se_app (we_system env))) (se_security (we_system env))
       (wd_audit dr) (wd_now dr) lg (wr_from rq)) s"
| "run_open_call env dr rq (OpenLink token) s =
     on_db JStr (resolve_share_endpoint (ae_cipher (se_app (we_system env))) (ae_settings (se_app (we_system env))) (wd_pick dr) token
       (wr_from rq) (wd_now dr)) s"

fun run_user_call :: "web_env \<Rightarrow> web_draws \<Rightarrow> web_request \<Rightarrow> user \<Rightarrow> user_call \<Rightarrow> gateway \<Rightarrow> (gateway \<times> json reply) option" where
  "run_user_call env dr rq u (Document name) s = Some (s, we_page env name (wr_path rq))"
| "run_user_call env dr rq u (Configs r) s = on_app id (run_config_call (we_stamp env) (se_app (we_system env)) u r) s"
| "run_user_call env dr rq u (RuntimeReport p) s =
     on_watcher (map_reply config_runtime_list_response)
       (runtime_endpoint (we_net env) (ae_settings (se_app (we_system env))) (database (gw_app s)) p) s"
| "run_user_call env dr rq u (StatusReport i) s =
     on_watcher (checked_reply (config_status_response (we_coercion env)))
       (config_status_endpoint (we_net env) (ae_http (se_app (we_system env))) (ae_settings (se_app (we_system env)))
         (database (gw_app s)) i) s"
| "run_user_call env dr rq u (LogsReport i n) s =
     on_app config_logs_response (\<lambda>a. case config_logs_endpoint (ae_os (se_app (we_system env))) (ae_settings (se_app (we_system env)))
       (database a) i n (a_host a) of (h, r) \<Rightarrow> (a\<lparr>a_host := h\<rparr>, r)) s"
| "run_user_call env dr rq u (ShareConfig i r) s =
     on_db (create_share_link_response (we_stamp env))
       (create_share_link_endpoint (ae_settings (se_app (we_system env))) (wd_share dr) i u r (wr_base_url rq)) s"
| "run_user_call env dr rq u (ShareAll r) s =
     on_db (create_all_share_links_response (we_stamp env))
       (create_all_share_links_endpoint (ae_settings (se_app (we_system env))) (wd_share dr) u r (wr_base_url rq)) s"
| "run_user_call env dr rq u (ListLinks i) s =
     on_db (share_link_list_response (we_stamp env)) (list_active_share_links_endpoint (wd_now dr) i) s"
| "run_user_call env dr rq u (RevokeToken token) s =
     on_db (\<lambda>_. JNull) (revoke_share_endpoint (ae_settings (se_app (we_system env))) (wd_audit dr) (wd_now dr) token u) s"
| "run_user_call env dr rq u (RevokeLink i) s =
     on_db (\<lambda>_. JNull) (revoke_share_by_id_endpoint (ae_settings (se_app (we_system env))) (wd_audit dr) (wd_now dr) i u) s"
| "run_user_call env dr rq u ListTemplates s =
     on_app template_list_response (list_templates_endpoint (se_app (we_system env)) (we_cwd env)) s"
| "run_user_call env dr rq u (ShowTemplate key) s =
     on_app template_content_response (get_template_endpoint (se_app (we_system env)) (we_cwd env) key) s"
| "run_user_call env dr rq u (SaveTemplate key content) s =
     on_app template_content_response (update_template_endpoint (se_app (we_system env)) (wd_use dr) (we_cwd env) u key content) s"

text \<open>
  A request: the route, the body if it reads one, the dependencies, the parameters, the endpoint. A probe
  that does not come back leaves the request without an answer.
\<close>

definition handle_request :: "web_env \<Rightarrow> web_draws \<Rightarrow> web_request \<Rightarrow> gateway \<Rightarrow> (gateway \<times> json reply) option" where
  "handle_request env dr rq s =
     (case route_for (create_app (we_options env)) (wr_method rq) (wr_path rq) of
        Failed code detail \<Rightarrow> Some (s, Failed code detail)
      | Reply route \<Rightarrow>
          if wr_body rq = Not_Json \<and> reads_body (rt_name route) then Some (s, unprocessable)
          else let params = the_or [] (path_params (rt_path route) (wr_path rq)) in
            (case admit (we_options env) (se_auth (we_system env)) (se_security (we_system env)) (wd_now dr) (wr_credentials rq)
                (database (gw_app s)) (wr_method rq) (wr_path rq) of
               Failed code detail \<Rightarrow> Some (s, Failed code detail)
             | Reply (name, None) \<Rightarrow> (case read_open_call env rq name params of
                 Inl e \<Rightarrow> Some (s, unprocessable)
               | Inr call \<Rightarrow> run_open_call env dr rq call s)
             | Reply (name, Some u) \<Rightarrow> (case read_user_call env dr rq name params of
                 Inl e \<Rightarrow> Some (s, unprocessable)
               | Inr call \<Rightarrow> run_user_call env dr rq u call s)))"

section \<open>A request is a step of the system\<close>

lemma config_call_request: "fst (run_config_call stamp env u rq s) = fst (run_config_request env u rq s)"
  by (cases rq) (simp_all add: split_beta)

text \<open>Who acts in a step.\<close>

fun acting_user :: "system_event \<Rightarrow> user option" where
  "acting_user (ConfigRequest u rq status) = Some u"
| "acting_user (ShareRequest e) = share_user e"
| "acting_user (TemplateEdit u) = Some u"
| "acting_user (StatusRequest u) = Some u"
| "acting_user _ = None"

lemma at_rest_simps:
  assumes "at_rest s"
  shows "with_db (database s) s = s" "close_session s = s"
  using assms by (simp_all add: at_rest_def with_db_def close_session_def open_session_def)

lemma host_request:
  assumes "at_rest s"
  shows "fst (endpoint clauses (on_host (\<lambda>h. (h, f h))) s) = s"
  using assms by (simp add: endpoint_def on_host_def at_rest_simps)

definition bearer_step :: "web_env \<Rightarrow> (user \<Rightarrow> bool) \<Rightarrow> app \<Rightarrow> app \<Rightarrow> bool" where
  "bearer_step env bearer s s' \<longleftrightarrow> s' = s \<or> (\<exists>e. system_step (we_system env) s e s' \<and> (\<forall>u. acting_user e = Some u \<longrightarrow> bearer u))"

lemma bearer_machine: "bearer_step env bearer s (s\<lparr>a_host := h\<rparr>)"
  unfolding bearer_step_def by (rule disjI2, rule exI [of _ Machine]) (simp add: system_step.machine)

lemma bearer_share:
  assumes run: "on_db f m s = Some (s', r)"
    and event: "fst (m (database (gw_app s))) = run_share_event (ae_cipher (se_app (we_system env))) (ae_settings (se_app (we_system env))) e (database (gw_app s))"
    and user: "\<And>u. share_user e = Some u \<Longrightarrow> bearer u \<and> signed_in (we_system env) (gw_app s) u"
  shows "bearer_step env bearer (gw_app s) (gw_app s')"
proof -
  have "gw_app s' = with_db (run_share_event (ae_cipher (se_app (we_system env))) (ae_settings (se_app (we_system env))) e (database (gw_app s))) (gw_app s)"
    using run event by (auto simp: on_db_def split: prod.splits)
  then show ?thesis unfolding bearer_step_def using user
    by (intro disjI2 exI [of _ "ShareRequest e"] conjI) (auto intro: system_step.share_request)
qed

lemma open_call_step:
  assumes rest: "at_rest (gw_app s)" and run: "run_open_call env dr rq call s = Some (s', r)"
  shows "bearer_step env bearer (gw_app s) (gw_app s')"
proof (cases call)
  case (SignInWith lg)
  then obtain d r' where l: "login_endpoint (se_auth (we_system env)) (ae_settings (se_app (we_system env))) (se_security (we_system env))
       (wd_audit dr) (wd_now dr) lg (wr_from rq) (database (gw_app s)) = (d, r')" "gw_app s' = with_db d (gw_app s)"
    using run by (auto simp: on_db_def split: prod.splits)
  from system_step.sign_in [OF l(1)] l(2) show ?thesis unfolding bearer_step_def
    by (intro disjI2 exI [of _ "SignIn (wd_audit dr, wd_now dr, lg, wr_from rq)"]) simp
next
  case (OpenLink token)
  show ?thesis by (rule bearer_share [where e = "LinkResolve (wd_pick dr) token (wr_from rq) (wd_now dr)", OF run [unfolded OpenLink run_open_call.simps]]) simp_all
qed (use run in \<open>simp_all add: bearer_step_def\<close>)

lemma user_call_step:
  assumes rest: "at_rest (gw_app s)" and user: "signed_in (we_system env) (gw_app s) u" and run: "run_user_call env dr rq u call s = Some (s', r)"
  shows "bearer_step env (\<lambda>v. v = u) (gw_app s) (gw_app s')"
proof (cases call)
  case (Document name)
  then show ?thesis using run by (simp add: bearer_step_def)
next
  case (Configs c)
  have "run_config_request (se_app (we_system env)) u c (gw_app s) = (gw_app s', snd (run_config_request (se_app (we_system env)) u c (gw_app s)))"
    using run Configs config_call_request [of "we_stamp env" "se_app (we_system env)" u c "gw_app s"]
    by (auto simp: on_app_def prod_eq_iff split: prod.splits)
  from system_step.config_request [OF user this] show ?thesis unfolding bearer_step_def
    by (intro disjI2 exI conjI) auto
next
  case (RuntimeReport p)
  then obtain w q where w: "runtime_endpoint (we_net env) (ae_settings (se_app (we_system env))) (database (gw_app s)) p (watcher_of s) = Some (w, q)"
    "s' = with_watcher w s" using run by (auto simp: on_watcher_def split: option.splits prod.splits)
  have "wt_sent w = a_sent (gw_app s)"
    using w(1) run_followsD [OF silent_runtime] by (fastforce simp: runtime_endpoint_def watcher_of_def)
  then have "gw_app s' = (gw_app s)\<lparr>a_host := wt_host w\<rparr>" using w(2) by (simp add: with_watcher_def)
  then show ?thesis by (simp add: bearer_machine)
next
  case (StatusReport i)
  then obtain w q where w: "config_status_endpoint (we_net env) (ae_http (se_app (we_system env))) (ae_settings (se_app (we_system env)))
      (database (gw_app s)) i (watcher_of s) = Some (w, q)"
    "s' = with_watcher w s" using run by (auto simp: on_watcher_def split: option.splits prod.splits)
  from system_step.status_request [OF user w(1) [unfolded watcher_of_def]] w(2) show ?thesis
    unfolding bearer_step_def with_watcher_def by (intro disjI2 exI [of _ "StatusRequest u"]) simp
next
  case (LogsReport i n)
  then show ?thesis using run by (auto simp: on_app_def split: prod.splits intro: bearer_machine)
next
  case (ShareConfig i q)
  show ?thesis by (rule bearer_share [where e = "LinkCreate (wd_share dr) i u q (wr_base_url rq)", OF run [unfolded ShareConfig run_user_call.simps]]) (use user in simp_all)
next
  case (ShareAll q)
  show ?thesis by (rule bearer_share [where e = "LinkCreateAll (wd_share dr) u q (wr_base_url rq)", OF run [unfolded ShareAll run_user_call.simps]]) (use user in simp_all)
next
  case (ListLinks i)
  then show ?thesis using run rest
    by (auto simp: on_db_def list_active_share_links_endpoint_def Let_def at_rest_simps bearer_step_def)
next
  case (RevokeToken token)
  show ?thesis by (rule bearer_share [where e = "LinkRevoke (wd_audit dr) (wd_now dr) token u", OF run [unfolded RevokeToken run_user_call.simps]]) (use user in simp_all)
next
  case (RevokeLink i)
  show ?thesis by (rule bearer_share [where e = "LinkRevokeId (wd_audit dr) (wd_now dr) i u", OF run [unfolded RevokeLink run_user_call.simps]]) (use user in simp_all)
next
  case ListTemplates
  then have "gw_app s' = fst (list_templates_endpoint (se_app (we_system env)) (we_cwd env) (gw_app s))"
    using run by (auto simp: on_app_def split: prod.splits)
  then show ?thesis using rest by (simp add: list_templates_endpoint_def host_request bearer_step_def)
next
  case (ShowTemplate key)
  then have "gw_app s' = fst (get_template_endpoint (se_app (we_system env)) (we_cwd env) key (gw_app s))"
    using run by (auto simp: on_app_def split: prod.splits)
  then show ?thesis using rest by (simp add: get_template_endpoint_def get_template_def Let_def host_request bearer_step_def)
next
  case (SaveTemplate key content)
  then obtain q where "update_template_endpoint (se_app (we_system env)) (wd_use dr) (we_cwd env) u key content (gw_app s) = (gw_app s', q)"
    using run by (auto simp: on_app_def split: prod.splits)
  from system_step.template_edit [OF user this] show ?thesis unfolding bearer_step_def
    by (intro disjI2 exI [of _ "TemplateEdit u"]) simp
qed

lemma admit_user: "admit opts lib sec now credentials d m path = Reply (name, Some u) \<Longrightarrow> get_current_user lib sec now credentials d = Reply u"
  by (auto simp: admit_def split: reply.splits if_splits)

text \<open>
  C3. Whatever arrives on the wire, with any path, query, token and body: in every state the system
  reaches, serving the request either leaves panel, machine and broker as they are, or is one of the
  steps the system's invariants are about, and a step that acts for a user acts for the one whose token
  the request carries.
\<close>

theorem request_is_step:
  assumes reach: "system_reachable (we_system env) (gw_app s)" and run: "handle_request env dr rq s = Some (s', r)"
  shows "gw_app s' = gw_app s \<or> (\<exists>e. system_step (we_system env) (gw_app s) e (gw_app s')
    \<and> (\<forall>u. acting_user e = Some u \<longrightarrow>
        get_current_user (se_auth (we_system env)) (se_security (we_system env)) (wd_now dr) (wr_credentials rq) (database (gw_app s)) = Reply u))"
    (is "_ \<or> (\<exists>e. _ \<and> (\<forall>u. _ \<longrightarrow> ?bearer u))")
proof -
  have rest: "at_rest (gw_app s)" using reachable_ok [OF reach] by (simp add: system_ok_def)
  have same: "s' = s \<Longrightarrow> bearer_step env ?bearer (gw_app s) (gw_app s')" by (simp add: bearer_step_def)
  have known: "bearer_step env ?bearer (gw_app s) (gw_app s')" if "run_user_call env dr rq u call s = Some (s', r)" "?bearer u" for u call
  proof -
    have "signed_in (we_system env) (gw_app s) u" using that(2) by (auto simp: signed_in_def)
    from user_call_step [OF rest this that(1)] that(2) show ?thesis unfolding bearer_step_def by blast
  qed
  have "bearer_step env ?bearer (gw_app s) (gw_app s')"
    using run same open_call_step [OF rest] known admit_user unfolding handle_request_def Let_def
    by (auto split: reply.splits if_splits sum.splits prod.splits option.splits)
  then show ?thesis by (auto simp: bearer_step_def)
qed

section \<open>A request without a token\<close>

text \<open>Opening a link leaves its row as it is, but for the count and the time of the last access.\<close>

definition touched :: "share_row \<Rightarrow> share_row \<Rightarrow> bool" where
  "touched r r' \<longleftrightarrow> s_id r' = s_id r \<and> s_token_hash r' = s_token_hash r \<and> s_config_id r' = s_config_id r
     \<and> s_config_version r' = s_config_version r \<and> s_secure r' = s_secure r \<and> s_is_permanent r' = s_is_permanent r
     \<and> s_expires_at r' = s_expires_at r \<and> s_revoked_at r' = s_revoked_at r \<and> s_created_by r' = s_created_by r
     \<and> s_created_at r' = s_created_at r"

definition same_business :: "db \<Rightarrow> db \<Rightarrow> bool" where
  "same_business d d' \<longleftrightarrow> users d' = users d \<and> configs d' = configs d \<and> versions d' = versions d \<and> list_all2 touched (shares d) (shares d')"

lemma touched_refl [simp]: "touched r r"
  by (simp add: touched_def)

lemma touched_trans: "touched a b \<Longrightarrow> touched b c \<Longrightarrow> touched a c"
  by (simp add: touched_def)

lemma business_refl [simp]: "same_business d d"
  by (simp add: same_business_def list_all2_refl)

lemma business_trans: "same_business d1 d2 \<Longrightarrow> same_business d2 d3 \<Longrightarrow> same_business d1 d3"
  unfolding same_business_def using list_all2_trans [OF touched_trans] by auto

lemma business_counted: "same_business d (fst (check_and_increment scope i l w now d))"
  by (simp add: same_business_def list_all2_refl)

lemma business_logged: "same_business d (audit_failed_login st i now name ip d)"
  by (simp add: same_business_def list_all2_refl audit_failed_login_def)

lemma business_accessed: "same_business d (record_access i now d)"
  by (auto simp: same_business_def record_access_def upd_rows_def list_all2_map2 touched_def intro!: list_all2_refl)

lemma login_business: "same_business d (fst (login_endpoint lib st sec a now lg req d))"
proof -
  have inner: "same_business d (fst (login lib st sec a now name password ip d))" for name password ip
  proof -
    obtain d1 allowed where c: "check_and_increment ''login'' (''ip:'' @ ip) (limit_or (max_attempts (rate_limit_login st)) 5)
        (window_seconds (rate_limit_login st)) now d = (d1, allowed)" by fastforce
    have d1: "same_business d d1" using business_counted c by (metis fst_conv)
    then have "same_business d (audit_failed_login st a now name ip d1)" using business_logged business_trans by blast
    with d1 show ?thesis unfolding login_def Let_def c by (auto split: sum.split option.split)
  qed
  obtain d1 r where l: "login lib st sec a now (lg_username lg) (lg_password lg) (get_client_ip req) d = (d1, r)" by fastforce
  then have "same_business d d1" using inner by (metis fst_conv)
  with l show ?thesis by (cases r) (simp_all add: login_endpoint_def)
qed

lemma resolve_business: "same_business d (fst (resolve_share_endpoint c st rs token req now d))"
proof -
  have inner: "same_business d (fst (resolve_share c st rs token ip now d))" for ip
  proof -
    obtain d1 limited where c: "check_and_increment ''share'' (''ip:'' @ ip) (limit_or (max_requests (rate_limit_share st)) 30)
        (window_seconds (rate_limit_share st)) now d = (d1, limited)" by fastforce
    have d1: "same_business d d1" using business_counted c by (metis fst_conv)
    then have "same_business d (record_access i now d1)" for i using business_accessed business_trans by blast
    with d1 show ?thesis unfolding resolve_share_def Let_def c by (auto split: sum.split option.split)
  qed
  obtain d1 r where l: "resolve_share c st rs token (get_client_ip req) now d = (d1, r)" by fastforce
  then have "same_business d d1" using inner by (metis fst_conv)
  with l show ?thesis by (cases r) (simp_all add: resolve_share_endpoint_def)
qed

definition only_counters :: "gateway \<Rightarrow> gateway \<Rightarrow> bool" where
  "only_counters s s' \<longleftrightarrow> same_business (database (gw_app s)) (database (gw_app s')) \<and> a_sent (gw_app s') = a_sent (gw_app s)
     \<and> a_host (gw_app s') = a_host (gw_app s) \<and> gw_cache s' = gw_cache s"

lemma open_call_counters:
  assumes "run_open_call env dr rq call s = Some (s', r)"
  shows "only_counters s s'"
proof -
  have on_db: "only_counters s s'" if "on_db f m s = Some (s', r)" "same_business (database (gw_app s)) (fst (m (database (gw_app s))))"
    for f and m :: "db \<Rightarrow> db \<times> string reply"
    using that by (auto simp: only_counters_def on_db_def with_db_def open_session_def split: prod.splits)
  show ?thesis
  proof (cases call)
    case (SignInWith lg)
    then show ?thesis using assms on_db login_business by simp
  next
    case (OpenLink token)
    then show ?thesis using assms on_db resolve_business by simp
  qed (use assms in \<open>simp_all add: only_counters_def\<close>)
qed

text \<open>
  C4. Whoever has no accepted token can change nothing but counters: whatever the request, it leaves
  users, configurations and versions as they are, creates and revokes no share link, sends the broker
  nothing, and touches no file, process or probe result of the machine; only rate limits, the log of
  failed attempts to sign in and the access counts of share links move.
\<close>

theorem stranger_changes_nothing:
  assumes run: "handle_request env dr rq s = Some (s', r)"
    and stranger: "\<And>u. get_current_user (se_auth (we_system env)) (se_security (we_system env)) (wd_now dr) (wr_credentials rq) (database (gw_app s)) \<noteq> Reply u"
  shows "same_business (database (gw_app s)) (database (gw_app s')) \<and> a_sent (gw_app s') = a_sent (gw_app s)
    \<and> a_host (gw_app s') = a_host (gw_app s) \<and> gw_cache s' = gw_cache s"
proof -
  have "only_counters s s"
    by (simp add: only_counters_def)
  then have "only_counters s s'"
    using run stranger admit_user open_call_counters unfolding handle_request_def Let_def
    by (auto split: reply.splits if_splits sum.splits prod.splits option.splits)
  then show ?thesis by (simp add: only_counters_def)
qed

section \<open>The addresses of a configuration\<close>

definition config_url :: "uuid \<Rightarrow> string \<Rightarrow> string" where
  "config_url i suffix = ''/api/v1/configs/'' @ uuid_str i @ suffix"

lemma segment_then:
  assumes "CHR ''/'' \<notin> set t" and "suf = [] \<or> hd suf = CHR ''/''"
  shows "path_matches (Segment n # ps) (t @ suf) \<longleftrightarrow> list_ex (\<lambda>k. path_matches ps (drop k t @ suf)) [1..<Suc (length t)]"
proof -
  have "takeWhile (\<lambda>c. c \<noteq> CHR ''/'') (t @ suf) = t"
    using assms by (cases suf) (auto simp: takeWhile_append takeWhile_eq_all_conv)
  then show ?thesis by (auto simp: list_ex_iff simp del: upt_Suc)
qed

lemma segment_last:
  assumes "CHR ''/'' \<notin> set t" and "suf = [] \<or> hd suf = CHR ''/''" and "t \<noteq> []"
  shows "path_matches [Segment n] (t @ suf) \<longleftrightarrow> suf = []"
proof -
  have "path_matches [Segment n] (t @ suf) \<longleftrightarrow> (\<exists>k. 1 \<le> k \<and> k \<le> length t \<and> (drop k t @ suf = [] \<or> drop k t @ suf = newline))"
    unfolding segment_then [OF assms(1,2)] by (auto simp: list_ex_iff simp del: upt_Suc)
  also have "\<dots> \<longleftrightarrow> suf = []"
    using assms(2,3) by (cases suf) (auto simp: append_eq_Cons_conv intro!: exI [of _ "length t"] Suc_leI)
  finally show ?thesis .
qed

lemma segment_text:
  assumes "CHR ''/'' \<notin> set t" and "suf = [] \<or> hd suf = CHR ''/''" and "t \<noteq> []"
  shows "path_matches [Segment n, Text (CHR ''/'' # x)] (t @ suf) \<longleftrightarrow> path_matches [Text (CHR ''/'' # x)] suf"
proof -
  have inner: "\<not> startswith (drop k t @ suf) (CHR ''/'' # x)" if "k < length t" for k
  proof -
    have "t ! k \<noteq> CHR ''/''" using assms(1) nth_mem [OF that] by metis
    then show ?thesis using that by (auto simp: startswith_iff Cons_nth_drop_Suc [symmetric])
  qed
  have "path_matches [Segment n, Text (CHR ''/'' # x)] (t @ suf)
      \<longleftrightarrow> (\<exists>k. 1 \<le> k \<and> k \<le> length t \<and> path_matches [Text (CHR ''/'' # x)] (drop k t @ suf))"
    unfolding segment_then [OF assms(1,2)] by (auto simp: list_ex_iff simp del: upt_Suc path_matches.simps)
  also have "\<dots> \<longleftrightarrow> path_matches [Text (CHR ''/'' # x)] suf"
  proof
    assume "\<exists>k. 1 \<le> k \<and> k \<le> length t \<and> path_matches [Text (CHR ''/'' # x)] (drop k t @ suf)"
    then obtain k where "k \<le> length t" "path_matches [Text (CHR ''/'' # x)] (drop k t @ suf)" by blast
    with inner [of k] show "path_matches [Text (CHR ''/'' # x)] suf" by (cases "k = length t") auto
  next
    assume "path_matches [Text (CHR ''/'' # x)] suf"
    with assms(3) show "\<exists>k. 1 \<le> k \<and> k \<le> length t \<and> path_matches [Text (CHR ''/'' # x)] (drop k t @ suf)"
      by (intro exI [of _ "length t"]) (auto intro: Suc_leI)
  qed
  finally show ?thesis .
qed

text \<open>The operations on one configuration that take neither a query nor a body.\<close>

definition item_operations :: "web_draws \<Rightarrow> uuid \<Rightarrow> (string \<times> string \<times> string \<times> user_call) list" where
  "item_operations dr i =
     [(''GET'', [], ''get_config'', Configs (ShowConfig i)),
      (''DELETE'', [], ''delete_config'', Configs (DeleteConfig (wd_use dr) i)),
      (''GET'', ''/status'', ''get_config_status'', StatusReport i),
      (''GET'', ''/config-data'', ''get_config_data'', Configs (ReadData i)),
      (''POST'', ''/regenerate'', ''regenerate_config'', Configs (Regenerate (wd_use dr) i))]"

lemma item_operation_cases:
  assumes "(m, suf, name, call) \<in> set (item_operations dr i)"
  shows "(m = ''GET'' \<and> suf = [] \<and> name = ''get_config'' \<and> call = Configs (ShowConfig i))
    \<or> (m = ''DELETE'' \<and> suf = [] \<and> name = ''delete_config'' \<and> call = Configs (DeleteConfig (wd_use dr) i))
    \<or> (m = ''GET'' \<and> suf = ''/status'' \<and> name = ''get_config_status'' \<and> call = StatusReport i)
    \<or> (m = ''GET'' \<and> suf = ''/config-data'' \<and> name = ''get_config_data'' \<and> call = Configs (ReadData i))
    \<or> (m = ''POST'' \<and> suf = ''/regenerate'' \<and> name = ''regenerate_config'' \<and> call = Configs (Regenerate (wd_use dr) i))"
  using assms unfolding item_operations_def list.set insert_iff empty_iff prod.inject simp_thms .

lemma item_read:
  assumes "(m, suf, name, call) \<in> set (item_operations dr i)" and "we_uuid env (JStr (uuid_str i)) = Inr i"
  shows "read_user_call env dr rq name [uuid_str i] = Inr call" and "\<not> reads_body name" and "suf = [] \<or> hd suf = CHR ''/''"
  using item_operation_cases [OF assms(1)]
  by (elim disjE conjE; simp add: read_user_call_def Let_def assms(2) reads_body_def)+

lemma uuid_text:
  obtains c t where "uuid_str i = c # t" "c \<notin> set ''rnl/''" "CHR ''/'' \<notin> set (c # t)"
proof -
  have digit: "digit_char d \<notin> set ''rnl/''" if "d < 16" for d
  proof -
    have "list_all (\<lambda>d. digit_char d \<notin> set ''rnl/'') [0..<16]" by code_simp
    with that show ?thesis by (simp add: list_all_iff)
  qed
  have plain: "c \<notin> set ''rnl/''" if c: "c \<in> set (uuid_str i)" for c
  proof (cases "c = CHR ''-''")
    case False
    then obtain d where "d < 16" "c = digit_char d" using set_uuid_str [OF c] set_hex_digits by blast
    then show ?thesis using digit by simp
  qed simp
  obtain c t where "uuid_str i = c # t" by (cases "uuid_str i") (use uuid_str_not_empty in auto)
  with plain that show thesis by auto
qed

lemma text_path: "path_matches [Text x] p \<longleftrightarrow> p = x \<or> p = x @ newline"
  by (auto simp: startswith_iff)

lemma item_path:
  assumes "CHR ''/'' \<notin> set t" "t \<noteq> []" "suf = [] \<or> hd suf = CHR ''/''"
  shows "path_matches [Text ''/api/v1/configs/'', Segment n] (''/api/v1/configs/'' @ t @ suf) \<longleftrightarrow> suf = []"
    and "path_matches [Text ''/api/v1/configs/'', Segment n, Text (CHR ''/'' # x)] (''/api/v1/configs/'' @ t @ suf) \<longleftrightarrow> suf = CHR ''/'' # x \<or> suf = CHR ''/'' # x @ newline"
  using segment_last [OF assms(1,3,2)] segment_text [OF assms(1,3,2), of n x] text_path [of "CHR ''/'' # x" suf]
  by (simp_all add: startswith_iff del: path_matches.simps(3))

lemma item_params:
  assumes "CHR ''/'' \<notin> set t" "t \<noteq> []"
  shows "path_params [Text x, Segment n] (x @ t) = Some [t]"
    and "path_params [Text x, Segment n, Text (CHR ''/'' # y)] (x @ t @ CHR ''/'' # y) = Some [t]"
proof -
  have upto: "rev [Suc 0..<Suc (length t)] = length t # rev [Suc 0..<length t]" using assms(2) by (simp add: Suc_le_eq)
  have whole: "takeWhile (\<lambda>c. c \<noteq> CHR ''/'') t = t" using assms(1) by (auto simp: takeWhile_eq_all_conv)
  then have cut: "takeWhile (\<lambda>c. c \<noteq> CHR ''/'') (t @ CHR ''/'' # y) = t" by (simp add: takeWhile_append)
  show "path_params [Text x, Segment n] (x @ t) = Some [t]"
    by (simp add: startswith_iff whole upto del: upt_Suc)
  show "path_params [Text x, Segment n, Text (CHR ''/'' # y)] (x @ t @ CHR ''/'' # y) = Some [t]"
    by (simp add: startswith_iff cut upto del: upt_Suc)
qed

definition item_route :: "string \<Rightarrow> string \<Rightarrow> string \<Rightarrow> route" where
  "item_route m suf name = guarded_route m
     ([Text ''/api/v1/configs/'', Segment ''config_id''] @ (if suf = [] then [] else [Text suf])) name"

lemmas routers = health_router_def metrics_router_def auth_router_def configs_router_def

lemma item_takes:
  assumes u: "CHR ''/'' \<notin> set t" "t \<noteq> []" and suf: "suf = [] \<or> hd suf = CHR ''/''"
  shows "takes (route_to g m' [Text ''/api/v1/configs/'', Segment n] name) m (''/api/v1/configs/'' @ t @ suf) \<longleftrightarrow> suf = [] \<and> m' = m"
    and "takes (route_to g m' [Text ''/api/v1/configs/'', Segment n, Text (CHR ''/'' # x)] name) m (''/api/v1/configs/'' @ t @ suf)
      \<longleftrightarrow> (suf = CHR ''/'' # x \<or> suf = CHR ''/'' # x @ newline) \<and> m' = m"
  using item_path [OF u suf] by (simp_all add: takes_def route_to_def del: path_matches.simps)

lemma text_takes: "takes (route_to g m' [Text x] name) m p \<longleftrightarrow> (p = x \<or> p = x @ newline) \<and> m' = m"
  by (simp add: takes_def route_to_def text_path del: path_matches.simps)

lemma item_route_for:
  assumes "(m, suf, name, call) \<in> set (item_operations dr i)"
  shows "route_for (create_app opts) m (config_url i suf) = Reply (item_route m suf name)"
proof -
  obtain c t where u: "uuid_str i = c # t" "c \<notin> set ''rnl/''" "CHR ''/'' \<notin> set (c # t)" by (rule uuid_text)
  let ?p = "''/api/v1/configs/'' @ (c # t) @ suf"
  have others: "\<not> takes r m ?p" if "r \<in> set (health_router @ metrics_router @ auth_router)" for r
    using that by (auto simp: routers text_takes simp del: append.simps(2))
  have fixed: "\<not> takes (route_to g m' [Text x] k) n ?p"
    if "x = ''/api/v1/configs'' \<or> x = ''/api/v1/configs/runtime'' \<or> x = ''/api/v1/configs/regenerate-all''" for g m' x k n
    using that u(2) by (auto simp: text_takes)
  have shape: "suf = [] \<or> hd suf = CHR ''/''" using item_operation_cases [OF assms] by (elim disjE conjE) simp_all
  note item = item_takes [OF u(3) list.distinct(2) shape, unfolded append_Nil]
  define p where "p = ?p"
  have ends: "takes (route_to g m' [Text ''/api/v1/configs/'', Segment k] l) n p \<longleftrightarrow> suf = [] \<and> m' = n" for g m' n k l
    unfolding p_def by (rule item(1))
  have goes_on: "takes (route_to g m' [Text ''/api/v1/configs/'', Segment k, Text (CHR ''/'' # x)] l) n p
      \<longleftrightarrow> (suf = CHR ''/'' # x \<or> suf = CHR ''/'' # x @ newline) \<and> m' = n" for g m' n x k l
    unfolding p_def by (rule item(2))
  have hit: "find (\<lambda>r. takes r m p) configs_router = Some (item_route m suf name)"
    using item_operation_cases [OF assms] by (elim disjE conjE) (simp_all add: configs_router_def Let_def fixed [folded p_def] ends goes_on item_route_def)
  have skip: "find (\<lambda>r. takes r m p) (xs @ ys) = find (\<lambda>r. takes r m p) ys" if "\<forall>r\<in>set xs. \<not> takes r m p" for xs ys
    using that by (induction xs) auto
  have stop: "find (\<lambda>r. takes r m p) (xs @ ys) = Some r" if "find (\<lambda>r. takes r m p) xs = Some r" for xs ys r
    using that by (induction xs) auto
  have "find (\<lambda>r. takes r m p) (create_app opts) = Some (item_route m suf name)"
    using others [folded p_def] hit unfolding create_app_def by (auto simp: skip stop)
  moreover have "config_url i suf = p" by (simp add: config_url_def u(1) p_def)
  ultimately show ?thesis by (simp add: route_for_def)
qed

text \<open>
  The address of a configuration is the one its operations are found under: with an accepted token, each
  of them runs for that configuration and that user, whatever the request carries besides.
\<close>

lemma url_runs_endpoint:
  assumes op: "(m, suf, name, call) \<in> set (item_operations dr i)" and at: "wr_method rq = m" "wr_path rq = config_url i suf"
    and read: "we_uuid env (JStr (uuid_str i)) = Inr i"
    and user: "get_current_user (se_auth (we_system env)) (se_security (we_system env)) (wd_now dr) (wr_credentials rq) (database (gw_app s)) = Reply u"
  shows "handle_request env dr rq s = run_user_call env dr rq u call s"
proof -
  obtain c t where u: "uuid_str i = c # t" "CHR ''/'' \<notin> set (c # t)" by (rule uuid_text)
  have params: "path_params (rt_path (item_route m suf name)) (config_url i suf) = Some [uuid_str i]"
  proof (cases suf)
    case Nil
    have "config_url i suf = ''/api/v1/configs/'' @ (c # t)" by (simp only: config_url_def u(1) Nil append_Nil2)
    moreover have "rt_path (item_route m suf name) = [Text ''/api/v1/configs/'', Segment ''config_id'']"
      by (simp add: item_route_def route_to_def Nil)
    ultimately show ?thesis unfolding u(1) by (simp only: item_params(1) [OF u(2) list.distinct(2)])
  next
    case (Cons x y)
    then have suf: "suf = CHR ''/'' # y" using item_read(3) [OF op read] by simp
    have "config_url i suf = ''/api/v1/configs/'' @ (c # t) @ CHR ''/'' # y" by (simp only: config_url_def u(1) suf)
    moreover have "rt_path (item_route m suf name) = [Text ''/api/v1/configs/'', Segment ''config_id'', Text (CHR ''/'' # y)]"
      by (simp add: item_route_def route_to_def suf)
    ultimately show ?thesis unfolding u(1) by (simp only: item_params(2) [OF u(2) list.distinct(2)])
  qed
  have "rt_guarded (item_route m suf name)" "rt_name (item_route m suf name) = name"
    by (simp_all add: item_route_def route_to_def)
  then show ?thesis
    using item_route_for [OF op, of "we_options env"] params item_read(1,2) [OF op read] user
    by (simp add: handle_request_def admit_def at)
qed

section \<open>What a stranger is told\<close>

definition open_name :: "route \<Rightarrow> bool" where
  "open_name r \<longleftrightarrow> rt_guarded r \<or> rt_name r \<in> {''health'', ''metrics'', ''login'', ''web-static'', ''favicon'', ''admin_ui''}
     \<or> rt_name r = ''resolve_share'' \<and> rt_path r = [Text ''/share/'', Rest ''token'']"

lemma open_name_route: "open_name (guarded_route m path name)"
  by (simp add: open_name_def route_to_def)

lemma open_names: "r \<in> set (create_app opts) \<Longrightarrow> open_name r"
proof -
  have "list_all open_name (create_app opts)"
    unfolding create_app_def routers templates_router_def system_router_def share_public_router_def share_admin_router_def
      docs_routes_def setup_web_ui_def Let_def
    by (simp add: open_name_route) (simp add: open_name_def route_to_def)
  then show "r \<in> set (create_app opts) \<Longrightarrow> open_name r" by (simp add: list_all_iff)
qed

lemma first_some_Some: "first_some f xs = Some y \<Longrightarrow> \<exists>x\<in>set xs. f x = Some y"
  by (induction xs) (auto split: option.splits)

lemma share_token_param:
  assumes "path_params [Text ''/share/'', Rest n] path = Some params"
  shows "\<exists>token. params = [token] \<and> startswith path (''/share/'' @ token)"
proof -
  obtain rest where rest: "path = ''/share/'' @ rest" and p: "path_params [Rest n] rest = Some params"
    using assms by (auto simp: startswith_iff simp del: path_params.simps(4) split: if_splits)
  obtain k where "map_option ((#) (take k rest)) (path_params [] (drop k rest)) = Some params"
    using first_some_Some [OF p [unfolded path_params.simps(4)]] by blast
  then have "params = [take k rest]" by (auto split: if_splits)
  moreover have "startswith path (''/share/'' @ take k rest)"
    by (simp add: rest startswith_iff) (metis append_take_drop_id)
  ultimately show ?thesis by blast
qed

lemma resolve_reply:
  assumes "snd (resolve_share_endpoint c st rs token req now d) = Reply body"
  shows "\<exists>r uris. share_allowed st (get_client_ip req) now d \<and> live_share token now d = Some r \<and> share_uris c st rs r d = Inr uris
    \<and> body = (let b = join newline uris in if b \<noteq> [] then b @ newline else b)"
  using assms resolve_share_result [of c st rs token "get_client_ip req" now d]
  by (auto simp: resolve_share_endpoint_def Let_def internal_error_def split: prod.splits sum.splits if_splits option.splits)

lemma map_reply_Reply: "map_reply f r = Reply y \<longleftrightarrow> (\<exists>x. r = Reply x \<and> y = f x)"
  by (cases r) auto

text \<open>The answers that hold something of the panel, and the secret each of them takes.\<close>

definition proves_password :: "web_env \<Rightarrow> db \<Rightarrow> login_request \<Rightarrow> bool" where
  "proves_password env d lg \<longleftrightarrow> (\<exists>u\<in>set (users d). username u = lg_username lg
     \<and> bcrypt_check (se_auth (we_system env)) (lg_password lg) (password_hash u) = Inr True)"

text \<open>
  C5. Whoever has neither a token, nor a password, nor a share link is told nothing: a request without an
  accepted token that is answered at all is answered with a page that holds no data of the panel, with
  a token after naming a user and his password, or with the client URIs of a link that is neither
  revoked nor expired, whose token is part of the address asked for, below the limit of requests.
\<close>

theorem stranger_learns_nothing:
  assumes run: "handle_request env dr rq s = Some (s', Reply j)"
    and stranger: "\<And>u. get_current_user (se_auth (we_system env)) (se_security (we_system env)) (wd_now dr) (wr_credentials rq) (database (gw_app s)) \<noteq> Reply u"
  shows "j = health_response
    \<or> (\<exists>name. name \<in> {''metrics'', ''web-static'', ''favicon'', ''admin_ui''} \<and> we_page env name (wr_path rq) = Reply j)
    \<or> (\<exists>lg token. body_as rq (read_login_request (we_coercion env)) = Inr lg \<and> proves_password env (database (gw_app s)) lg
        \<and> j = login_response token)
    \<or> (\<exists>token r uris. startswith (wr_path rq) (''/share/'' @ token) \<and> live_share token (wd_now dr) (database (gw_app s)) = Some r
        \<and> share_allowed (ae_settings (se_app (we_system env))) (get_client_ip (wr_from rq)) (wd_now dr) (database (gw_app s))
        \<and> share_uris (ae_cipher (se_app (we_system env))) (ae_settings (se_app (we_system env))) (wd_pick dr) r (database (gw_app s)) = Inr uris
        \<and> j = JStr (let b = join newline uris in if b \<noteq> [] then b @ newline else b))"
proof -
  obtain route where route: "route_for (create_app (we_options env)) (wr_method rq) (wr_path rq) = Reply route"
    using run by (cases "route_for (create_app (we_options env)) (wr_method rq) (wr_path rq)") (auto simp: handle_request_def)
  then have known: "route \<in> set (create_app (we_options env))" "path_matches (rt_path route) (wr_path rq)"
    using route_for_taken by auto
  define params where "params = the_or [] (path_params (rt_path route) (wr_path rq))"
  have "\<not> rt_guarded route \<and> (\<exists>call. read_open_call env rq (rt_name route) params = Inr call \<and> run_open_call env dr rq call s = Some (s', Reply j))"
    using run stranger route unfolding handle_request_def admit_def params_def Let_def unprocessable_def
    by (auto split: if_splits reply.splits sum.splits)
  then obtain call where free: "\<not> rt_guarded route" and call: "read_open_call env rq (rt_name route) params = Inr call"
    and answer: "run_open_call env dr rq call s = Some (s', Reply j)" by blast
  show ?thesis
  proof (cases call)
    case Health
    then show ?thesis using answer by simp
  next
    case (Page name)
    then have "name = rt_name route" "rt_name route \<notin> {''login'', ''resolve_share'', ''health''}"
      using call by (auto simp: read_open_call_def bindR_eq_Inr split: if_splits)
    then show ?thesis using open_names [OF known(1)] free answer Page by (auto simp: open_name_def)
  next
    case (SignInWith lg)
    then have "body_as rq (read_login_request (we_coercion env)) = Inr lg"
      using call by (auto simp: read_open_call_def bindR_eq_Inr split: if_splits)
    moreover obtain d token where "login_endpoint (se_auth (we_system env)) (ae_settings (se_app (we_system env))) (se_security (we_system env))
        (wd_audit dr) (wd_now dr) lg (wr_from rq) (database (gw_app s)) = (d, Reply token)" "j = login_response token"
      using answer SignInWith by (auto simp: on_db_def map_reply_Reply split: prod.splits)
    ultimately show ?thesis using login_token unfolding proves_password_def by metis
  next
    case (OpenLink token)
    then have name: "rt_name route = ''resolve_share''" "token = hd params"
      using call by (auto simp: read_open_call_def bindR_eq_Inr split: if_splits)
    then have path: "rt_path route = [Text ''/share/'', Rest ''token'']" using open_names [OF known(1)] free by (simp add: open_name_def)
    obtain ps where ps: "path_params (rt_path route) (wr_path rq) = Some ps" using known(2) path_params_matches by blast
    have "startswith (wr_path rq) (''/share/'' @ token)"
      using share_token_param [OF ps [unfolded path]] name(2) ps by (auto simp: params_def)
    moreover obtain body where "snd (resolve_share_endpoint (ae_cipher (se_app (we_system env))) (ae_settings (se_app (we_system env))) (wd_pick dr) token
        (wr_from rq) (wd_now dr) (database (gw_app s))) = Reply body" "j = JStr body"
      using answer OpenLink by (auto simp: on_db_def map_reply_Reply split: prod.splits)
    ultimately show ?thesis using resolve_reply by metis
  qed
qed

section \<open>A concrete panel\<close>

definition demo_web :: web_env where
  "demo_web = \<lparr>we_system = demo_system, we_options = demo_options, we_coercion = demo_reading,
     we_uuid = (\<lambda>v. case v of JStr t \<Rightarrow> (case uuid_of_str t of None \<Rightarrow> invalid | Some i \<Rightarrow> Inr i) | _ \<Rightarrow> invalid),
     we_datetime = (\<lambda>v. case v of JInt t \<Rightarrow> Inr (Aware t) | _ \<Rightarrow> invalid), we_stamp = show_int, we_net = demo_net,
     we_cwd = ''/opt/panel'', we_page = (\<lambda>name path. Reply JNull)\<rparr>"

definition demo_web_draws :: web_draws where
  "demo_web_draws = \<lparr>wd_now = 200, wd_audit = 30, wd_use = demo_use 5, wd_each = demo_use, wd_share = demo_share_draws, wd_pick = (\<lambda>n. 0)\<rparr>"

definition demo_gateway :: gateway where
  "demo_gateway = \<lparr>gw_app = app_of demo_start demo_host, gw_cache = []\<rparr>"

definition demo_post :: "string option \<Rightarrow> web_request" where
  "demo_post token = \<lparr>wr_method = ''POST'', wr_path = ''/api/v1/configs'', wr_query = [], wr_credentials = token,
     wr_body = Body (JDict [(''name'', JStr ''home''), (''protocol'', JStr ''hysteria2''), (''profile'', JStr ''hysteria2'')]),
     wr_from = demo_origin, wr_base_url = ''https://panel.example/''\<rparr>"

lemma demo_post_route:
  obtains route where "route_for (create_app demo_options) ''POST'' ''/api/v1/configs'' = Reply route"
    "rt_name route = ''create_config''" "rt_guarded route"
proof -
  have "map_reply (\<lambda>r. (rt_name r, rt_guarded r)) (route_for (create_app demo_options) ''POST'' ''/api/v1/configs'')
      = Reply (''create_config'', True)"
    by code_simp
  with that show thesis by (cases "route_for (create_app demo_options) ''POST'' ''/api/v1/configs''") auto
qed

lemma demo_bearer:
  "get_current_user (se_auth demo_system) (se_security demo_system) 200 (Some ''HS256.s3'') demo_start = Reply demo_admin"
  by code_simp

lemma demo_post_call: "read_user_call demo_web demo_web_draws (demo_post token) ''create_config'' params = Inr (Configs demo_request)"
proof -
  have "body_as (demo_post token) (read_create_config_request demo_reading) = Inr demo_create_request"
    by (simp add: body_as_def demo_post_def read_create_config_request_def model_def required_def defaulting_def nullable_def
        demo_reading_def Let_def read_protocol_def read_profile_value_def parse_profile_def demo_create_request_def)
  then show ?thesis
    by (simp add: read_user_call_def Let_def demo_web_def demo_web_draws_def)
qed

lemma demo_posted:
  "\<exists>s' r. handle_request demo_web demo_web_draws (demo_post (Some ''HS256.s3'')) demo_gateway = Some (s', r) \<and> gw_app s' = demo_created"
proof -
  obtain route where route: "route_for (create_app demo_options) ''POST'' ''/api/v1/configs'' = Reply route"
    "rt_name route = ''create_config''" "rt_guarded route"
    by (rule demo_post_route)
  have admit: "admit demo_options (se_auth demo_system) (se_security demo_system) 200 (Some ''HS256.s3'') demo_start ''POST'' ''/api/v1/configs''
      = Reply (''create_config'', Some demo_admin)"
    by (simp add: admit_def route demo_bearer)
  have "fst (run_config_call show_int demo_app_env demo_admin demo_request (app_of demo_start demo_host)) = demo_created"
    by (simp only: config_call_request demo_created_def)
  then obtain r where run: "run_config_call show_int demo_app_env demo_admin demo_request (app_of demo_start demo_host) = (demo_created, r)"
    by (metis prod.collapse)
  have start: "database (app_of demo_start demo_host) = demo_start" by (simp add: app_of_def open_session_def)
  have post: "wr_method (demo_post t) = ''POST''" "wr_path (demo_post t) = ''/api/v1/configs''" "wr_credentials (demo_post t) = t"
    "wr_body (demo_post t) \<noteq> Not_Json" for t
    by (simp_all add: demo_post_def)
  have web: "we_system demo_web = demo_system" "we_options demo_web = demo_options" "we_stamp demo_web = show_int" "wd_now demo_web_draws = 200"
    by (simp_all add: demo_web_def demo_web_draws_def)
  show ?thesis
    using route admit demo_post_call run
    by (simp add: handle_request_def post web demo_gateway_def start on_app_def demo_system_app)
qed

theorem request_is_step_witness:
  "\<exists>e (s' :: gateway). system_step demo_system (gw_app demo_gateway) e (gw_app s') \<and> gw_app s' = demo_created \<and> length (a_sent (gw_app s')) = 1"
proof -
  obtain s' r where run: "handle_request demo_web demo_web_draws (demo_post (Some ''HS256.s3'')) demo_gateway = Some (s', r)" "gw_app s' = demo_created"
    using demo_posted by blast
  have web: "we_system demo_web = demo_system" by (simp add: demo_web_def)
  have app: "gw_app demo_gateway = app_of demo_start demo_host" by (simp add: demo_gateway_def)
  have "system_reachable (we_system demo_web) (gw_app demo_gateway)" by (simp add: web app demo_reachable)
  note step = request_is_step [OF this run(1)]
  have one: "length (a_sent demo_created) = 1" using demo_published by (auto simp: published_def app_of_def)
  moreover have "a_sent (gw_app demo_gateway) = []" by (simp add: app app_of_def)
  ultimately have "gw_app s' \<noteq> gw_app demo_gateway" using run(2) by auto
  then obtain e where "system_step demo_system (gw_app demo_gateway) e (gw_app s')" using step unfolding web by blast
  with one run(2) show ?thesis by (intro exI [of _ e] exI [of _ s']) simp
qed

theorem stranger_changes_nothing_witness:
  "\<exists>s' r. handle_request demo_web demo_web_draws (demo_post None) demo_gateway = Some (s', r)
    \<and> same_business (database (gw_app demo_gateway)) (database (gw_app s')) \<and> a_sent (gw_app s') = []"
proof -
  have stranger: "get_current_user (se_auth (we_system demo_web)) (se_security (we_system demo_web)) (wd_now demo_web_draws)
      (wr_credentials (demo_post None)) d \<noteq> Reply u" for d u
    by (simp add: demo_post_def get_current_user_def some_text_def unauthorized_def)
  have web: "we_system demo_web = demo_system" "we_options demo_web = demo_options" "wd_now demo_web_draws = 200"
    "wr_method (demo_post None) = ''POST''" "wr_path (demo_post None) = ''/api/v1/configs''" "wr_credentials (demo_post None) = None"
    "wr_body (demo_post None) \<noteq> Not_Json"
    by (simp_all add: demo_web_def demo_web_draws_def demo_post_def)
  have start: "database (gw_app demo_gateway) = demo_start" "a_sent (gw_app demo_gateway) = []"
    by (simp_all add: demo_gateway_def app_of_def open_session_def)
  obtain route where route: "route_for (create_app demo_options) ''POST'' ''/api/v1/configs'' = Reply route" "rt_guarded route"
    by (rule demo_post_route)
  obtain s' r where run: "handle_request demo_web demo_web_draws (demo_post None) demo_gateway = Some (s', r)"
    using route stranger [unfolded web, of demo_start]
    by (cases "get_current_user (se_auth demo_system) (se_security demo_system) 200 None demo_start")
      (auto simp: handle_request_def admit_def web start)
  from stranger_changes_nothing [OF run stranger] run show ?thesis
    by (auto simp: start)
qed

definition demo_sign_in :: web_request where
  "demo_sign_in = \<lparr>wr_method = ''POST'', wr_path = ''/auth/login'', wr_query = [], wr_credentials = None,
     wr_body = Body (JDict [(''username'', JStr ''admin''), (''password'', JStr ''h'')]),
     wr_from = demo_origin, wr_base_url = ''https://panel.example/''\<rparr>"

theorem stranger_learns_nothing_witness:
  "\<exists>s' token. handle_request demo_web (demo_web_draws\<lparr>wd_now := 100\<rparr>) demo_sign_in \<lparr>gw_app = app_of demo_users_db demo_host, gw_cache = []\<rparr>
      = Some (s', Reply (login_response token))
    \<and> proves_password demo_web demo_users_db (demo_login ''h'')"
proof -
  let ?s = "\<lparr>gw_app = app_of demo_users_db demo_host, gw_cache = []\<rparr> :: gateway" and ?dr = "demo_web_draws\<lparr>wd_now := 100\<rparr>"
  have stranger: "get_current_user (se_auth (we_system demo_web)) (se_security (we_system demo_web)) (wd_now ?dr)
      (wr_credentials demo_sign_in) d \<noteq> Reply u" for d u
    by (simp add: demo_sign_in_def get_current_user_def some_text_def unauthorized_def)
  have "map_reply (\<lambda>r. (rt_name r, rt_guarded r)) (route_for (create_app demo_options) ''POST'' ''/auth/login'') = Reply (''login'', False)"
    by code_simp
  then obtain route where route: "route_for (create_app demo_options) ''POST'' ''/auth/login'' = Reply route" "rt_name route = ''login''" "\<not> rt_guarded route"
    by (cases "route_for (create_app demo_options) ''POST'' ''/auth/login''") auto
  have body: "body_as demo_sign_in (read_login_request demo_reading) = Inr (demo_login ''h'')"
    by (simp add: body_as_def demo_sign_in_def read_login_request_def model_def required_def demo_reading_def Let_def demo_login_def)
  have "snd (login_endpoint (se_auth demo_system) (ae_settings demo_app_env) (se_security demo_system) 30 100 (demo_login ''h'') demo_origin demo_users_db)
      = Reply ''HS256.s3''"
    by code_simp
  then obtain d where login: "login_endpoint (se_auth demo_system) (ae_settings demo_app_env) (se_security demo_system) 30 100 (demo_login ''h'') demo_origin demo_users_db
      = (d, Reply ''HS256.s3'')" by (metis prod.collapse)
  have parts: "we_system demo_web = demo_system" "we_options demo_web = demo_options" "we_coercion demo_web = demo_reading" "wd_now ?dr = 100" "wd_audit ?dr = 30"
    "wr_method demo_sign_in = ''POST''" "wr_path demo_sign_in = ''/auth/login''" "wr_from demo_sign_in = demo_origin" "wr_body demo_sign_in \<noteq> Not_Json"
    "wr_credentials demo_sign_in = None" "database (app_of demo_users_db demo_host) = demo_users_db"
    by (simp_all add: demo_web_def demo_web_draws_def demo_sign_in_def app_of_def open_session_def)
  have "\<exists>s'. handle_request demo_web ?dr demo_sign_in ?s = Some (s', Reply (login_response ''HS256.s3''))"
    by (simp add: handle_request_def parts route admit_def read_open_call_def body on_db_def login demo_system_app)
  then obtain s' where run: "handle_request demo_web ?dr demo_sign_in ?s = Some (s', Reply (login_response ''HS256.s3''))" by blast
  have page: "we_page demo_web name path = Reply JNull" for name path by (simp add: demo_web_def)
  from stranger_learns_nothing [OF run stranger] have "proves_password demo_web demo_users_db (demo_login ''h'')"
    by (auto simp: parts page body login_response_def health_response_def)
  with run show ?thesis by blast
qed

end
