(* ===== verification/Resources.thy ===== *)
theory Resources
  imports Complex_Main Http
begin

text \<open>
  The readings of the machine the panel shows: \<open>panel/infrastructure/system/resources.py\<close>,
  \<open>panel/api/routers/system.py\<close> and \<open>panel/api/schemas/system.py\<close>. What \<open>psutil\<close> reads is
  a parameter. A float it gives is finite, so a rational number; a float rounded to one decimal is
  given by the number of tenths it is written with.
\<close>

section \<open>Rounding\<close>

text \<open>Python rounds to the nearest value with the given decimals, and a tie to the even one.\<close>

definition round_half_even :: "rat \<Rightarrow> int" where
  "round_half_even x = (let f = \<lfloor>x\<rfloor>; r = x - of_int f in
     if r < 1 / 2 then f else if 1 / 2 < r then f + 1 else if even f then f else f + 1)"

definition clamp_percent :: "rat \<Rightarrow> int" where
  "clamp_percent v = round_half_even (10 * min (max v 0) 100)"

lemma round_half_even_near: "\<bar>of_int (round_half_even x) - x\<bar> \<le> 1 / 2"
  using of_int_floor_le [of x] real_of_int_floor_add_one_gt
  by (auto simp: round_half_even_def Let_def abs_if) linarith+

lemma round_half_even_of_int: "round_half_even (of_int n) = n"
  by (simp add: round_half_even_def)

lemma round_half_even_mono:
  assumes "x \<le> y"
  shows "round_half_even x \<le> round_half_even y"
proof (cases "\<lfloor>x\<rfloor> = \<lfloor>y\<rfloor>")
  case True
  with assms show ?thesis by (auto simp: round_half_even_def Let_def)
next
  case False
  with floor_mono [OF assms] have "\<lfloor>x\<rfloor> + 1 \<le> \<lfloor>y\<rfloor>" by simp
  then show ?thesis by (auto simp: round_half_even_def Let_def)
qed

lemma clamp_percent_range: "0 \<le> clamp_percent v" "clamp_percent v \<le> 1000"
proof -
  have "round_half_even (of_int 0) \<le> clamp_percent v"
    unfolding clamp_percent_def by (rule round_half_even_mono) simp
  then show "0 \<le> clamp_percent v" by (simp only: round_half_even_of_int)
  have "clamp_percent v \<le> round_half_even (of_int 1000)"
    unfolding clamp_percent_def by (rule round_half_even_mono) simp
  then show "clamp_percent v \<le> 1000" by (simp only: round_half_even_of_int)
qed

lemma clamp_percent_mono: "v \<le> w \<Longrightarrow> clamp_percent v \<le> clamp_percent w"
  unfolding clamp_percent_def by (rule round_half_even_mono) (simp add: min_def max_def)

text \<open>What is shown is within half a tenth of what was read.\<close>

lemma clamp_percent_near:
  assumes "0 \<le> v" "v \<le> 100"
  shows "\<bar>of_int (clamp_percent v) / 10 - v\<bar> \<le> 1 / 20"
  using round_half_even_near [of "10 * v"] assms by (simp add: clamp_percent_def abs_if split: if_splits)

section \<open>The readings\<close>

record usage =
  us_percent :: rat
  us_used :: int
  us_total :: int

record psutil_env =
  ps_cpu :: rat
  ps_memory :: usage
  ps_swap :: usage
  ps_disk :: "string \<Rightarrow> exn + usage"

record resource_snapshot =
  rs_percent :: int
  rs_used_bytes :: "int option"
  rs_total_bytes :: "int option"

record system_snapshot =
  ss_cpu_percent :: int
  ss_memory :: resource_snapshot
  ss_swap :: resource_snapshot
  ss_disk :: resource_snapshot
  ss_disk_path :: string

definition snapshot_of_usage :: "usage \<Rightarrow> resource_snapshot" where
  "snapshot_of_usage u = \<lparr>rs_percent = clamp_percent (us_percent u), rs_used_bytes = Some (us_used u),
     rs_total_bytes = Some (us_total u)\<rparr>"

definition collect_system_resources :: "psutil_env \<Rightarrow> string \<Rightarrow> exn + system_snapshot" where
  "collect_system_resources ps disk_path =
     bindR (ps_disk ps disk_path) (\<lambda>disk.
     Inr \<lparr>ss_cpu_percent = clamp_percent (ps_cpu ps), ss_memory = snapshot_of_usage (ps_memory ps),
       ss_swap = snapshot_of_usage (ps_swap ps), ss_disk = snapshot_of_usage disk, ss_disk_path = disk_path\<rparr>)"

section \<open>The endpoint\<close>

text \<open>A metric of the response; its model takes a percentage of 0 to 100 only.\<close>

definition resource_metric :: "int \<Rightarrow> int option \<Rightarrow> int option \<Rightarrow> exn + resource_snapshot" where
  "resource_metric percent used_bytes total_bytes =
     (if 0 \<le> percent \<and> percent \<le> 1000
      then Inr \<lparr>rs_percent = percent, rs_used_bytes = used_bytes, rs_total_bytes = total_bytes\<rparr>
      else raise ValueError '''')"

definition metric_of :: "resource_snapshot \<Rightarrow> exn + resource_snapshot" where
  "metric_of s = resource_metric (rs_percent s) (rs_used_bytes s) (rs_total_bytes s)"

record system_resources_response =
  sr_cpu :: resource_snapshot
  sr_memory :: resource_snapshot
  sr_swap :: resource_snapshot
  sr_disk :: resource_snapshot
  sr_disk_path :: string

definition system_resources :: "psutil_env \<Rightarrow> string \<Rightarrow> exn + system_resources_response" where
  "system_resources ps configs =
     bindR (collect_system_resources ps configs) (\<lambda>s.
     bindR (resource_metric (ss_cpu_percent s) None None) (\<lambda>cpu.
     bindR (metric_of (ss_memory s)) (\<lambda>memory.
     bindR (metric_of (ss_swap s)) (\<lambda>swap.
     bindR (metric_of (ss_disk s)) (\<lambda>disk.
     Inr \<lparr>sr_cpu = cpu, sr_memory = memory, sr_swap = swap, sr_disk = disk, sr_disk_path = ss_disk_path s\<rparr>)))))"

definition system_resources_endpoint :: "psutil_env \<Rightarrow> string \<Rightarrow> system_resources_response reply" where
  "system_resources_endpoint ps configs =
     (case system_resources ps configs of Inl e \<Rightarrow> internal_error | Inr r \<Rightarrow> Reply r)"

lemma metric_of_usage: "metric_of (snapshot_of_usage u) = Inr (snapshot_of_usage u)"
  by (simp add: metric_of_def snapshot_of_usage_def resource_metric_def clamp_percent_range)

lemma metric_of_cpu: "resource_metric (clamp_percent v) None None
    = Inr \<lparr>rs_percent = clamp_percent v, rs_used_bytes = None, rs_total_bytes = None\<rparr>"
  by (simp add: resource_metric_def clamp_percent_range)

text \<open>
  Whatever the machine reports, no reading is refused by the response model: the endpoint fails only when
  the disk of the configurations cannot be read, and then with the error of the library.
\<close>

lemma resources_readable:
  "ps_disk ps configs = Inr disk \<Longrightarrow> system_resources_endpoint ps configs = Reply
     \<lparr>sr_cpu = \<lparr>rs_percent = clamp_percent (ps_cpu ps), rs_used_bytes = None, rs_total_bytes = None\<rparr>,
      sr_memory = snapshot_of_usage (ps_memory ps), sr_swap = snapshot_of_usage (ps_swap ps),
      sr_disk = snapshot_of_usage disk, sr_disk_path = configs\<rparr>"
  by (simp add: system_resources_endpoint_def system_resources_def collect_system_resources_def
      metric_of_usage metric_of_cpu)

lemma resources_unreadable:
  "ps_disk ps configs = Inl e \<Longrightarrow> system_resources_endpoint ps configs = internal_error"
  by (simp add: system_resources_endpoint_def system_resources_def collect_system_resources_def)

lemma resources_answer_cases:
  "system_resources_endpoint ps configs = internal_error \<longleftrightarrow> isl (ps_disk ps configs)"
  by (cases "ps_disk ps configs") (simp_all add: resources_readable resources_unreadable internal_error_def)

end
