(* ===== verification/Protocols.thy ===== *)
theory Protocols
  imports Settings
begin

text \<open>
  The protocol classes: \<open>domain/ports/vpn_protocol.py\<close>, \<open>infrastructure/vpn/xray.py\<close>,
  \<open>hysteria2.py\<close> and \<open>factory.py\<close>, the predecessors of the profile builder, and the
  profiles of \<open>default_profiles.py\<close>. What the abstract class promises its callers is a locale, and
  both classes are shown to keep it.
\<close>

section \<open>The protocol classes\<close>

record key_pair =
  kp_private_key :: string
  kp_public_key :: string
  kp_cert_fingerprint :: string

text \<open>The dictionary of parameters: a key that is missing is None here.\<close>

record protocol_params =
  pp_port :: "int option"
  pp_keys :: "key_pair option"
  pp_client_id :: "string option"
  pp_short_id :: "string option"
  pp_password :: "string option"

definition param :: "'a option \<Rightarrow> exn + 'a" where
  "param v = (case v of None \<Rightarrow> raise KeyError '''' | Some x \<Rightarrow> Inr x)"

text \<open>An object of a class holds its service: the unit's name and the file's name.\<close>

datatype vpn_protocol = XrayProtocol "string \<times> string" | Hysteria2Protocol "string \<times> string"

fun service_of :: "vpn_protocol \<Rightarrow> string \<times> string" where
  "service_of (XrayProtocol s) = s"
| "service_of (Hysteria2Protocol s) = s"

definition generate_keys :: "vpn_protocol \<Rightarrow> x509_lib \<Rightarrow> nat \<Rightarrow> exn + key_pair" where
  "generate_keys pr x r = (case pr of
     XrayProtocol _ \<Rightarrow> (let (k, pk) = x25519_pair x r in
       Inr \<lparr>kp_private_key = to_base64 k, kp_public_key = to_base64 pk, kp_cert_fingerprint = ''''\<rparr>)
   | Hysteria2Protocol _ \<Rightarrow> bindR (generate_self_signed_cert x r [''localhost'']) (\<lambda>(private_pem, cert_pem, fingerprint).
       Inr \<lparr>kp_private_key = private_pem, kp_public_key = cert_pem, kp_cert_fingerprint = fingerprint\<rparr>))"

definition xray_config :: "protocol_params \<Rightarrow> exn + json" where
  "xray_config params =
     bindR (param (pp_port params)) (\<lambda>port.
     bindR (param (pp_keys params)) (\<lambda>keys.
     bindR (param (pp_client_id params)) (\<lambda>client_id.
     bindR (param (pp_short_id params)) (\<lambda>short_id.
     Inr (JDict
       [(''inbounds'', JList [JDict
          [(''port'', JInt port),
           (''protocol'', JStr ''vless''),
           (''settings'', JDict [(''clients'', JList [JDict [(''id'', JStr client_id), (''flow'', JStr ''xtls-rprx-vision'')]])]),
           (''streamSettings'', JDict
             [(''network'', JStr ''tcp''),
              (''security'', JStr ''reality''),
              (''realitySettings'', JDict [(''privateKey'', JStr (kp_private_key keys)), (''shortIds'', JList [JStr short_id])])])]]),
        (''outbounds'', JList [JDict [(''protocol'', JStr ''freedom'')]]),
        (''tls'', JDict [(''private_key'', JStr (kp_private_key keys))])])))))"

definition hysteria_config :: "protocol_params \<Rightarrow> exn + json" where
  "hysteria_config params =
     bindR (param (pp_keys params)) (\<lambda>keys.
     bindR (param (pp_password params)) (\<lambda>password.
     bindR (param (pp_port params)) (\<lambda>port.
     Inr (JDict
       [(''listen'', JStr ('':'' @ show_int port)),
        (''auth'', JDict [(''type'', JStr ''password''), (''password'', JStr password)]),
        (''tls'', JDict [(''cert'', JStr (kp_public_key keys)), (''key'', JStr (kp_private_key keys))])]))))"

definition build_config :: "vpn_protocol \<Rightarrow> protocol_params \<Rightarrow> exn + json" where
  "build_config pr params = (case pr of XrayProtocol _ \<Rightarrow> xray_config params | Hysteria2Protocol _ \<Rightarrow> hysteria_config params)"

definition protocol_sensitive_fields :: "vpn_protocol \<Rightarrow> string list" where
  "protocol_sensitive_fields pr = (case pr of
     XrayProtocol _ \<Rightarrow> [''tls.private_key'', ''inbounds.0.streamSettings.realitySettings.privateKey'']
   | Hysteria2Protocol _ \<Rightarrow> [''auth.password'', ''tls.key''])"

text \<open>\<open>json.dumps(config, indent=2)\<close> escapes what is not ASCII, which stands in strings alone.\<close>

definition json_ascii_show :: "json \<Rightarrow> string" where
  "json_ascii_show config = concat (map (\<lambda>c. if 127 \<le> (of_char c :: nat) then json_ascii_char c else [c]) (json_show 0 config))"

definition write_protocol_files :: "os_env \<Rightarrow> vpn_protocol \<Rightarrow> json \<Rightarrow> string \<Rightarrow> unit action" where
  "write_protocol_files env pr config base_path =
     atomic_write env (path_join base_path (snd (service_of pr)))
       (case pr of XrayProtocol _ \<Rightarrow> json_ascii_show config | Hysteria2Protocol _ \<Rightarrow> os_yaml_dump env config) 384"

definition reload_protocol :: "os_env \<Rightarrow> vpn_protocol \<Rightarrow> unit action" where
  "reload_protocol env pr = reload_service env (fst (service_of pr))"

definition link_name :: "string \<Rightarrow> string" where
  "link_name label = quote ''/'' (if label \<noteq> [] then label else ''vpn'')"

definition xray_link :: "string \<Rightarrow> string \<Rightarrow> string \<Rightarrow> string \<Rightarrow> string \<Rightarrow> string \<Rightarrow> string" where
  "xray_link client_id host port public_key short_id label =
     ''vless://'' @ client_id @ ''@'' @ host @ '':'' @ port
     @ ''?encryption=none&security=reality&type=tcp&flow=xtls-rprx-vision''
     @ ''&pbk='' @ quote '''' public_key @ ''&sid='' @ short_id @ ''#'' @ link_name label"

definition hysteria_link :: "string \<Rightarrow> string \<Rightarrow> int \<Rightarrow> string \<Rightarrow> string" where
  "hysteria_link password host port label =
     ''hysteria2://'' @ quote '''' password @ ''@'' @ host @ '':'' @ show_int port @ ''?insecure=1#'' @ link_name label"

definition xray_client_uris :: "json \<Rightarrow> string \<Rightarrow> string \<Rightarrow> string \<Rightarrow> exn + string list" where
  "xray_client_uris config host public_key label =
     bindR (jitem config ''inbounds'') (\<lambda>inbounds.
     bindR (jindex inbounds 0) (\<lambda>inbound.
     bindR (jitem inbound ''settings'') (\<lambda>settings.
     bindR (jitem settings ''clients'') (\<lambda>clients.
     bindR (jindex clients 0) (\<lambda>client.
     bindR (jitem client ''id'') (\<lambda>client_id.
     bindR (jitem inbound ''port'') (\<lambda>port.
     bindR (jitem inbound ''streamSettings'') (\<lambda>stream.
     bindR (jitem stream ''realitySettings'') (\<lambda>reality.
     bindR (jitem reality ''shortIds'') (\<lambda>short_ids.
     bindR (jindex short_ids 0) (\<lambda>short_id.
     Inr [xray_link (py_str client_id) host (py_str port) public_key (py_str short_id) label])))))))))))"

definition hysteria_client_uris :: "json \<Rightarrow> string \<Rightarrow> string \<Rightarrow> exn + string list" where
  "hysteria_client_uris config host label =
     bindR (jitem config ''listen'') (\<lambda>listen.
     bindR (json_int (JStr (lstrip_char CHR '':'' (py_str listen)))) (\<lambda>port.
     bindR (jitem config ''auth'') (\<lambda>auth.
     bindR (jitem auth ''password'') (\<lambda>v.
     case v of JStr password \<Rightarrow> Inr [hysteria_link password host port label] | _ \<Rightarrow> raise TypeError ''''))))"

definition protocol_client_uris :: "vpn_protocol \<Rightarrow> json \<Rightarrow> string \<Rightarrow> string \<Rightarrow> string \<Rightarrow> exn + string list" where
  "protocol_client_uris pr config host public_key label = (case pr of
     XrayProtocol _ \<Rightarrow> xray_client_uris config host public_key label
   | Hysteria2Protocol _ \<Rightarrow> hysteria_client_uris config host label)"

text \<open>Both classes have a function beside them: a port of its own range, and a password.\<close>

definition random_port :: "nat \<Rightarrow> int" where
  "random_port r = 10000 + int (r mod 50001)"

definition generate_auth_password :: "nat list \<Rightarrow> string" where
  "generate_auth_password bytes = generate_token bytes"

section \<open>The factory\<close>

definition service_from_profile :: "panel_settings \<Rightarrow> string \<Rightarrow> exn + string \<times> string" where
  "service_from_profile st profile_key = (case map_of (profiles st) profile_key of
     None \<Rightarrow> raise KeyError ''''
   | Some ps \<Rightarrow> Inr (service_name ps, config_filename ps))"

definition get_vpn_protocol :: "loaded_settings \<Rightarrow> string \<Rightarrow> exn + vpn_protocol" where
  "get_vpn_protocol ls protocol =
     (let service = (\<lambda>own profile_key. case own of Some s \<Rightarrow> Inr s | None \<Rightarrow> service_from_profile (ls_panel ls) profile_key) in
      if protocol = protocol_value XRAY then bindR (service (ls_xray ls) ''xray-reality'') (\<lambda>s. Inr (XrayProtocol s))
      else if protocol = protocol_value HYSTERIA2_PROTOCOL then bindR (service (ls_hysteria2 ls) ''hysteria2'') (\<lambda>s. Inr (Hysteria2Protocol s))
      else raise ValueError (repr_str protocol @ '' is not a valid VpnProtocolType''))"

section \<open>What the abstract class promises\<close>

text \<open>
  A configuration that was built is shared by the link that its parameters ask for, and its sensitive
  fields lead to its secrets. Then storing it encrypted and reading it back changes no link, and what is
  stored has tokens where the secrets were.
\<close>

locale protocol_class =
  fixes build :: "'pr \<Rightarrow> 'params \<Rightarrow> exn + json"
    and fields :: "'pr \<Rightarrow> string list"
    and uris :: "'pr \<Rightarrow> json \<Rightarrow> string \<Rightarrow> string \<Rightarrow> string \<Rightarrow> exn + string list"
    and secrets :: "'pr \<Rightarrow> 'params \<Rightarrow> string list"
    and link :: "'pr \<Rightarrow> 'params \<Rightarrow> string \<Rightarrow> string \<Rightarrow> string \<Rightarrow> string"
  assumes linked: "build pr params = Inr config \<Longrightarrow> uris pr config host public_key label = Inr [link pr params host public_key label]"
    and listed: "build pr params = Inr config \<Longrightarrow> map (get_by_path config) (fields pr) = map (Inr \<circ> JStr) (secrets pr params)"
begin

lemma stored_link:
  assumes "build pr params = Inr config" "cipher_ok c"
  shows "bindR (encrypt_config_data_fields c n config (fields pr)) (\<lambda>stored.
    bindR (decrypt_config_data_fields c stored (fields pr)) (\<lambda>back. uris pr back host public_key label)) = Inr [link pr params host public_key label]"
  using fields.dec_enc_all [OF assms(2), of n config "fields pr"] linked [OF assms(1)] by (simp add: bindR_assoc [symmetric])

lemma secret_found:
  assumes "build pr params = Inr config" "s \<in> set (secrets pr params)"
  obtains p where "p \<in> set (fields pr)" "get_by_path config p = Inr (JStr s)"
  using listed [OF assms(1)] assms(2) by (metis (no_types, lifting) comp_apply imageE image_eqI list.set_map)

end

definition protocol_secrets :: "vpn_protocol \<Rightarrow> protocol_params \<Rightarrow> string list" where
  "protocol_secrets pr params = (case (pr, pp_keys params, pp_password params) of
     (XrayProtocol _, Some keys, _) \<Rightarrow> [kp_private_key keys, kp_private_key keys]
   | (Hysteria2Protocol _, Some keys, Some password) \<Rightarrow> [password, kp_private_key keys]
   | _ \<Rightarrow> [])"

definition protocol_link :: "vpn_protocol \<Rightarrow> protocol_params \<Rightarrow> string \<Rightarrow> string \<Rightarrow> string \<Rightarrow> string" where
  "protocol_link pr params host public_key label = (case pr of
     XrayProtocol _ \<Rightarrow> xray_link (the_or '''' (pp_client_id params)) host (show_int (the_or 0 (pp_port params))) public_key
       (the_or '''' (pp_short_id params)) label
   | Hysteria2Protocol _ \<Rightarrow> hysteria_link (the_or '''' (pp_password params)) host (the_or 0 (pp_port params)) label)"

lemma param_Inr: "param v = Inr x \<longleftrightarrow> v = Some x"
  by (cases v) (auto simp: param_def)

lemma show_int_no_colon: "lstrip_char CHR '':'' (CHR '':'' # show_int i) = show_int i"
proof -
  have "list_all (\<lambda>d. digit_char d \<noteq> CHR '':'') [0..<16]" by code_simp
  then have "hd (show_int i) \<noteq> CHR '':''"
    using set_show_int [of "hd (show_int i)" i] by (auto simp: list_all_iff)
  then show ?thesis by (cases "show_int i") (simp_all add: lstrip_char_def)
qed

lemma path_pieces:
  "split_on CHR ''.'' ''tls.private_key'' = [''tls'', ''private_key'']" "split_on CHR ''.'' ''tls.key'' = [''tls'', ''key'']"
  "split_on CHR ''.'' ''auth.password'' = [''auth'', ''password'']"
  "split_on CHR ''.'' ''inbounds.0.streamSettings.realitySettings.privateKey'' = [''inbounds'', ''0'', ''streamSettings'', ''realitySettings'', ''privateKey'']"
  "py_int 10 ''0'' = Some 0"
  by code_simp+

interpretation classes: protocol_class build_config protocol_sensitive_fields protocol_client_uris protocol_secrets protocol_link
proof
  fix pr params config host public_key label
  assume "build_config pr params = Inr config"
  then show "protocol_client_uris pr config host public_key label = Inr [protocol_link pr params host public_key label]"
    by (cases pr) (auto simp: build_config_def protocol_client_uris_def xray_config_def hysteria_config_def xray_client_uris_def
        hysteria_client_uris_def protocol_link_def bindR_eq_Inr param_Inr show_int_no_colon py_index_def)
next
  fix pr params config
  assume "build_config pr params = Inr config"
  then show "map (get_by_path config) (protocol_sensitive_fields pr) = map (Inr \<circ> JStr) (protocol_secrets pr params)"
    by (cases pr) (auto simp: build_config_def protocol_sensitive_fields_def protocol_secrets_def xray_config_def hysteria_config_def
        bindR_eq_Inr param_Inr get_by_path_def path_step_def path_pieces py_index_def)
qed

text \<open>
  Storing changes no link: what either class builds, encrypted, stored, read back and decrypted, is shared
  by the link its parameters ask for, and in what is stored every secret has given way to a token.
\<close>

theorem stored_protocol_config:
  assumes built: "build_config pr params = Inr config" and c: "cipher_ok c"
    and stored: "encrypt_config_data_fields c n config (protocol_sensitive_fields pr) = Inr stored"
  shows "bindR (decrypt_config_data_fields c stored (protocol_sensitive_fields pr)) (\<lambda>back. protocol_client_uris pr back host public_key label)
      = Inr [protocol_link pr params host public_key label]
    \<and> (\<forall>s\<in>set (protocol_secrets pr params). \<exists>p\<in>set (protocol_sensitive_fields pr). get_by_path config p = Inr (JStr s))"
  using classes.stored_link [OF built c, of n host public_key label] stored classes.secret_found [OF built] by auto

definition demo_keys :: key_pair where
  "demo_keys = \<lparr>kp_private_key = ''priv'', kp_public_key = ''pub'', kp_cert_fingerprint = ''''\<rparr>"

definition demo_params :: protocol_params where
  "demo_params = \<lparr>pp_port = Some 8443, pp_keys = Some demo_keys, pp_client_id = None, pp_short_id = None, pp_password = Some ''p w''\<rparr>"

lemma stored_protocol_config_demo:
  "build_config (Hysteria2Protocol (''hysteria-server'', ''config.yaml'')) demo_params
     = Inr (JDict [(''listen'', JStr '':8443''), (''auth'', JDict [(''type'', JStr ''password''), (''password'', JStr ''p w'')]),
        (''tls'', JDict [(''cert'', JStr ''pub''), (''key'', JStr ''priv'')])])
   \<and> protocol_link (Hysteria2Protocol (''hysteria-server'', ''config.yaml'')) demo_params ''vpn.example'' [] [] = ''hysteria2://p%20w@vpn.example:8443?insecure=1#vpn''"
  by code_simp

section \<open>The default profiles\<close>

definition default_vpn_profiles :: "string \<Rightarrow> json" where
  "default_vpn_profiles certs = (let strs = (\<lambda>xs. JList (map JStr xs)); ints = (\<lambda>xs. JList (map JInt xs)) in JDict
     [(''xray-reality'', JDict
        [(''template_file'', JStr ''config_reality.json''), (''service_name'', JStr ''xray''), (''config_filename'', JStr ''config.json''),
         (''inbound_tag'', JStr ''vless-reality-in''), (''port_candidates'', ints [8443, 2053, 2083, 2096, 9443, 10443, 8444]),
         (''reality_dest_hosts'', strs [''ya.ru:443'', ''vk.com:443'', ''gosuslugi.ru:443'', ''pochta.ru:443'']),
         (''reality_server_names'', strs [''ya.ru'', ''gosuslugi.ru'', ''vk.com'', ''pochta.ru''])]),
      (''xray-grpc'', JDict
        [(''template_file'', JStr ''config_grpc.json''), (''service_name'', JStr ''xray''), (''config_filename'', JStr ''config.json''),
         (''inbound_tag'', JStr ''vless-grpc-trusted''), (''port_candidates'', ints [8443, 2053, 2083, 2096, 9443, 10443, 4433, 8444]),
         (''cert_dir'', JStr certs), (''cert_prefix'', JStr ''grpc''),
         (''grpc_sni_hosts'', strs [''ya.ru'', ''gosuslugi.ru'', ''www.microsoft.com'', ''vk.com'', ''kremlin.ru'', ''pochta.ru'', ''government.ru'', ''rzd.ru'']),
         (''grpc_service_names'', strs [''Drive'', ''Download'', ''Api'', ''TunService'', ''v1.Messenger'', ''grpc.health.v1.Health''])]),
      (''xray-xhttp'', JDict
        [(''template_file'', JStr ''config_xhttp.json''), (''service_name'', JStr ''xray''), (''config_filename'', JStr ''config.json''),
         (''inbound_tag'', JStr ''vless-xhttp-in''), (''port_candidates'', ints [8443, 9443, 10443, 8080, 8444, 2083, 2096, 8888]),
         (''cert_dir'', JStr certs), (''cert_prefix'', JStr ''xhttp''), (''xhttp_hosts'', strs []),
         (''xhttp_paths'', strs [''/search'', ''/assets'', ''/api'', ''/download'', ''/news'', ''/login''])]),
      (''hysteria2'', JDict
        [(''template_file'', JStr ''hysteria.server.yaml''), (''service_name'', JStr ''hysteria-server''), (''config_filename'', JStr ''config.yaml''),
         (''inbound_tag'', JStr ''''), (''port_candidates'', ints [8443, 3478, 8800, 1935, 8080, 5000, 9443, 10443]),
         (''cert_dir'', JStr certs), (''cert_prefix'', JStr ''hysteria'')])])"

text \<open>The settings take them, wherever the certificates lie, and there is one for each profile of the panel.\<close>

lemma default_profiles_accepted:
  assumes "\<And>s. co_str co (JStr s) = Inr s" "\<And>s. co_path co (JStr s) = Inr s" "\<And>n. co_int co (JInt n) = Inr n"
  shows "\<exists>ps. dict_of (read_profile co) (default_vpn_profiles certs) = Inr ps
    \<and> map fst ps = map profile_value [XRAY_REALITY, XRAY_GRPC, XRAY_XHTTP, HYSTERIA2]
    \<and> list_all (\<lambda>(k, s). port_candidates s \<noteq> [] \<and> list_all (\<lambda>p. 1 \<le> p \<and> p \<le> 65535) (port_candidates s)) ps"
  by (simp add: dict_of_def default_vpn_profiles_def model_def read_profile_def required_def defaulting_def list_of_def nullable_def assms Let_def)

end
