(* ===== verification/Worker_Loop.thy ===== *)
theory Worker_Loop
  imports Worker Broker
begin

text \<open>
  The worker's loop, \<open>run_worker\<close> of \<open>panel/worker/main.py\<close>: it pulls a task, handles it,
  tells the broker how it ended, and pulls the next. Theory \<open>Worker\<close> handles the task, theory
  \<open>Broker\<close> makes the calls. The loop has no end of its own: it is a partial function whose value is
  None when it runs forever.
\<close>

section \<open>One task\<close>

record worker_state =
  ws_sent :: "http_call list"
  ws_db :: db
  ws_host :: host
  ws_round :: nat

text \<open>What differs from round to round: the draws of the task, and how many heartbeats fall due before its handler ends.\<close>

record worker_env =
  we_ctx :: worker_ctx
  we_server :: http_server
  we_task_draws :: "nat \<Rightarrow> task_draws"
  we_beats :: "nat \<Rightarrow> nat"
  we_worker_id :: string
  we_task_types :: "string list"

text \<open>\<open>heartbeat_loop\<close>: the first heartbeat that is refused ends it.\<close>

fun heartbeat_loop :: "http_server \<Rightarrow> string \<Rightarrow> string \<Rightarrow> nat \<Rightarrow> (http_call list, unit) act" where
  "heartbeat_loop server task_id worker_id 0 = returnH ()"
| "heartbeat_loop server task_id worker_id (Suc n) =
     thenH (heartbeat server task_id worker_id) (heartbeat_loop server task_id worker_id n)"

definition tell_broker :: "http_server \<Rightarrow> broker_call \<Rightarrow> (http_call list, unit) act" where
  "tell_broker server call = (case call of
     Ack task_id worker_id \<Rightarrow> ack server task_id worker_id
   | Nack task_id worker_id reason \<Rightarrow> nack server task_id worker_id reason)"

text \<open>
  The arguments of \<open>_process_task\<close> as the broker's document has them: an id goes into the path as its
  text, the look-up of the handler needs a hashable value, and the lock's time to live a number, which is
  divided once the handler has been found.
\<close>

definition task_type_text :: "json \<Rightarrow> exn + string" where
  "task_type_text v = (case v of
     JStr s \<Rightarrow> Inr s
   | JList _ \<Rightarrow> raise TypeError ''''
   | JDict _ \<Rightarrow> raise TypeError ''''
   | _ \<Rightarrow> Inr (py_str v))"

definition lock_seconds :: "json \<Rightarrow> exn + int" where
  "lock_seconds v = (case v of JInt n \<Rightarrow> Inr n | JBool b \<Rightarrow> Inr (if b then 1 else 0) | _ \<Rightarrow> raise TypeError '''')"

definition handle_pulled :: "worker_env \<Rightarrow> pulled_task \<Rightarrow> (worker_state, unit) act" where
  "handle_pulled env task s =
     (let server = we_server env; worker_id = we_worker_id env; task_id = py_str (pt_task_id task); k = ws_round s in
      case task_type_text (pt_task_type task) of
        Inl e \<Rightarrow> (s, Inl e)
      | Inr task_type \<Rightarrow>
          let known = task_type \<in> set task_handlers in
          if known \<and> isl (lock_seconds (pt_lock_ttl task)) then (s, raise TypeError '''')
          else
            let (sent, beaten) = (if known then heartbeat_loop server task_id worker_id (we_beats env k) (ws_sent s) else (ws_sent s, Inr ()));
                (h, d, calls, result) = process_task (we_ctx env) (we_task_draws env k) (\<lambda>call. snd (tell_broker server call sent)) beaten
                  worker_id task_id task_type (pt_payload task) (ws_db s) (ws_host s) in
            (s\<lparr>ws_sent := fold (\<lambda>call. fst \<circ> tell_broker server call) calls sent, ws_db := d, ws_host := h\<rparr>, result))"

section \<open>The loop\<close>

definition worker_round :: "worker_env \<Rightarrow> (worker_state, unit) act" where
  "worker_round env s =
     (case pull_task (we_server env) (we_worker_id env) (we_task_types env) None (ws_sent s) of
        (sent, Inl e) \<Rightarrow> (s\<lparr>ws_sent := sent\<rparr>, Inl e)
      | (sent, Inr None) \<Rightarrow> (s\<lparr>ws_sent := sent, ws_round := Suc (ws_round s)\<rparr>, Inr ())
      | (sent, Inr (Some task)) \<Rightarrow>
          (case handle_pulled env task (s\<lparr>ws_sent := sent\<rparr>) of (s', r) \<Rightarrow> (s'\<lparr>ws_round := Suc (ws_round s)\<rparr>, r)))"

text \<open>The loop ends by an exception alone.\<close>

partial_function (option) run_worker :: "worker_env \<Rightarrow> worker_state \<Rightarrow> (worker_state \<times> exn) option" where
  "run_worker env s = (case worker_round env s of
     (s', Inl e) \<Rightarrow> Some (s', e)
   | (s', Inr _) \<Rightarrow> run_worker env s')"

text \<open>Its first rounds.\<close>

fun worker_rounds :: "worker_env \<Rightarrow> nat \<Rightarrow> (worker_state, unit) act" where
  "worker_rounds env 0 = returnH ()"
| "worker_rounds env (Suc n) = thenH (worker_round env) (worker_rounds env n)"

section \<open>What the broker sees\<close>

definition pull_call :: "worker_env \<Rightarrow> http_call" where
  "pull_call env = Get ''/api/v1/tasks/pull'' ((''worker_id'', we_worker_id env) # map (\<lambda>t. (''task_types'', t)) (we_task_types env))"

definition beat_call :: "worker_env \<Rightarrow> string \<Rightarrow> http_call" where
  "beat_call env task_id = Post (''/api/v1/tasks/'' @ task_id @ ''/heartbeat'') (JDict [(''worker_id'', JStr (we_worker_id env))])"

definition ack_call :: "worker_env \<Rightarrow> string \<Rightarrow> http_call" where
  "ack_call env task_id = Post (''/api/v1/tasks/'' @ task_id @ ''/ack'') (JDict [(''worker_id'', JStr (we_worker_id env))])"

definition nack_call :: "worker_env \<Rightarrow> string \<Rightarrow> string \<Rightarrow> http_call" where
  "nack_call env task_id reason = Post (''/api/v1/tasks/'' @ task_id @ ''/nack'')
     (JDict [(''worker_id'', JStr (we_worker_id env)), (''reason'', JStr reason)])"

text \<open>How a task of type \<open>ty\<close> ends that is pulled in round \<open>k\<close>: as its handler does, or refused when no handler is known.\<close>

definition task_outcome :: "worker_env \<Rightarrow> nat \<Rightarrow> string \<Rightarrow> json \<Rightarrow> db \<Rightarrow> host \<Rightarrow> host \<times> db \<times> string option" where
  "task_outcome env k ty p d h =
     (if ty \<notin> set task_handlers then (h, d, Some (''Unknown task type: '' @ ty))
      else case run_config_task (we_ctx env) (we_task_draws env k) p d h of
        (h1, d1, Inr _) \<Rightarrow> (h1, d1, None)
      | (h1, d1, Inl e) \<Rightarrow> (h1, d1, Some (exn_msg e)))"

text \<open>
  A worker's calls in order, from state \<open>s\<close>. A round without a task is one where the broker answered
  the pull by 204. In any other round the task is the one of the broker's document: its handler ran on the
  database and the host as the rounds before left them, what it did is in the state after the round, and the
  task's own id is acknowledged when it succeeded and refused with its error when it did not, after the
  heartbeats and before the next pull. The list of the ids that were handed out.
\<close>

inductive worker_log :: "worker_env \<Rightarrow> worker_state \<Rightarrow> http_call list \<Rightarrow> string list \<Rightarrow> worker_state \<Rightarrow> bool" for env s where
  start: "worker_log env s [] [] s"
| idle: "worker_log env s l ts s1 \<Longrightarrow> we_server env (ws_sent s1) (pull_call env) = Inr (204, body) \<Longrightarrow>
    worker_log env s (l @ [pull_call env]) ts (s1\<lparr>ws_sent := ws_sent s1 @ [pull_call env], ws_round := Suc (ws_round s1)\<rparr>)"
| task: "worker_log env s l ts s1 \<Longrightarrow> we_server env (ws_sent s1) (pull_call env) = Inr (code, Inr (JDict m)) \<Longrightarrow> code \<noteq> 204 \<Longrightarrow>
    map_of m ''task_id'' = Some (JStr t) \<Longrightarrow> map_of m ''task_type'' = Some (JStr ty) \<Longrightarrow> map_of m ''payload'' = Some p \<Longrightarrow>
    task_outcome env (ws_round s1) ty p (ws_db s1) (ws_host s1) = (h, d, failure) \<Longrightarrow>
    calls = pull_call env # (if ty \<in> set task_handlers then replicate (we_beats env (ws_round s1)) (beat_call env t) else [])
      @ [case failure of None \<Rightarrow> ack_call env t | Some reason \<Rightarrow> nack_call env t reason] \<Longrightarrow>
    worker_log env s (l @ calls) (ts @ [t])
      (s1\<lparr>ws_sent := ws_sent s1 @ calls, ws_db := d, ws_host := h, ws_round := Suc (ws_round s1)\<rparr>)"

text \<open>A broker that accepts every call, and hands out tasks as its documents promise them.\<close>

definition task_document :: "exn + json \<Rightarrow> bool" where
  "task_document body \<longleftrightarrow> (\<exists>m i t p n. body = Inr (JDict m) \<and> map_of m ''task_id'' = Some (JStr i) \<and> map_of m ''task_type'' = Some (JStr t)
     \<and> map_of m ''payload'' = Some p \<and> map_of m ''lock_ttl_seconds'' = Some (JInt n))"

definition obliging :: "worker_env \<Rightarrow> bool" where
  "obliging env \<longleftrightarrow> (\<forall>sent call. \<exists>code body. we_server env sent call = Inr (code, body) \<and> 200 \<le> code \<and> code \<le> 299
     \<and> (call = pull_call env \<longrightarrow> code = 204 \<or> task_document body))"

lemma obliging_calls:
  assumes "obliging env"
  shows "checked_call (we_server env) call sent = (sent @ [call], Inr ())"
proof -
  obtain code body where "we_server env sent call = Inr (code, body)" "200 \<le> code" "code \<le> 299"
    using assms unfolding obliging_def by blast
  then show ?thesis by (simp add: checked_call_def bindH_def http_send_def liftH_def raise_for_status_def)
qed

lemma beats_sent:
  assumes "obliging env"
  shows "heartbeat_loop (we_server env) t (we_worker_id env) n sent = (sent @ replicate n (beat_call env t), Inr ())"
proof (induction n arbitrary: sent)
  case (Suc n)
  then show ?case by (simp add: heartbeat_def bindH_def obliging_calls [OF assms] beat_call_def)
qed (simp add: returnH_def)

lemma told:
  assumes "obliging env"
  shows "tell_broker (we_server env) (Ack t (we_worker_id env)) sent = (sent @ [ack_call env t], Inr ())"
    "tell_broker (we_server env) (Nack t (we_worker_id env) reason) sent = (sent @ [nack_call env t reason], Inr ())"
  by (simp_all add: tell_broker_def ack_def nack_def obliging_calls [OF assms] ack_call_def nack_call_def)

lemma handled:
  assumes env: "obliging env" and task: "pt_task_id task = JStr t" "pt_task_type task = JStr ty" "pt_lock_ttl task = JInt n"
    and outcome: "task_outcome env (ws_round s) ty (pt_payload task) (ws_db s) (ws_host s) = (h, d, failure)"
    and calls: "calls = (if ty \<in> set task_handlers then replicate (we_beats env (ws_round s)) (beat_call env t) else [])
      @ [case failure of None \<Rightarrow> ack_call env t | Some reason \<Rightarrow> nack_call env t reason]"
  shows "handle_pulled env task s = (s\<lparr>ws_sent := ws_sent s @ calls, ws_db := d, ws_host := h\<rparr>, Inr ())"
proof (cases "ty \<in> set task_handlers")
  case False
  then show ?thesis using outcome calls
    by (auto simp: handle_pulled_def task task_type_text_def process_task_def Let_def told [OF env] py_str.simps task_outcome_def)
next
  case True
  obtain h1 d1 r where run: "run_config_task (we_ctx env) (we_task_draws env (ws_round s)) (pt_payload task) (ws_db s) (ws_host s) = (h1, d1, r)"
    by (metis prod_cases3)
  show ?thesis using True outcome calls
    by (cases r) (auto simp: handle_pulled_def task task_type_text_def lock_seconds_def process_task_def Let_def run
        beats_sent [OF env] told [OF env] py_str.simps task_outcome_def)
qed

lemma round_log:
  assumes env: "obliging env" and log: "worker_log env s l ts s1"
  obtains s2 l' ts' where "worker_round env s1 = (s2, Inr ())" "worker_log env s (l @ l') ts' s2"
    "ws_sent s2 = ws_sent s1 @ l'" "count_list l' (pull_call env) = 1"
proof -
  let ?pull = "pull_task (we_server env) (we_worker_id env) (we_task_types env) None (ws_sent s1)"
  obtain code body where call: "we_server env (ws_sent s1) (pull_call env) = Inr (code, body)" "200 \<le> code" "code \<le> 299"
    and doc: "code = 204 \<or> task_document body"
    using env unfolding obliging_def by metis
  show thesis
  proof (cases "code = 204")
    case True
    then have "?pull = (ws_sent s1 @ [pull_call env], Inr None)"
      using call by (simp add: pull_task_def http_send_def bindH_def returnH_def pull_call_def)
    then show thesis
      using that [OF _ worker_log.idle [OF log]] call True by (simp add: worker_round_def)
  next
    case False
    then obtain m t ty p n where m: "body = Inr (JDict m)" "map_of m ''task_id'' = Some (JStr t)" "map_of m ''task_type'' = Some (JStr ty)"
      "map_of m ''payload'' = Some p" "map_of m ''lock_ttl_seconds'' = Some (JInt n)"
      using doc by (auto simp: task_document_def)
    let ?task = "\<lparr>pt_task_id = JStr t, pt_task_type = JStr ty, pt_payload = p, pt_lock_ttl = JInt n\<rparr>"
    have pulled: "?pull = (ws_sent s1 @ [pull_call env], Inr (Some ?task))"
      using call m False
      by (simp add: pull_task_def http_send_def bindH_def returnH_def liftH_def raise_for_status_def pull_call_def)
    obtain h d failure where o: "task_outcome env (ws_round s1) ty p (ws_db s1) (ws_host s1) = (h, d, failure)"
      by (metis prod_cases3)
    define beats where "beats = (if ty \<in> set task_handlers then replicate (we_beats env (ws_round s1)) (beat_call env t) else [])"
    define answer where "answer = (case failure of None \<Rightarrow> ack_call env t | Some reason \<Rightarrow> nack_call env t reason)"
    have run: "handle_pulled env ?task (s1\<lparr>ws_sent := ws_sent s1 @ [pull_call env]\<rparr>)
        = (s1\<lparr>ws_sent := ws_sent s1 @ pull_call env # beats @ [answer], ws_db := d, ws_host := h\<rparr>, Inr ())"
      using handled [OF env, of ?task t ty n "s1\<lparr>ws_sent := ws_sent s1 @ [pull_call env]\<rparr>" h d failure "beats @ [answer]"]
      by (simp add: o beats_def answer_def)
    have "count_list beats (pull_call env) = 0" "answer \<noteq> pull_call env"
      by (auto simp: count_list_0_iff beats_def answer_def pull_call_def beat_call_def ack_call_def nack_call_def split: option.splits)
    with run worker_log.task [OF log call(1) [unfolded m(1)] False m(2-4) o, folded beats_def answer_def, OF refl] show thesis
      using pulled by (intro that) (auto simp: worker_round_def)
  qed
qed

lemma rounds_log:
  assumes env: "obliging env"
  shows "worker_log env s l ts s1 \<Longrightarrow> \<exists>s2 l' ts'. worker_rounds env n s1 = (s2, Inr ()) \<and> ws_sent s2 = ws_sent s1 @ l'
    \<and> worker_log env s (l @ l') ts' s2 \<and> count_list l' (pull_call env) = n"
proof (induction n arbitrary: s1 l ts)
  case (Suc n)
  obtain s2 l2 ts2 where one: "worker_round env s1 = (s2, Inr ())" "worker_log env s (l @ l2) ts2 s2"
    "ws_sent s2 = ws_sent s1 @ l2" "count_list l2 (pull_call env) = 1"
    by (rule round_log [OF env Suc.prems])
  from Suc.IH [OF one(2)] obtain s3 l3 ts3 where "worker_rounds env n s2 = (s3, Inr ())"
    "ws_sent s3 = ws_sent s2 @ l3" "worker_log env s ((l @ l2) @ l3) ts3 s3" "count_list l3 (pull_call env) = n" by blast
  with one show ?case by (intro exI [of _ s3] exI [of _ "l2 @ l3"] exI [of _ ts3]) (simp add: bindH_def)
qed (auto simp: returnH_def)

lemma runs_on:
  assumes "run_worker env s = Some (s', e)"
  shows "\<exists>n s1. worker_rounds env n s = (s1, Inr ()) \<and> worker_round env s1 = (s', Inl e)"
proof -
  have "case (s', e) of (s', e) \<Rightarrow> \<exists>n s1. worker_rounds env n s = (s1, Inr ()) \<and> worker_round env s1 = (s', Inl e)"
  proof (rule run_worker.raw_induct [OF _ assms])
    fix f env s y
    assume IH: "\<And>env s y. f env s = Some y \<Longrightarrow> case y of (s', e) \<Rightarrow> \<exists>n s1. worker_rounds env n s = (s1, Inr ()) \<and> worker_round env s1 = (s', Inl e)"
      and step: "(case worker_round env s of (s', Inl e) \<Rightarrow> Some (s', e) | (s', Inr x) \<Rightarrow> f env s') = Some y"
    obtain s1 r where r: "worker_round env s = (s1, r)" by (cases "worker_round env s")
    show "case y of (s', e) \<Rightarrow> \<exists>n s1. worker_rounds env n s = (s1, Inr ()) \<and> worker_round env s1 = (s', Inl e)"
    proof (cases r)
      case (Inl e)
      then show ?thesis using r step by (auto intro!: exI [of _ 0] simp: returnH_def)
    next
      case (Inr u)
      then obtain n s2 where "worker_rounds env n s1 = (s2, Inr ())" "worker_round env s2 = (fst y, Inl (snd y))"
        using IH [of env s1 y] r step by (auto split: prod.splits)
      then show ?thesis using r Inr by (cases y) (auto intro!: exI [of _ "Suc n"] simp: bindH_def)
    qed
  qed
  then show ?thesis by simp
qed

text \<open>
  C10. No task, however it fails, ends the worker: as long as the broker accepts its calls it runs forever.
  Whatever the number of rounds, it has pulled once in each; a round leaves nothing but that pull only when
  the broker had no task; and each task the broker handed out has been run by its handler and answered
  exactly once under its own id, acknowledged when the handler succeeded and refused with the error when it
  failed, after its heartbeats and before the next pull.
\<close>

theorem worker_never_stops:
  assumes "obliging env"
  shows "run_worker env s = None
    \<and> (\<exists>s' l ts. worker_rounds env n s = (s', Inr ()) \<and> ws_sent s' = ws_sent s @ l \<and> worker_log env s l ts s'
        \<and> count_list l (pull_call env) = n)"
proof
  show "\<exists>s' l ts. worker_rounds env n s = (s', Inr ()) \<and> ws_sent s' = ws_sent s @ l \<and> worker_log env s l ts s'
      \<and> count_list l (pull_call env) = n"
    using rounds_log [OF assms worker_log.start, where s = s and n = n] by simp
  show "run_worker env s = None"
  proof (rule ccontr)
    assume "run_worker env s \<noteq> None"
    then obtain s' e where "run_worker env s = Some (s', e)" by auto
    then obtain k s1 where "worker_round env s1 = (s', Inl e)" using runs_on by blast
    with round_log [OF assms worker_log.start, of s1] show False by (metis Inl_Inr_False Pair_inject)
  qed
qed

text \<open>An answer that the broker refuses ends it, although the task was done.\<close>

lemma refused_answer_ends: "worker_round env s = (s', Inl e) \<Longrightarrow> run_worker env s = Some (s', e)"
  by (subst run_worker.simps) simp

definition demo_broker :: http_server where
  "demo_broker sent call = (case call of
     Post path body \<Rightarrow> Inr (200, Inr JNull)
   | Get path params \<Rightarrow>
       if sent = [] then Inr (200, Inr (JDict [(''task_id'', JStr ''t1''), (''task_type'', JStr ''config.initialize''),
         (''payload'', demo_payload), (''lock_ttl_seconds'', JInt 180)]))
       else Inr (204, Inr JNull))"

definition demo_worker :: worker_env where
  "demo_worker = \<lparr>we_ctx = demo_ctx, we_server = demo_broker, we_task_draws = (\<lambda>k. demo_task), we_beats = (\<lambda>k. 2),
     we_worker_id = ''panel-worker-1'', we_task_types = task_handlers\<rparr>"

definition demo_worker_start :: worker_state where
  "demo_worker_start = \<lparr>ws_sent = [], ws_db = demo_pending_db, ws_host = demo_host, ws_round = 0\<rparr>"

theorem worker_never_stops_witness:
  "run_worker demo_worker demo_worker_start = None
   \<and> (\<exists>s' l ts. worker_rounds demo_worker 3 demo_worker_start = (s', Inr ()) \<and> ws_sent s' = l
       \<and> worker_log demo_worker demo_worker_start l ts s' \<and> count_list l (pull_call demo_worker) = 3)"
proof -
  have "obliging demo_worker"
    unfolding obliging_def demo_worker_def demo_broker_def task_document_def pull_call_def by (auto split: http_call.splits)
  from worker_never_stops [OF this, of demo_worker_start 3] show ?thesis by (simp add: demo_worker_start_def)
qed

end
