(* ===== verification/Commands.thy ===== *)
theory Commands
  imports Protocols Worker_Loop
begin

text \<open>
  The programs that are started: \<open>api/main.py\<close>, \<open>worker/main.py\<close>,
  \<open>cli/regenerate_all_configs.py\<close> and \<open>broker_run/main.py\<close>, as far as they turn the
  settings they load into what they run. (\<open>cli/create_admin.py\<close> is in theory \<open>Auth\<close>.) The time
  stamps of the lines a command prints are drawn.
\<close>

section \<open>Regenerating everything from the command line\<close>

definition stamped :: "(nat \<Rightarrow> string) \<Rightarrow> nat \<Rightarrow> string \<Rightarrow> string" where
  "stamped stamp n message = ''['' @ stamp n @ ''] '' @ message"

definition report_lines :: "regenerate_all_result \<Rightarrow> string list" where
  "report_lines res =
     map (\<lambda>(i, task_id). ''queued '' @ uuid_str i @ '' task='' @ task_id) (ra_queued res)
     @ map (\<lambda>(i, reason). ''skipped '' @ uuid_str i @ '': '' @ reason) (ra_skipped res)
     @ [''Done: queued='' @ show_int (int (length (ra_queued res))) @ '' skipped='' @ show_int (int (length (ra_skipped res)))]"

text \<open>The lines printed, and the status the program exits with or what it raises.\<close>

definition regenerate_all_command ::
  "app_env \<Rightarrow> (uuid \<Rightarrow> use_draws) \<Rightarrow> use_draws \<Rightarrow> (nat \<Rightarrow> string) \<Rightarrow> string \<Rightarrow> app \<Rightarrow> app \<times> string list \<times> (exn + int)" where
  "regenerate_all_command env dr dr0 stamp name s =
     (case get_by_username (cur (a_session s)) name of
        None \<Rightarrow> (close_session s, [], raise SystemExit (''User not found: '' @ name))
      | Some u \<Rightarrow>
          let first = stamped stamp 0 (''queueing regenerate-all as user='' @ name) in
          (case regenerate_all_configs env dr dr0 u s of
             (s', Inl e) \<Rightarrow> (close_session s', [first], Inl e)
           | (s', Inr res) \<Rightarrow> (close_session s', first # map (\<lambda>(n, l). stamped stamp (Suc n) l) (enumerate 0 (report_lines res)), Inr 0)))"

text \<open>The command does what the endpoint does, for the user it is given instead of the user of a token.\<close>

lemma command_is_endpoint:
  assumes "get_by_username (cur (a_session s)) name = Some u"
  shows "fst (regenerate_all_command env dr dr0 stamp name s) = fst (regenerate_all_endpoint env dr dr0 u s)"
    and "snd (snd (regenerate_all_command env dr dr0 stamp name s)) = Inr 0 \<longleftrightarrow> (\<exists>x. snd (regenerate_all_endpoint env dr dr0 u s) = Reply x)"
proof -
  obtain s' r where run: "regenerate_all_configs env dr dr0 u s = (s', r)" by (cases "regenerate_all_configs env dr dr0 u s")
  show "fst (regenerate_all_command env dr dr0 stamp name s) = fst (regenerate_all_endpoint env dr dr0 u s)"
    by (cases r) (simp_all add: assms run regenerate_all_command_def regenerate_all_endpoint_def endpoint_def bindH_def returnH_def Let_def)
  show "snd (snd (regenerate_all_command env dr dr0 stamp name s)) = Inr 0 \<longleftrightarrow> (\<exists>x. snd (regenerate_all_endpoint env dr dr0 u s) = Reply x)"
    by (cases r) (simp_all add: assms run regenerate_all_command_def regenerate_all_endpoint_def endpoint_def bindH_def returnH_def Let_def
        answer_def internal_error_def)
qed

text \<open>For a name that is no user's nothing is touched.\<close>

lemma command_for_nobody:
  assumes "get_by_username (cur (a_session s)) name = None"
  shows "fst (regenerate_all_command env dr dr0 stamp name s) = close_session s"
  by (simp add: assms regenerate_all_command_def)

section \<open>The panel, the worker, the broker\<close>

definition log_level :: "loaded_settings \<Rightarrow> string" where
  "log_level ls = (if ls_production ls then ''INFO'' else ''DEBUG'')"

text \<open>The routes the panel serves, the middlewares' switches, and where it listens.\<close>

definition api_main :: "loaded_settings \<Rightarrow> route list \<times> bool \<times> bool \<times> string \<times> int" where
  "api_main ls = (create_app (ls_options ls), opt_metrics (ls_options ls), ls_security_headers ls, ls_server_host ls, server_port (ls_panel ls))"

definition worker_main ::
  "loaded_settings \<Rightarrow> cipher \<Rightarrow> os_env \<Rightarrow> http_server \<Rightarrow> (nat \<Rightarrow> task_draws) \<Rightarrow> (nat \<Rightarrow> nat) \<Rightarrow> string option \<Rightarrow> string option \<Rightarrow> worker_env" where
  "worker_main ls c os server draws beats env_instance inst =
     \<lparr>we_ctx = \<lparr>wc_settings = ls_panel ls, wc_cipher = c, wc_os = os\<rparr>, we_server = server, we_task_draws = draws, we_beats = beats,
      we_worker_id = resolve_worker_id (ls_worker_id ls) env_instance inst, we_task_types = ls_task_types ls\<rparr>"

text \<open>What the panel's and the worker's HTTP client sends with every call, and where to.\<close>

definition broker_client :: "broker_settings \<Rightarrow> string \<times> (string \<times> string) list" where
  "broker_client bs = (rstrip_char CHR ''/'' (bs_url bs),
     case some_text (bs_api_key bs) of None \<Rightarrow> [] | Some key \<Rightarrow> [(''Authorization'', ''Bearer '' @ key)])"

text \<open>The arguments the broker package is given.\<close>

record broker_arguments =
  ba_dsn :: string
  ba_host :: string
  ba_port :: int
  ba_default_lock_ttl_seconds :: int
  ba_default_max_retries :: int
  ba_retry_delay_seconds :: int
  ba_default_pull_timeout_seconds :: int
  ba_pull_interval_seconds :: int
  ba_api_key :: "string option"
  ba_log_level :: string

definition broker_main :: "broker_yaml_settings \<Rightarrow> broker_arguments" where
  "broker_main bs =
     \<lparr>ba_dsn = by_dsn bs, ba_host = by_host bs, ba_port = by_port bs, ba_default_lock_ttl_seconds = by_lock_ttl bs,
      ba_default_max_retries = by_max_retries bs, ba_retry_delay_seconds = by_retry_delay bs,
      ba_default_pull_timeout_seconds = by_pull_timeout bs, ba_pull_interval_seconds = by_pull_interval bs,
      ba_api_key = by_api_key bs, ba_log_level = by_log_level bs\<rparr>"

lemma broker_key_validated: "broker_validate_api_key k = Inr k' \<Longrightarrow> k' = k \<and> (\<forall>x. k = Some x \<longrightarrow> 32 \<le> length x)"
  by (auto simp: broker_validate_api_key_def bindR_eq_Inr split: if_splits option.splits)

lemma read_queue_ok:
  assumes "read_queue co v = Inr (ttl, retries, delay, pull, interval)"
  shows "1 \<le> ttl \<and> 0 \<le> retries \<and> 0 \<le> delay \<and> 1 \<le> pull \<and> 1 \<le> interval"
proof -
  obtain d where "defaulting d ''default_lock_ttl_seconds'' (ranged 1 None (co_int co)) 180 = Inr ttl"
    "defaulting d ''default_max_retries'' (ranged 0 None (co_int co)) 3 = Inr retries"
    "defaulting d ''retry_delay_seconds'' (ranged 0 None (co_int co)) 10 = Inr delay"
    "defaulting d ''default_pull_timeout_seconds'' (ranged 1 None (co_int co)) 30 = Inr pull"
    "defaulting d ''pull_interval_seconds'' (ranged 1 None (co_int co)) 1 = Inr interval"
    using model_Inr [OF assms [unfolded read_queue_def]] by (auto simp: bindR_eq_Inr)
  from this [THEN defaulting_cases] show ?thesis by (auto simp: ranged_Inr)
qed

text \<open>
  The broker starts with positive locks and pulls, no negative delay, a port that exists, and a key that is
  long enough or none.
\<close>

theorem accepted_broker_settings:
  assumes "load_broker_settings co env h cwd env_value config_path = Inr bs" and args: "broker_main bs = args"
  shows "1 \<le> ba_default_lock_ttl_seconds args \<and> 0 \<le> ba_default_max_retries args \<and> 0 \<le> ba_retry_delay_seconds args
    \<and> 1 \<le> ba_default_pull_timeout_seconds args \<and> 1 \<le> ba_pull_interval_seconds args \<and> 1 \<le> ba_port args \<and> ba_port args \<le> 65535
    \<and> (\<forall>k. ba_api_key args = Some k \<longrightarrow> 32 \<le> length k)"
proof -
  obtain v where v: "broker_model_validate co v = Inr bs"
    using assms(1) by (auto simp: load_broker_settings_def bindR_eq_Inr)
  obtain d host where
    server: "defaulting d ''server'' (read_server co ''127.0.0.1'' 8001) (''127.0.0.1'', 8001) = Inr (host, by_port bs)"
    and queue: "defaulting d ''queue'' (read_queue co) (180, 3, 10, 30, 1)
      = Inr (by_lock_ttl bs, by_max_retries bs, by_retry_delay bs, by_pull_timeout bs, by_pull_interval bs)"
    and key: "defaulting d ''security'' (model (\<lambda>s. defaulting s ''api_key'' (\<lambda>v. bindR (nullable (co_str co) v) broker_validate_api_key) None)) None
      = Inr (by_api_key bs)"
    using model_Inr [OF v [unfolded broker_model_validate_def]] by (auto simp: bindR_eq_Inr split: prod.splits)
  have "1 \<le> by_port bs \<and> by_port bs \<le> 65535"
    by (rule defaulting_keeps [OF server, of "\<lambda>(h, p). 1 \<le> p \<and> p \<le> 65535", simplified]) (auto dest: read_server_ok)
  moreover have "1 \<le> by_lock_ttl bs \<and> 0 \<le> by_max_retries bs \<and> 0 \<le> by_retry_delay bs \<and> 1 \<le> by_pull_timeout bs \<and> 1 \<le> by_pull_interval bs"
    using defaulting_cases [OF queue] read_queue_ok by auto
  moreover have "\<forall>k. by_api_key bs = Some k \<longrightarrow> 32 \<le> length k"
    by (rule defaulting_keeps [OF key]) (auto simp: bindR_eq_Inr dest!: model_Inr broker_key_validated defaulting_cases)
  ultimately show ?thesis by (auto simp: args [symmetric] broker_main_def)
qed

end
