(* ===== verification/Migrations.thy ===== *)
theory Migrations
  imports Settings
begin

text \<open>
  The schema of the database and its history: the seven revisions under \<open>alembic/versions\<close>, each
  with its \<open>upgrade\<close> and \<open>downgrade\<close>, the tables that
  \<open>infrastructure/persistence/models.py\<close> declares, and the database \<open>alembic/env.py\<close> goes to. A
  migration is a change of the tables together with their rows; it runs in a transaction, so one that
  fails changes nothing. The statements mean what they mean in SQL, as far as the migrations use them.
\<close>

section \<open>Tables\<close>

datatype col_type = Uuid | TextCol | Timestamp | IntegerCol | BooleanCol | JsonCol

text \<open>A default is a value or an expression that the server evaluates.\<close>

datatype sql_default = Literal string | Sql string

record column =
  col_name :: string
  col_type :: col_type
  col_nullable :: bool
  col_default :: "sql_default option"

datatype condition = IsNull string | NotNull string | Both condition condition | Either condition condition

datatype table_constraint =
    PrimaryKey "string list"
  | Unique "string list"
  | ForeignKey "string list" string
  | Check string condition

type_synonym row = "(string \<times> json option) list"

record table =
  tb_columns :: "column list"
  tb_constraints :: "table_constraint list"
  tb_indexes :: "(string \<times> string list) list"
  tb_rows :: "row list"

type_synonym tables = "(string \<times> table) list"

definition cell :: "row \<Rightarrow> string \<Rightarrow> json option" where
  "cell r c = the_or None (map_of r c)"

fun holds :: "condition \<Rightarrow> row \<Rightarrow> bool" where
  "holds (IsNull c) r = (cell r c = None)"
| "holds (NotNull c) r = (cell r c \<noteq> None)"
| "holds (Both p q) r = (holds p r \<and> holds q r)"
| "holds (Either p q) r = (holds p r \<or> holds q r)"

text \<open>What the server makes of a default: the migrations use two constants and the current time.\<close>

definition sql_value :: "json \<Rightarrow> sql_default option \<Rightarrow> json option" where
  "sql_value now v = (case v of
     None \<Rightarrow> None
   | Some (Literal s) \<Rightarrow> Some (JStr s)
   | Some (Sql t) \<Rightarrow> if t = ''true'' then Some (JBool True) else if t = ''0'' then Some (JInt 0) else if t = ''now()'' then Some now else None)"

section \<open>Operations\<close>

text \<open>The operations of \<open>alembic.op\<close>; one that the database refuses raises.\<close>

definition table_error :: "exn + 'a" where
  "table_error = raise ProgrammingError ''''"

definition refers_to :: "string \<Rightarrow> table \<Rightarrow> bool" where
  "refers_to name t = list_ex (\<lambda>c. case c of ForeignKey _ target \<Rightarrow> target = name | _ \<Rightarrow> False) (tb_constraints t)"

definition create_table :: "string \<Rightarrow> column list \<Rightarrow> table_constraint list \<Rightarrow> tables \<Rightarrow> exn + tables" where
  "create_table name cols cons d =
     (if name \<in> set (map fst d) then table_error
      else if list_ex (\<lambda>c. case c of ForeignKey _ target \<Rightarrow> target \<notin> set (map fst d) | _ \<Rightarrow> False) cons then table_error
      else Inr (d @ [(name, \<lparr>tb_columns = cols, tb_constraints = cons, tb_indexes = [], tb_rows = []\<rparr>)]))"

definition drop_table :: "string \<Rightarrow> tables \<Rightarrow> exn + tables" where
  "drop_table name d =
     (if name \<notin> set (map fst d) then table_error
      else if list_ex (\<lambda>(n, t). n \<noteq> name \<and> refers_to name t) d then table_error
      else Inr (filter (\<lambda>nt. fst nt \<noteq> name) d))"

definition alter_table :: "string \<Rightarrow> (table \<Rightarrow> exn + table) \<Rightarrow> tables \<Rightarrow> exn + tables" where
  "alter_table name f d = (case map_of d name of
     None \<Rightarrow> table_error
   | Some t \<Rightarrow> bindR (f t) (\<lambda>t'. Inr (map (\<lambda>(n, u). (n, if n = name then t' else u)) d)))"

definition create_index :: "string \<Rightarrow> string \<Rightarrow> string list \<Rightarrow> tables \<Rightarrow> exn + tables" where
  "create_index index name cols d =
     (if list_ex (\<lambda>(n, t). index \<in> set (map fst (tb_indexes t))) d then table_error
      else alter_table name (\<lambda>t. if set cols \<subseteq> set (map col_name (tb_columns t))
        then Inr (t\<lparr>tb_indexes := tb_indexes t @ [(index, cols)]\<rparr>) else table_error) d)"

definition drop_index :: "string \<Rightarrow> string \<Rightarrow> tables \<Rightarrow> exn + tables" where
  "drop_index index name = alter_table name (\<lambda>t. if index \<in> set (map fst (tb_indexes t))
     then Inr (t\<lparr>tb_indexes := filter (\<lambda>i. fst i \<noteq> index) (tb_indexes t)\<rparr>) else table_error)"

definition add_column :: "json \<Rightarrow> string \<Rightarrow> column \<Rightarrow> tables \<Rightarrow> exn + tables" where
  "add_column now name c = alter_table name (\<lambda>t.
     let v = sql_value now (col_default c) in
     if col_name c \<in> set (map col_name (tb_columns t)) then table_error
     else if \<not> col_nullable c \<and> v = None \<and> tb_rows t \<noteq> [] then raise IntegrityError ''''
     else Inr (t\<lparr>tb_columns := tb_columns t @ [c], tb_rows := map (\<lambda>r. r @ [(col_name c, v)]) (tb_rows t)\<rparr>))"

fun condition_columns :: "condition \<Rightarrow> string list" where
  "condition_columns (IsNull c) = [c]"
| "condition_columns (NotNull c) = [c]"
| "condition_columns (Both p q) = condition_columns p @ condition_columns q"
| "condition_columns (Either p q) = condition_columns p @ condition_columns q"

fun constraint_columns :: "table_constraint \<Rightarrow> string list" where
  "constraint_columns (PrimaryKey cs) = cs"
| "constraint_columns (Unique cs) = cs"
| "constraint_columns (ForeignKey cs target) = cs"
| "constraint_columns (Check name p) = condition_columns p"

definition drop_column :: "string \<Rightarrow> string \<Rightarrow> tables \<Rightarrow> exn + tables" where
  "drop_column name c = alter_table name (\<lambda>t.
     if c \<notin> set (map col_name (tb_columns t)) then table_error
     else Inr (t\<lparr>tb_columns := filter (\<lambda>x. col_name x \<noteq> c) (tb_columns t),
       tb_constraints := filter (\<lambda>k. c \<notin> set (constraint_columns k)) (tb_constraints t),
       tb_indexes := filter (\<lambda>i. c \<notin> set (snd i)) (tb_indexes t),
       tb_rows := map (filter (\<lambda>x. fst x \<noteq> c)) (tb_rows t)\<rparr>))"

definition update_column :: "string \<Rightarrow> (column \<Rightarrow> column) \<Rightarrow> table \<Rightarrow> exn + table" where
  "update_column c f t =
     (if c \<notin> set (map col_name (tb_columns t)) then table_error
      else Inr (t\<lparr>tb_columns := map (\<lambda>x. if col_name x = c then f x else x) (tb_columns t)\<rparr>))"

definition set_default :: "string \<Rightarrow> string \<Rightarrow> sql_default option \<Rightarrow> tables \<Rightarrow> exn + tables" where
  "set_default name c v = alter_table name (update_column c (\<lambda>x. x\<lparr>col_default := v\<rparr>))"

definition set_nullable :: "string \<Rightarrow> string \<Rightarrow> bool \<Rightarrow> tables \<Rightarrow> exn + tables" where
  "set_nullable name c null = alter_table name (\<lambda>t.
     if \<not> null \<and> list_ex (\<lambda>r. cell r c = None) (tb_rows t) then raise IntegrityError ''''
     else update_column c (\<lambda>x. x\<lparr>col_nullable := null\<rparr>) t)"

definition create_check_constraint :: "string \<Rightarrow> string \<Rightarrow> condition \<Rightarrow> tables \<Rightarrow> exn + tables" where
  "create_check_constraint check name p = alter_table name (\<lambda>t.
     if list_ex (\<lambda>r. \<not> holds p r) (tb_rows t) then raise IntegrityError ''''
     else Inr (t\<lparr>tb_constraints := tb_constraints t @ [Check check p]\<rparr>))"

definition drop_constraint :: "string \<Rightarrow> string \<Rightarrow> tables \<Rightarrow> exn + tables" where
  "drop_constraint check name = alter_table name (\<lambda>t.
     let named = (\<lambda>k. case k of Check n p \<Rightarrow> n = check | _ \<Rightarrow> False) in
     if \<not> list_ex named (tb_constraints t) then table_error
     else Inr (t\<lparr>tb_constraints := filter (\<lambda>k. \<not> named k) (tb_constraints t)\<rparr>))"

section \<open>The revisions\<close>

definition col :: "string \<Rightarrow> col_type \<Rightarrow> bool \<Rightarrow> sql_default option \<Rightarrow> column" where
  "col name type null v = \<lparr>col_name = name, col_type = type, col_nullable = null, col_default = v\<rparr>"

definition created_at_column :: column where
  "created_at_column = col ''created_at'' Timestamp False (Some (Sql ''now()''))"

definition upgrade_001 :: "tables \<Rightarrow> exn + tables" where
  "upgrade_001 d =
     bindR (create_table ''users''
       [col ''id'' Uuid False None, col ''username'' TextCol False None, col ''password_hash'' TextCol False None, created_at_column]
       [PrimaryKey [''id''], Unique [''username'']] d) (\<lambda>d.
     bindR (create_table ''rate_limit_entries''
       [col ''key'' TextCol False None, col ''window_start'' Timestamp False None, col ''count'' IntegerCol False None]
       [PrimaryKey [''key'', ''window_start'']] d) (\<lambda>d.
     create_table ''audit_logs''
       [col ''id'' Uuid False None, col ''user_id'' Uuid True None, col ''event_type'' TextCol False None,
        col ''payload'' JsonCol False None, created_at_column]
       [PrimaryKey [''id'']] d))"

definition downgrade_001 :: "tables \<Rightarrow> exn + tables" where
  "downgrade_001 d = bindR (drop_table ''audit_logs'' d) (\<lambda>d. bindR (drop_table ''rate_limit_entries'' d) (drop_table ''users''))"

definition upgrade_002 :: "tables \<Rightarrow> exn + tables" where
  "upgrade_002 d =
     bindR (create_table ''vpn_configs''
       [col ''id'' Uuid False None, col ''name'' TextCol False None, col ''protocol'' TextCol False None, col ''status'' TextCol False None,
        col ''current_version'' IntegerCol True None, col ''last_task_id'' TextCol True None, col ''error_message'' TextCol True None,
        col ''is_active'' BooleanCol False (Some (Sql ''true'')), col ''created_by'' Uuid False None, col ''updated_by'' Uuid False None,
        created_at_column, col ''updated_at'' Timestamp False (Some (Sql ''now()''))]
       [ForeignKey [''created_by''] ''users'', ForeignKey [''updated_by''] ''users'', PrimaryKey [''id'']] d) (\<lambda>d.
     bindR (create_index ''ix_vpn_configs_active_protocol'' ''vpn_configs'' [''is_active'', ''protocol''] d)
     (create_table ''vpn_config_versions''
       [col ''id'' Uuid False None, col ''config_id'' Uuid False None, col ''version'' IntegerCol False None, col ''port'' IntegerCol False None,
        col ''private_key'' TextCol False None, col ''public_key'' TextCol False None, col ''cert_fingerprint'' TextCol False None,
        col ''config_data'' JsonCol False None, created_at_column]
       [ForeignKey [''config_id''] ''vpn_configs'', PrimaryKey [''id''], Unique [''config_id'', ''version'']]))"

definition downgrade_002 :: "tables \<Rightarrow> exn + tables" where
  "downgrade_002 d = bindR (drop_table ''vpn_config_versions'' d) (\<lambda>d.
     bindR (drop_index ''ix_vpn_configs_active_protocol'' ''vpn_configs'' d) (drop_table ''vpn_configs''))"

definition upgrade_003 :: "tables \<Rightarrow> exn + tables" where
  "upgrade_003 d =
     bindR (create_table ''share_tokens''
       [col ''id'' Uuid False None, col ''token_hash'' TextCol False None, col ''config_id'' Uuid False None,
        col ''config_version'' IntegerCol False None, col ''is_permanent'' BooleanCol False None, col ''expires_at'' Timestamp True None,
        col ''revoked_at'' Timestamp True None, col ''created_by'' Uuid False None, created_at_column,
        col ''last_accessed_at'' Timestamp True None, col ''access_count'' IntegerCol False (Some (Sql ''0''))]
       [ForeignKey [''config_id''] ''vpn_configs'', ForeignKey [''created_by''] ''users'', PrimaryKey [''id''], Unique [''token_hash'']] d)
     (create_index ''ix_share_tokens_config_id'' ''share_tokens'' [''config_id''])"

definition downgrade_003 :: "tables \<Rightarrow> exn + tables" where
  "downgrade_003 d = bindR (drop_index ''ix_share_tokens_config_id'' ''share_tokens'' d) (drop_table ''share_tokens'')"

definition upgrade_004 :: "json \<Rightarrow> tables \<Rightarrow> exn + tables" where
  "upgrade_004 now d =
     bindR (add_column now ''vpn_configs'' (col ''profile'' TextCol False (Some (Literal ''xray-reality''))) d)
     (set_default ''vpn_configs'' ''profile'' None)"

definition downgrade_004 :: "tables \<Rightarrow> exn + tables" where
  "downgrade_004 = drop_column ''vpn_configs'' ''profile''"

definition share_scope :: condition where
  "share_scope = Either (Both (IsNull ''config_id'') (IsNull ''config_version'')) (Both (NotNull ''config_id'') (NotNull ''config_version''))"

definition upgrade_005 :: "json \<Rightarrow> tables \<Rightarrow> exn + tables" where
  "upgrade_005 now d =
     bindR (add_column now ''share_tokens'' (col ''secure'' BooleanCol False (Some (Sql ''true''))) d) (\<lambda>d.
     bindR (set_nullable ''share_tokens'' ''config_id'' True d) (\<lambda>d.
     bindR (set_nullable ''share_tokens'' ''config_version'' True d)
     (create_check_constraint ''ck_share_tokens_scope'' ''share_tokens'' share_scope)))"

definition downgrade_005 :: "tables \<Rightarrow> exn + tables" where
  "downgrade_005 d =
     bindR (drop_constraint ''ck_share_tokens_scope'' ''share_tokens'' d) (\<lambda>d.
     bindR (set_nullable ''share_tokens'' ''config_version'' False d) (\<lambda>d.
     bindR (set_nullable ''share_tokens'' ''config_id'' False d)
     (drop_column ''share_tokens'' ''secure'')))"

definition upgrade_006 :: "json \<Rightarrow> tables \<Rightarrow> exn + tables" where
  "upgrade_006 now = add_column now ''vpn_configs'' (col ''regenerate_policy'' JsonCol True None)"

definition downgrade_006 :: "tables \<Rightarrow> exn + tables" where
  "downgrade_006 = drop_column ''vpn_configs'' ''regenerate_policy''"

definition upgrade_007 :: "json \<Rightarrow> tables \<Rightarrow> exn + tables" where
  "upgrade_007 now = add_column now ''vpn_configs'' (col ''share_public_host'' TextCol True None)"

definition downgrade_007 :: "tables \<Rightarrow> exn + tables" where
  "downgrade_007 = drop_column ''vpn_configs'' ''share_public_host''"

text \<open>The history: a revision, the one it follows, and its two functions.\<close>

record revision =
  rev_id :: string
  rev_down :: "string option"
  rev_upgrade :: "json \<Rightarrow> tables \<Rightarrow> exn + tables"
  rev_downgrade :: "tables \<Rightarrow> exn + tables"

definition revisions :: "revision list" where
  "revisions =
     [\<lparr>rev_id = ''001_initial_schema'', rev_down = None, rev_upgrade = (\<lambda>_. upgrade_001), rev_downgrade = downgrade_001\<rparr>,
      \<lparr>rev_id = ''002_vpn_configs'', rev_down = Some ''001_initial_schema'', rev_upgrade = (\<lambda>_. upgrade_002), rev_downgrade = downgrade_002\<rparr>,
      \<lparr>rev_id = ''003_share_tokens'', rev_down = Some ''002_vpn_configs'', rev_upgrade = (\<lambda>_. upgrade_003), rev_downgrade = downgrade_003\<rparr>,
      \<lparr>rev_id = ''004_config_profile'', rev_down = Some ''003_share_tokens'', rev_upgrade = upgrade_004, rev_downgrade = downgrade_004\<rparr>,
      \<lparr>rev_id = ''005_share_secure_scope'', rev_down = Some ''004_config_profile'', rev_upgrade = upgrade_005, rev_downgrade = downgrade_005\<rparr>,
      \<lparr>rev_id = ''006_regenerate_policy'', rev_down = Some ''005_share_secure_scope'', rev_upgrade = upgrade_006, rev_downgrade = downgrade_006\<rparr>,
      \<lparr>rev_id = ''007_share_public_host'', rev_down = Some ''006_regenerate_policy'', rev_upgrade = upgrade_007, rev_downgrade = downgrade_007\<rparr>]"

fun upgrade_all :: "json \<Rightarrow> revision list \<Rightarrow> tables \<Rightarrow> exn + tables" where
  "upgrade_all now [] d = Inr d"
| "upgrade_all now (r # rs) d = bindR (rev_upgrade r now d) (upgrade_all now rs)"

fun downgrade_all :: "revision list \<Rightarrow> tables \<Rightarrow> exn + tables" where
  "downgrade_all [] d = Inr d"
| "downgrade_all (r # rs) d = bindR (downgrade_all rs d) (rev_downgrade r)"

text \<open>\<open>get_url\<close> of \<open>env.py\<close>: the environment, else the settings, else the option of the ini file.\<close>

definition get_url :: "string option \<Rightarrow> exn + loaded_settings \<Rightarrow> string \<Rightarrow> exn + string" where
  "get_url env_url settings ini_url = (case some_text env_url of
     Some url \<Rightarrow> Inr url
   | None \<Rightarrow> (case settings of
       Inr ls \<Rightarrow> Inr (ls_database_url ls)
     | Inl e \<Rightarrow> if caught_by [FileNotFoundError] e then Inr ini_url else Inl e))"

section \<open>What the models declare\<close>

text \<open>Column, type, whether it may be NULL; then the primary key, what is unique, and what is referred to.\<close>

definition declared_tables :: "(string \<times> (string \<times> col_type \<times> bool) list \<times> string list \<times> string list list \<times> (string list \<times> string) list) list" where
  "declared_tables =
     [(''users'',
        [(''id'', Uuid, False), (''username'', TextCol, False), (''password_hash'', TextCol, False), (''created_at'', Timestamp, False)],
        [''id''], [[''username'']], []),
      (''rate_limit_entries'',
        [(''key'', TextCol, False), (''window_start'', Timestamp, False), (''count'', IntegerCol, False)], [''key'', ''window_start''], [], []),
      (''audit_logs'',
        [(''id'', Uuid, False), (''user_id'', Uuid, True), (''event_type'', TextCol, False), (''payload'', JsonCol, False), (''created_at'', Timestamp, False)],
        [''id''], [], []),
      (''vpn_configs'',
        [(''id'', Uuid, False), (''name'', TextCol, False), (''protocol'', TextCol, False), (''profile'', TextCol, False), (''status'', TextCol, False),
         (''current_version'', IntegerCol, True), (''last_task_id'', TextCol, True), (''error_message'', TextCol, True),
         (''regenerate_policy'', JsonCol, True), (''share_public_host'', TextCol, True), (''is_active'', BooleanCol, False),
         (''created_by'', Uuid, False), (''updated_by'', Uuid, False), (''created_at'', Timestamp, False), (''updated_at'', Timestamp, False)],
        [''id''], [], [([''created_by''], ''users''), ([''updated_by''], ''users'')]),
      (''vpn_config_versions'',
        [(''id'', Uuid, False), (''config_id'', Uuid, False), (''version'', IntegerCol, False), (''port'', IntegerCol, False),
         (''private_key'', TextCol, False), (''public_key'', TextCol, False), (''cert_fingerprint'', TextCol, False),
         (''config_data'', JsonCol, False), (''created_at'', Timestamp, False)],
        [''id''], [[''config_id'', ''version'']], [([''config_id''], ''vpn_configs'')]),
      (''share_tokens'',
        [(''id'', Uuid, False), (''token_hash'', TextCol, False), (''config_id'', Uuid, True), (''config_version'', IntegerCol, True),
         (''secure'', BooleanCol, False), (''is_permanent'', BooleanCol, False), (''expires_at'', Timestamp, True), (''revoked_at'', Timestamp, True),
         (''created_by'', Uuid, False), (''created_at'', Timestamp, False), (''last_accessed_at'', Timestamp, True), (''access_count'', IntegerCol, False)],
        [''id''], [[''token_hash'']], [([''config_id''], ''vpn_configs''), ([''created_by''], ''users'')])]"

definition same_members :: "'a list \<Rightarrow> 'a list \<Rightarrow> bool" where
  "same_members xs ys \<longleftrightarrow> list_all (\<lambda>x. x \<in> set ys) xs \<and> list_all (\<lambda>y. y \<in> set xs) ys \<and> length xs = length ys"

definition as_declared :: "tables \<Rightarrow> bool" where
  "as_declared d \<longleftrightarrow> map fst d = map fst declared_tables \<and> list_all2 (\<lambda>(n, t) (m, cols, pk, uniques, fks).
       same_members (map (\<lambda>c. (col_name c, col_type c, col_nullable c)) (tb_columns t)) cols
     \<and> [cs. PrimaryKey cs \<leftarrow> tb_constraints t] = [pk] \<and> [cs. Unique cs \<leftarrow> tb_constraints t] = uniques
     \<and> [(cs, target). ForeignKey cs target \<leftarrow> tb_constraints t] = fks) d declared_tables"

section \<open>What the history keeps\<close>

definition shape :: "tables \<Rightarrow> tables" where
  "shape d = map (\<lambda>(n, t). (n, t\<lparr>tb_rows := []\<rparr>)) d"

definition row_ok :: "column list \<Rightarrow> table_constraint list \<Rightarrow> row \<Rightarrow> bool" where
  "row_ok cs ks r \<longleftrightarrow> map fst r = map col_name cs
     \<and> list_all (\<lambda>c. col_nullable c \<or> cell r (col_name c) \<noteq> None) cs
     \<and> list_all (\<lambda>k. case k of Check n p \<Rightarrow> holds p r | _ \<Rightarrow> True) ks"

text \<open>The tables are those of the first \<open>k\<close> revisions, with rows that keep their rules.\<close>

definition rows_ok :: "tables \<Rightarrow> bool" where
  "rows_ok d \<longleftrightarrow> list_all (\<lambda>(n, t). list_all (row_ok (tb_columns t) (tb_constraints t)) (tb_rows t)) d"

definition at_revision :: "nat \<Rightarrow> tables \<Rightarrow> bool" where
  "at_revision k d \<longleftrightarrow> upgrade_all JNull (take k revisions) [] = Inr (shape d) \<and> rows_ok d"

text \<open>The tables of the history, each as it is after the revisions that change it.\<close>

definition users_table :: "row list \<Rightarrow> table" where
  "users_table rs = \<lparr>tb_columns = [col ''id'' Uuid False None, col ''username'' TextCol False None, col ''password_hash'' TextCol False None, created_at_column],
     tb_constraints = [PrimaryKey [''id''], Unique [''username'']], tb_indexes = [], tb_rows = rs\<rparr>"

definition rates_table :: "row list \<Rightarrow> table" where
  "rates_table rs = \<lparr>tb_columns = [col ''key'' TextCol False None, col ''window_start'' Timestamp False None, col ''count'' IntegerCol False None],
     tb_constraints = [PrimaryKey [''key'', ''window_start'']], tb_indexes = [], tb_rows = rs\<rparr>"

definition audit_table :: "row list \<Rightarrow> table" where
  "audit_table rs = \<lparr>tb_columns = [col ''id'' Uuid False None, col ''user_id'' Uuid True None, col ''event_type'' TextCol False None,
        col ''payload'' JsonCol False None, created_at_column],
     tb_constraints = [PrimaryKey [''id'']], tb_indexes = [], tb_rows = rs\<rparr>"

definition config_columns :: "column list" where
  "config_columns = [col ''id'' Uuid False None, col ''name'' TextCol False None, col ''protocol'' TextCol False None, col ''status'' TextCol False None,
        col ''current_version'' IntegerCol True None, col ''last_task_id'' TextCol True None, col ''error_message'' TextCol True None,
        col ''is_active'' BooleanCol False (Some (Sql ''true'')), col ''created_by'' Uuid False None, col ''updated_by'' Uuid False None,
        created_at_column, col ''updated_at'' Timestamp False (Some (Sql ''now()''))]"

definition configs_table :: "column list \<Rightarrow> row list \<Rightarrow> table" where
  "configs_table added rs = \<lparr>tb_columns = config_columns @ added,
     tb_constraints = [ForeignKey [''created_by''] ''users'', ForeignKey [''updated_by''] ''users'', PrimaryKey [''id'']],
     tb_indexes = [(''ix_vpn_configs_active_protocol'', [''is_active'', ''protocol''])], tb_rows = rs\<rparr>"

definition profile_column :: column where
  "profile_column = col ''profile'' TextCol False None"

definition policy_column :: column where
  "policy_column = col ''regenerate_policy'' JsonCol True None"

definition host_column :: column where
  "host_column = col ''share_public_host'' TextCol True None"

definition versions_table :: "row list \<Rightarrow> table" where
  "versions_table rs = \<lparr>tb_columns = [col ''id'' Uuid False None, col ''config_id'' Uuid False None, col ''version'' IntegerCol False None,
        col ''port'' IntegerCol False None, col ''private_key'' TextCol False None, col ''public_key'' TextCol False None,
        col ''cert_fingerprint'' TextCol False None, col ''config_data'' JsonCol False None, created_at_column],
     tb_constraints = [ForeignKey [''config_id''] ''vpn_configs'', PrimaryKey [''id''], Unique [''config_id'', ''version'']],
     tb_indexes = [], tb_rows = rs\<rparr>"

text \<open>Links: whether a link may have no configuration, what else there is.\<close>

definition shares_table :: "bool \<Rightarrow> column list \<Rightarrow> table_constraint list \<Rightarrow> row list \<Rightarrow> table" where
  "shares_table null added checks rs = \<lparr>tb_columns = [col ''id'' Uuid False None, col ''token_hash'' TextCol False None, col ''config_id'' Uuid null None,
        col ''config_version'' IntegerCol null None, col ''is_permanent'' BooleanCol False None, col ''expires_at'' Timestamp True None,
        col ''revoked_at'' Timestamp True None, col ''created_by'' Uuid False None, created_at_column,
        col ''last_accessed_at'' Timestamp True None, col ''access_count'' IntegerCol False (Some (Sql ''0''))] @ added,
     tb_constraints = [ForeignKey [''config_id''] ''vpn_configs'', ForeignKey [''created_by''] ''users'', PrimaryKey [''id''], Unique [''token_hash'']] @ checks,
     tb_indexes = [(''ix_share_tokens_config_id'', [''config_id''])], tb_rows = rs\<rparr>"

definition secure_column :: column where
  "secure_column = col ''secure'' BooleanCol False (Some (Sql ''true''))"

definition scope_check :: table_constraint where
  "scope_check = Check ''ck_share_tokens_scope'' share_scope"

definition first_tables :: "row list \<Rightarrow> row list \<Rightarrow> row list \<Rightarrow> tables" where
  "first_tables u l a = [(''users'', users_table u), (''rate_limit_entries'', rates_table l), (''audit_logs'', audit_table a)]"

definition config_tables :: "tables \<Rightarrow> column list \<Rightarrow> row list \<Rightarrow> row list \<Rightarrow> tables" where
  "config_tables d added c v = d @ [(''vpn_configs'', configs_table added c), (''vpn_config_versions'', versions_table v)]"

definition share_tables :: "tables \<Rightarrow> bool \<Rightarrow> column list \<Rightarrow> table_constraint list \<Rightarrow> row list \<Rightarrow> tables" where
  "share_tables d null added checks s = d @ [(''share_tokens'', shares_table null added checks s)]"

lemma col_simps:
  "col_name (col n t b v) = n" "col_type (col n t b v) = t" "col_nullable (col n t b v) = b" "col_default (col n t b v) = v"
  "(col n t b v)\<lparr>col_default := w\<rparr> = col n t b w" "(col n t b v)\<lparr>col_nullable := b'\<rparr> = col n t b' v"
  "col n t b v = col n' t' b' v' \<longleftrightarrow> n = n' \<and> t = t' \<and> b = b' \<and> v = v'"
  "col_name created_at_column = ''created_at''"
  by (auto simp add: col_def created_at_column_def)

lemmas migration_steps = upgrade_001_def upgrade_002_def upgrade_003_def upgrade_004_def upgrade_005_def upgrade_006_def upgrade_007_def
  downgrade_001_def downgrade_002_def downgrade_003_def downgrade_004_def downgrade_005_def downgrade_006_def downgrade_007_def
lemmas operations = create_table_def create_index_def add_column_def set_default_def set_nullable_def update_column_def
  create_check_constraint_def alter_table_def refers_to_def drop_table_def drop_index_def drop_column_def drop_constraint_def
lemmas table_defs = users_table_def rates_table_def audit_table_def config_columns_def configs_table_def versions_table_def shares_table_def
  first_tables_def config_tables_def share_tables_def profile_column_def policy_column_def host_column_def secure_column_def scope_check_def
lemmas evaluation = migration_steps operations table_defs col_simps sql_value_def

text \<open>What each upgrade does, whatever the rows, and how its downgrade undoes it.\<close>

definition with_cell :: "string \<Rightarrow> json option \<Rightarrow> row list \<Rightarrow> row list" where
  "with_cell c v rs = map (\<lambda>r. r @ [(c, v)]) rs"

definition without_cell :: "string \<Rightarrow> row list \<Rightarrow> row list" where
  "without_cell c rs = map (filter (\<lambda>x. fst x \<noteq> c)) rs"

lemma cell_added: "c \<in> set (map fst r) \<Longrightarrow> cell (r @ x) c = cell r c"
  by (cases "map_of r c") (auto simp: cell_def map_of_append map_add_def map_of_eq_None_iff)

lemma cell_new: "c \<notin> set (map fst r) \<Longrightarrow> cell (r @ [(c, v)]) c = v"
  using map_of_eq_None_iff [of r c] by (simp add: cell_def map_of_append map_add_def)

lemma holds_added: "set (condition_columns p) \<subseteq> set (map fst r) \<Longrightarrow> holds p (r @ x) = holds p r"
  by (induction p) (auto simp: cell_added)

text \<open>Rows keep their rules when their table gets a column that may be NULL or has a default.\<close>

lemma row_ok_added:
  assumes ok: "row_ok cs ks r" and cs': "cs' = cs @ [k]" and c: "col_name k = c" and new: "c \<notin> set (map col_name cs)"
    and wide: "list_all (\<lambda>k. case k of Check n p \<Rightarrow> set (condition_columns p) \<subseteq> set (map col_name cs) | _ \<Rightarrow> True) ks"
    and v: "col_nullable k \<or> v \<noteq> None"
  shows "row_ok cs' ks (r @ [(c, v)])"
proof -
  have names: "map fst r = map col_name cs" using ok by (simp add: row_ok_def)
  then have "cell (r @ [(c, v)]) c = v" using new cell_new by metis
  moreover have "\<forall>b\<in>set cs. cell (r @ [(c, v)]) (col_name b) = cell r (col_name b)"
    using names by (metis cell_added image_eqI list.set_map)
  moreover have "holds p (r @ [(c, v)])" if "Check n p \<in> set ks" for n p
    using that ok wide names by (subst holds_added) (auto simp: row_ok_def list_all_iff split: table_constraint.splits)
  ultimately show ?thesis
    using ok cs' v names c by (auto simp: row_ok_def list_all_iff split: table_constraint.splits)
qed

lemma without_with:
  assumes "list_all (row_ok cs ks) rs" and "c \<notin> set (map col_name cs)"
  shows "without_cell c (with_cell c v rs) = rs"
proof -
  have "\<forall>r\<in>set rs. c \<notin> set (map fst r)" using assms by (auto simp: list_all_iff row_ok_def)
  then show ?thesis unfolding without_cell_def with_cell_def map_map by (intro map_idI) (force simp: filter_id_conv)
qed

lemma run_001: "upgrade_001 [] = Inr (first_tables [] [] [])" "downgrade_001 (first_tables u l a) = Inr []"
  by (simp_all add: evaluation)

lemma run_002: "upgrade_002 (first_tables u l a) = Inr (config_tables (first_tables u l a) [] [] [])"
  "downgrade_002 (config_tables (first_tables u l a) [] c v) = Inr (first_tables u l a)"
  by (simp_all add: evaluation)

lemma run_003: "upgrade_003 (config_tables (first_tables u l a) [] c v) = Inr (share_tables (config_tables (first_tables u l a) [] c v) False [] [] [])"
  "downgrade_003 (share_tables (config_tables (first_tables u l a) [] c v) False [] [] s) = Inr (config_tables (first_tables u l a) [] c v)"
  by (simp_all add: evaluation)

lemma run_004:
  "upgrade_004 now (share_tables (config_tables (first_tables u l a) [] c v) n ss ks s)
     = Inr (share_tables (config_tables (first_tables u l a) [profile_column] (with_cell ''profile'' (Some (JStr ''xray-reality'')) c) v) n ss ks s)"
  "downgrade_004 (share_tables (config_tables (first_tables u l a) [profile_column] c v) n ss ks s)
     = Inr (share_tables (config_tables (first_tables u l a) [] (without_cell ''profile'' c) v) n ss ks s)"
  by (simp_all add: evaluation with_cell_def without_cell_def)

definition unscoped :: "row \<Rightarrow> bool" where
  "unscoped r \<longleftrightarrow> cell r ''config_id'' = None \<or> cell r ''config_version'' = None"

lemma run_005:
  assumes "D = config_tables (first_tables u l a) [profile_column] c v"
  shows "\<forall>r\<in>set s. holds share_scope (r @ [(''secure'', Some (JBool True))]) \<Longrightarrow>
      upgrade_005 now (share_tables D False [] [] s) = Inr (share_tables D True [secure_column] [scope_check] (with_cell ''secure'' (Some (JBool True)) s))"
    and "\<forall>r\<in>set s. \<not> unscoped r \<Longrightarrow>
      downgrade_005 (share_tables D True [secure_column] [scope_check] s) = Inr (share_tables D False [] [] (without_cell ''secure'' s))"
    and "\<exists>r\<in>set s. unscoped r \<Longrightarrow> isl (downgrade_005 (share_tables D True [secure_column] [scope_check] s))"
  by (auto simp: assms evaluation with_cell_def without_cell_def unscoped_def list_ex_iff)

lemma run_006:
  "upgrade_006 now (share_tables (config_tables (first_tables u l a) [profile_column] c v) n ss ks s)
     = Inr (share_tables (config_tables (first_tables u l a) [profile_column, policy_column] (with_cell ''regenerate_policy'' None c) v) n ss ks s)"
  "downgrade_006 (share_tables (config_tables (first_tables u l a) [profile_column, policy_column] c v) n ss ks s)
     = Inr (share_tables (config_tables (first_tables u l a) [profile_column] (without_cell ''regenerate_policy'' c) v) n ss ks s)"
  by (simp_all add: evaluation with_cell_def without_cell_def)

lemma run_007:
  "upgrade_007 now (share_tables (config_tables (first_tables u l a) [profile_column, policy_column] c v) n ss ks s)
     = Inr (share_tables (config_tables (first_tables u l a) [profile_column, policy_column, host_column] (with_cell ''share_public_host'' None c) v) n ss ks s)"
  "downgrade_007 (share_tables (config_tables (first_tables u l a) [profile_column, policy_column, host_column] c v) n ss ks s)
     = Inr (share_tables (config_tables (first_tables u l a) [profile_column, policy_column] (without_cell ''share_public_host'' c) v) n ss ks s)"
  by (simp_all add: evaluation with_cell_def without_cell_def)

text \<open>The tables at each revision.\<close>

definition tables_at :: "nat \<Rightarrow> row list \<Rightarrow> row list \<Rightarrow> row list \<Rightarrow> row list \<Rightarrow> row list \<Rightarrow> row list \<Rightarrow> tables" where
  "tables_at k u l a c v s =
     (let added = take (if k < 4 then 0 else if k < 6 then 1 else k - 4) [profile_column, policy_column, host_column];
          d1 = first_tables u l a; d2 = config_tables d1 added c v in
      if k = 0 then [] else if k = 1 then d1 else if k = 2 then d2
      else if k < 5 then share_tables d2 False [] [] s else share_tables d2 True [secure_column] [scope_check] s)"

lemma history_tables: "k \<le> 7 \<Longrightarrow> upgrade_all now (take k revisions) [] = Inr (tables_at k [] [] [] [] [] [])"
proof (induction k)
  case (Suc k)
  have rest: "upgrade_all now (take (Suc k) revisions) [] = bindR (upgrade_all now (take k revisions) []) (rev_upgrade (revisions ! k) now)"
  proof -
    have snoc: "upgrade_all now (rs @ [r]) = (\<lambda>d. bindR (upgrade_all now rs d) (rev_upgrade r now))" for rs r
    proof (induction rs)
      case Nil
      have "upgrade_all now [] = Inr" by (rule ext) simp
      then show ?case by (intro ext) (simp add: bindR_Inr_right)
    next
      case (Cons q rs)
      then show ?case by (intro ext) (simp add: bindR_assoc)
    qed
    have "k < length revisions" using Suc.prems by (simp add: revisions_def)
    then show ?thesis by (simp add: take_Suc_conv_app_nth snoc)
  qed
  have "k \<in> {0, 1, 2, 3, 4, 5, 6}" using Suc.prems by auto
  then show ?case
    using Suc.IH Suc.prems rest
    by (elim insertE emptyE) (simp_all add: tables_at_def revisions_def run_001 run_002 run_003 run_004 run_005 run_006 run_007 with_cell_def)
qed (simp add: tables_at_def)

lemma shape_Nil: "shape d = [] \<longleftrightarrow> d = []"
  by (simp add: shape_def)

lemma shape_pair: "shape d = (n, t) # s \<longleftrightarrow> (\<exists>rs d'. d = (n, t\<lparr>tb_rows := rs\<rparr>) # d' \<and> t\<lparr>tb_rows := []\<rparr> = t \<and> shape d' = s)"
proof (cases d)
  case (Cons mu d')
  obtain m u where mu: "mu = (m, u)" by (cases mu)
  have "u\<lparr>tb_rows := []\<rparr> = t \<longleftrightarrow> (\<exists>rs. u = t\<lparr>tb_rows := rs\<rparr>) \<and> t\<lparr>tb_rows := []\<rparr> = t"
    by (cases t; cases u) auto
  then show ?thesis by (auto simp: Cons mu shape_def)
qed (simp add: shape_def)

lemma table_rows:
  "(users_table rs)\<lparr>tb_rows := rs'\<rparr> = users_table rs'" "(rates_table rs)\<lparr>tb_rows := rs'\<rparr> = rates_table rs'"
  "(audit_table rs)\<lparr>tb_rows := rs'\<rparr> = audit_table rs'" "(versions_table rs)\<lparr>tb_rows := rs'\<rparr> = versions_table rs'"
  "(configs_table added rs)\<lparr>tb_rows := rs'\<rparr> = configs_table added rs'"
  "(shares_table n added ks rs)\<lparr>tb_rows := rs'\<rparr> = shares_table n added ks rs'"
  by (simp_all add: users_table_def rates_table_def audit_table_def versions_table_def configs_table_def shares_table_def)

lemma shape_tables: "shape d = tables_at k [] [] [] [] [] [] \<Longrightarrow> \<exists>u l a c v s. d = tables_at k u l a c v s"
  by (auto simp: tables_at_def Let_def first_tables_def config_tables_def share_tables_def shape_pair shape_Nil table_rows split: if_splits)

lemma tables_shape: "shape (tables_at k u l a c v s) = tables_at k [] [] [] [] [] []"
  by (simp add: tables_at_def Let_def first_tables_def config_tables_def share_tables_def shape_def table_rows)

lemma at_revision_iff:
  assumes "k \<le> 7"
  shows "at_revision k d \<longleftrightarrow> (\<exists>u l a c v s. d = tables_at k u l a c v s) \<and> rows_ok d"
  using history_tables [OF assms, of JNull] shape_tables [of d k] tables_shape [of k] by (auto simp: at_revision_def)

definition config_rows_ok :: "column list \<Rightarrow> row list \<Rightarrow> bool" where
  "config_rows_ok added rs \<longleftrightarrow> list_all (row_ok (config_columns @ added) (tb_constraints (configs_table [] []))) rs"

lemma config_rows_added:
  assumes "config_rows_ok added rs" and "col_name k = c" and "c \<notin> set (map col_name (config_columns @ added))" and "col_nullable k \<or> v \<noteq> None"
  shows "config_rows_ok (added @ [k]) (with_cell c v rs)" and "without_cell c (with_cell c v rs) = rs"
proof -
  have "row_ok (config_columns @ added @ [k]) (tb_constraints (configs_table [] [])) (r @ [(c, v)])" if "r \<in> set rs" for r
    using assms that by (intro row_ok_added [where cs = "config_columns @ added" and k = k])
      (auto simp: config_rows_ok_def list_all_iff configs_table_def)
  then show "config_rows_ok (added @ [k]) (with_cell c v rs)" by (auto simp: config_rows_ok_def with_cell_def list_all_iff)
  show "without_cell c (with_cell c v rs) = rs"
    by (rule without_with [OF assms(1) [unfolded config_rows_ok_def] assms(3)])
qed

definition share_rows_ok :: "bool \<Rightarrow> column list \<Rightarrow> table_constraint list \<Rightarrow> row list \<Rightarrow> bool" where
  "share_rows_ok null added ks rs \<longleftrightarrow> list_all (row_ok (tb_columns (shares_table null added ks [])) (tb_constraints (shares_table null added ks []))) rs"

lemma row_ok_looser:
  assumes "row_ok cs ks r" "map col_name cs' = map col_name cs" "list_all2 (\<lambda>a b. col_nullable a \<longrightarrow> col_nullable b) cs cs'"
  shows "row_ok cs' ks r"
proof -
  have "col_nullable (cs' ! i) \<or> cell r (col_name (cs' ! i)) \<noteq> None" if i: "i < length cs'" for i
  proof -
    have "col_name (cs' ! i) = col_name (cs ! i)" "i < length cs" using assms(2) i by (metis length_map nth_map)+
    with assms i show ?thesis by (auto simp: row_ok_def list_all_length list_all2_conv_all_nth)
  qed
  then show ?thesis using assms(1,2) by (simp add: row_ok_def list_all_length)
qed

lemma share_rows_secured:
  assumes "share_rows_ok False [] [] rs"
  shows "\<forall>r\<in>set rs. holds share_scope (r @ [(''secure'', Some (JBool True))])"
    and "share_rows_ok True [secure_column] [scope_check] (with_cell ''secure'' (Some (JBool True)) rs)"
    and "\<forall>r\<in>set (with_cell ''secure'' (Some (JBool True)) rs). \<not> unscoped r"
    and "without_cell ''secure'' (with_cell ''secure'' (Some (JBool True)) rs) = rs"
proof -
  let ?cs = "tb_columns (shares_table False [] [] [])" and ?ks = "tb_constraints (shares_table False [] [] [])"
  let ?cs' = "tb_columns (shares_table True [secure_column] [scope_check] [])" and ?ks' = "tb_constraints (shares_table True [secure_column] [scope_check] [])"
  have each: "holds share_scope r' \<and> \<not> unscoped r' \<and> row_ok ?cs' ?ks' r'"
    if r: "r \<in> set rs" and r': "r' = r @ [(''secure'', Some (JBool True))]" for r r'
  proof -
    have ok: "row_ok ?cs ?ks r" using assms r by (auto simp: share_rows_ok_def list_all_iff)
    have given: "cell r' c = cell r c \<and> cell r c \<noteq> None" if "col c t False None \<in> set ?cs" for c t
    proof -
      have "c \<in> set (map fst r)" using ok that by (force simp: row_ok_def col_simps)
      moreover have "cell r c \<noteq> None" using ok that by (force simp: row_ok_def list_all_iff col_simps)
      ultimately show ?thesis by (simp add: r' cell_added)
    qed
    have scoped: "cell r' ''config_id'' \<noteq> None" "cell r' ''config_version'' \<noteq> None"
      using given [of "''config_id''" Uuid] given [of "''config_version''" IntegerCol] by (simp_all add: shares_table_def)
    then have scope: "holds share_scope r' \<and> \<not> unscoped r'" by (simp add: share_scope_def unscoped_def)
    have "row_ok (?cs @ [secure_column]) ?ks r'"
      unfolding r' by (rule row_ok_added [OF ok refl]) (simp_all add: shares_table_def secure_column_def col_simps)
    then have "row_ok ?cs' ?ks r'" by (rule row_ok_looser) (simp_all add: shares_table_def secure_column_def col_simps)
    with scope show ?thesis by (simp add: row_ok_def shares_table_def scope_check_def)
  qed
  show "\<forall>r\<in>set rs. holds share_scope (r @ [(''secure'', Some (JBool True))])"
    "share_rows_ok True [secure_column] [scope_check] (with_cell ''secure'' (Some (JBool True)) rs)"
    "\<forall>r\<in>set (with_cell ''secure'' (Some (JBool True)) rs). \<not> unscoped r"
    using each by (auto simp: share_rows_ok_def with_cell_def list_all_iff)
  show "without_cell ''secure'' (with_cell ''secure'' (Some (JBool True)) rs) = rs"
    by (rule without_with [OF assms [unfolded share_rows_ok_def]]) (simp add: shares_table_def col_simps)
qed

definition base_rows_ok :: "row list \<Rightarrow> row list \<Rightarrow> row list \<Rightarrow> bool" where
  "base_rows_ok u l a \<longleftrightarrow> rows_ok (first_tables u l a)"

definition version_rows_ok :: "row list \<Rightarrow> bool" where
  "version_rows_ok v \<longleftrightarrow> list_all (row_ok (tb_columns (versions_table [])) (tb_constraints (versions_table []))) v"

lemma rows_ok_parts:
  "rows_ok (first_tables u l a) = base_rows_ok u l a"
  "rows_ok (config_tables d added c v) \<longleftrightarrow> rows_ok d \<and> config_rows_ok added c \<and> version_rows_ok v"
  "rows_ok (share_tables d null added' ks s) \<longleftrightarrow> rows_ok d \<and> share_rows_ok null added' ks s"
  by (auto simp: base_rows_ok_def rows_ok_def config_tables_def share_tables_def config_rows_ok_def version_rows_ok_def share_rows_ok_def
      configs_table_def versions_table_def shares_table_def)

lemma empty_rows_ok: "base_rows_ok [] [] []" "config_rows_ok added []" "version_rows_ok []" "share_rows_ok n added ks []"
  by (simp_all add: base_rows_ok_def rows_ok_def config_rows_ok_def version_rows_ok_def share_rows_ok_def first_tables_def table_defs)

lemma added_names: "''profile'' \<notin> set (map col_name (config_columns @ []))"
  "''regenerate_policy'' \<notin> set (map col_name (config_columns @ [profile_column]))"
  "''share_public_host'' \<notin> set (map col_name (config_columns @ [profile_column, policy_column]))"
  "col_name profile_column = ''profile''" "col_name policy_column = ''regenerate_policy''" "col_name host_column = ''share_public_host''"
  "col_nullable policy_column" "col_nullable host_column"
  by (simp_all add: config_columns_def profile_column_def policy_column_def host_column_def col_simps)

lemma at_tables: "k \<le> 7 \<Longrightarrow> rows_ok (tables_at k u l a c v s) \<Longrightarrow> at_revision k (tables_at k u l a c v s)"
  using at_revision_iff by blast

lemma revision_step:
  assumes "at_revision k d" and "k < 7"
  shows "\<exists>d'. rev_upgrade (revisions ! k) now d = Inr d' \<and> at_revision (Suc k) d' \<and> rev_downgrade (revisions ! k) d' = Inr d"
proof -
  obtain u l a c v s where d: "d = tables_at k u l a c v s" and ok: "rows_ok d"
    using assms at_revision_iff [of k d] by auto
  have reached: "rev_upgrade (revisions ! k) now d = Inr (tables_at (Suc k) u' l' a' c' v' s')
      \<Longrightarrow> rows_ok (tables_at (Suc k) u' l' a' c' v' s') \<Longrightarrow> rev_downgrade (revisions ! k) (tables_at (Suc k) u' l' a' c' v' s') = Inr d \<Longrightarrow> ?thesis"
    for u' l' a' c' v' s' using assms(2) at_tables [of "Suc k"] by auto
  note at = tables_at_def Let_def revisions_def rows_ok_parts empty_rows_ok numeral_eq_Suc
  have "k = 0 \<or> k = 1 \<or> k = 2 \<or> k = 3 \<or> k = 4 \<or> k = 5 \<or> k = 6" using assms(2) by arith
  then show ?thesis
  proof (elim disjE)
    assume "k = 0"
    then show ?thesis using ok d by (intro reached [of "[]" "[]" "[]" "[]" "[]" "[]"]) (simp_all add: at run_001)
  next
    assume "k = 1"
    then show ?thesis using ok d by (intro reached [of u l a "[]" "[]" "[]"]) (simp_all add: at run_002)
  next
    assume "k = 2"
    then show ?thesis using ok d by (intro reached [of u l a c v "[]"]) (simp_all add: at run_003)
  next
    assume k: "k = 3"
    then have "config_rows_ok [] c" using ok d by (simp add: at)
    note c = config_rows_added [OF this added_names(4) added_names(1), of "Some (JStr ''xray-reality'')", simplified]
    show ?thesis using k ok d c by (intro reached [of u l a "with_cell ''profile'' (Some (JStr ''xray-reality'')) c" v s]) (simp_all add: at run_004)
  next
    assume k: "k = 4"
    then have "share_rows_ok False [] [] s" using ok d by (simp add: at)
    note s = share_rows_secured [OF this]
    show ?thesis using k ok d s
      by (intro reached [of u l a c v "with_cell ''secure'' (Some (JBool True)) s"]) (simp_all add: at run_005(1,2) [OF refl])
  next
    assume k: "k = 5"
    then have "config_rows_ok [profile_column] c" using ok d by (simp add: at)
    note c = config_rows_added [OF this added_names(5) added_names(2), of None, simplified added_names simp_thms append.simps]
    show ?thesis using k ok d c by (intro reached [of u l a "with_cell ''regenerate_policy'' None c" v s]) (simp_all add: at run_006)
  next
    assume k: "k = 6"
    then have "config_rows_ok [profile_column, policy_column] c" using ok d by (simp add: at)
    note c = config_rows_added [OF this added_names(6) added_names(3), of None, simplified added_names simp_thms append.simps]
    show ?thesis using k ok d c by (intro reached [of u l a "with_cell ''share_public_host'' None c" v s]) (simp_all add: at run_007)
  qed
qed

lemma declared: "at_revision 7 d \<Longrightarrow> as_declared d"
  using at_revision_iff [of 7 d]
  by (auto simp: tables_at_def Let_def numeral_eq_Suc as_declared_def declared_tables_def evaluation same_members_def created_at_column_def)

lemma upgrade_from:
  assumes "at_revision k d" "k \<le> 7"
  shows "\<exists>d'. upgrade_all now (drop k revisions) d = Inr d' \<and> at_revision 7 d' \<and> downgrade_all (drop k revisions) d' = Inr d"
  using assms
proof (induction "7 - k" arbitrary: k d)
  case 0
  then show ?case by (simp add: revisions_def)
next
  case (Suc n)
  then have k: "k < 7" "n = 7 - Suc k" "Suc k \<le> 7" by auto
  obtain d1 where d1: "rev_upgrade (revisions ! k) now d = Inr d1" "at_revision (Suc k) d1" "rev_downgrade (revisions ! k) d1 = Inr d"
    using revision_step [OF Suc.prems(1) k(1)] by blast
  obtain d' where d': "upgrade_all now (drop (Suc k) revisions) d1 = Inr d'" "at_revision 7 d'" "downgrade_all (drop (Suc k) revisions) d' = Inr d1"
    using Suc.hyps(1) [OF k(2) d1(2) k(3)] by blast
  have "drop k revisions = revisions ! k # drop (Suc k) revisions"
    using k(1) by (intro Cons_nth_drop_Suc [symmetric]) (simp add: revisions_def)
  then show ?case using d1 d' by simp
qed

text \<open>
  C17. The history leads from any of its revisions to the tables the models declare and back: a database at a
  revision, whatever its rows, can be brought up to date; then its tables are those the models declare, and
  its rows keep their rules; and taking the same revisions back gives exactly the database there was.
\<close>

theorem upgraded_database:
  assumes "at_revision k d" and "k \<le> 7"
  shows "\<exists>d'. upgrade_all now (drop k revisions) d = Inr d' \<and> as_declared d' \<and> rows_ok d'
    \<and> downgrade_all (drop k revisions) d' = Inr d"
  using upgrade_from [OF assms, of now] declared at_revision_def by blast

text \<open>
  Not every database goes back: once there is a link to all configurations, which has none of its own, the
  fifth revision cannot be undone.
\<close>

lemma bundle_stops_downgrade:
  assumes "at_revision 5 d" and "map_of d ''share_tokens'' = Some t" and "r \<in> set (tb_rows t)" and "cell r ''config_id'' = None"
  shows "isl (downgrade_005 d)"
proof -
  obtain u l a c v s where d: "d = tables_at 5 u l a c v s" using assms(1) at_revision_iff [of 5 d] by auto
  then have "t = shares_table True [secure_column] [scope_check] s"
    using assms(2) by (simp add: tables_at_def Let_def share_tables_def config_tables_def first_tables_def)
  then have "\<exists>r\<in>set s. unscoped r" using assms(3,4) by (auto simp: shares_table_def unscoped_def)
  then show ?thesis by (simp add: d tables_at_def Let_def run_005(3) [OF refl])
qed

text \<open>The links of the history: each revision follows the one before it, and the first follows none.\<close>

lemma history_linked: "map rev_down revisions = None # map (Some \<circ> rev_id) (butlast revisions)"
  by (simp add: revisions_def)

text \<open>A database as the third revision left it, with a user, a configuration and a link.\<close>

definition demo_tables :: tables where
  "demo_tables =
     (let t = Some (JStr ''2026-06-21''); i = (\<lambda>n. Some (JInt n)); x = (\<lambda>s. Some (JStr s)) in
      tables_at 3 [[(''id'', i 1), (''username'', x ''admin''), (''password_hash'', x ''h''), (''created_at'', t)]] [] []
        [[(''id'', i 5), (''name'', x ''home''), (''protocol'', x ''xray''), (''status'', x ''active''), (''current_version'', i 1),
          (''last_task_id'', None), (''error_message'', None), (''is_active'', Some (JBool True)), (''created_by'', i 1), (''updated_by'', i 1),
          (''created_at'', t), (''updated_at'', t)]] []
        [[(''id'', i 9), (''token_hash'', x ''t''), (''config_id'', i 5), (''config_version'', i 1), (''is_permanent'', Some (JBool True)),
          (''expires_at'', None), (''revoked_at'', None), (''created_by'', i 1), (''created_at'', t), (''last_accessed_at'', None), (''access_count'', i 0)]])"

theorem upgraded_database_witness:
  "\<exists>d'. upgrade_all JNull (drop 3 revisions) demo_tables = Inr d' \<and> as_declared d' \<and> downgrade_all (drop 3 revisions) d' = Inr demo_tables"
proof -
  have "rows_ok demo_tables" by code_simp
  then have "at_revision 3 demo_tables"
    unfolding demo_tables_def Let_def by (intro at_tables) simp_all
  from upgraded_database [OF this, of JNull] show ?thesis by auto
qed

end
