(* ===== verification/Spec2Isabelle.thy ===== *)
theory Spec2Isabelle
  imports Gateway Resources Commands Migrations
begin

text \<open>
  A model of the VPN control panel, with the theorems that make it correct.

  \<^bold>\<open>The program.\<close> Three processes share the work. The API (\<open>panel/api\<close>, a FastAPI
  application) keeps users, VPN configurations, their versions, share links, an audit log and the
  counters of the rate limits in PostgreSQL. Creating or regenerating a configuration stores a row and
  publishes a task to the broker (a library the repository starts from \<open>broker_run\<close>). The worker
  (\<open>panel/worker\<close>) pulls tasks: it draws keys, fills in the template of the profile, encrypts the
  sensitive fields, stores a version, writes the live configuration, the systemd unit and the nginx
  map of port 443 to the machine, starts the service, waits for it, and acknowledges or refuses the
  task. Share links hand the client URIs of a version, or of all current ones, to anyone who holds the token.

  \<^bold>\<open>The theories\<close>, in the order of their imports, with the code under \<open>src/\<close> they model:

  \<^item> Ground: \<open>Prelude\<close> (exceptions, results, strings, insertion-ordered dictionaries, UUIDs),
    \<open>Py_Text\<close> (text conversions, quoting, UTF-8), \<open>Py_Json\<close> (documents and the operations on
    values of unknown type). They hold no code of the repository, only what it uses of Python.
  \<^item> \<open>Domain\<close>: \<open>panel/domain/value_objects\<close>, \<open>panel/domain/entities\<close> and the
    records of the settings. An enumeration is a datatype, a dataclass a record, with the source's names.
  \<^item> \<open>Field_Crypto\<close> (\<open>infrastructure/crypto\<close>), \<open>Port_Picker\<close>, \<open>Client_Uri\<close>,
    \<open>Tls_Material\<close> and \<open>Config_Builder\<close> (\<open>infrastructure/vpn/port_picker.py\<close>,
    \<open>client_uri.py\<close>, \<open>crypto_utils.py\<close>, \<open>template_loader.py\<close>,
    \<open>config_builder.py\<close>): building the configuration of a profile. \<open>Nginx_Mux\<close>:
    \<open>nginx_shared_443.py\<close>.
  \<^item> \<open>Store\<close>, \<open>Audit_Log\<close>, \<open>Rate_Limit\<close>: \<open>infrastructure/persistence\<close>,
    \<open>infrastructure/audit\<close> and \<open>application/audit_service.py\<close>. The record \<open>db\<close> holds
    a list of rows for each table; a record \<open>session\<close> pairs the committed database with the
    session's own view, so that commit and rollback are what they are in the code.
  \<^item> \<open>Sha256\<close>, \<open>Http\<close>, \<open>Share_Links\<close>, \<open>Auth\<close>, \<open>Routes\<close>: token hashing,
    \<open>api/deps.py\<close> and the middlewares, the share use cases and endpoints, signing in and
    \<open>cli/create_admin.py\<close>, and the route table that \<open>create_app\<close> assembles, with the
    labels of the request counters.
  \<^item> \<open>Host\<close>, \<open>Service_Ready\<close>, \<open>Deploy\<close>: \<open>filesystem/writer.py\<close>,
    \<open>systemd_reload.py\<close>, \<open>service_ready.py\<close>, \<open>systemd_unit.py\<close> and
    \<open>write_files\<close>. The state is the record \<open>host\<close> (files, commands run, clock); an
    operation is a function of it that returns a result or an exception and the new state.
  \<^item> \<open>Runtime\<close>, \<open>Probe\<close>, \<open>Config_Status\<close>: \<open>service_runtime.py\<close>,
    \<open>service_logs.py\<close>, \<open>vpn_connectivity.py\<close> and the use cases that report status,
    runtime and logs. \<open>Resources\<close>: \<open>infrastructure/system/resources.py\<close> and its
    endpoint, with a percentage as the number of tenths it is written with.
  \<^item> \<open>Worker\<close>, \<open>Broker\<close>, \<open>Worker_Loop\<close>: \<open>panel/worker\<close> and
    \<open>infrastructure/broker/http_client.py\<close>: one task, the HTTP calls, and the endless loop.
  \<^item> \<open>Config_Usecases\<close>, \<open>Config_Api\<close>, \<open>Templates\<close>: the use cases on
    configurations and templates, and their endpoints with request and response schemas.
  \<^item> \<open>Growth\<close>, \<open>System\<close>: what every operation keeps, and the whole system as a step
    relation over panel, broker, worker and machine.
  \<^item> \<open>Responses\<close>, \<open>Gateway\<close>: the response models of \<open>panel/api/schemas\<close>, and
    the way of a request from the wire (path, query, token, document) through the routes and the
    dependencies into an endpoint and back. \<open>handle_request\<close> is the panel as its clients meet it.
  \<^item> \<open>Settings\<close> (\<open>panel/config.py\<close>, \<open>broker_run/config.py\<close>), \<open>Protocols\<close>
    (\<open>xray.py\<close>, \<open>hysteria2.py\<close>, \<open>factory.py\<close>, \<open>default_profiles.py\<close>),
    \<open>Commands\<close> (the programs that are started), \<open>Migrations\<close> (\<open>alembic\<close> and
    \<open>models.py\<close>).

  \<^bold>\<open>Interfaces.\<close> Where a component relies on another only through its contract, the contract is a
  locale, interpreted on the model's own definitions in the theory that provides them:
  \<open>ordered_dict\<close> (a dictionary remembers the order of insertion; \<open>alist\<close>),
  \<open>field_loops\<close> (encrypting one path after another and decrypting them; \<open>fields\<close>),
  \<open>version_store\<close> (no version number is given twice; \<open>version_table\<close>),
  \<open>counter_table\<close> (a counter counts what is counted; \<open>rate_counter\<close>),
  \<open>revocable\<close> (a revocation happens once; \<open>by_hash\<close>, \<open>by_link_id\<close>),
  \<open>act_frame\<close> and its extension \<open>host_frame\<close> (what a sequence of actions leaves alone;
  \<open>files\<close>, \<open>log\<close>, \<open>clock\<close>, \<open>off\<close>, \<open>listing\<close>, \<open>quiet\<close>,
  \<open>asks\<close>, \<open>silent\<close>),
  \<open>act_invariant\<close> (an invariant and a growth relation carried through a request;
  \<open>panel\<close>), \<open>protocol_class\<close> (the abstract class of the protocols; \<open>classes\<close>).

  \<^bold>\<open>What is shown.\<close> For the system: an invariant of every reachable state (well-formed tables, a
  clean audit log, tasks that can be answered), that nothing recorded is forgotten and no revoked link
  comes back, and that a configuration whose task is delivered settles (\<open>System\<close>). For each way into
  it: a request on the wire changes nothing or is one of the system's steps, taken for the user whose
  token it carries, and without an accepted token only counters move (\<open>Gateway\<close>); an endpoint under \<open>/api/\<close> is reached with an accepted token only (\<open>Routes\<close>), a
  token is worth its user and its minutes (\<open>Auth\<close>), guessing is bounded (\<open>Rate_Limit\<close>,
  \<open>Auth\<close>), a refused request changes nothing (\<open>Config_Api\<close>), settings that break
  the rules of their file are refused (\<open>Settings\<close>). For secrets: encryption round trips and hides what it lists
  (\<open>Field_Crypto\<close>), audit payloads and metric labels hold none (\<open>Audit_Log\<close>,
  \<open>Routes\<close>), a probe leaves no file (\<open>Probe\<close>) and, when it finds its page, found it as a
  user of the share link does (\<open>Config_Status\<close>). For what is built and deployed: the
  configuration listens where it says, its key fits its certificate, regeneration keeps what the policy
  keeps, the stored version is what the daemon runs, removing a unit clears the directory it ran from and
  nothing else, waiting ends in
  time (\<open>Config_Builder\<close>, \<open>Tls_Material\<close>, \<open>Worker\<close>, \<open>Deploy\<close>,
  \<open>Service_Ready\<close>). For links: a token resolves exactly when it should, to the URIs of the
  version that was current when the link was made, or of all current versions (\<open>Share_Links\<close>). For the schema: a database at any revision can be brought up to
  date, and taking the revisions back restores it (\<open>Migrations\<close>). Many theorems state the weaknesses of the code as well,
  on concrete inputs; each stands next to the definitions it is about.

  \<^bold>\<open>Bounds and fuel.\<close> Following symbolic links has a fuel of 40, the limit of the operating
  system (\<open>Templates\<close>). The loops of \<open>Service_Ready\<close> and \<open>Probe\<close> end by a measure
  on the machine's clock, because a command takes at least a microsecond. A probe that reads the output
  of a client that never ends, and the loop of the worker, may run forever: both are partial functions
  whose value is then None, and theorems say when they are not. Integers are Python's, without bound;
  SHA-256 works on 32-bit words, a UUID is a 128-bit word.

  \<^bold>\<open>What the model assumes.\<close> Libraries are arguments of the definitions, and what the code relies on
  is a named predicate in the hypotheses: Fernet, X.509 and X25519, PyJWT, bcrypt, the YAML and JSON
  parsers, what pydantic makes of a scalar, the broker's replies, and the answers of sockets, processes,
  systemd and the file system. Characters are the code points U+0000 to U+00FF. Requests and tasks
  happen one after the other, each with its commits and rollbacks, but with anything at all happening
  on the machine between them; \<open>regenerate-all\<close> and the probes of a list run in the order of the
  list. An integer column of the database takes any integer, so that no insertion fails for its size, and a JSON
  column keeps the order of the keys it was given, which PostgreSQL's does not. A temporary file is created and
  written in one step. The operations of the migrations write out what PostgreSQL and alembic do, and the tables
  they give are compared with the models by columns, types, nullability and keys, not by server defaults,
  indexes, check constraints or the names of constraints. A setting in seconds that may be a fraction is read
  as whole microseconds. Tokens and signing in count whole seconds. Heartbeats are sent until the handler ends. Draws
  (ids, nonces, keys, ports) are arguments.

  \<^bold>\<open>Not modelled.\<close> Logging; starting the database engine, uvicorn and
  the static files; the parsing of the command line; the set-up of the migration library in
  \<open>alembic/env.py\<close>; the JavaScript front end and the shell scripts of \<open>deploy\<close>, which are
  outside the Python program.
\<close>

end
